(* ===== verification/Prelude.thy ===== *)
theory Prelude
  imports Main "HOL-Library.Product_Lexorder"
begin

text \<open>
  What every component of the model shares: identifiers and time stamps, the exceptions of
  the Python services, the effect type (a state transformer that returns a value or an
  exception), the session with PostgreSQL (autocommit, an open transaction, an aborted
  transaction), the relational helpers that the SQL texts of the repositories translate to,
  and the few string methods of Python that the services use.

  Strings are lists of \<open>char\<close>, read as Python strings whose code points are below 256.
  Instants are microseconds since the epoch, UTC. UUIDs are natural numbers; \<open>uuid4\<close> draws
  come from a supply that is part of the world.
\<close>

named_theorems eff_simps \<open>evaluation of effectful programs on a state\<close>
named_theorems row_simps \<open>what a statement does to the rows of a table\<close>

type_synonym uuid = nat
type_synonym instant = int

section \<open>Exceptions\<close>

text \<open>
  \<open>Pg s\<close> is \<open>asyncpg.PostgresError\<close> with SQLSTATE \<open>s\<close>; \<open>App\<close> carries the services' own
  exception classes; the others are the Python exceptions that the modelled code can raise.
  \<open>Diverges\<close> is none of them: it is the value of a loop that ran out of its fuel, which no
  handler of the code sees.
\<close>

datatype app_kind = Kind_App | Kind_Unauthorized | Kind_Forbidden | Kind_Not_Found
  | Kind_Conflict | Kind_Validation

datatype auth_kind = Kind_Auth_Service | Kind_Auth_Validation | Kind_Authentication
  | Kind_Authorization | Kind_Rate_Limit_Exceeded

datatype gateway_kind = Kind_Upstream | Kind_Rate_Limit | Kind_Service_Unavailable

datatype exn =
    Pg string
  | App app_kind string
  | Auth auth_kind string
  | Gateway gateway_kind string
  | Value_Error
  | Key_Error
  | Index_Error
  | Type_Error
  | Attribute_Error
  | Runtime_Error string
  | Publish_Error string
  | Http_Error
  | Diverges

abbreviation unique_violation :: exn where "unique_violation \<equiv> Pg ''23505''"
abbreviation foreign_key_violation :: exn where "foreign_key_violation \<equiv> Pg ''23503''"
abbreviation check_violation :: exn where "check_violation \<equiv> Pg ''23514''"
abbreviation in_failed_transaction :: exn where "in_failed_transaction \<equiv> Pg ''25P02''"

section \<open>Effects\<close>

type_synonym ('w, 'a) eff = "'w \<Rightarrow> (exn + 'a) \<times> 'w"

definition ret :: "'a \<Rightarrow> ('w, 'a) eff" where
  "ret x = (\<lambda>w. (Inr x, w))"

definition raise :: "exn \<Rightarrow> ('w, 'a) eff" where
  "raise e = (\<lambda>w. (Inl e, w))"

definition and_then :: "('w, 'a) eff \<Rightarrow> ('a \<Rightarrow> ('w, 'b) eff) \<Rightarrow> ('w, 'b) eff" where
  "and_then m f = (\<lambda>w. case m w of (Inl e, w') \<Rightarrow> (Inl e, w') | (Inr x, w') \<Rightarrow> f x w')"

definition seq :: "('w, 'a) eff \<Rightarrow> ('w, 'b) eff \<Rightarrow> ('w, 'b) eff" where
  "seq m n = and_then m (\<lambda>_. n)"

definition gets :: "('w \<Rightarrow> 'a) \<Rightarrow> ('w, 'a) eff" where
  "gets f = (\<lambda>w. (Inr (f w), w))"

definition modify :: "('w \<Rightarrow> 'w) \<Rightarrow> ('w, unit) eff" where
  "modify f = (\<lambda>w. (Inr (), f w))"

definition lift :: "exn + 'a \<Rightarrow> ('w, 'a) eff" where
  "lift r = (\<lambda>w. (r, w))"

text \<open>\<open>try: m except: h\<close>, where the handler decides by the exception what to do.\<close>

definition catch :: "('w, 'a) eff \<Rightarrow> (exn \<Rightarrow> ('w, 'a) eff) \<Rightarrow> ('w, 'a) eff" where
  "catch m h = (\<lambda>w. case m w of (Inl e, w') \<Rightarrow> h e w' | (Inr x, w') \<Rightarrow> (Inr x, w'))"

fun for_each :: "('a \<Rightarrow> ('w, unit) eff) \<Rightarrow> 'a list \<Rightarrow> ('w, unit) eff" where
  "for_each f [] = ret ()"
| "for_each f (x # xs) = seq (f x) (for_each f xs)"

fun fold_eff :: "('b \<Rightarrow> 'a \<Rightarrow> ('w, 'b) eff) \<Rightarrow> 'b \<Rightarrow> 'a list \<Rightarrow> ('w, 'b) eff" where
  "fold_eff f acc [] = ret acc"
| "fold_eff f acc (x # xs) = and_then (f acc x) (\<lambda>acc'. fold_eff f acc' xs)"

lemma ret_run [eff_simps]: "ret x w = (Inr x, w)"
  by (simp add: ret_def)

lemma raise_run [eff_simps]: "raise e w = (Inl e, w)"
  by (simp add: raise_def)

lemma and_then_run [eff_simps]:
  "and_then m f w = (case m w of (Inl e, w') \<Rightarrow> (Inl e, w') | (Inr x, w') \<Rightarrow> f x w')"
  by (simp add: and_then_def)

lemma seq_run [eff_simps]:
  "seq m n w = (case m w of (Inl e, w') \<Rightarrow> (Inl e, w') | (Inr x, w') \<Rightarrow> n w')"
  by (simp add: seq_def and_then_def)

lemma gets_run [eff_simps]: "gets f w = (Inr (f w), w)"
  by (simp add: gets_def)

lemma modify_run [eff_simps]: "modify f w = (Inr (), f w)"
  by (simp add: modify_def)

lemma lift_run [eff_simps]: "lift r w = (r, w)"
  by (simp add: lift_def)

lemma catch_run [eff_simps]:
  "catch m h w = (case m w of (Inl e, w') \<Rightarrow> h e w' | (Inr x, w') \<Rightarrow> (Inr x, w'))"
  by (simp add: catch_def)

lemma and_then_assoc: "and_then (and_then m f) g = and_then m (\<lambda>x. and_then (f x) g)"
  by (rule ext) (simp add: and_then_def split: prod.split sum.split)

lemma for_each_append: "for_each f (xs @ ys) = seq (for_each f xs) (for_each f ys)"
proof (induction xs)
  case Nil
  show ?case by (rule ext) (simp add: eff_simps)
next
  case (Cons x xs)
  then show ?case by (auto simp: fun_eq_iff seq_def and_then_def split: prod.split sum.split)
qed

lemma fold_eff_append:
  "fold_eff f acc (xs @ ys) = and_then (fold_eff f acc xs) (\<lambda>acc'. fold_eff f acc' ys)"
proof (induction xs arbitrary: acc)
  case Nil
  show ?case by (rule ext) (simp add: eff_simps)
next
  case (Cons x xs)
  then show ?case by (simp add: and_then_assoc)
qed

text \<open>Sums as results without a state: the pure part of the services.\<close>

definition bind_sum :: "exn + 'a \<Rightarrow> ('a \<Rightarrow> exn + 'b) \<Rightarrow> exn + 'b" where
  "bind_sum r f = (case r of Inl e \<Rightarrow> Inl e | Inr x \<Rightarrow> f x)"

lemma bind_sum_simps [simp]:
  "bind_sum (Inl e) f = Inl e"
  "bind_sum (Inr x) f = f x"
  by (simp_all add: bind_sum_def)

lemma bind_sum_Inr: "bind_sum r f = Inr y \<longleftrightarrow> (\<exists>x. r = Inr x \<and> f x = Inr y)"
  by (cases r) auto

text \<open>
  A program obeys a relation when every run, whether it returns or raises, leads from a
  state to a related one. For a preorder this composes, so a frame condition of a large
  program is read off its statements.
\<close>

definition obeys :: "('w \<Rightarrow> 'w \<Rightarrow> bool) \<Rightarrow> ('w, 'a) eff \<Rightarrow> bool" where
  "obeys R m \<longleftrightarrow> (\<forall>w. R w (snd (m w)))"

definition preorder_on_worlds :: "('w \<Rightarrow> 'w \<Rightarrow> bool) \<Rightarrow> bool" where
  "preorder_on_worlds R \<longleftrightarrow> (\<forall>w. R w w) \<and> (\<forall>u v w. R u v \<longrightarrow> R v w \<longrightarrow> R u w)"

lemma obeysD: "obeys R m \<Longrightarrow> m w = (r, w') \<Longrightarrow> R w w'"
  by (metis obeys_def snd_conv)

lemma obeys_pure:
  assumes "preorder_on_worlds R"
  shows "obeys R (ret x)" "obeys R (raise e)" "obeys R (gets f)" "obeys R (lift r)"
  using assms by (auto simp: obeys_def preorder_on_worlds_def eff_simps)

lemma obeys_and_then:
  assumes "preorder_on_worlds R" and "obeys R m" and "\<And>x. obeys R (f x)"
  shows "obeys R (and_then m f)"
  using assms unfolding obeys_def preorder_on_worlds_def
  by (auto simp: and_then_run split: prod.split sum.split) (metis snd_conv)+

lemma obeys_seq:
  "preorder_on_worlds R \<Longrightarrow> obeys R m \<Longrightarrow> obeys R n \<Longrightarrow> obeys R (seq m n)"
  unfolding seq_def by (rule obeys_and_then)

lemma obeys_catch:
  assumes "preorder_on_worlds R" and "obeys R m" and "\<And>e. obeys R (h e)"
  shows "obeys R (catch m h)"
  using assms unfolding obeys_def preorder_on_worlds_def
  by (auto simp: catch_run split: prod.split sum.split) (metis snd_conv)+

lemma obeys_fold_eff:
  assumes "preorder_on_worlds R" and "\<And>acc x. obeys R (f acc x)"
  shows "obeys R (fold_eff f acc xs)"
  by (induction xs arbitrary: acc)
    (simp_all add: assms obeys_pure obeys_and_then)

lemma obeys_for_each:
  assumes "preorder_on_worlds R" and "\<And>x. obeys R (f x)"
  shows "obeys R (for_each f xs)"
  by (induction xs) (simp_all add: assms obeys_pure obeys_seq)

text \<open>A program comes back when no run of it is a loop that has used up its fuel.\<close>

definition comes_back :: "('w, 'a) eff \<Rightarrow> bool" where
  "comes_back m \<longleftrightarrow> (\<forall>w. fst (m w) \<noteq> Inl Diverges)"

lemma comes_back_pure [simp]:
  "comes_back (ret x)" "comes_back (raise e) \<longleftrightarrow> e \<noteq> Diverges" "comes_back (gets f)"
  "comes_back (modify g)" "comes_back (lift r) \<longleftrightarrow> r \<noteq> Inl Diverges"
  by (simp_all add: comes_back_def eff_simps)

lemma comes_back_and_then [intro]:
  "comes_back m \<Longrightarrow> (\<And>x. comes_back (f x)) \<Longrightarrow> comes_back (and_then m f)"
  unfolding comes_back_def by (auto simp: and_then_run split: prod.split sum.split) (metis fst_conv)

lemma comes_back_seq [intro]: "comes_back m \<Longrightarrow> comes_back n \<Longrightarrow> comes_back (seq m n)"
  unfolding seq_def by (rule comes_back_and_then)

lemma comes_back_catch [intro]:
  assumes "comes_back m" and "\<And>e. e \<noteq> Diverges \<Longrightarrow> comes_back (h e)"
  shows "comes_back (catch m h)"
  using assms unfolding comes_back_def by (auto simp: catch_run split: prod.split sum.split) (metis fst_conv)

lemma comes_back_for_each [intro]: "(\<And>x. comes_back (f x)) \<Longrightarrow> comes_back (for_each f xs)"
  by (induction xs) auto

lemma comes_back_fold_eff [intro]:
  "(\<And>acc x. comes_back (f acc x)) \<Longrightarrow> comes_back (fold_eff f acc xs)"
  by (induction xs arbitrary: acc) auto

lemma obeys_if:
  "preorder_on_worlds R \<Longrightarrow> obeys R m \<Longrightarrow> obeys R n \<Longrightarrow> obeys R (if b then m else n)"
  by simp

lemmas obeys_rules = obeys_pure obeys_and_then obeys_seq obeys_catch
  obeys_fold_eff obeys_for_each obeys_if

text \<open>The same for a condition on the state that every normal return keeps.\<close>

definition stays :: "('w \<Rightarrow> bool) \<Rightarrow> ('w, 'a) eff \<Rightarrow> bool" where
  "stays P m \<longleftrightarrow> (\<forall>w x w'. P w \<longrightarrow> m w = (Inr x, w') \<longrightarrow> P w')"

lemma staysD: "stays P m \<Longrightarrow> m w = (Inr x, w') \<Longrightarrow> P w \<Longrightarrow> P w'"
  unfolding stays_def by blast

lemma stays_pure:
  "stays P (ret x)" "stays P (raise e)" "stays P (gets f)" "stays P (lift r)"
  by (auto simp: stays_def eff_simps)

lemma stays_and_then:
  assumes "stays P m" and "\<And>x. stays P (f x)"
  shows "stays P (and_then m f)"
  unfolding stays_def
proof (intro allI impI)
  fix w y w' assume "P w" and run: "and_then m f w = (Inr y, w')"
  obtain r v where m: "m w = (r, v)" by fastforce
  with run obtain x where r: "r = Inr x" by (cases r) (simp_all add: and_then_run)
  with m run have "f x v = (Inr y, w')" by (simp add: and_then_run)
  moreover have "P v" using assms(1) m r \<open>P w\<close> by (blast dest: staysD)
  ultimately show "P w'" using assms(2) by (blast dest: staysD)
qed

lemma stays_seq: "stays P m \<Longrightarrow> stays P n \<Longrightarrow> stays P (seq m n)"
  unfolding seq_def by (rule stays_and_then)

lemma stays_fold_eff: "(\<And>acc x. stays P (f acc x)) \<Longrightarrow> stays P (fold_eff f acc xs)"
  by (induction xs arbitrary: acc) (simp_all add: stays_pure stays_and_then)

lemma stays_for_each: "(\<And>x. stays P (f x)) \<Longrightarrow> stays P (for_each f xs)"
  by (induction xs) (simp_all add: stays_pure stays_seq)

lemmas stays_rules = stays_pure stays_and_then stays_seq stays_fold_eff stays_for_each

section \<open>The session with PostgreSQL\<close>

text \<open>
  A statement maps the tables to an exception or to a result and the new tables. Outside a
  transaction a statement that fails changes nothing. Inside one it puts the session in the
  aborted state, where PostgreSQL answers every further statement with SQLSTATE 25P02 until
  the transaction ends; \<open>COMMIT\<close> of an aborted transaction is a rollback. \<open>async with
  conn.transaction()\<close> commits when the block is left normally (also by \<open>return\<close>) and rolls
  back when an exception leaves it.
\<close>

datatype tx_status = Tx_None | Tx_Open | Tx_Failed

record 'db conn_world =
  cw_db :: 'db
  cw_tx :: tx_status
  cw_now :: instant
  cw_uuids :: "nat \<Rightarrow> uuid"
  cw_drawn :: nat

type_synonym ('db, 'a) stmt = "'db \<Rightarrow> exn + 'a \<times> 'db"

definition sql :: "('db, 'a) stmt \<Rightarrow> (('db, 'r) conn_world_scheme, 'a) eff" where
  "sql st = (\<lambda>w. if cw_tx w = Tx_Failed then (Inl in_failed_transaction, w)
     else case st (cw_db w) of
       Inl e \<Rightarrow> (Inl e, if cw_tx w = Tx_Open then w\<lparr>cw_tx := Tx_Failed\<rparr> else w)
     | Inr (x, d) \<Rightarrow> (Inr x, w\<lparr>cw_db := d\<rparr>))"

definition transaction ::
  "(('db, 'r) conn_world_scheme, 'a) eff \<Rightarrow> (('db, 'r) conn_world_scheme, 'a) eff" where
  "transaction body = (\<lambda>w. case body (w\<lparr>cw_tx := Tx_Open\<rparr>) of
       (Inl e, w') \<Rightarrow> (Inl e, w'\<lparr>cw_db := cw_db w, cw_tx := Tx_None\<rparr>)
     | (Inr x, w') \<Rightarrow>
         (Inr x, w'\<lparr>cw_db := (if cw_tx w' = Tx_Failed then cw_db w else cw_db w'),
                    cw_tx := Tx_None\<rparr>))"

definition uuid4 :: "(('db, 'r) conn_world_scheme, uuid) eff" where
  "uuid4 = (\<lambda>w. (Inr (cw_uuids w (cw_drawn w)), w\<lparr>cw_drawn := Suc (cw_drawn w)\<rparr>))"

text \<open>A query reads the tables and cannot fail.\<close>

definition query :: "('db \<Rightarrow> 'a) \<Rightarrow> ('db, 'a) stmt" where
  "query f = (\<lambda>d. Inr (f d, d))"

lemma sql_run [eff_simps]:
  "cw_tx w \<noteq> Tx_Failed \<Longrightarrow> sql st w = (case st (cw_db w) of
       Inl e \<Rightarrow> (Inl e, if cw_tx w = Tx_Open then w\<lparr>cw_tx := Tx_Failed\<rparr> else w)
     | Inr (x, d) \<Rightarrow> (Inr x, w\<lparr>cw_db := d\<rparr>))"
  by (simp add: sql_def)

lemma sql_run_failed [eff_simps]:
  "cw_tx w = Tx_Failed \<Longrightarrow> sql st w = (Inl in_failed_transaction, w)"
  by (simp add: sql_def)

lemma uuid4_run [eff_simps]:
  "uuid4 w = (Inr (cw_uuids w (cw_drawn w)), w\<lparr>cw_drawn := Suc (cw_drawn w)\<rparr>)"
  by (simp add: uuid4_def)

lemma query_run [simp]: "query f d = Inr (f d, d)"
  by (simp add: query_def)

text \<open>Rollback: a transaction that an exception leaves does not change the tables.\<close>

lemma transaction_rollback:
  "transaction body w = (Inl e, w') \<Longrightarrow> cw_db w' = cw_db w \<and> cw_tx w' = Tx_None"
  by (auto simp: transaction_def split: prod.splits sum.splits)

lemma transaction_closed: "cw_tx (snd (transaction body w)) = Tx_None"
  by (auto simp: transaction_def split: prod.splits sum.splits)

lemma comes_back_transaction [intro]: "comes_back body \<Longrightarrow> comes_back (transaction body)"
  unfolding comes_back_def by (auto simp: transaction_def split: prod.split sum.split) (metis fst_conv)

lemma comes_back_uuid4 [simp]: "comes_back uuid4"
  by (simp add: comes_back_def uuid4_run)

lemma comes_back_sql: "(\<And>d. st d \<noteq> Inl Diverges) \<Longrightarrow> comes_back (sql st)"
  by (auto simp: comes_back_def sql_def split: sum.split)

text \<open>
  A relation between the tables before and after: for a preorder it is enough that each
  statement respects it, because a rollback restores the tables. The instance \<open>keeps P\<close> says
  that a condition on the tables is kept.
\<close>

definition rel_db ::
  "('db \<Rightarrow> 'db \<Rightarrow> bool) \<Rightarrow> ('db, 'r) conn_world_scheme \<Rightarrow> ('db, 'r) conn_world_scheme \<Rightarrow> bool" where
  "rel_db Q w w' \<longleftrightarrow> Q (cw_db w) (cw_db w')"

definition rel_rows :: "('db \<Rightarrow> 'db \<Rightarrow> bool) \<Rightarrow> ('db, 'a) stmt \<Rightarrow> bool" where
  "rel_rows Q st \<longleftrightarrow> (\<forall>d x d'. st d = Inr (x, d') \<longrightarrow> Q d d')"

definition keeps :: "('db \<Rightarrow> bool) \<Rightarrow> 'db \<Rightarrow> 'db \<Rightarrow> bool" where
  "keeps P d d' \<longleftrightarrow> (P d \<longrightarrow> P d')"

abbreviation keeps_db ::
  "('db \<Rightarrow> bool) \<Rightarrow> ('db, 'r) conn_world_scheme \<Rightarrow> ('db, 'r) conn_world_scheme \<Rightarrow> bool" where
  "keeps_db P \<equiv> rel_db (keeps P)"

abbreviation keeps_rows :: "('db \<Rightarrow> bool) \<Rightarrow> ('db, 'a) stmt \<Rightarrow> bool" where
  "keeps_rows P \<equiv> rel_rows (keeps P)"

lemma keeps_preorder: "preorder_on_worlds (keeps P)"
  by (auto simp: preorder_on_worlds_def keeps_def)

lemma rel_db_preorder: "preorder_on_worlds Q \<Longrightarrow> preorder_on_worlds (rel_db Q)"
  unfolding preorder_on_worlds_def rel_db_def by blast

lemma rel_db_same: "preorder_on_worlds Q \<Longrightarrow> cw_db w' = cw_db w \<Longrightarrow> rel_db Q w w'"
  by (simp add: preorder_on_worlds_def rel_db_def)

lemma keeps_rowsI: "(\<And>d x d'. P d \<Longrightarrow> st d = Inr (x, d') \<Longrightarrow> P d') \<Longrightarrow> keeps_rows P st"
  by (auto simp: rel_rows_def keeps_def)

lemma obeys_sql: "preorder_on_worlds Q \<Longrightarrow> rel_rows Q st \<Longrightarrow> obeys (rel_db Q) (sql st)"
  by (auto simp: obeys_def rel_db_def rel_rows_def sql_def preorder_on_worlds_def split: sum.split)

lemma obeys_query: "preorder_on_worlds Q \<Longrightarrow> obeys (rel_db Q) (sql (query f))"
  by (rule obeys_sql) (simp_all add: rel_rows_def preorder_on_worlds_def)

lemma obeys_uuid4: "preorder_on_worlds Q \<Longrightarrow> obeys (rel_db Q) uuid4"
  by (simp add: obeys_def rel_db_def uuid4_run preorder_on_worlds_def)

lemma obeys_transaction:
  assumes "preorder_on_worlds Q" and "obeys (rel_db Q) m"
  shows "obeys (rel_db Q) (transaction m)"
  unfolding obeys_def
proof
  fix w
  have "rel_db Q (w\<lparr>cw_tx := Tx_Open\<rparr>) (snd (m (w\<lparr>cw_tx := Tx_Open\<rparr>)))"
    using assms(2) by (simp add: obeys_def)
  with assms(1) show "rel_db Q w (snd (transaction m w))"
    by (auto simp: transaction_def rel_db_def preorder_on_worlds_def split: prod.split sum.split)
qed

lemmas rel_db_rules = obeys_query obeys_uuid4 obeys_transaction obeys_sql

lemmas keeps_db_rules = obeys_rules [OF rel_db_preorder [OF keeps_preorder]]
  rel_db_rules [OF keeps_preorder]

text \<open>An endpoint starts and ends without a transaction, if all it opens are blocks.\<close>

definition tx_idle :: "('db, 'r) conn_world_scheme \<Rightarrow> ('db, 'r) conn_world_scheme \<Rightarrow> bool" where
  "tx_idle w w' \<longleftrightarrow> (cw_tx w = Tx_None \<longrightarrow> cw_tx w' = Tx_None)"

lemma tx_idle_preorder: "preorder_on_worlds tx_idle"
  by (auto simp: preorder_on_worlds_def tx_idle_def)

lemma obeys_tx_idle: "obeys tx_idle (sql st)" "obeys tx_idle uuid4" "obeys tx_idle (transaction m)"
  by (auto simp: obeys_def tx_idle_def sql_def uuid4_run transaction_closed split: sum.split)

lemmas tx_idle_rules = obeys_rules [OF tx_idle_preorder] obeys_tx_idle

section \<open>Rows\<close>

text \<open>
  Tables are lists of records in insertion order. \<open>find_row\<close> is \<open>fetchrow\<close> of a
  \<open>SELECT ... WHERE\<close>, \<open>update_where\<close> an \<open>UPDATE ... WHERE\<close>, \<open>select_page\<close> a
  \<open>SELECT ... WHERE ... ORDER BY ... LIMIT\<close>.
\<close>

definition find_row :: "('r \<Rightarrow> bool) \<Rightarrow> 'r list \<Rightarrow> 'r option" where
  "find_row p rows = List.find p rows"

definition update_where :: "('r \<Rightarrow> bool) \<Rightarrow> ('r \<Rightarrow> 'r) \<Rightarrow> 'r list \<Rightarrow> 'r list" where
  "update_where p f rows = map (\<lambda>r. if p r then f r else r) rows"

definition select_page ::
  "('r \<Rightarrow> bool) \<Rightarrow> ('r \<Rightarrow> 'k::linorder) \<Rightarrow> nat \<Rightarrow> 'r list \<Rightarrow> 'r list" where
  "select_page p k n rows = take n (sort_key k (filter p rows))"

lemma find_row_Some: "find_row p rows = Some r \<Longrightarrow> r \<in> set rows \<and> p r"
  by (auto simp: find_row_def find_Some_iff)

lemma find_row_None: "find_row p rows = None \<longleftrightarrow> (\<forall>r \<in> set rows. \<not> p r)"
  by (auto simp: find_row_def find_None_iff)

lemma find_row_append:
  "find_row p (xs @ ys) = (case find_row p xs of None \<Rightarrow> find_row p ys | Some r \<Rightarrow> Some r)"
  by (induction xs) (auto simp: find_row_def)

lemma find_row_Cons [simp]:
  "find_row p (x # xs) = (if p x then Some x else find_row p xs)"
  "find_row p [] = None"
  by (simp_all add: find_row_def)

text \<open>A key that identifies rows: looking up the key of a row finds the row.\<close>

lemma find_row_unique:
  assumes "distinct (map k rows)" and "r \<in> set rows" and "k r = x"
  shows "find_row (\<lambda>r. k r = x) rows = Some r"
  using assms
proof (induction rows)
  case Nil
  then show ?case by simp
next
  case (Cons y ys)
  then show ?case by (cases "k y = x") auto
qed

lemma key_unique: "distinct (map k rows) \<Longrightarrow> r \<in> set rows \<Longrightarrow> s \<in> set rows \<Longrightarrow> k r = k s \<Longrightarrow> r = s"
  by (simp add: distinct_map inj_on_def)

lemma update_where_length [simp]: "length (update_where p f rows) = length rows"
  by (simp add: update_where_def)

lemma update_where_Nil [simp]: "update_where p f [] = []"
  by (simp add: update_where_def)

lemma update_where_Cons [simp]:
  "update_where p f (r # rows) = (if p r then f r else r) # update_where p f rows"
  by (simp add: update_where_def)

lemma set_update_where:
  "set (update_where p f rows) = (\<lambda>r. if p r then f r else r) ` set rows"
  by (simp add: update_where_def)

lemma map_update_where:
  "(\<And>r. r \<in> set rows \<Longrightarrow> p r \<Longrightarrow> k (f r) = k r) \<Longrightarrow> map k (update_where p f rows) = map k rows"
  by (simp add: update_where_def)

lemma update_where_no_match:
  "(\<And>r. r \<in> set rows \<Longrightarrow> \<not> p r) \<Longrightarrow> update_where p f rows = rows"
  by (induction rows) (auto simp: update_where_def)

lemma update_where_all:
  "(\<forall>r \<in> set rows. P r) \<Longrightarrow> (\<And>r. P r \<Longrightarrow> p r \<Longrightarrow> P (f r)) \<Longrightarrow>
   \<forall>r \<in> set (update_where p f rows). P r"
  by (auto simp: set_update_where)

lemma find_row_update_where:
  assumes "\<And>r. k (f r) = k r"
  shows "find_row (\<lambda>r. k r = x) (update_where p f rows) =
    map_option (\<lambda>r. if p r then f r else r) (find_row (\<lambda>r. k r = x) rows)"
  using assms by (induction rows) auto

lemma set_select_page: "set (select_page p k n rows) \<subseteq> {r \<in> set rows. p r}"
  using set_take_subset by (fastforce simp: select_page_def)

lemma sorted_select_page: "sorted (map k (select_page p k n rows))"
  by (simp add: select_page_def take_map [symmetric] sorted_wrt_take)

lemma length_select_page: "length (select_page p k n rows) \<le> n"
  by (simp add: select_page_def)

text \<open>
  How a table evolves: every row is followed by a version of itself that \<open>R\<close> allows, and new
  rows are appended.
\<close>

definition table_grows :: "('r \<Rightarrow> 'r \<Rightarrow> bool) \<Rightarrow> 'r list \<Rightarrow> 'r list \<Rightarrow> bool" where
  "table_grows R rows rows' \<longleftrightarrow> (\<exists>old new. rows' = old @ new \<and> list_all2 R rows old)"

lemma table_grows_refl: "(\<And>r. R r r) \<Longrightarrow> table_grows R rows rows"
  unfolding table_grows_def by (rule exI [of _ rows], rule exI [of _ "[]"]) (simp add: list.rel_refl)

lemma table_grows_trans:
  assumes "\<And>a b c. R a b \<Longrightarrow> R b c \<Longrightarrow> R a c" and "table_grows R xs ys" and "table_grows R ys zs"
  shows "table_grows R xs zs"
proof -
  obtain old new where y: "ys = old @ new" "list_all2 R xs old" using assms(2) by (auto simp: table_grows_def)
  obtain old' new' where z: "zs = old' @ new'" "list_all2 R (old @ new) old'"
    using assms(3) y by (auto simp: table_grows_def)
  then obtain us vs where "old' = us @ vs" "list_all2 R old us" by (auto simp: list_all2_append1)
  moreover have "list_all2 R xs us" if "list_all2 R old us"
    using assms(1) y(2) that by (rule list_all2_trans)
  ultimately show ?thesis using z(1) by (auto simp: table_grows_def)
qed

lemma table_grows_map:
  "(\<And>r. r \<in> set rows \<Longrightarrow> R r (f r)) \<Longrightarrow> table_grows R rows (map f rows @ new)"
  unfolding table_grows_def by (intro exI [of _ "map f rows"] exI [of _ new]) (simp add: list_all2_conv_all_nth)

lemma table_grows_append: "(\<And>r. R r r) \<Longrightarrow> table_grows R rows (rows @ new)"
  using table_grows_map [of rows R id new] by simp

lemma table_grows_update:
  assumes "\<And>r. r \<in> set rows \<Longrightarrow> p r \<Longrightarrow> R r (f r)" and "\<And>r. R r r"
  shows "table_grows R rows (update_where p f rows)"
  using table_grows_map [of rows R "\<lambda>r. if p r then f r else r" "[]"] assms
  by (simp add: update_where_def)

lemma table_grows_find:
  assumes "table_grows R rows rows'" and "find_row p rows = Some n" and "\<And>a b. R a b \<Longrightarrow> p b = p a"
  shows "\<exists>n'. find_row p rows' = Some n' \<and> R n n'"
proof -
  obtain old new where rows': "rows' = old @ new" and old: "list_all2 R rows old"
    using assms(1) by (auto simp: table_grows_def)
  from old assms(2) have "\<exists>n'. find_row p old = Some n' \<and> R n n'"
    by (induction rows old rule: list_all2_induct) (auto simp: assms(3) split: if_splits)
  then show ?thesis by (auto simp: rows' find_row_append)
qed

section \<open>Sequences of operations\<close>

text \<open>
  The interface between an operation's lemma and a property of every history: an operation
  maps states to states and keeps an invariant, so every sequence of operations keeps it.
  Each service interprets it on its own operations.
\<close>

locale operations =
  fixes apply_op :: "'op \<Rightarrow> 's \<Rightarrow> 's" and inv :: "'s \<Rightarrow> bool"
  assumes op_keeps: "inv s \<Longrightarrow> inv (apply_op x s)"
begin

lemma history_keeps: "inv s \<Longrightarrow> inv (fold apply_op xs s)"
  by (induction xs arbitrary: s) (auto intro: op_keeps)

lemma history_split: "inv s \<Longrightarrow> inv (fold apply_op ys (fold apply_op xs s))"
  by (simp add: history_keeps)

end

text \<open>Adding an order that every operation obeys: nothing it counts ever goes back.\<close>

locale monotone_operations = operations +
  fixes grows :: "'b \<Rightarrow> 'b \<Rightarrow> bool"
  assumes grows_refl: "grows s s"
    and grows_trans: "grows s t \<Longrightarrow> grows t u \<Longrightarrow> grows s u"
    and op_grows: "inv s \<Longrightarrow> grows s (apply_op x s)"
begin

lemma history_grows: "inv s \<Longrightarrow> grows s (fold apply_op xs s)"
proof (induction xs arbitrary: s)
  case Nil
  show ?case by (simp add: grows_refl)
next
  case (Cons x xs)
  then show ?case by (auto intro: grows_trans op_grows op_keeps)
qed

end

section \<open>String methods of Python\<close>

definition py_isspace :: "char \<Rightarrow> bool" where
  "py_isspace c = (let n = of_char c :: nat
     in (9 \<le> n \<and> n \<le> 13) \<or> (28 \<le> n \<and> n \<le> 32) \<or> n = 133 \<or> n = 160)"

definition py_lower_char :: "char \<Rightarrow> char" where
  "py_lower_char c = (let n = of_char c :: nat
     in if (65 \<le> n \<and> n \<le> 90) \<or> (192 \<le> n \<and> n \<le> 222 \<and> n \<noteq> 215) then char_of (n + 32) else c)"

definition py_lower :: "string \<Rightarrow> string" where
  "py_lower s = map py_lower_char s"

definition strip_by :: "(char \<Rightarrow> bool) \<Rightarrow> string \<Rightarrow> string" where
  "strip_by p s = rev (dropWhile p (rev (dropWhile p s)))"

definition py_strip :: "string \<Rightarrow> string" where
  "py_strip s = strip_by py_isspace s"

fun py_split :: "char \<Rightarrow> string \<Rightarrow> string list" where
  "py_split sep [] = [[]]"
| "py_split sep (c # cs) =
     (if c = sep then [] # py_split sep cs
      else case py_split sep cs of [] \<Rightarrow> [[c]] | w # ws \<Rightarrow> (c # w) # ws)"

definition py_join :: "string \<Rightarrow> string list \<Rightarrow> string" where
  "py_join sep ws = concat (case ws of [] \<Rightarrow> [] | v # vs \<Rightarrow> v # map (\<lambda>x. sep @ x) vs)"

lemma strip_by_ends:
  "strip_by p s = [] \<or> (\<not> p (hd (strip_by p s)) \<and> \<not> p (last (strip_by p s)))"
proof (cases "strip_by p s = []")
  case False
  let ?r = "dropWhile p (rev (dropWhile p s))"
  have r: "?r \<noteq> []" using False by (simp add: strip_by_def)
  then have hd: "\<not> p (hd ?r)" by (rule hd_dropWhile)
  obtain ws where ws: "rev (dropWhile p s) = ws @ ?r"
    by (metis takeWhile_dropWhile_id)
  then have eq: "dropWhile p s = rev ?r @ rev ws" by (metis rev_append rev_rev_ident)
  have ne: "rev ?r \<noteq> []" using r by (simp only: rev_is_Nil_conv not_False_eq_True)
  have "dropWhile p s \<noteq> []" using eq ne by (metis append_is_Nil_conv)
  moreover have "hd (dropWhile p s) = hd (rev ?r)" using eq ne by (metis hd_append2)
  ultimately have "\<not> p (hd (rev ?r))" using hd_dropWhile [of p s] by metis
  moreover have "last (rev ?r) = hd ?r" by (rule last_rev)
  ultimately show ?thesis using hd by (metis strip_by_def)
qed simp

lemma strip_by_unchanged: "s = [] \<or> (\<not> p (hd s) \<and> \<not> p (last s)) \<Longrightarrow> strip_by p s = s"
proof (cases "s = []")
  case False
  moreover assume "s = [] \<or> (\<not> p (hd s) \<and> \<not> p (last s))"
  ultimately have "\<not> p (hd s)" and "\<not> p (hd (rev s))" by (simp_all add: hd_rev)
  have "dropWhile p t = t" if "t \<noteq> []" and "\<not> p (hd t)" for t using that by (cases t) auto
  with False \<open>\<not> p (hd s)\<close> \<open>\<not> p (hd (rev s))\<close> show ?thesis
    by (metis rev_is_Nil_conv rev_rev_ident strip_by_def)
qed (simp add: strip_by_def)

lemma py_strip_idem [simp]: "py_strip (py_strip s) = py_strip s"
  unfolding py_strip_def using strip_by_ends by (intro strip_by_unchanged)

lemma py_split_nonempty: "py_split sep s \<noteq> []"
  by (induction s) (auto split: list.splits)

lemma py_split_sep_free: "\<forall>w \<in> set (py_split sep s). sep \<notin> set w"
proof (induction s)
  case Nil
  then show ?case by simp
next
  case (Cons c cs)
  then show ?case by (auto split: list.splits if_splits)
qed

lemma py_lower_char_idem: "py_lower_char (py_lower_char c) = py_lower_char c"
proof (cases "py_lower_char c = c")
  case True
  then show ?thesis by simp
next
  case False
  define n where "n = (of_char c :: nat)"
  from False have "py_lower_char c = char_of (n + 32)"
    and "(65 \<le> n \<and> n \<le> 90) \<or> (192 \<le> n \<and> n \<le> 222 \<and> n \<noteq> 215)"
    by (auto simp: py_lower_char_def Let_def n_def split: if_splits)
  moreover from this have "(n + 32) mod 256 = n + 32" by auto
  ultimately show ?thesis by (auto simp: py_lower_char_def Let_def)
qed

lemma py_lower_idem [simp]: "py_lower (py_lower s) = py_lower s"
  by (simp add: py_lower_def py_lower_char_idem)

lemma py_lower_eq_Nil [simp]: "py_lower s = [] \<longleftrightarrow> s = []"
  by (simp add: py_lower_def)

lemma py_isspace_lower_char [simp]: "py_isspace (py_lower_char c) = py_isspace c"
proof (cases "py_lower_char c = c")
  case True
  then show ?thesis by simp
next
  case False
  define n where "n = (of_char c :: nat)"
  from False have "py_lower_char c = char_of (n + 32)"
    and n: "(65 \<le> n \<and> n \<le> 90) \<or> (192 \<le> n \<and> n \<le> 222 \<and> n \<noteq> 215)"
    by (auto simp: py_lower_char_def Let_def n_def split: if_splits)
  moreover from n have "(n + 32) mod 256 = n + 32" by auto
  ultimately show ?thesis by (auto simp: py_isspace_def Let_def n_def)
qed

lemma py_strip_lower_strip [simp]: "py_strip (py_lower (py_strip s)) = py_lower (py_strip s)"
proof -
  have "py_strip s = [] \<or> (\<not> py_isspace (hd (py_strip s)) \<and> \<not> py_isspace (last (py_strip s)))"
    unfolding py_strip_def by (rule strip_by_ends)
  then show ?thesis
    unfolding py_strip_def [of "py_lower (py_strip s)"]
    by (intro strip_by_unchanged) (auto simp: py_lower_def hd_map last_map)
qed

end
