(* ===== verification/Py_Values.thy ===== *)
theory Py_Values
  imports Prelude
begin

text \<open>
  The two standard library values that the services turn into text and read back: UUIDs
  (\<open>str(u)\<close>, \<open>UUID(s)\<close>) and UTC instants (\<open>isoformat()\<close>, \<open>datetime.fromisoformat\<close>). Both are
  the algorithms of the library. Reading a date is the library's on the texts that
  \<open>isoformat\<close> writes for UTC; the many other spellings that \<open>fromisoformat\<close> accepts are left
  to a parameter.
\<close>

section \<open>Digits\<close>

definition digit_char :: "nat \<Rightarrow> char" where
  "digit_char d = (if d < 10 then char_of (48 + d) else char_of (87 + d))"

definition digit_val :: "char \<Rightarrow> nat option" where
  "digit_val c = (let n = of_char c :: nat in
     if 48 \<le> n \<and> n \<le> 57 then Some (n - 48)
     else if 97 \<le> n \<and> n \<le> 102 then Some (n - 87)
     else if 65 \<le> n \<and> n \<le> 70 then Some (n - 55)
     else None)"

text \<open>The last \<open>k\<close> digits of \<open>n\<close> in base \<open>b\<close>, and the value of a text of digits.\<close>

fun digits_of :: "nat \<Rightarrow> nat \<Rightarrow> nat \<Rightarrow> string" where
  "digits_of b 0 n = []"
| "digits_of b (Suc k) n = digits_of b k (n div b) @ [digit_char (n mod b)]"

fun value_of :: "nat \<Rightarrow> nat \<Rightarrow> string \<Rightarrow> nat option" where
  "value_of b acc [] = Some acc"
| "value_of b acc (c # cs) = (case digit_val c of
     None \<Rightarrow> None
   | Some v \<Rightarrow> if v < b then value_of b (acc * b + v) cs else None)"

lemma digit_val_char: "d < 16 \<Longrightarrow> digit_val (digit_char d) = Some d"
  by (auto simp: digit_val_def digit_char_def Let_def)

lemma value_of_append:
  "value_of b acc (xs @ ys) = (case value_of b acc xs of None \<Rightarrow> None | Some v \<Rightarrow> value_of b v ys)"
  by (induction xs arbitrary: acc) (auto split: option.split)

lemma length_digits_of [simp]: "length (digits_of b k n) = k"
  by (induction k arbitrary: n) auto

lemma set_digits_of: "0 < b \<Longrightarrow> set (digits_of b k n) \<subseteq> digit_char ` {..<b}"
  by (induction k arbitrary: n) auto

lemma value_of_digits_of:
  assumes "0 < b" and "b \<le> 16"
  shows "value_of b acc (digits_of b k n) = Some (acc * b ^ k + n mod b ^ k)"
proof (induction k arbitrary: n)
  case 0
  show ?case by simp
next
  case (Suc k)
  have "n mod b < b" using assms by simp
  moreover from this have "n mod b < 16" using assms by linarith
  moreover have "n mod b ^ Suc k = n div b mod b ^ k * b + n mod b"
    by (simp add: mod_mult2_eq mult.commute)
  ultimately show ?case
    by (simp add: value_of_append Suc.IH digit_val_char algebra_simps)
qed

section \<open>UUIDs\<close>

definition str_uuid :: "uuid \<Rightarrow> string" where
  "str_uuid u = (let h = digits_of 16 32 u in
     take 8 h @ ''-'' @ take 4 (drop 8 h) @ ''-'' @ take 4 (drop 12 h) @ ''-'' @
     take 4 (drop 16 h) @ ''-'' @ drop 20 h)"

text \<open>\<open>s.replace(pat, '')\<close> for a non-empty \<open>pat\<close>.\<close>

function remove_all :: "string \<Rightarrow> string \<Rightarrow> string" where
  "remove_all pat [] = []"
| "remove_all pat (c # cs) =
     (if pat \<noteq> [] \<and> take (length pat) (c # cs) = pat
      then remove_all pat (drop (length pat) (c # cs)) else c # remove_all pat cs)"
  by pat_completeness auto
termination
  by (relation "measure (\<lambda>(_, s). length s)") auto

text \<open>\<open>str(n)\<close> of an integer.\<close>

fun decimal :: "nat \<Rightarrow> string" where
  "decimal n = (if n < 10 then [digit_char n] else decimal (n div 10) @ [digit_char (n mod 10)])"

declare decimal.simps [simp del]

definition int_text :: "int \<Rightarrow> string" where
  "int_text n = (if n < 0 then ''-'' @ decimal (nat (- n)) else decimal (nat n))"

text \<open>
  \<open>int(s, 16)\<close>: surrounding white space, a sign, the prefix \<open>0x\<close> and single underscores
  between digits are allowed.
\<close>

fun int16_digits :: "nat \<Rightarrow> string \<Rightarrow> nat option" where
  "int16_digits acc [] = Some acc"
| "int16_digits acc (c # cs) =
     (if c = CHR ''_'' then (case cs of
          [] \<Rightarrow> None
        | d # ds \<Rightarrow> (case digit_val d of None \<Rightarrow> None | Some v \<Rightarrow> int16_digits (acc * 16 + v) ds))
      else (case digit_val c of None \<Rightarrow> None | Some v \<Rightarrow> int16_digits (acc * 16 + v) cs))"

definition int16_unsigned :: "string \<Rightarrow> nat option" where
  "int16_unsigned s =
     (let body = (if take 2 s = ''0x'' \<or> take 2 s = ''0X''
                  then (if take 1 (drop 2 s) = ''_'' then drop 3 s else drop 2 s) else s)
      in case body of [] \<Rightarrow> None
       | c # cs \<Rightarrow> (case digit_val c of None \<Rightarrow> None | Some v \<Rightarrow> int16_digits v cs))"

definition py_int16 :: "string \<Rightarrow> int option" where
  "py_int16 s = (case py_strip s of
     [] \<Rightarrow> None
   | c # cs \<Rightarrow>
       if c = CHR ''-'' then map_option (\<lambda>v. - int v) (int16_unsigned cs)
       else if c = CHR ''+'' then map_option int (int16_unsigned cs)
       else map_option int (int16_unsigned (c # cs)))"

text \<open>\<open>int(s)\<close>: the same in base ten, without a prefix.\<close>

fun int10_digits :: "nat \<Rightarrow> string \<Rightarrow> nat option" where
  "int10_digits acc [] = Some acc"
| "int10_digits acc (c # cs) =
     (if c = CHR ''_'' then (case cs of
          [] \<Rightarrow> None
        | d # ds \<Rightarrow> (case value_of 10 acc [d] of None \<Rightarrow> None | Some v \<Rightarrow> int10_digits v ds))
      else (case value_of 10 acc [c] of None \<Rightarrow> None | Some v \<Rightarrow> int10_digits v cs))"

definition int10_unsigned :: "string \<Rightarrow> nat option" where
  "int10_unsigned s = (case s of [] \<Rightarrow> None
     | c # cs \<Rightarrow> (case value_of 10 0 [c] of None \<Rightarrow> None | Some v \<Rightarrow> int10_digits v cs))"

definition py_int :: "string \<Rightarrow> exn + int" where
  "py_int s = (let r = (case py_strip s of
       [] \<Rightarrow> None
     | c # cs \<Rightarrow>
         if c = CHR ''-'' then map_option (\<lambda>v. - int v) (int10_unsigned cs)
         else if c = CHR ''+'' then map_option int (int10_unsigned cs)
         else map_option int (int10_unsigned (c # cs)))
     in case r of None \<Rightarrow> Inl Value_Error | Some n \<Rightarrow> Inr n)"

text \<open>\<open>UUID(s)\<close>, \<open>None\<close> for \<open>ValueError\<close>.\<close>

definition parse_uuid :: "string \<Rightarrow> uuid option" where
  "parse_uuid s =
     (let hex1 = remove_all ''uuid:'' (remove_all ''urn:'' s);
          hex2 = remove_all ''-'' (strip_by (\<lambda>c. c \<in> set ''{}'') hex1)
      in if length hex2 \<noteq> 32 then None
         else case py_int16 hex2 of
           None \<Rightarrow> None
         | Some v \<Rightarrow> if 0 \<le> v \<and> v < 2 ^ 128 then Some (nat v) else None)"

definition is_uuid :: "uuid \<Rightarrow> bool" where
  "is_uuid u \<longleftrightarrow> u < 2 ^ 128"

definition hex_char :: "char \<Rightarrow> bool" where
  "hex_char c \<longleftrightarrow> c \<notin> set ''uU:-+_{}xX'' \<and> \<not> py_isspace c \<and> digit_val c \<noteq> None \<and>
     32 \<le> (of_char c :: nat) \<and> (of_char c :: nat) \<le> 126"

lemma hex_digits: "list_all (\<lambda>d. hex_char (digit_char d)) [0..<16]"
  by code_simp

definition hex_text :: "string \<Rightarrow> bool" where
  "hex_text s \<longleftrightarrow> set s \<subseteq> digit_char ` {..<16}"

lemma hex_text_chars: "hex_text s \<Longrightarrow> c \<in> set s \<Longrightarrow> hex_char c"
proof -
  assume "hex_text s" and "c \<in> set s"
  then obtain d where "d < 16" and "c = digit_char d" by (auto simp: hex_text_def)
  with hex_digits show ?thesis by (simp add: list_all_iff)
qed

lemma hex_text_digits: "hex_text (digits_of 16 k n)"
  using set_digits_of by (simp add: hex_text_def)

lemma remove_all_absent: "pat \<noteq> [] \<Longrightarrow> hd pat \<notin> set s \<Longrightarrow> remove_all pat s = s"
proof (induction pat s rule: remove_all.induct)
  case (2 pat c cs)
  then show ?case by (cases pat) auto
qed simp

lemma remove_all_char: "remove_all [c] s = filter (\<lambda>x. x \<noteq> c) s"
proof (induction s)
  case (Cons a s)
  then show ?case by simp
qed simp

lemma int16_digits_value: "hex_text s \<Longrightarrow> int16_digits acc s = value_of 16 acc s"
proof (induction s arbitrary: acc)
  case (Cons c s)
  then obtain d where "d < 16" and "c = digit_char d" by (auto simp: hex_text_def)
  moreover have "c \<noteq> CHR ''_''" using hex_text_chars [OF Cons.prems, of c] by (auto simp: hex_char_def)
  moreover have "hex_text s" using Cons.prems by (simp add: hex_text_def)
  ultimately show ?case using Cons.IH digit_val_char by simp
qed simp

lemma py_int16_hex:
  assumes "hex_text s" and "s \<noteq> []"
  shows "py_int16 s = map_option int (value_of 16 0 s)"
proof -
  obtain c cs where s: "s = c # cs" using assms(2) by (cases s) auto
  have c: "c \<notin> set ''uU:-+_{}xX''"
    using hex_text_chars [OF assms(1), of c] by (simp add: s hex_char_def)
  have "py_strip s = s"
    unfolding py_strip_def using hex_text_chars [OF assms(1)] assms(2)
    by (intro strip_by_unchanged) (simp add: hex_char_def)
  moreover have "take 2 s \<noteq> ''0x'' \<and> take 2 s \<noteq> ''0X''"
  proof -
    have "\<not> hex_char CHR ''x''" and "\<not> hex_char CHR ''X''" by (simp_all add: hex_char_def)
    then have "CHR ''x'' \<notin> set (take 2 s)" and "CHR ''X'' \<notin> set (take 2 s)"
      using hex_text_chars [OF assms(1)] set_take_subset [of 2 s] by blast+
    then show ?thesis by auto
  qed
  moreover obtain d where "d < 16" and "c = digit_char d" using assms(1) by (auto simp: hex_text_def s)
  moreover have "hex_text cs" using assms(1) by (simp add: hex_text_def s)
  moreover from calculation have "int16_unsigned s = value_of 16 0 s"
    by (simp add: int16_unsigned_def Let_def) (simp add: s int16_digits_value digit_val_char)
  ultimately show ?thesis using c by (simp add: py_int16_def s)
qed

lemma str_uuid_nonempty: "str_uuid u \<noteq> []"
  by (simp add: str_uuid_def Let_def)

text \<open>The text of a UUID is read back as the UUID.\<close>

lemma parse_str_uuid:
  assumes "is_uuid u"
  shows "parse_uuid (str_uuid u) = Some u"
proof -
  let ?h = "digits_of 16 32 u"
  have sub: "set (take n (drop m ?h)) \<subseteq> set ?h" "set (drop m ?h) \<subseteq> set ?h" "set (take n ?h) \<subseteq> set ?h" for n m
    by (meson order_trans set_drop_subset set_take_subset)+
  then have chars: "set (str_uuid u) \<subseteq> insert CHR ''-'' (set ?h)"
    by (auto simp: str_uuid_def Let_def dest: in_set_takeD in_set_dropD)
  have hex: "c \<notin> set ''uU:+_{}xX''" if "c \<in> set (str_uuid u)" for c
  proof (cases "c = CHR ''-''")
    case False
    with that chars have "hex_char c" using hex_text_chars [OF hex_text_digits] by blast
    then show ?thesis by (simp add: hex_char_def)
  qed simp
  have r1: "remove_all ''urn:'' (str_uuid u) = str_uuid u"
    and r2: "remove_all ''uuid:'' (str_uuid u) = str_uuid u"
    using hex [of "CHR ''u''"] by (auto intro!: remove_all_absent)
  note ne = str_uuid_nonempty [of u]
  have strip: "strip_by (\<lambda>c. c \<in> set ''{}'') (str_uuid u) = str_uuid u"
    using hex [of "hd (str_uuid u)"] hex [of "last (str_uuid u)"] ne
    by (intro strip_by_unchanged) auto
  have keep: "filter (\<lambda>x. x \<noteq> CHR ''-'') xs = xs" if "set xs \<subseteq> set ?h" for xs
  proof -
    have "hex_char c" if "c \<in> set xs" for c
      using that \<open>set xs \<subseteq> set ?h\<close> hex_text_chars [OF hex_text_digits] by blast
    then show ?thesis by (auto simp: filter_id_conv hex_char_def)
  qed
  have "take 8 ?h @ take 4 (drop 8 ?h) @ take 4 (drop 12 ?h) @ take 4 (drop 16 ?h) @ drop 20 ?h = ?h"
  proof -
    have cut: "take b (drop a ?h) @ drop (a + b) ?h = drop a ?h" for a b
      by (metis add.commute append_take_drop_id drop_drop)
    show ?thesis using cut [of 4 8] cut [of 4 12] cut [of 4 16] by simp
  qed
  then have dash: "remove_all ''-'' (str_uuid u) = ?h"
    by (simp add: remove_all_char str_uuid_def Let_def keep sub)
  have "?h \<noteq> []" by (metis length_0_conv length_digits_of zero_neq_numeral)
  moreover have "value_of 16 0 ?h = Some (u mod 16 ^ 32)"
    using value_of_digits_of [of 16 0 32 u] by simp
  moreover have "u < 2 ^ 128" using assms by (simp add: is_uuid_def)
  then have "u mod 16 ^ 32 = u" by simp
  ultimately have v: "py_int16 ?h = Some (int u)"
    using py_int16_hex [OF hex_text_digits, of 32 u] by simp
  have "int u < 2 ^ 128" using \<open>u < 2 ^ 128\<close> by simp
  then show ?thesis by (simp only: parse_uuid_def r1 r2 strip dash v Let_def length_digits_of) simp
qed

section \<open>Instants\<close>

definition days_before_year :: "int \<Rightarrow> int" where
  "days_before_year year = (let y = year - 1 in y * 365 + y div 4 - y div 100 + y div 400)"

definition is_leap :: "int \<Rightarrow> bool" where
  "is_leap year \<longleftrightarrow> year mod 4 = 0 \<and> (year mod 100 \<noteq> 0 \<or> year mod 400 = 0)"

definition days_before_month :: "bool \<Rightarrow> int \<Rightarrow> int" where
  "days_before_month leap month =
     (case map_of (zip [1..12] [0, 31, 59, 90, 120, 151, 181, 212, 243, 273, 304, 334]) month of
        None \<Rightarrow> 0 | Some n \<Rightarrow> n) + (if month > 2 \<and> leap then 1 else 0)"

definition days_in_month :: "bool \<Rightarrow> int \<Rightarrow> int" where
  "days_in_month leap month =
     (if month = 2 then (if leap then 29 else 28)
      else if month = 4 \<or> month = 6 \<or> month = 9 \<or> month = 11 then 30 else 31)"

definition ymd2ord :: "int \<Rightarrow> int \<Rightarrow> int \<Rightarrow> int" where
  "ymd2ord year month d = days_before_year year + days_before_month (is_leap year) month + d"

text \<open>\<open>_ord2ymd\<close> of the library; the month is the first one, counting down, that has begun.\<close>

definition ord2ymd :: "int \<Rightarrow> int \<times> int \<times> int" where
  "ord2ymd ordinal =
     (let n = ordinal - 1;
          n400 = n div 146097; n = n mod 146097;
          n100 = n div 36524; n = n mod 36524;
          n4 = n div 1461; n = n mod 1461;
          n1 = n div 365; n = n mod 365;
          year = n400 * 400 + 1 + n100 * 100 + n4 * 4 + n1
      in if n1 = 4 \<or> n100 = 4 then (year - 1, 12, 31)
         else let month = (n + 50) div 32;
                  preceding = days_before_month (is_leap year) month;
                  month' = (if preceding > n then month - 1 else month)
              in (year, month', n - days_before_month (is_leap year) month' + 1))"

definition epoch_ordinal :: int where "epoch_ordinal = 719163"

definition micros_per_day :: int where "micros_per_day = 86400000000"

definition dec :: "nat \<Rightarrow> int \<Rightarrow> string" where
  "dec k n = digits_of 10 k (nat n)"

definition isoformat :: "instant \<Rightarrow> string" where
  "isoformat t =
     (let (y, mo, d) = ord2ymd (t div micros_per_day + epoch_ordinal);
          us = t mod micros_per_day;
          s = us div 1000000;
          frac = us mod 1000000
      in dec 4 y @ ''-'' @ dec 2 mo @ ''-'' @ dec 2 d @ ''T'' @
         dec 2 (s div 3600) @ '':'' @ dec 2 (s div 60 mod 60) @ '':'' @ dec 2 (s mod 60) @
         (if frac = 0 then '''' else ''.'' @ dec 6 frac) @ ''+00:00'')"

text \<open>
  \<open>datetime.fromisoformat\<close> on the texts of \<open>isoformat\<close>; a text of another shape goes to the
  parameter, which answers as the library and the driver do for it.
\<close>

type_synonym other_dates = "string \<Rightarrow> exn + instant"

definition read_number :: "nat \<Rightarrow> string \<Rightarrow> (int \<times> string) option" where
  "read_number k s = (if length s < k then None
     else map_option (\<lambda>v. (int v, drop k s)) (value_of 10 0 (take k s)))"

definition expect :: "string \<Rightarrow> string \<Rightarrow> string option" where
  "expect pat s = (if take (length pat) s = pat then Some (drop (length pat) s) else None)"

definition civil_instant :: "int \<Rightarrow> int \<Rightarrow> int \<Rightarrow> int \<Rightarrow> int \<Rightarrow> int \<Rightarrow> int \<Rightarrow> exn + instant" where
  "civil_instant y mo d h mi s us =
     (if 1 \<le> y \<and> y \<le> 9999 \<and> 1 \<le> mo \<and> mo \<le> 12 \<and> 1 \<le> d \<and> d \<le> days_in_month (is_leap y) mo \<and>
         h < 24 \<and> mi < 60 \<and> s < 60
      then Inr ((ymd2ord y mo d - epoch_ordinal) * micros_per_day +
        ((h * 60 + mi) * 60 + s) * 1000000 + us)
      else Inl Value_Error)"

definition read_fraction :: "string \<Rightarrow> (int \<times> string) option" where
  "read_fraction s = (case expect ''.'' s of
     None \<Rightarrow> Some (0, s) | Some r \<Rightarrow> read_number 6 r)"

definition read_isoformat :: "string \<Rightarrow> (exn + instant) option" where
  "read_isoformat text =
     Option.bind (read_number 4 text) (\<lambda>(y, r1).
     Option.bind (expect ''-'' r1) (\<lambda>r2.
     Option.bind (read_number 2 r2) (\<lambda>(mo, r3).
     Option.bind (expect ''-'' r3) (\<lambda>r4.
     Option.bind (read_number 2 r4) (\<lambda>(d, r5).
     Option.bind (expect ''T'' r5) (\<lambda>r6.
     Option.bind (read_number 2 r6) (\<lambda>(h, r7).
     Option.bind (expect '':'' r7) (\<lambda>r8.
     Option.bind (read_number 2 r8) (\<lambda>(mi, r9).
     Option.bind (expect '':'' r9) (\<lambda>r10.
     Option.bind (read_number 2 r10) (\<lambda>(s, r11).
     Option.bind (read_fraction r11) (\<lambda>(us, r12).
       if r12 = ''+00:00'' then Some (civil_instant y mo d h mi s us) else None))))))))))))"

definition fromisoformat :: "other_dates \<Rightarrow> string \<Rightarrow> exn + instant" where
  "fromisoformat other text = (case read_isoformat text of Some r \<Rightarrow> r | None \<Rightarrow> other text)"

section \<open>An instant is read back as it was written\<close>

definition instant_ok :: "instant \<Rightarrow> bool" where
  "instant_ok t \<longleftrightarrow> (let n = t div micros_per_day + epoch_ordinal in 1 \<le> n \<and> n \<le> 3652059)"

lemma month_table: "list_all (\<lambda>f. list_all (\<lambda>leap.
    let month = (f + 50) div 32;
        m = (if days_before_month leap month > f then month - 1 else month);
        d = f - days_before_month leap m + 1
    in 1 \<le> m \<and> m \<le> 12 \<and> 1 \<le> d \<and> d \<le> days_in_month leap m) [False, True]) [0..364]"
  by code_simp

lemma december: "days_before_month True 12 = 335" "days_in_month leap 12 = 31"
  by (code_simp, simp add: days_in_month_def)

lemma div_mod_split: "0 \<le> q \<Longrightarrow> q < n \<Longrightarrow> (n * p + q) div n = p \<and> (n * p + q) mod n = (q :: int)"
  by simp

lemma ord2ymd_regular:
  fixes a b c e f :: int
  assumes "0 \<le> b" "b \<le> 3" "0 \<le> c" "c \<le> 24" "0 \<le> e" "e \<le> 3" "0 \<le> f" "f \<le> 364"
    and "1461 * c + 365 * e + f < 36524" and "36524 * b + (1461 * c + 365 * e + f) < 146097"
  shows "ord2ymd (146097 * a + 36524 * b + 1461 * c + 365 * e + f + 1) =
    (let year = 400 * a + 100 * b + 4 * c + e + 1; leap = is_leap year; month = (f + 50) div 32;
         m = (if days_before_month leap month > f then month - 1 else month)
     in (year, m, f - days_before_month leap m + 1))"
proof -
  let ?r1 = "36524 * b + (1461 * c + (365 * e + f))"
  let ?r2 = "1461 * c + (365 * e + f)"
  have 1: "(146097 * a + ?r1) div 146097 = a \<and> (146097 * a + ?r1) mod 146097 = ?r1"
    by (rule div_mod_split) (use assms in linarith)+
  have 2: "(36524 * b + ?r2) div 36524 = b \<and> (36524 * b + ?r2) mod 36524 = ?r2"
    by (rule div_mod_split) (use assms in linarith)+
  have 3: "(1461 * c + (365 * e + f)) div 1461 = c \<and> (1461 * c + (365 * e + f)) mod 1461 = 365 * e + f"
    by (rule div_mod_split) (use assms in linarith)+
  have 4: "(365 * e + f) div 365 = e \<and> (365 * e + f) mod 365 = f"
    by (rule div_mod_split) (use assms in linarith)+
  have n: "146097 * a + 36524 * b + 1461 * c + 365 * e + f + 1 - 1 = 146097 * a + ?r1" by simp
  have "e \<noteq> 4" and "b \<noteq> 4" using assms by linarith+
  then show ?thesis
    unfolding ord2ymd_def n Let_def conjunct1 [OF 1] conjunct2 [OF 1] conjunct1 [OF 2]
      conjunct2 [OF 2] conjunct1 [OF 3] conjunct2 [OF 3] conjunct1 [OF 4] conjunct2 [OF 4]
    by (simp add: algebra_simps)
qed

lemma days_before_civil_year:
  fixes a b c e :: int
  assumes "0 \<le> b" "b \<le> 3" "0 \<le> c" "c \<le> 24" "0 \<le> e" "e \<le> 3"
  shows "days_before_year (400 * a + 100 * b + 4 * c + e + 1) = 146097 * a + 36524 * b + 1461 * c + 365 * e"
proof -
  have y: "400 * a + 100 * b + 4 * c + e + 1 - 1 = 4 * (100 * a + 25 * b + c) + e"
    "4 * (100 * a + 25 * b + c) + e = 100 * (4 * a + b) + (4 * c + e)"
    "100 * (4 * a + b) + (4 * c + e) = 400 * a + (100 * b + (4 * c + e))" by simp_all
  have 1: "(4 * (100 * a + 25 * b + c) + e) div 4 = 100 * a + 25 * b + c"
    by (rule div_mod_split [THEN conjunct1]) (use assms in linarith)+
  have 2: "(100 * (4 * a + b) + (4 * c + e)) div 100 = 4 * a + b"
    by (rule div_mod_split [THEN conjunct1]) (use assms in linarith)+
  have 3: "(400 * a + (100 * b + (4 * c + e))) div 400 = a"
    by (rule div_mod_split [THEN conjunct1]) (use assms in linarith)+
  show ?thesis
    unfolding days_before_year_def Let_def y(1) 1 unfolding y(2) 2 unfolding y(3) 3 by simp
qed

lemma century_end:
  "ord2ymd (146097 * a + 146097) = (400 * a + 400, 12, 31)"
  "ymd2ord (400 * a + 400) 12 31 = 146097 * a + 146097"
proof -
  have n: "146097 * a + 146097 - 1 = 146097 * a + 146096" by simp
  have 1: "(146097 * a + 146096) div 146097 = a \<and> (146097 * a + 146096) mod 146097 = 146096"
    by (rule div_mod_split) simp_all
  show "ord2ymd (146097 * a + 146097) = (400 * a + 400, 12, 31)"
    unfolding ord2ymd_def n conjunct1 [OF 1] conjunct2 [OF 1] Let_def by (simp add: mult.commute)
  have "(400 * a + 400) mod 4 = 0" and "(400 * a + 400) mod 400 = 0" by presburger+
  then have "is_leap (400 * a + 400)" by (simp add: is_leap_def)
  moreover have "days_before_year (400 * a + 400) = 146097 * a + 145731"
    using days_before_civil_year [of 3 24 3 a] by (simp add: algebra_simps)
  ultimately show "ymd2ord (400 * a + 400) 12 31 = 146097 * a + 146097"
    by (simp add: ymd2ord_def december)
qed

lemma leap_year_end:
  fixes a b c :: int
  assumes "0 \<le> b" "b \<le> 3" "0 \<le> c" "c \<le> 23"
  shows "ord2ymd (146097 * a + 36524 * b + 1461 * c + 1461) = (400 * a + 100 * b + 4 * c + 4, 12, 31)"
    and "ymd2ord (400 * a + 100 * b + 4 * c + 4) 12 31 = 146097 * a + 36524 * b + 1461 * c + 1461"
proof -
  let ?r2 = "1461 * c + 1460"
  have n: "146097 * a + 36524 * b + 1461 * c + 1461 - 1 = 146097 * a + (36524 * b + ?r2)" by simp
  have 1: "(146097 * a + (36524 * b + ?r2)) div 146097 = a \<and>
      (146097 * a + (36524 * b + ?r2)) mod 146097 = 36524 * b + ?r2"
    by (rule div_mod_split) (use assms in linarith)+
  have 2: "(36524 * b + ?r2) div 36524 = b \<and> (36524 * b + ?r2) mod 36524 = ?r2"
    by (rule div_mod_split) (use assms in linarith)+
  have 3: "?r2 div 1461 = c \<and> ?r2 mod 1461 = 1460"
    by (rule div_mod_split) (use assms in linarith)+
  show "ord2ymd (146097 * a + 36524 * b + 1461 * c + 1461) = (400 * a + 100 * b + 4 * c + 4, 12, 31)"
    unfolding ord2ymd_def n Let_def conjunct1 [OF 1] conjunct2 [OF 1] conjunct1 [OF 2]
      conjunct2 [OF 2] conjunct1 [OF 3] conjunct2 [OF 3]
    by (simp add: algebra_simps)
  have "(100 * (4 * a + b) + (4 * c + 4)) mod 100 = 4 * c + 4"
    by (rule div_mod_split [THEN conjunct2]) (use assms in linarith)+
  then have "(400 * a + 100 * b + 4 * c + 4) mod 100 \<noteq> 0"
    using assms by (simp add: algebra_simps)
  moreover have "(400 * a + 100 * b + 4 * c + 4) mod 4 = 0" by presburger
  ultimately have "is_leap (400 * a + 100 * b + 4 * c + 4)" by (simp add: is_leap_def)
  moreover have "days_before_year (400 * a + 100 * b + 4 * c + 3 + 1) =
      146097 * a + 36524 * b + 1461 * c + 365 * 3"
    by (rule days_before_civil_year) (use assms in simp_all)
  ultimately show "ymd2ord (400 * a + 100 * b + 4 * c + 4) 12 31 =
      146097 * a + 36524 * b + 1461 * c + 1461"
    by (simp add: ymd2ord_def december algebra_simps)
qed

definition civil_ok :: "int \<Rightarrow> int \<times> int \<times> int \<Rightarrow> bool" where
  "civil_ok n ymd \<longleftrightarrow> (case ymd of (y, m, d) \<Rightarrow> ymd2ord y m d = n \<and> 1 \<le> m \<and> m \<le> 12 \<and> 1 \<le> d \<and>
     d \<le> days_in_month (is_leap y) m \<and> 1 \<le> y \<and> y \<le> 9999)"

lemma month_of_day:
  assumes "0 \<le> f" and "f \<le> 364"
    and "m = (if days_before_month leap ((f + 50) div 32) > f then (f + 50) div 32 - 1 else (f + 50) div 32)"
  shows "1 \<le> m \<and> m \<le> 12 \<and> 1 \<le> f - days_before_month leap m + 1 \<and>
    f - days_before_month leap m + 1 \<le> days_in_month leap m"
proof -
  have "f \<in> set [0..364]" and "leap \<in> set [False, True]" using assms by auto
  with month_table show ?thesis unfolding list_all_iff Let_def assms(3) by blast
qed

lemma ord2ymd_ok:
  assumes "1 \<le> n" and "n \<le> 3652059"
  shows "civil_ok n (ord2ymd n)"
proof -
  define a where "a = (n - 1) div 146097"
  define r1 where "r1 = (n - 1) mod 146097"
  define b where "b = r1 div 36524"
  define r2 where "r2 = r1 mod 36524"
  define c where "c = r2 div 1461"
  define r3 where "r3 = r2 mod 1461"
  define e where "e = r3 div 365"
  define f where "f = r3 mod 365"
  have n: "n - 1 = 146097 * a + r1" and r1: "r1 = 36524 * b + r2" and r2: "r2 = 1461 * c + r3"
    and r3: "r3 = 365 * e + f"
    by (simp_all add: a_def r1_def b_def r2_def c_def r3_def e_def f_def)
  have bounds: "0 \<le> r1" "r1 < 146097" "0 \<le> r2" "r2 < 36524" "0 \<le> r3" "r3 < 1461" "0 \<le> f" "f < 365"
    by (simp_all add: r1_def r2_def r3_def f_def)
  have pos: "0 \<le> a" "0 \<le> b" "0 \<le> c" "0 \<le> e"
    using assms(1) bounds by (simp_all add: a_def b_def c_def e_def pos_imp_zdiv_nonneg_iff)
  have tops: "b \<le> 4" "c \<le> 24" "e \<le> 4" using bounds r1 r2 r3 by linarith+
  have top: "a \<le> 24" using assms(2) n bounds by linarith
  show ?thesis
  proof (cases "b = 4")
    case True
    then have "r2 = 0" using bounds r1 by linarith
    then have eq: "n = 146097 * a + 146097" using n r1 True by linarith
    then have "a \<le> 23" using assms(2) by linarith
    then show ?thesis
      unfolding eq century_end(1) using pos by (simp add: civil_ok_def century_end(2) december)
  next
    case False
    then have b: "b \<le> 3" using tops by linarith
    show ?thesis
    proof (cases "e = 4")
      case True
      then have "f = 0" and c: "c \<le> 23" using bounds r3 r2 by linarith+
      then have eq: "n = 146097 * a + 36524 * b + 1461 * c + 1461" using n r1 r2 r3 True by linarith
      have "400 * a + 100 * b + 4 * c + 4 \<le> 9999"
      proof (cases "a = 24 \<and> b = 3")
        case True
        then show ?thesis using c by linarith
      next
        case False
        then have "a \<le> 23 \<or> b \<le> 2" using top b by linarith
        then show ?thesis using top b c by linarith
      qed
      then show ?thesis
        unfolding eq leap_year_end(1) [OF pos(2) b pos(3) c]
        using pos by (simp add: civil_ok_def leap_year_end(2) [OF pos(2) b pos(3) c] december)
    next
      case False
      then have e: "e \<le> 3" using tops by linarith
      let ?y = "400 * a + 100 * b + 4 * c + e + 1"
      let ?leap = "is_leap ?y"
      let ?m = "if days_before_month ?leap ((f + 50) div 32) > f then (f + 50) div 32 - 1
        else (f + 50) div 32"
      have eq: "n = 146097 * a + 36524 * b + 1461 * c + 365 * e + f + 1" using n r1 r2 r3 by linarith
      have split: "ord2ymd n = (?y, ?m, f - days_before_month ?leap ?m + 1)"
        unfolding eq using ord2ymd_regular [of b c e f a] pos b tops(2) e bounds r1 r2 r3
        by (simp add: Let_def)
      have month: "1 \<le> ?m \<and> ?m \<le> 12 \<and> 1 \<le> f - days_before_month ?leap ?m + 1 \<and>
          f - days_before_month ?leap ?m + 1 \<le> days_in_month ?leap ?m"
        by (rule month_of_day) (use bounds in simp_all)
      have "days_before_year ?y = 146097 * a + 36524 * b + 1461 * c + 365 * e"
        by (rule days_before_civil_year) (use pos b tops e in simp_all)
      then have ord: "ymd2ord ?y ?m (f - days_before_month ?leap ?m + 1) = n"
        unfolding ymd2ord_def eq by simp
      have "?y \<le> 9999"
      proof (cases "a = 24 \<and> b = 3 \<and> c = 24")
        case True
        then have "365 * e \<le> 1094" using assms(2) eq bounds by linarith
        then show ?thesis using True by linarith
      next
        case False
        then have "a \<le> 23 \<or> b \<le> 2 \<or> c \<le> 23" using top b tops by linarith
        then show ?thesis using top b tops e by linarith
      qed
      with month ord pos show ?thesis unfolding split civil_ok_def prod.case by simp
    qed
  qed
qed

lemma read_number_dec:
  assumes "0 \<le> n" and "n < 10 ^ k"
  shows "read_number k (dec k n @ rest) = Some (n, rest)"
proof -
  have "nat n < 10 ^ k" using assms by (simp add: nat_less_iff)
  then show ?thesis using assms(1)
    by (simp add: read_number_def dec_def value_of_digits_of)
qed

lemma expect_append: "expect pat (pat @ rest) = Some rest"
  by (simp add: expect_def)

lemma expect_Cons: "expect [c] (c # rest) = Some rest"
  by (simp add: expect_def)

lemma read_fraction_written:
  assumes "0 \<le> us" and "us < 1000000"
  shows "read_fraction ((if us = 0 then '''' else ''.'' @ dec 6 us) @ ''+00:00'') = Some (us, ''+00:00'')"
  using assms by (simp add: read_fraction_def expect_def read_number_dec)

lemma clock_parts:
  fixes s :: int
  assumes "0 \<le> s" and "s < 86400"
  shows "0 \<le> s div 3600" "s div 3600 < 24" "0 \<le> s div 60 mod 60" "s div 60 mod 60 < 60"
    "0 \<le> s mod 60" "s mod 60 < 60" "(s div 3600 * 60 + s div 60 mod 60) * 60 + s mod 60 = s"
proof -
  have "s div 3600 = s div 60 div 60" by (simp add: zdiv_zmult2_eq [symmetric])
  then show "(s div 3600 * 60 + s div 60 mod 60) * 60 + s mod 60 = s" by simp
qed (use assms in \<open>simp_all add: pos_imp_zdiv_nonneg_iff\<close>)

lemma fromisoformat_isoformat:
  assumes "instant_ok t"
  shows "fromisoformat other (isoformat t) = Inr t"
proof -
  define n where "n = t div micros_per_day + epoch_ordinal"
  define us where "us = t mod micros_per_day"
  define s where "s = us div 1000000"
  define frac where "frac = us mod 1000000"
  obtain y mo d where ymd: "ord2ymd n = (y, mo, d)" by (metis prod_cases3)
  have civil: "civil_ok n (y, mo, d)"
    using assms ord2ymd_ok [of n] by (simp add: instant_ok_def Let_def ymd n_def [symmetric])
  have "0 \<le> us" "us < 86400000000" by (simp_all add: us_def micros_per_day_def)
  then have s: "0 \<le> s" "s < 86400" by (simp_all add: s_def pos_imp_zdiv_nonneg_iff)
  have frac: "0 \<le> frac" "frac < 1000000" by (simp_all add: frac_def)
  define h where "h = s div 3600"
  define mi where "mi = s div 60 mod 60"
  define sec where "sec = s mod 60"
  note parts = clock_parts [OF s, folded h_def mi_def sec_def]
  have "days_in_month leap mo \<le> 31" for leap by (simp add: days_in_month_def)
  from this [of "is_leap y"] have small: "0 \<le> y" "y < 10 ^ 4" "0 \<le> mo" "mo < 10 ^ 2" "0 \<le> d" "d < 10 ^ 2"
    using civil by (simp_all add: civil_ok_def)
  have clock: "h < 10 ^ 2" "mi < 10 ^ 2" "sec < 10 ^ 2"
    using parts by simp_all
  have written: "isoformat t = dec 4 y @ ''-'' @ dec 2 mo @ ''-'' @ dec 2 d @ ''T'' @
      dec 2 h @ '':'' @ dec 2 mi @ '':'' @ dec 2 sec @
      (if frac = 0 then [] else ''.'' @ dec 6 frac) @ ''+00:00''"
    using ymd unfolding n_def
    by (simp add: isoformat_def Let_def us_def s_def frac_def h_def mi_def sec_def)
  have "read_isoformat (isoformat t) = Some (civil_instant y mo d h mi sec frac)"
    unfolding read_isoformat_def written
    by (simp only: read_number_dec [OF small(1,2)] read_number_dec [OF small(3,4)]
        read_number_dec [OF small(5,6)] read_number_dec [OF parts(1) clock(1)]
        read_number_dec [OF parts(3) clock(2)] read_number_dec [OF parts(5) clock(3)]
        read_fraction_written [OF frac] expect_append Option.bind.simps prod.case simp_thms if_True)
  moreover have "civil_instant y mo d h mi sec frac =
      Inr ((n - epoch_ordinal) * micros_per_day + s * 1000000 + frac)"
    using civil parts unfolding civil_instant_def civil_ok_def prod.case by (simp only: simp_thms if_True)
  moreover have "s * 1000000 + frac = us" by (simp add: s_def frac_def)
  then have "(n - epoch_ordinal) * micros_per_day + s * 1000000 + frac = t"
    using div_mult_mod_eq [of t micros_per_day] unfolding n_def us_def add_diff_cancel_right'
    by (simp only: add.assoc)
  ultimately show ?thesis by (simp add: fromisoformat_def)
qed

end
