(* ===== verification/Json.thy ===== *)
theory Json
  imports Prelude Py_Values
begin

text \<open>
  The values that \<open>json.loads\<close> returns and \<open>json.dumps\<close> takes. A Python \<open>dict\<close> is a list of
  pairs in insertion order; a float is the text that \<open>repr\<close> gives for it. The repositories write
  such a value with \<open>json.dumps\<close> into a JSONB column and \<open>_to_record\<close> / \<open>_to_model\<close> read it back with
  \<open>json.loads\<close>; the tables here hold the value itself. JSONB keeps it up to the order of the keys,
  on which nothing depends, and up to the spelling of floats, and takes neither NaN nor U+0000.
\<close>

datatype json =
    JNull
  | JBool bool
  | JInt int
  | JFloat string
  | JStr string
  | JList "json list"
  | JDict "(string \<times> json) list"

type_synonym json_dict = "(string \<times> json) list"

text \<open>\<open>d.get(k)\<close>, \<open>d[k] = v\<close> and \<open>d.pop(k, None)\<close>.\<close>

definition dict_get :: "(string \<times> 'v) list \<Rightarrow> string \<Rightarrow> 'v option" where
  "dict_get d k = map_of d k"

fun dict_set :: "string \<Rightarrow> 'v \<Rightarrow> (string \<times> 'v) list \<Rightarrow> (string \<times> 'v) list" where
  "dict_set k v [] = [(k, v)]"
| "dict_set k v ((k', v') # d) = (if k' = k then (k, v) # d else (k', v') # dict_set k v d)"

definition dict_pop :: "string \<Rightarrow> (string \<times> 'v) list \<Rightarrow> (string \<times> 'v) list" where
  "dict_pop k d = filter (\<lambda>(k', _). k' \<noteq> k) d"

lemma dict_get_set [simp]: "dict_get (dict_set k v d) k' = (if k = k' then Some v else dict_get d k')"
  by (induction d) (auto simp: dict_get_def)

lemma dict_get_pop [simp]: "dict_get (dict_pop k d) k' = (if k = k' then None else dict_get d k')"
  by (induction d) (auto simp: dict_get_def dict_pop_def)

lemma dict_keys_set: "map fst (dict_set k v d) =
  (if k \<in> set (map fst d) then map fst d else map fst d @ [k])"
  by (induction d) (auto, force)

lemma distinct_dict_set: "distinct (map fst d) \<Longrightarrow> distinct (map fst (dict_set k v d))"
  by (simp add: dict_keys_set)

end
