(* ===== verification/Quiet_Hours.thy ===== *)
theory Quiet_Hours
  imports Prelude
begin

text \<open>
  The pure part of the delivery service: \<open>core/quiet_hours.py\<close> and \<open>core/backoff.py\<close>.

  Dates are day numbers, times of day are microseconds since midnight (the columns are
  PostgreSQL \<open>TIME\<close>, so the \<open>time\<close> objects carry no zone). A zone is what \<open>zoneinfo\<close> keeps:
  the offset before the first transition and the list of transitions, each with the instant
  and the offset after it. Which names denote which zones is the time zone database, a
  parameter \<open>zi\<close> of the definitions.
\<close>

section \<open>Zones of the standard library\<close>

definition day :: int where "day = 86400000000"

record zone =
  zone_offset :: int
  zone_transitions :: "(instant \<times> int) list"

datatype zone_lookup = Zone_Found zone | Zone_Not_Found | Zone_Bad_Key

type_synonym zone_db = "string \<Rightarrow> zone_lookup"

datatype py_datetime = Aware instant | Naive int

fun offset_from :: "int \<Rightarrow> (instant \<times> int) list \<Rightarrow> instant \<Rightarrow> int" where
  "offset_from off [] t = off"
| "offset_from off ((at, off') # ts) t = (if t < at then off else offset_from off' ts t)"

text \<open>
  \<open>zoneinfo\<close> places a wall time against \<open>transition + max(before, after)\<close> when \<open>fold\<close> is 0:
  in a gap and in an overlap alike the offset before the transition is used.
\<close>

fun utc_from :: "int \<Rightarrow> (instant \<times> int) list \<Rightarrow> int \<Rightarrow> instant" where
  "utc_from off [] l = l - off"
| "utc_from off ((at, off') # ts) l =
     (if l < at + max off off' then l - off else utc_from off' ts l)"

definition to_wall :: "zone \<Rightarrow> instant \<Rightarrow> int" where
  "to_wall z t = t + offset_from (zone_offset z) (zone_transitions z) t"

definition from_wall :: "zone \<Rightarrow> int \<Rightarrow> instant" where
  "from_wall z l = utc_from (zone_offset z) (zone_transitions z) l"

definition fixed_zone :: "int \<Rightarrow> zone" where
  "fixed_zone off = \<lparr>zone_offset = off, zone_transitions = []\<rparr>"

section \<open>core/quiet\_hours.py\<close>

text \<open>
  \<open>ZoneInfo\<close> raises \<open>ZoneInfoNotFoundError\<close> for an unknown key; for a key that is not a
  relative, normalised path it raises \<open>ValueError\<close>, which the code does not catch.
\<close>

definition resolve_timezone :: "zone_db \<Rightarrow> string \<Rightarrow> exn + zone \<times> bool" where
  "resolve_timezone zi timezone_name = (case zi timezone_name of
       Zone_Found z \<Rightarrow> Inr (z, True)
     | Zone_Not_Found \<Rightarrow> (case zi ''UTC'' of
           Zone_Found z \<Rightarrow> Inr (z, False)
         | Zone_Not_Found \<Rightarrow> Inl Key_Error
         | Zone_Bad_Key \<Rightarrow> Inl Value_Error)
     | Zone_Bad_Key \<Rightarrow> Inl Value_Error)"

definition is_in_quiet_hours :: "int \<Rightarrow> int \<Rightarrow> int \<Rightarrow> bool" where
  "is_in_quiet_hours current start end' =
     (if start = end' then False
      else if start < end' then start \<le> current \<and> current < end'
      else current \<ge> start \<or> current < end')"

definition compute_quiet_end_date :: "int \<Rightarrow> int \<Rightarrow> int \<Rightarrow> int \<Rightarrow> int" where
  "compute_quiet_end_date current_date local_time start end' =
     (if start < end' then current_date
      else if local_time \<ge> start then current_date + 1
      else current_date)"

text \<open>
  \<open>next_allowed\<close> is the body of \<open>compute_next_allowed_time\<close> after the zone is resolved, over
  the two conversions that it takes from the zone.
\<close>

definition next_allowed ::
  "(instant \<Rightarrow> int) \<Rightarrow> (int \<Rightarrow> instant) \<Rightarrow> instant \<Rightarrow> int \<Rightarrow> int \<Rightarrow> instant" where
  "next_allowed wall unwall now_utc quiet_hours_start quiet_hours_end =
     (let local_now = wall now_utc;
          local_time = local_now mod day;
          local_date = local_now div day
      in if \<not> is_in_quiet_hours local_time quiet_hours_start quiet_hours_end then now_utc
         else let end_date = compute_quiet_end_date local_date local_time
                               quiet_hours_start quiet_hours_end
              in unwall (end_date * day + quiet_hours_end))"

definition compute_next_allowed_time ::
  "zone_db \<Rightarrow> py_datetime \<Rightarrow> string \<Rightarrow> int \<Rightarrow> int \<Rightarrow> exn + instant" where
  "compute_next_allowed_time zi now_utc timezone_name quiet_hours_start quiet_hours_end =
     (case now_utc of
        Naive _ \<Rightarrow> Inl Value_Error
      | Aware t \<Rightarrow> bind_sum (resolve_timezone zi timezone_name) (\<lambda>(tz, _).
          Inr (next_allowed (to_wall tz) (from_wall tz) t quiet_hours_start quiet_hours_end)))"

section \<open>core/backoff.py\<close>

text \<open>\<open>random.randint(lo, hi)\<close> for a draw of the generator: every value from \<open>lo\<close> to \<open>hi\<close>.\<close>

definition py_randint :: "int \<Rightarrow> int \<Rightarrow> int \<Rightarrow> int" where
  "py_randint lo hi draw = lo + draw mod (hi - lo + 1)"

definition compute_backoff_delay :: "int \<Rightarrow> int \<Rightarrow> int \<Rightarrow> int \<Rightarrow> int \<Rightarrow> int" where
  "compute_backoff_delay attempt_no base_delay_seconds max_delay_seconds
       jitter_max_seconds draw =
     (let exp_delay = base_delay_seconds * 2 ^ nat (max (attempt_no - 1) 0);
          jitter = py_randint 0 (max jitter_max_seconds 0) draw
      in min (exp_delay + jitter) max_delay_seconds)"

section \<open>Wall clocks that run steadily for a day\<close>

text \<open>
  What the search for the end of the quiet hours relies on: for a day from \<open>now\<close> the wall
  clock advances with the instants, and the conversion back undoes it.
\<close>

definition quiet_at :: "(instant \<Rightarrow> int) \<Rightarrow> int \<Rightarrow> int \<Rightarrow> instant \<Rightarrow> bool" where
  "quiet_at wall start end' u = is_in_quiet_hours (wall u mod day) start end'"

definition time_of_day :: "int \<Rightarrow> bool" where
  "time_of_day x \<longleftrightarrow> 0 \<le> x \<and> x < day"

lemma mod_day_advance:
  assumes "0 \<le> k" and "k \<le> day"
  shows "(w + k) mod day = (if w mod day + k < day then w mod day + k else w mod day + k - day)"
proof -
  have w: "0 \<le> w mod day" "w mod day < day" by (simp_all add: day_def)
  have "(w + k) mod day = (w mod day + k) mod day" by (simp add: mod_add_left_eq)
  also have "\<dots> = (if w mod day + k < day then w mod day + k else w mod day + k - day)"
  proof (cases "w mod day + k < day")
    case True
    with w assms show ?thesis by (simp add: mod_pos_pos_trivial)
  next
    case False
    have "(w mod day + k) mod day = (w mod day + k - day) mod day"
      by (simp add: mod_diff_right_eq)
    also have "\<dots> = w mod day + k - day"
      using False w assms by (intro mod_pos_pos_trivial) auto
    finally show ?thesis using False by simp
  qed
  finally show ?thesis .
qed

locale wall_clock =
  fixes wall :: "instant \<Rightarrow> int" and unwall :: "int \<Rightarrow> instant" and now :: instant
  assumes wall_steady: "0 \<le> k \<Longrightarrow> k \<le> day \<Longrightarrow> wall (now + k) = wall now + k"
    and unwall_steady: "0 \<le> k \<Longrightarrow> k \<le> day \<Longrightarrow> unwall (wall now + k) = now + k"
begin

definition wait :: "int \<Rightarrow> int \<Rightarrow> int" where
  "wait start end' =
     (let local_time = wall now mod day
      in if \<not> is_in_quiet_hours local_time start end' then 0
         else if start < end' \<or> local_time < start then end' - local_time
         else day - local_time + end')"

lemma wait_range:
  assumes "time_of_day start" and "time_of_day end'"
  shows "0 \<le> wait start end' \<and> wait start end' < day"
  using assms pos_mod_sign [of day "wall now"] pos_mod_bound [of day "wall now"]
  by (auto simp: wait_def Let_def is_in_quiet_hours_def time_of_day_def day_def split: if_splits)

lemma next_allowed_wait:
  assumes "time_of_day start" and "time_of_day end'"
  shows "next_allowed wall unwall now start end' = now + wait start end'"
proof -
  define d where "d = wall now div day"
  define lt where "lt = wall now mod day"
  have w: "wall now = d * day + lt" by (simp add: d_def lt_def)
  have r: "0 \<le> wait start end'" "wait start end' \<le> day"
    using wait_range [OF assms] by auto
  show ?thesis
  proof (cases "is_in_quiet_hours lt start end'")
    case False
    then show ?thesis by (simp add: next_allowed_def wait_def Let_def lt_def)
  next
    case True
    have "wait start end' = (if start < end' \<or> lt < start then end' - lt else day - lt + end')"
      using True by (simp add: wait_def lt_def)
    then have "compute_quiet_end_date d lt start end' * day + end' = wall now + wait start end'"
      by (auto simp: w compute_quiet_end_date_def algebra_simps)
    with True show ?thesis
      by (simp add: next_allowed_def Let_def d_def lt_def unwall_steady [OF r])
  qed
qed

lemma quiet_until:
  assumes "time_of_day start" and "time_of_day end'" and "0 \<le> k" and "k < wait start end'"
  shows "quiet_at wall start end' (now + k)"
proof -
  have k: "k \<le> day" using wait_range [OF assms(1,2)] assms(4) by auto
  have lt: "0 \<le> wall now mod day" "wall now mod day < day" by (simp_all add: day_def)
  show ?thesis
    using assms lt
    unfolding quiet_at_def wall_steady [OF assms(3) k] mod_day_advance [OF assms(3) k]
    by (auto simp: wait_def Let_def is_in_quiet_hours_def time_of_day_def split: if_splits)
qed

lemma allowed_after:
  assumes "time_of_day start" and "time_of_day end'"
  shows "\<not> quiet_at wall start end' (now + wait start end')"
proof -
  have r: "0 \<le> wait start end'" "wait start end' \<le> day"
    using wait_range [OF assms] by auto
  have lt: "0 \<le> wall now mod day" "wall now mod day < day" by (simp_all add: day_def)
  show ?thesis
    using assms lt
    unfolding quiet_at_def wall_steady [OF r] mod_day_advance [OF r]
    by (auto simp: wait_def Let_def is_in_quiet_hours_def time_of_day_def split: if_splits)
qed

text \<open>The result is the first instant from \<open>now\<close> on that is outside the quiet hours.\<close>

lemma next_allowed_first:
  assumes "time_of_day start" and "time_of_day end'"
  defines "r \<equiv> next_allowed wall unwall now start end'"
  shows "now \<le> r \<and> r < now + day \<and> \<not> quiet_at wall start end' r \<and>
    (\<forall>u. now \<le> u \<and> u < r \<longrightarrow> quiet_at wall start end' u)"
proof -
  have r: "r = now + wait start end'" unfolding r_def by (rule next_allowed_wait [OF assms(1,2)])
  have "quiet_at wall start end' u" if "now \<le> u" "u < r" for u
    using quiet_until [OF assms(1,2), of "u - now"] that r by simp
  then show ?thesis
    using wait_range [OF assms(1,2)] allowed_after [OF assms(1,2)] r by auto
qed

end

text \<open>A zone with one offset is such a clock at every instant; UTC is one of them.\<close>

interpretation fixed: wall_clock "to_wall (fixed_zone off)" "from_wall (fixed_zone off)" now
  for off now
  by unfold_locales (simp_all add: to_wall_def from_wall_def fixed_zone_def)

text \<open>
  So is any zone with no transition in the next day, nor closer behind than the largest
  difference between two of its offsets.
\<close>

definition zone_offsets :: "zone \<Rightarrow> int list" where
  "zone_offsets z = zone_offset z # map snd (zone_transitions z)"

definition zone_span :: "zone \<Rightarrow> int" where
  "zone_span z = fold max (zone_offsets z) (zone_offset z) - fold min (zone_offsets z) (zone_offset z)"

definition calm :: "zone \<Rightarrow> instant \<Rightarrow> bool" where
  "calm z now = list_all (\<lambda>(at, _). at \<le> now - zone_span z \<or> now + day < at) (zone_transitions z)"

text \<open>The offsets of a zone lie between its least and its largest one.\<close>

lemma fold_max_ge: "x \<in> set xs \<or> x = m \<Longrightarrow> x \<le> fold max xs (m :: int)"
proof (induction xs arbitrary: m x)
  case Nil
  then show ?case by simp
next
  case (Cons y ys)
  show ?case
  proof (cases "x \<in> set ys")
    case True
    then show ?thesis using Cons.IH [of x "max y m"] by simp
  next
    case False
    with Cons.prems have "x \<le> max y m" by auto
    also have "\<dots> \<le> fold max ys (max y m)" using Cons.IH [of "max y m" "max y m"] by simp
    finally show ?thesis by simp
  qed
qed

lemma fold_min_le: "x \<in> set xs \<or> x = m \<Longrightarrow> fold min xs (m :: int) \<le> x"
proof (induction xs arbitrary: m x)
  case Nil
  then show ?case by simp
next
  case (Cons y ys)
  show ?case
  proof (cases "x \<in> set ys")
    case True
    then show ?thesis using Cons.IH [of x "min y m"] by simp
  next
    case False
    have "fold min ys (min y m) \<le> min y m" using Cons.IH [of "min y m" "min y m"] by simp
    also have "\<dots> \<le> x" using False Cons.prems by auto
    finally show ?thesis by simp
  qed
qed

lemma offset_from_in: "offset_from off ts t \<in> insert off (snd ` set ts)"
  by (induction off ts t rule: offset_from.induct) auto

lemma offset_from_calm:
  assumes "\<forall>(at, off') \<in> set ts. at \<le> now \<or> now + day < at" and "0 \<le> k" and "k \<le> day"
  shows "offset_from off ts (now + k) = offset_from off ts now"
  using assms by (induction off ts now rule: offset_from.induct) auto

lemma utc_from_calm:
  assumes "\<forall>(at, off') \<in> set ts. at \<le> now - (hi - lo) \<or> now + day < at"
    and "\<forall>o' \<in> insert off (snd ` set ts). lo \<le> o' \<and> o' \<le> hi"
    and "0 \<le> k" and "k \<le> day"
  shows "utc_from off ts (now + k + offset_from off ts now) = now + k"
  using assms
proof (induction off ts now rule: offset_from.induct)
  case (1 off t)
  then show ?case by simp
next
  case (2 off at off' ts t)
  have span: "lo \<le> hi" using "2.prems"(2) by auto
  show ?case
  proof (cases "t < at")
    case True
    with "2.prems" span have "t + day < at" by auto
    with True "2.prems" show ?thesis by auto
  next
    case False
    with "2.prems" have at: "at \<le> t - (hi - lo)" by (auto simp: day_def)
    have o: "lo \<le> offset_from off' ts t"
      using offset_from_in [of off' ts t] "2.prems"(2) by auto
    have "max off off' \<le> hi" using "2.prems"(2) by auto
    with at o "2.prems"(3) have "\<not> t + k + offset_from off' ts t < at + max off off'" by linarith
    with False "2.IH" [OF False] "2.prems" show ?thesis by simp
  qed
qed

lemma calm_wall_clock:
  assumes "calm z now"
  shows "wall_clock (to_wall z) (from_wall z) now"
proof -
  let ?hi = "fold max (zone_offsets z) (zone_offset z)"
  let ?lo = "fold min (zone_offsets z) (zone_offset z)"
  have bounds: "\<forall>o' \<in> insert (zone_offset z) (snd ` set (zone_transitions z)). ?lo \<le> o' \<and> o' \<le> ?hi"
    by (intro ballI conjI fold_max_ge fold_min_le) (auto simp: zone_offsets_def image_iff)
  then have "0 \<le> zone_span z" by (auto simp: zone_span_def)
  with assms have steady: "\<forall>(at, off') \<in> set (zone_transitions z). at \<le> now \<or> now + day < at"
    by (fastforce simp: calm_def list_all_iff)
  have far: "\<forall>(at, off') \<in> set (zone_transitions z). at \<le> now - (?hi - ?lo) \<or> now + day < at"
    using assms by (auto simp: calm_def list_all_iff zone_span_def)
  show ?thesis
    using offset_from_calm [OF steady] utc_from_calm [OF far bounds]
    by unfold_locales (simp_all add: to_wall_def from_wall_def ac_simps)
qed

section \<open>Properties\<close>

text \<open>
  C1: \<open>compute_next_allowed_time\<close> returns the first instant, from \<open>now\<close> on, whose local time
  is outside the quiet hours, less than a day ahead, for every zone that changes its offset
  neither in the next day nor just before, and for every interval, wrapping midnight or not.
\<close>

theorem next_allowed_time_is_first:
  assumes "zi name = Zone_Found z" and "calm z t"
    and "time_of_day start" and "time_of_day end'"
  shows "\<exists>r. compute_next_allowed_time zi (Aware t) name start end' = Inr r \<and>
    t \<le> r \<and> r < t + day \<and> \<not> quiet_at (to_wall z) start end' r \<and>
    (\<forall>u. t \<le> u \<and> u < r \<longrightarrow> quiet_at (to_wall z) start end' u)"
  using wall_clock.next_allowed_first [OF calm_wall_clock [OF assms(2)] assms(3,4)]
  by (simp add: compute_next_allowed_time_def resolve_timezone_def assms(1))

definition hour :: int where "hour = 3600000000"

definition zurich_spring_2026 :: zone where
  "zurich_spring_2026 = \<lparr>zone_offset = hour, zone_transitions = [(1774746000000000, 2 * hour)]\<rparr>"

theorem next_allowed_time_is_first_witness:
  "calm zurich_spring_2026 1767310200000000 \<and>
   (\<exists>r. compute_next_allowed_time (\<lambda>_. Zone_Found zurich_spring_2026) (Aware 1767310200000000)
      ''Europe/Zurich'' (22 * hour) (7 * hour) = Inr r \<and> 1767310200000000 \<le> r)"
proof -
  have c: "calm zurich_spring_2026 1767310200000000"
    by (simp add: calm_def zone_span_def zone_offsets_def zurich_spring_2026_def hour_def day_def)
  have t: "time_of_day (22 * hour)" "time_of_day (7 * hour)"
    by (simp_all add: time_of_day_def hour_def day_def)
  show ?thesis
    using c next_allowed_time_is_first
      [where zi = "\<lambda>_. Zone_Found zurich_spring_2026" and name = "''Europe/Zurich''",
        OF refl c t] by blast
qed

text \<open>
  After the clock is set back, in the second pass through the repeated hour, a quiet
  interval that ends in that hour yields a result in the past: the local time is quiet, and
  the next allowed time that the code computes is before \<open>now\<close>.
\<close>

lemma overlap_yields_past:
  assumes zone: "z = \<lparr>zone_offset = off, zone_transitions = [(at, off')]\<rparr>"
    and now: "at \<le> t" and quiet: "quiet_at (to_wall z) start end' t"
    and end_wall: "end_wall = compute_quiet_end_date (to_wall z t div day) (to_wall z t mod day)
      start end' * day + end'"
    and in_overlap: "end_wall < at + off" and ends_soon: "end_wall - off < t"
  shows "next_allowed (to_wall z) (from_wall z) t start end' < t"
proof -
  have "next_allowed (to_wall z) (from_wall z) t start end' = from_wall z end_wall"
    using quiet by (simp add: next_allowed_def quiet_at_def Let_def end_wall)
  also have "end_wall < at + max off off'" using in_overlap by linarith
  then have "from_wall z end_wall = end_wall - off" by (simp add: from_wall_def zone)
  finally show ?thesis using ends_soon by simp
qed

definition zurich_autumn_2026 :: zone where
  "zurich_autumn_2026 = \<lparr>zone_offset = 2 * hour, zone_transitions = [(1792890000000000, hour)]\<rparr>"

lemma overlap_yields_past_witness:
  "quiet_at (to_wall zurich_autumn_2026) (22 * hour) (2 * hour + hour div 2) 1792890900000000 \<and>
   next_allowed (to_wall zurich_autumn_2026) (from_wall zurich_autumn_2026) 1792890900000000
     (22 * hour) (2 * hour + hour div 2) < 1792890900000000"
proof -
  let ?z = zurich_autumn_2026 and ?e = "2 * hour + hour div 2"
  have q: "quiet_at (to_wall ?z) (22 * hour) ?e 1792890900000000"
    by (simp add: quiet_at_def is_in_quiet_hours_def to_wall_def zurich_autumn_2026_def hour_def
        day_def)
  have "next_allowed (to_wall ?z) (from_wall ?z) 1792890900000000 (22 * hour) ?e
      < 1792890900000000"
    by (rule overlap_yields_past [OF zurich_autumn_2026_def _ q refl])
      (simp_all add: compute_quiet_end_date_def to_wall_def zurich_autumn_2026_def hour_def day_def)
  with q show ?thesis by simp
qed

lemma py_randint_range:
  assumes "lo \<le> hi"
  shows "lo \<le> py_randint lo hi draw \<and> py_randint lo hi draw \<le> hi"
  using assms pos_mod_sign [of "hi - lo + 1" draw] pos_mod_bound [of "hi - lo + 1" draw]
  by (simp add: py_randint_def)

lemma backoff_delay_ge:
  "min (base * 2 ^ nat (max (n - 1) 0)) cap \<le> compute_backoff_delay n base cap jitter draw"
proof -
  have "0 \<le> py_randint 0 (max jitter 0) draw" using py_randint_range [of 0 "max jitter 0" draw] by simp
  then show ?thesis
    unfolding compute_backoff_delay_def Let_def by (intro min.mono) simp_all
qed

text \<open>
  The retry delay never exceeds the cap, is at least the exponential delay unless
  capped, exceeds it by at most the jitter, and never decreases with the attempt number.
\<close>

lemma backoff_delay_bounds:
  assumes "0 \<le> base" and "n \<le> m"
  defines "expo \<equiv> \<lambda>k. base * 2 ^ nat (max (k - 1) 0)"
  shows "compute_backoff_delay n base cap jitter draw \<le> cap \<and>
    min (expo n) cap \<le> compute_backoff_delay n base cap jitter draw \<and>
    compute_backoff_delay n base cap jitter draw \<le> expo n + max jitter 0 \<and>
    compute_backoff_delay n base cap jitter draw \<le> compute_backoff_delay m base cap jitter draw"
proof -
  have j: "0 \<le> py_randint 0 (max jitter 0) draw" "py_randint 0 (max jitter 0) draw \<le> max jitter 0"
    using py_randint_range [of 0 "max jitter 0" draw] by simp_all
  have "(2::int) ^ nat (max (n - 1) 0) \<le> 2 ^ nat (max (m - 1) 0)"
    using assms(2) by (intro power_increasing) auto
  then have "expo n \<le> expo m"
    unfolding expo_def using assms(1) by (rule mult_left_mono)
  moreover have "compute_backoff_delay k base cap jitter draw =
      min (expo k + py_randint 0 (max jitter 0) draw) cap" for k
    by (simp add: compute_backoff_delay_def expo_def Let_def)
  ultimately show ?thesis using j by (auto simp: min_def)
qed

end
