(* ===== verification/Delivery_Store.thy ===== *)
theory Delivery_Store
  imports Json Quiet_Hours
begin

text \<open>
  The tables of the delivery service (\<open>migrations/001\_init.sql\<close>, \<open>002\_...sql\<close>), its record
  types, its metrics and its two repositories. A statement is the SQL text of the repository
  on the list of rows; \<open>TEXT\<close> columns with a \<open>CHECK\<close> are datatypes of the admitted values
  (\<open>status\<close>), or strings with the check in the statement (\<open>channel\<close>).
\<close>

section \<open>Records and tables\<close>

datatype attempt_status = Att_Pending | Att_Sent | Att_Failed | Att_Dead

record delivery_attempt =
  att_id :: uuid
  att_notification_id :: uuid
  att_user_id :: uuid
  att_channel :: string
  att_payload :: json_dict
  att_quiet_hours_start :: "int option"
  att_quiet_hours_end :: "int option"
  att_timezone :: string
  att_status :: attempt_status
  att_attempt_no :: int
  att_last_error_code :: "string option"
  att_last_error_message :: "string option"
  att_next_retry_at :: "instant option"
  att_created_at :: instant
  att_updated_at :: instant

record processed_event =
  pev_event_id :: uuid
  pev_subject :: string
  pev_processed_at :: instant

record delivery_db =
  db_attempts :: "delivery_attempt list"
  db_processed :: "processed_event list"

section \<open>Metrics\<close>

text \<open>Durations are microseconds: exact where the code adds floats.\<close>

record delivery_metrics =
  dm_attempts_created :: "(string \<times> int) list"
  dm_sent :: int
  dm_failed :: int
  dm_dead :: int
  dm_delayed_quiet_hours :: "(string \<times> int) list"
  dm_delay_sum :: int
  dm_delay_count :: int
  dm_fetch_latency_sum :: int
  dm_fetch_latency_count :: int
  dm_jetstream_processed :: int

definition counter_get :: "string \<Rightarrow> (string \<times> int) list \<Rightarrow> int" where
  "counter_get k d = (case dict_get d k of None \<Rightarrow> 0 | Some v \<Rightarrow> v)"

definition inc_attempts_created :: "string \<Rightarrow> int \<Rightarrow> delivery_metrics \<Rightarrow> delivery_metrics" where
  "inc_attempts_created channel value m =
     (if value \<le> 0 then m
      else m\<lparr>dm_attempts_created :=
        dict_set channel (counter_get channel (dm_attempts_created m) + value)
          (dm_attempts_created m)\<rparr>)"

definition inc_sent :: "delivery_metrics \<Rightarrow> delivery_metrics" where
  "inc_sent m = m\<lparr>dm_sent := dm_sent m + 1\<rparr>"

definition inc_failed :: "delivery_metrics \<Rightarrow> delivery_metrics" where
  "inc_failed m = m\<lparr>dm_failed := dm_failed m + 1\<rparr>"

definition inc_dead :: "delivery_metrics \<Rightarrow> delivery_metrics" where
  "inc_dead m = m\<lparr>dm_dead := dm_dead m + 1\<rparr>"

definition inc_delayed_quiet_hours :: "string \<Rightarrow> delivery_metrics \<Rightarrow> delivery_metrics" where
  "inc_delayed_quiet_hours channel m = m\<lparr>dm_delayed_quiet_hours :=
     dict_set channel (counter_get channel (dm_delayed_quiet_hours m) + 1)
       (dm_delayed_quiet_hours m)\<rparr>"

definition observe_delivery_delay :: "int \<Rightarrow> delivery_metrics \<Rightarrow> delivery_metrics" where
  "observe_delivery_delay seconds m = (let s = (if seconds < 0 then 0 else seconds)
     in m\<lparr>dm_delay_sum := dm_delay_sum m + s, dm_delay_count := dm_delay_count m + 1\<rparr>)"

definition observe_subscriptions_fetch_latency :: "int \<Rightarrow> delivery_metrics \<Rightarrow> delivery_metrics" where
  "observe_subscriptions_fetch_latency seconds m =
     m\<lparr>dm_fetch_latency_sum := dm_fetch_latency_sum m + seconds,
       dm_fetch_latency_count := dm_fetch_latency_count m + 1\<rparr>"

definition inc_jetstream_processed :: "delivery_metrics \<Rightarrow> delivery_metrics" where
  "inc_jetstream_processed m = m\<lparr>dm_jetstream_processed := dm_jetstream_processed m + 1\<rparr>"

definition empty_delivery_metrics :: delivery_metrics where
  "empty_delivery_metrics = \<lparr>dm_attempts_created = [], dm_sent = 0, dm_failed = 0, dm_dead = 0,
     dm_delayed_quiet_hours = [], dm_delay_sum = 0, dm_delay_count = 0,
     dm_fetch_latency_sum = 0, dm_fetch_latency_count = 0, dm_jetstream_processed = 0\<rparr>"

section \<open>The world of a worker\<close>

text \<open>
  Beside the session: the clock, the metrics, the jobs put on the arq queue, the events
  published to JetStream, the draws of \<open>random\<close>, whether Redis takes a job and whether
  JetStream takes a message on a subject, and the log of the sends handed to a provider
  (attempt, and whether it was accepted), which no code reads. The first argument of every
  job is \<open>str(attempt.id)\<close>, which the job reads back with \<open>UUID\<close>: it is kept as the UUID.
\<close>

record arq_job =
  job_function :: string
  job_attempt :: uuid
  job_channel :: "string option"
  job_defer_by :: "int option"

record delivery_world = "delivery_db conn_world" +
  dw_clock :: instant
  dw_metrics :: delivery_metrics
  dw_jobs :: "arq_job list"
  dw_published :: "(string \<times> json_dict) list"
  dw_random :: "nat \<Rightarrow> int"
  dw_random_drawn :: nat
  dw_redis_up :: bool
  dw_nats_accepts :: "string \<Rightarrow> bool"
  dw_sends :: "(uuid \<times> bool) list"

definition metric :: "(delivery_metrics \<Rightarrow> delivery_metrics) \<Rightarrow> (delivery_world, unit) eff" where
  "metric f = modify (\<lambda>w. w\<lparr>dw_metrics := f (dw_metrics w)\<rparr>)"

definition random_draw :: "(delivery_world, int) eff" where
  "random_draw = (\<lambda>w. (Inr (dw_random w (dw_random_drawn w)),
     w\<lparr>dw_random_drawn := Suc (dw_random_drawn w)\<rparr>))"

definition enqueue_job ::
  "string \<Rightarrow> uuid \<Rightarrow> string option \<Rightarrow> int option \<Rightarrow> (delivery_world, unit) eff" where
  "enqueue_job name attempt channel defer_by = (\<lambda>w. if dw_redis_up w
     then (Inr (), w\<lparr>dw_jobs := dw_jobs w @
       [\<lparr>job_function = name, job_attempt = attempt, job_channel = channel, job_defer_by = defer_by\<rparr>]\<rparr>)
     else (Inl (Runtime_Error ''redis''), w))"

definition publish_json :: "string \<Rightarrow> json_dict \<Rightarrow> (delivery_world, unit) eff" where
  "publish_json subject payload = (\<lambda>w. if dw_nats_accepts w subject
     then (Inr (), w\<lparr>dw_published := dw_published w @ [(subject, payload)]\<rparr>)
     else (Inl (Publish_Error subject), w))"

lemma metric_run [eff_simps]: "metric f w = (Inr (), w\<lparr>dw_metrics := f (dw_metrics w)\<rparr>)"
  by (simp add: metric_def modify_def)

lemma random_draw_run [eff_simps]: "random_draw w = (Inr (dw_random w (dw_random_drawn w)),
    w\<lparr>dw_random_drawn := Suc (dw_random_drawn w)\<rparr>)"
  by (simp add: random_draw_def)

lemma enqueue_job_run [eff_simps]: "enqueue_job name attempt channel defer_by w = (if dw_redis_up w
    then (Inr (), w\<lparr>dw_jobs := dw_jobs w @
      [\<lparr>job_function = name, job_attempt = attempt, job_channel = channel, job_defer_by = defer_by\<rparr>]\<rparr>)
    else (Inl (Runtime_Error ''redis''), w))"
  by (simp add: enqueue_job_def)

lemma publish_json_run [eff_simps]: "publish_json subject payload w = (if dw_nats_accepts w subject
    then (Inr (), w\<lparr>dw_published := dw_published w @ [(subject, payload)]\<rparr>)
    else (Inl (Publish_Error subject), w))"
  by (simp add: publish_json_def)

section \<open>repositories/delivery\_attempts.py\<close>

definition allowed_channels :: "string list" where
  "allowed_channels = [''push'', ''email'', ''web'']"

definition attempt_key :: "delivery_attempt \<Rightarrow> uuid \<times> uuid \<times> string" where
  "attempt_key a = (att_notification_id a, att_user_id a, att_channel a)"

definition insert_attempt :: "delivery_attempt \<Rightarrow> (delivery_db, delivery_attempt) stmt" where
  "insert_attempt a d =
     (if att_channel a \<notin> set allowed_channels then Inl check_violation
      else if att_id a \<in> set (map att_id (db_attempts d)) then Inl unique_violation
      else if attempt_key a \<in> set (map attempt_key (db_attempts d)) then Inl unique_violation
      else Inr (a, d\<lparr>db_attempts := db_attempts d @ [a]\<rparr>))"

definition create_or_get ::
  "uuid \<Rightarrow> uuid \<Rightarrow> uuid \<Rightarrow> string \<Rightarrow> json_dict \<Rightarrow> int option \<Rightarrow> int option \<Rightarrow> string \<Rightarrow>
   (delivery_world, delivery_attempt \<times> bool) eff" where
  "create_or_get attempt_id notification_id user_id channel payload
       quiet_hours_start quiet_hours_end timezone =
     catch
       (and_then (gets cw_now) (\<lambda>now.
        and_then (sql (insert_attempt
          \<lparr>att_id = attempt_id, att_notification_id = notification_id, att_user_id = user_id,
           att_channel = channel, att_payload = payload,
           att_quiet_hours_start = quiet_hours_start, att_quiet_hours_end = quiet_hours_end,
           att_timezone = timezone, att_status = Att_Pending, att_attempt_no = 0,
           att_last_error_code = None, att_last_error_message = None, att_next_retry_at = None,
           att_created_at = now, att_updated_at = now\<rparr>)) (\<lambda>row.
        ret (row, True))))
       (\<lambda>exc. if exc \<noteq> unique_violation then raise exc
         else and_then (sql (query (\<lambda>d. find_row
             (\<lambda>r. attempt_key r = (notification_id, user_id, channel)) (db_attempts d)))) (\<lambda>row.
           case row of None \<Rightarrow> raise Type_Error | Some r \<Rightarrow> ret (r, False)))"

definition get_for_update :: "uuid \<Rightarrow> (delivery_world, delivery_attempt option) eff" where
  "get_for_update attempt_id =
     sql (query (\<lambda>d. find_row (\<lambda>r. att_id r = attempt_id) (db_attempts d)))"

definition update_attempt ::
  "uuid \<Rightarrow> (delivery_attempt \<Rightarrow> delivery_attempt) \<Rightarrow> (delivery_world, unit) eff" where
  "update_attempt attempt_id f = sql (\<lambda>d. Inr ((),
     d\<lparr>db_attempts := update_where (\<lambda>r. att_id r = attempt_id) f (db_attempts d)\<rparr>))"

text \<open>The \<open>SET\<close> clauses of the three updates, then the methods.\<close>

definition set_sent :: "instant \<Rightarrow> delivery_attempt \<Rightarrow> delivery_attempt" where
  "set_sent now r = r\<lparr>att_status := Att_Sent, att_updated_at := now, att_next_retry_at := None,
     att_last_error_code := None, att_last_error_message := None\<rparr>"

definition set_delayed ::
  "instant \<Rightarrow> string \<Rightarrow> string \<Rightarrow> instant \<Rightarrow> delivery_attempt \<Rightarrow> delivery_attempt" where
  "set_delayed next_retry_at error_code error_message now r =
     r\<lparr>att_status := Att_Failed, att_last_error_code := Some error_code,
       att_last_error_message := Some error_message, att_next_retry_at := Some next_retry_at,
       att_updated_at := now\<rparr>"

definition set_failed ::
  "attempt_status \<Rightarrow> int \<Rightarrow> string \<Rightarrow> string \<Rightarrow> instant option \<Rightarrow> instant \<Rightarrow>
   delivery_attempt \<Rightarrow> delivery_attempt" where
  "set_failed status attempt_no error_code error_message next_retry_at now r =
     r\<lparr>att_status := status, att_attempt_no := attempt_no,
       att_last_error_code := Some error_code, att_last_error_message := Some error_message,
       att_next_retry_at := next_retry_at, att_updated_at := now\<rparr>"

definition mark_sent :: "uuid \<Rightarrow> (delivery_world, unit) eff" where
  "mark_sent attempt_id =
     and_then (gets cw_now) (\<lambda>now. update_attempt attempt_id (set_sent now))"

definition mark_delayed ::
  "uuid \<Rightarrow> instant \<Rightarrow> string \<Rightarrow> string \<Rightarrow> (delivery_world, unit) eff" where
  "mark_delayed attempt_id next_retry_at error_code error_message =
     and_then (gets cw_now) (\<lambda>now. update_attempt attempt_id
       (set_delayed next_retry_at error_code (take 512 error_message) now))"

definition mark_failed ::
  "uuid \<Rightarrow> int \<Rightarrow> string \<Rightarrow> string \<Rightarrow> instant option \<Rightarrow> bool \<Rightarrow> (delivery_world, unit) eff" where
  "mark_failed attempt_id attempt_no error_code error_message next_retry_at dead =
     (let status = (if dead then Att_Dead else Att_Failed)
      in and_then (gets cw_now) (\<lambda>now. update_attempt attempt_id
        (set_failed status attempt_no error_code (take 512 error_message) next_retry_at now)))"

lemma set_rows_identity [simp]:
  "att_id (set_sent now r) = att_id r" "attempt_key (set_sent now r) = attempt_key r"
  "att_id (set_delayed q c m now r) = att_id r" "attempt_key (set_delayed q c m now r) = attempt_key r"
  "att_id (set_failed s n c m qo now r) = att_id r"
  "attempt_key (set_failed s n c m qo now r) = attempt_key r"
  by (simp_all add: set_sent_def set_delayed_def set_failed_def attempt_key_def)

lemma update_attempt_run [eff_simps]:
  "cw_tx w \<noteq> Tx_Failed \<Longrightarrow> update_attempt x f w = (Inr (), w\<lparr>cw_db := (cw_db w)\<lparr>db_attempts :=
     update_where (\<lambda>r. att_id r = x) f (db_attempts (cw_db w))\<rparr>\<rparr>)"
  by (simp add: update_attempt_def eff_simps)

section \<open>repositories/processed\_events.py\<close>

definition insert_processed_event ::
  "uuid \<Rightarrow> string \<Rightarrow> instant \<Rightarrow> (delivery_db, unit) stmt" where
  "insert_processed_event event_id subject now d =
     (if event_id \<in> set (map pev_event_id (db_processed d)) then Inl unique_violation
      else Inr ((), d\<lparr>db_processed := db_processed d @
        [\<lparr>pev_event_id = event_id, pev_subject = subject, pev_processed_at = now\<rparr>]\<rparr>))"

definition try_mark_processed :: "uuid \<Rightarrow> string \<Rightarrow> (delivery_world, bool) eff" where
  "try_mark_processed event_id subject =
     catch
       (and_then (gets cw_now) (\<lambda>now.
        and_then (sql (insert_processed_event event_id subject now)) (\<lambda>_. ret True)))
       (\<lambda>exc. if exc = unique_violation then ret False else raise exc)"

section \<open>What the tables always satisfy\<close>

definition attempt_ok :: "delivery_attempt \<Rightarrow> bool" where
  "attempt_ok a \<longleftrightarrow> att_channel a \<in> set allowed_channels \<and> 0 \<le> att_attempt_no a \<and>
     (att_status a = Att_Pending \<longrightarrow> att_attempt_no a = 0 \<and> att_next_retry_at a = None) \<and>
     (att_status a = Att_Failed \<longrightarrow> att_next_retry_at a \<noteq> None) \<and>
     (att_status a \<in> {Att_Sent, Att_Dead} \<longrightarrow> att_next_retry_at a = None)"

definition delivery_tables_ok :: "delivery_db \<Rightarrow> bool" where
  "delivery_tables_ok d \<longleftrightarrow> distinct (map att_id (db_attempts d)) \<and>
     distinct (map attempt_key (db_attempts d)) \<and>
     distinct (map pev_event_id (db_processed d)) \<and> (\<forall>a \<in> set (db_attempts d). attempt_ok a)"

text \<open>An update by \<open>id\<close> that keeps the row's identity keeps the tables' constraints.\<close>

definition same_identity :: "delivery_attempt \<Rightarrow> delivery_attempt \<Rightarrow> bool" where
  "same_identity a b \<longleftrightarrow> att_id a = att_id b \<and> attempt_key a = attempt_key b"

lemma same_identity_set [simp]:
  "same_identity (set_sent now r) r" "same_identity (set_delayed q c m now r) r"
  "same_identity (set_failed st n c m qo now r) r"
  by (simp_all add: same_identity_def)

lemma attempt_ok_set [simp]:
  "attempt_ok a \<Longrightarrow> attempt_ok (set_sent now a)"
  "attempt_ok a \<Longrightarrow> attempt_ok (set_delayed q c m now a)"
  "attempt_ok a \<Longrightarrow> attempt_ok (set_failed Att_Dead (att_attempt_no a + 1) c m None now a)"
  "attempt_ok a \<Longrightarrow> attempt_ok (set_failed Att_Failed (att_attempt_no a + 1) c m (Some q) now a)"
  by (auto simp: attempt_ok_def set_sent_def set_delayed_def set_failed_def)

lemma tables_ok_update:
  assumes "delivery_tables_ok d" and "\<And>r. same_identity (f r) r"
    and "\<And>r. r \<in> set (db_attempts d) \<Longrightarrow> att_id r = x \<Longrightarrow> attempt_ok r \<Longrightarrow> attempt_ok (f r)"
  shows "delivery_tables_ok
    (d\<lparr>db_attempts := update_where (\<lambda>r. att_id r = x) f (db_attempts d)\<rparr>)"
proof -
  have ids: "map att_id (update_where (\<lambda>r. att_id r = x) f (db_attempts d)) =
      map att_id (db_attempts d)"
    and keys: "map attempt_key (update_where (\<lambda>r. att_id r = x) f (db_attempts d)) =
      map attempt_key (db_attempts d)"
    using assms(2) by (auto intro!: map_update_where simp: same_identity_def)
  have "\<forall>a \<in> set (update_where (\<lambda>r. att_id r = x) f (db_attempts d)). attempt_ok a"
    using assms(1,3) by (auto simp: set_update_where delivery_tables_ok_def)
  with assms(1) ids keys show ?thesis by (simp add: delivery_tables_ok_def)
qed

lemma tables_ok_insert_attempt:
  assumes "delivery_tables_ok d" and "attempt_ok a" and "insert_attempt a d = Inr (row, d')"
  shows "delivery_tables_ok d' \<and> row = a \<and> db_attempts d' = db_attempts d @ [a] \<and>
    db_processed d' = db_processed d"
  using assms by (auto simp: insert_attempt_def delivery_tables_ok_def split: if_splits)

lemma tables_ok_insert_processed:
  assumes "delivery_tables_ok d" and "insert_processed_event e s now d = Inr (u, d')"
  shows "delivery_tables_ok d' \<and> db_attempts d' = db_attempts d"
  using assms by (auto simp: insert_processed_event_def delivery_tables_ok_def split: if_splits)

end
