(* ===== verification/Delivery_Executor.thy ===== *)
theory Delivery_Executor
  imports Delivery_Store
begin

text \<open>
  \<open>services/delivery\_executor.py\<close>, the providers it calls and the jobs of
  \<open>workers/arq\_worker.py\<close> that run it. An attempt is locked by \<open>FOR UPDATE\<close>, so one run of
  \<open>execute_send\<close> on an attempt is one step on the world.
\<close>

section \<open>Settings and providers\<close>

record delivery_settings =
  ds_max_attempts :: int
  ds_base_delay_seconds :: int
  ds_max_delay_seconds :: int
  ds_retry_jitter_seconds :: int
  ds_channels_text :: string
  ds_subject_succeeded :: string
  ds_subject_failed :: string

definition default_delivery_settings :: delivery_settings where
  "default_delivery_settings = \<lparr>ds_max_attempts = 5, ds_base_delay_seconds = 5,
     ds_max_delay_seconds = 3600, ds_retry_jitter_seconds = 5,
     ds_channels_text = ''push,email,web'', ds_subject_succeeded = ''delivery.succeeded.v1'',
     ds_subject_failed = ''delivery.failed.v1''\<rparr>"

definition settings_channels :: "delivery_settings \<Rightarrow> string list" where
  "settings_channels s = map (\<lambda>ch. py_lower (py_strip ch))
     (filter (\<lambda>ch. py_strip ch \<noteq> []) (py_split (CHR '','') (ds_channels_text s)))"

record delivery_result =
  res_success :: bool
  res_error_code :: "string option"
  res_error_message :: "string option"

text \<open>A provider sends for a user and a payload; what it decides may depend on a random draw.\<close>

type_synonym provider = "uuid \<Rightarrow> json_dict \<Rightarrow> int \<Rightarrow> delivery_result"

type_synonym providers = "string \<Rightarrow> provider option"

text \<open>\<open>random.random()\<close> is a 53-bit draw; the rate is in units of \<open>2^-53\<close>.\<close>

definition random_units :: "int \<Rightarrow> int" where
  "random_units draw = draw mod 2 ^ 53"

definition stub_fail_rate :: "int \<Rightarrow> int" where
  "stub_fail_rate fail_rate = max 0 (min (2 ^ 53) fail_rate)"

definition stub_send :: "int \<Rightarrow> provider" where
  "stub_send fail_rate user_id payload draw =
     (if random_units draw < stub_fail_rate fail_rate
      then \<lparr>res_success = False, res_error_code = Some ''stub_error'',
            res_error_message = Some ''Stub provider failure''\<rparr>
      else \<lparr>res_success = True, res_error_code = None, res_error_message = None\<rparr>)"

definition build_providers :: "int \<Rightarrow> providers" where
  "build_providers fail_rate = map_of [(''push'', stub_send fail_rate),
     (''email'', stub_send fail_rate), (''web'', stub_send fail_rate)]"

section \<open>execute\_send\<close>

text \<open>\<open>timedelta(seconds=n)\<close>.\<close>

definition seconds :: "int \<Rightarrow> int" where
  "seconds n = n * 1000000"

definition or_default :: "string option \<Rightarrow> string \<Rightarrow> string" where
  "or_default x d = (case x of None \<Rightarrow> d | Some s \<Rightarrow> if s = [] then d else s)"

definition next_quiet_hours_retry ::
  "zone_db \<Rightarrow> instant \<Rightarrow> delivery_attempt \<Rightarrow> exn + instant option" where
  "next_quiet_hours_retry zi now_utc attempt =
     (case (att_quiet_hours_start attempt, att_quiet_hours_end attempt) of
        (Some start, Some end') \<Rightarrow>
          (let timezone_name = (if att_timezone attempt = [] then ''UTC'' else att_timezone attempt)
           in bind_sum (resolve_timezone zi timezone_name) (\<lambda>(_, valid_timezone).
              let timezone_name = (if valid_timezone then timezone_name else ''UTC'')
              in bind_sum (compute_next_allowed_time zi (Aware now_utc) timezone_name start end')
                (\<lambda>next_allowed_at.
                  Inr (if next_allowed_at \<le> now_utc then None else Some next_allowed_at))))
      | _ \<Rightarrow> Inr None)"

definition delay_for_quiet_hours ::
  "delivery_attempt \<Rightarrow> instant \<Rightarrow> instant \<Rightarrow> (delivery_world, unit) eff" where
  "delay_for_quiet_hours attempt now_utc quiet_retry_at =
     (let delay = max (quiet_retry_at - now_utc) 0
      in seq (mark_delayed (att_id attempt) quiet_retry_at ''quiet_hours''
                ''Delivery delayed due to quiet hours'')
        (seq (metric (inc_delayed_quiet_hours (att_channel attempt)))
        (seq (metric (observe_delivery_delay delay))
        (enqueue_job ''retry_attempt'' (att_id attempt) (Some (att_channel attempt)) (Some delay)))))"

definition call_provider ::
  "provider \<Rightarrow> delivery_attempt \<Rightarrow> (delivery_world, delivery_result) eff" where
  "call_provider provider attempt = and_then random_draw (\<lambda>draw.
     let result = provider (att_user_id attempt) (att_payload attempt) draw
     in seq (modify (\<lambda>w. w\<lparr>dw_sends := dw_sends w @ [(att_id attempt, res_success result)]\<rparr>))
       (ret result))"

definition succeeded_event :: "uuid \<Rightarrow> delivery_attempt \<Rightarrow> instant \<Rightarrow> json_dict" where
  "succeeded_event event_id attempt now_utc =
     [(''event_id'', JStr (str_uuid event_id)),
      (''notification_id'', JStr (str_uuid (att_notification_id attempt))),
      (''user_id'', JStr (str_uuid (att_user_id attempt))),
      (''channel'', JStr (att_channel attempt)),
      (''attempt_id'', JStr (str_uuid (att_id attempt))),
      (''delivered_at'', JStr (isoformat now_utc))]"

definition failed_event ::
  "uuid \<Rightarrow> delivery_attempt \<Rightarrow> delivery_result \<Rightarrow> instant \<Rightarrow> json_dict" where
  "failed_event event_id attempt result now_utc =
     [(''event_id'', JStr (str_uuid event_id)),
      (''notification_id'', JStr (str_uuid (att_notification_id attempt))),
      (''user_id'', JStr (str_uuid (att_user_id attempt))),
      (''channel'', JStr (att_channel attempt)),
      (''attempt_id'', JStr (str_uuid (att_id attempt))),
      (''error_code'', JStr (or_default (res_error_code result) ''delivery_failed'')),
      (''error_message'', JStr (take 120 (or_default (res_error_message result) ''Delivery failed''))),
      (''failed_at'', JStr (isoformat now_utc))]"

definition record_success ::
  "delivery_settings \<Rightarrow> delivery_attempt \<Rightarrow> instant \<Rightarrow> (delivery_world, unit) eff" where
  "record_success settings attempt now_utc =
     seq (mark_sent (att_id attempt))
    (seq (metric inc_sent)
    (and_then uuid4 (\<lambda>event_id.
      publish_json (ds_subject_succeeded settings) (succeeded_event event_id attempt now_utc))))"

definition record_dead ::
  "delivery_settings \<Rightarrow> delivery_attempt \<Rightarrow> delivery_result \<Rightarrow> instant \<Rightarrow>
   (delivery_world, unit) eff" where
  "record_dead settings attempt result now_utc =
     seq (mark_failed (att_id attempt) (att_attempt_no attempt + 1)
            (or_default (res_error_code result) ''delivery_failed'')
            (or_default (res_error_message result) ''Delivery failed'') None True)
    (seq (metric inc_dead)
    (and_then uuid4 (\<lambda>event_id.
      publish_json (ds_subject_failed settings) (failed_event event_id attempt result now_utc))))"

definition retry_time ::
  "zone_db \<Rightarrow> delivery_attempt \<Rightarrow> instant \<Rightarrow> exn + instant" where
  "retry_time zi attempt backoff_retry_at =
     bind_sum (next_quiet_hours_retry zi backoff_retry_at attempt) (\<lambda>quiet_retry_at.
       Inr (case quiet_retry_at of
              Some q \<Rightarrow> if q > backoff_retry_at then q else backoff_retry_at
            | None \<Rightarrow> backoff_retry_at))"

definition record_retry ::
  "delivery_settings \<Rightarrow> zone_db \<Rightarrow> delivery_attempt \<Rightarrow> delivery_result \<Rightarrow> instant \<Rightarrow>
   (delivery_world, unit) eff" where
  "record_retry settings zi attempt result now_utc =
     and_then random_draw (\<lambda>draw.
       let delay_seconds = compute_backoff_delay (att_attempt_no attempt + 1)
             (ds_base_delay_seconds settings) (ds_max_delay_seconds settings)
             (ds_retry_jitter_seconds settings) draw;
           backoff_retry_at = now_utc + seconds delay_seconds
       in and_then (lift (retry_time zi attempt backoff_retry_at)) (\<lambda>next_retry_at.
         let retry_delay = max (next_retry_at - now_utc) 0
         in seq (mark_failed (att_id attempt) (att_attempt_no attempt + 1)
                  (or_default (res_error_code result) ''delivery_failed'')
                  (or_default (res_error_message result) ''Delivery failed'')
                  (Some next_retry_at) False)
           (seq (metric inc_failed)
           (seq (metric (observe_delivery_delay retry_delay))
           (enqueue_job ''retry_attempt'' (att_id attempt) (Some (att_channel attempt))
             (Some retry_delay))))))"

definition send_now ::
  "delivery_settings \<Rightarrow> zone_db \<Rightarrow> providers \<Rightarrow> delivery_attempt \<Rightarrow> instant \<Rightarrow>
   (delivery_world, unit) eff" where
  "send_now settings zi providers attempt now_utc =
     (case providers (att_channel attempt) of
        None \<Rightarrow> raise (Runtime_Error ''No provider configured'')
      | Some provider \<Rightarrow> and_then (call_provider provider attempt) (\<lambda>result.
          if res_success result then record_success settings attempt now_utc
          else let next_attempt_no = att_attempt_no attempt + 1;
                   dead = (next_attempt_no \<ge> ds_max_attempts settings)
               in if dead then record_dead settings attempt result now_utc
                  else record_retry settings zi attempt result now_utc))"

definition handle_attempt ::
  "delivery_settings \<Rightarrow> zone_db \<Rightarrow> providers \<Rightarrow> delivery_attempt \<Rightarrow> (delivery_world, unit) eff" where
  "handle_attempt settings zi providers attempt =
     and_then (gets dw_clock) (\<lambda>now_utc.
       if att_status attempt \<in> {Att_Sent, Att_Dead} then ret ()
       else if (case att_next_retry_at attempt of None \<Rightarrow> False | Some t \<Rightarrow> t > now_utc) then ret ()
       else and_then (lift (next_quiet_hours_retry zi now_utc attempt)) (\<lambda>quiet_retry_at.
         case quiet_retry_at of
           Some q \<Rightarrow> delay_for_quiet_hours attempt now_utc q
         | None \<Rightarrow> send_now settings zi providers attempt now_utc))"

definition execute_send ::
  "delivery_settings \<Rightarrow> zone_db \<Rightarrow> providers \<Rightarrow> uuid \<Rightarrow> (delivery_world, unit) eff" where
  "execute_send settings zi providers attempt_id =
     transaction (and_then (get_for_update attempt_id) (\<lambda>attempt.
       case attempt of None \<Rightarrow> ret () | Some a \<Rightarrow> handle_attempt settings zi providers a))"

section \<open>workers/arq\_worker.py\<close>

text \<open>
  \<open>send_push\<close>, \<open>send_email\<close> and \<open>send_web\<close> run \<open>_send_channel\<close>, whatever the channel of the
  attempt is; \<open>retry_attempt\<close> puts the channel's job back on the queue.
\<close>

definition send_channel ::
  "delivery_settings \<Rightarrow> zone_db \<Rightarrow> providers \<Rightarrow> uuid \<Rightarrow> (delivery_world, unit) eff" where
  "send_channel settings zi providers attempt_id = execute_send settings zi providers attempt_id"

definition retry_attempt :: "uuid \<Rightarrow> string \<Rightarrow> (delivery_world, unit) eff" where
  "retry_attempt attempt_id channel = enqueue_job (''send_'' @ channel) attempt_id None None"

definition worker_functions :: "string list" where
  "worker_functions = [''send_push'', ''send_email'', ''send_web'', ''retry_attempt'']"

definition run_job ::
  "delivery_settings \<Rightarrow> zone_db \<Rightarrow> providers \<Rightarrow> arq_job \<Rightarrow> (delivery_world, unit) eff" where
  "run_job settings zi providers job =
     (if job_function job \<notin> set worker_functions then raise (Runtime_Error ''unknown job'')
      else if job_function job = ''retry_attempt'' then
        (case job_channel job of
           None \<Rightarrow> raise Type_Error
         | Some channel \<Rightarrow> retry_attempt (job_attempt job) channel)
      else send_channel settings zi providers (job_attempt job))"

section \<open>The runs of execute\_send, one equation per way through it\<close>

lemmas executor_defs = execute_send_def handle_attempt_def get_for_update_def

definition on_row :: "uuid \<Rightarrow> (delivery_attempt \<Rightarrow> delivery_attempt) \<Rightarrow> delivery_db \<Rightarrow> delivery_db" where
  "on_row x f d = d\<lparr>db_attempts := update_where (\<lambda>r. att_id r = x) f (db_attempts d)\<rparr>"

definition due :: "delivery_attempt \<Rightarrow> instant \<Rightarrow> bool" where
  "due a now \<longleftrightarrow> att_status a \<in> {Att_Pending, Att_Failed} \<and>
     (case att_next_retry_at a of None \<Rightarrow> True | Some t \<Rightarrow> t \<le> now)"

definition selected :: "uuid \<Rightarrow> delivery_world \<Rightarrow> delivery_attempt option" where
  "selected x w = find_row (\<lambda>r. att_id r = x) (db_attempts (cw_db w))"

lemma selected_id: "selected x w = Some a \<Longrightarrow> att_id a = x \<and> a \<in> set (db_attempts (cw_db w))"
  unfolding selected_def by (auto dest: find_row_Some)

definition answer :: "provider \<Rightarrow> delivery_attempt \<Rightarrow> delivery_world \<Rightarrow> delivery_result" where
  "answer p a w = p (att_user_id a) (att_payload a) (dw_random w (dw_random_drawn w))"

lemma execute_send_absent:
  "selected x w = None \<Longrightarrow> execute_send s zi ps x w = (Inr (), w\<lparr>cw_tx := Tx_None\<rparr>)"
  by (simp add: executor_defs transaction_def eff_simps selected_def)

lemma execute_send_not_due:
  "selected x w = Some a \<Longrightarrow> \<not> due a (dw_clock w) \<Longrightarrow>
   execute_send s zi ps x w = (Inr (), w\<lparr>cw_tx := Tx_None\<rparr>)"
  by (cases "att_status a")
    (auto simp add: executor_defs transaction_def eff_simps selected_def due_def split: option.splits)

lemma execute_send_due:
  assumes "selected x w = Some a" and "due a (dw_clock w)"
  shows "execute_send s zi ps x w = transaction (\<lambda>w. case next_quiet_hours_retry zi (dw_clock w) a of
      Inl e \<Rightarrow> (Inl e, w)
    | Inr (Some q) \<Rightarrow> delay_for_quiet_hours a (dw_clock w) q w
    | Inr None \<Rightarrow> send_now s zi ps a (dw_clock w) w) w"
  using assms
  by (cases "att_status a"; cases "next_quiet_hours_retry zi (dw_clock w) a")
    (auto simp add: executor_defs transaction_def eff_simps selected_def due_def split: option.splits)

lemma execute_send_quiet:
  assumes "selected x w = Some a" and "due a (dw_clock w)"
    and "next_quiet_hours_retry zi (dw_clock w) a = Inr (Some q)" and "dw_redis_up w"
  shows "execute_send s zi ps x w = (Inr (), w\<lparr>cw_tx := Tx_None,
     cw_db := on_row x (set_delayed q ''quiet_hours'' ''Delivery delayed due to quiet hours'' (cw_now w)) (cw_db w),
     dw_metrics := observe_delivery_delay (max (q - dw_clock w) 0)
        (inc_delayed_quiet_hours (att_channel a) (dw_metrics w)),
     dw_jobs := dw_jobs w @ [\<lparr>job_function = ''retry_attempt'', job_attempt = x,
        job_channel = Some (att_channel a), job_defer_by = Some (max (q - dw_clock w) 0)\<rparr>]\<rparr>)"
  using assms selected_id [OF assms(1)]
  by (simp add: execute_send_due transaction_def delay_for_quiet_hours_def mark_delayed_def Let_def
      eff_simps on_row_def)

lemma execute_send_success:
  assumes "selected x w = Some a" and "due a (dw_clock w)"
    and "next_quiet_hours_retry zi (dw_clock w) a = Inr None" and "ps (att_channel a) = Some p"
    and "res_success (answer p a w)" and "dw_nats_accepts w (ds_subject_succeeded s)"
  shows "execute_send s zi ps x w = (Inr (), w\<lparr>cw_tx := Tx_None, cw_drawn := Suc (cw_drawn w),
     cw_db := on_row x (set_sent (cw_now w)) (cw_db w),
     dw_random_drawn := Suc (dw_random_drawn w), dw_sends := dw_sends w @ [(x, True)],
     dw_metrics := inc_sent (dw_metrics w),
     dw_published := dw_published w @ [(ds_subject_succeeded s,
        succeeded_event (cw_uuids w (cw_drawn w)) a (dw_clock w))]\<rparr>)"
  using assms selected_id [OF assms(1)]
  by (simp add: execute_send_due transaction_def send_now_def call_provider_def record_success_def
      mark_sent_def Let_def eff_simps on_row_def answer_def)


lemma execute_send_dead:
  assumes "selected x w = Some a" and "due a (dw_clock w)"
    and "next_quiet_hours_retry zi (dw_clock w) a = Inr None" and "ps (att_channel a) = Some p"
    and "\<not> res_success (answer p a w)" and "ds_max_attempts s \<le> att_attempt_no a + 1"
    and "dw_nats_accepts w (ds_subject_failed s)"
  shows "execute_send s zi ps x w = (Inr (), w\<lparr>cw_tx := Tx_None, cw_drawn := Suc (cw_drawn w),
     cw_db := on_row x (set_failed Att_Dead (att_attempt_no a + 1)
        (or_default (res_error_code (answer p a w)) ''delivery_failed'')
        (take 512 (or_default (res_error_message (answer p a w)) ''Delivery failed'')) None (cw_now w)) (cw_db w),
     dw_random_drawn := Suc (dw_random_drawn w), dw_sends := dw_sends w @ [(x, False)],
     dw_metrics := inc_dead (dw_metrics w),
     dw_published := dw_published w @ [(ds_subject_failed s,
        failed_event (cw_uuids w (cw_drawn w)) a (answer p a w) (dw_clock w))]\<rparr>)"
  using assms selected_id [OF assms(1)]
  by (simp add: execute_send_due transaction_def send_now_def call_provider_def record_dead_def
      mark_failed_def Let_def eff_simps on_row_def answer_def)

definition retry_draw :: "delivery_settings \<Rightarrow> delivery_attempt \<Rightarrow> delivery_world \<Rightarrow> int" where
  "retry_draw s a w = compute_backoff_delay (att_attempt_no a + 1) (ds_base_delay_seconds s)
     (ds_max_delay_seconds s) (ds_retry_jitter_seconds s) (dw_random w (Suc (dw_random_drawn w)))"

lemma execute_send_retry:
  assumes "selected x w = Some a" and "due a (dw_clock w)"
    and "next_quiet_hours_retry zi (dw_clock w) a = Inr None" and "ps (att_channel a) = Some p"
    and "\<not> res_success (answer p a w)" and "att_attempt_no a + 1 < ds_max_attempts s"
    and "retry_time zi a (dw_clock w + seconds (retry_draw s a w)) = Inr r" and "dw_redis_up w"
  shows "execute_send s zi ps x w = (Inr (), w\<lparr>cw_tx := Tx_None,
     cw_db := on_row x (set_failed Att_Failed (att_attempt_no a + 1)
        (or_default (res_error_code (answer p a w)) ''delivery_failed'')
        (take 512 (or_default (res_error_message (answer p a w)) ''Delivery failed'')) (Some r) (cw_now w)) (cw_db w),
     dw_random_drawn := Suc (Suc (dw_random_drawn w)), dw_sends := dw_sends w @ [(x, False)],
     dw_metrics := observe_delivery_delay (max (r - dw_clock w) 0) (inc_failed (dw_metrics w)),
     dw_jobs := dw_jobs w @ [\<lparr>job_function = ''retry_attempt'', job_attempt = x,
        job_channel = Some (att_channel a), job_defer_by = Some (max (r - dw_clock w) 0)\<rparr>]\<rparr>)"
  using assms selected_id [OF assms(1)]
  by (simp add: execute_send_due transaction_def send_now_def call_provider_def record_retry_def
      mark_failed_def Let_def eff_simps on_row_def answer_def retry_draw_def)

text \<open>The only ways for a run on a due attempt to return without an exception.\<close>

lemma execute_send_returns:
  assumes "selected x w = Some a" and "due a (dw_clock w)"
    and "execute_send s zi ps x w = (Inr u, w')"
  obtains
    (quiet) q where "next_quiet_hours_retry zi (dw_clock w) a = Inr (Some q)" and "dw_redis_up w"
  | (success) p where "next_quiet_hours_retry zi (dw_clock w) a = Inr None"
      and "ps (att_channel a) = Some p"
      and "res_success (answer p a w)"
      and "dw_nats_accepts w (ds_subject_succeeded s)"
  | (dead) p where "next_quiet_hours_retry zi (dw_clock w) a = Inr None"
      and "ps (att_channel a) = Some p"
      and "\<not> res_success (answer p a w)"
      and "ds_max_attempts s \<le> att_attempt_no a + 1" and "dw_nats_accepts w (ds_subject_failed s)"
  | (retry) p r where "next_quiet_hours_retry zi (dw_clock w) a = Inr None"
      and "ps (att_channel a) = Some p"
      and "\<not> res_success (answer p a w)"
      and "att_attempt_no a + 1 < ds_max_attempts s"
      and "retry_time zi a (dw_clock w + seconds (retry_draw s a w)) = Inr r" and "dw_redis_up w"
proof -
  let ?q = "next_quiet_hours_retry zi (dw_clock w) a"
  let ?r = "retry_time zi a (dw_clock w + seconds (retry_draw s a w))"
  show ?thesis
  proof (cases ?q)
    case (Inl e)
    then show ?thesis using assms by (simp add: execute_send_due transaction_def)
  next
    case (Inr oq)
    show ?thesis
    proof (cases oq)
      case (Some q)
      then show ?thesis using assms Inr
        by (intro quiet [of q]) (auto simp: execute_send_due transaction_def delay_for_quiet_hours_def
            mark_delayed_def Let_def eff_simps split: if_splits)
    next
      case None
      note quiet_None = Inr [unfolded None]
      show ?thesis
      proof (cases "ps (att_channel a)")
        case None
        then show ?thesis using assms quiet_None
          by (simp add: execute_send_due transaction_def send_now_def eff_simps)
      next
        case (Some p)
        show ?thesis
          using assms quiet_None Some success [OF quiet_None Some] dead [OF quiet_None Some]
            retry [OF quiet_None Some]
          by (cases ?r) (auto simp: execute_send_due transaction_def send_now_def call_provider_def
              record_success_def record_dead_def record_retry_def mark_sent_def mark_failed_def
              Let_def eff_simps retry_draw_def answer_def split: if_splits)
      qed
    qed
  qed
qed

section \<open>The life cycle of an attempt\<close>

datatype phase = Waiting int "instant option" | Delivered | Abandoned

definition phase_of :: "delivery_attempt \<Rightarrow> phase" where
  "phase_of a = (case att_status a of
       Att_Sent \<Rightarrow> Delivered
     | Att_Dead \<Rightarrow> Abandoned
     | _ \<Rightarrow> Waiting (att_attempt_no a) (att_next_retry_at a))"

definition phase_at :: "uuid \<Rightarrow> delivery_world \<Rightarrow> phase option" where
  "phase_at x w = map_option phase_of (selected x w)"

definition due_at :: "instant \<Rightarrow> instant option \<Rightarrow> bool" where
  "due_at now t = (case t of None \<Rightarrow> True | Some u \<Rightarrow> u \<le> now)"

definition least_backoff :: "delivery_settings \<Rightarrow> int \<Rightarrow> int" where
  "least_backoff s k =
     seconds (min (ds_base_delay_seconds s * 2 ^ nat (max k 0)) (ds_max_delay_seconds s))"

text \<open>
  A step of the life cycle at an instant, with what was handed to the provider: nothing, or
  a send that it took or refused.
\<close>

inductive phase_step ::
  "delivery_settings \<Rightarrow> instant \<Rightarrow> bool option \<Rightarrow> phase \<Rightarrow> phase \<Rightarrow> bool"
  for s :: delivery_settings and now :: instant where
  postpone: "due_at now t \<Longrightarrow> now < q \<Longrightarrow>
    phase_step s now None (Waiting k t) (Waiting k (Some q))"
| deliver: "due_at now t \<Longrightarrow> phase_step s now (Some True) (Waiting k t) Delivered"
| retry: "due_at now t \<Longrightarrow> k + 1 < ds_max_attempts s \<Longrightarrow> now + least_backoff s k \<le> r \<Longrightarrow>
    phase_step s now (Some False) (Waiting k t) (Waiting (k + 1) (Some r))"
| abandon: "due_at now t \<Longrightarrow> ds_max_attempts s \<le> k + 1 \<Longrightarrow>
    phase_step s now (Some False) (Waiting k t) Abandoned"

inductive_simps phase_step_from_final [simp]:
  "phase_step s now c Delivered p" "phase_step s now c Abandoned p"

inductive_cases phase_step_waitingE: "phase_step s now c (Waiting k t) p"

definition sends_of :: "uuid \<Rightarrow> bool option \<Rightarrow> (uuid \<times> bool) list" where
  "sends_of x c = (case c of None \<Rightarrow> [] | Some ok \<Rightarrow> [(x, ok)])"

lemma next_quiet_hours_retry_later:
  "next_quiet_hours_retry zi now a = Inr (Some q) \<Longrightarrow> now < q"
  by (auto simp: next_quiet_hours_retry_def Let_def bind_sum_Inr split: option.splits if_splits)

lemma retry_time_ge: "retry_time zi a t = Inr r \<Longrightarrow> t \<le> r"
  by (auto simp: retry_time_def bind_sum_Inr split: option.splits)

lemma retry_draw_ge: "least_backoff s (att_attempt_no a) \<le> seconds (retry_draw s a w)"
  using backoff_delay_ge [of "ds_base_delay_seconds s" "att_attempt_no a + 1"]
  by (simp add: least_backoff_def retry_draw_def seconds_def)

lemma selected_on_row:
  assumes "\<And>r. att_id (f r) = att_id r" and "cw_db w' = on_row x f (cw_db w)"
  shows "selected y w' = map_option (\<lambda>r. if y = x then f r else r) (selected y w)"
proof -
  have "selected y w' = map_option (\<lambda>r. if att_id r = x then f r else r) (selected y w)"
    using assms(1) by (simp add: selected_def assms(2) on_row_def find_row_update_where)
  also have "\<dots> = map_option (\<lambda>r. if y = x then f r else r) (selected y w)"
    by (rule option.map_cong0) (auto simp: selected_def dest: find_row_Some)
  finally show ?thesis .
qed

lemma due_phase: "due a now \<Longrightarrow>
    phase_of a = Waiting (att_attempt_no a) (att_next_retry_at a) \<and> due_at now (att_next_retry_at a)"
  by (auto simp: due_def phase_of_def due_at_def split: option.splits)

text \<open>A run that returns: it changed nothing, or did one step on one row.\<close>

lemma execute_send_step:
  assumes "execute_send s zi ps x w = (Inr u, w')"
  obtains (unchanged) "cw_db w' = cw_db w" and "dw_sends w' = dw_sends w"
  | (step) a f c where "selected x w = Some a" and "due a (dw_clock w)"
      and "cw_db w' = on_row x f (cw_db w)" and "\<And>r. same_identity (f r) r"
      and "attempt_ok a \<Longrightarrow> attempt_ok (f a)"
      and "phase_step s (dw_clock w) c (phase_of a) (phase_of (f a))"
      and "dw_sends w' = dw_sends w @ sends_of x c"
      and "c \<noteq> None \<Longrightarrow> next_quiet_hours_retry zi (dw_clock w) a = Inr None"
proof (cases "selected x w")
  case None
  with assms show ?thesis by (intro unchanged) (auto simp: execute_send_absent)
next
  case (Some a)
  show ?thesis
  proof (cases "due a (dw_clock w)")
    case False
    with assms Some show ?thesis by (intro unchanged) (auto simp: execute_send_not_due)
  next
    case True
    note ph = due_phase [OF True]
    from Some True assms show ?thesis
    proof (cases rule: execute_send_returns)
      case (quiet q)
      show ?thesis
      proof (rule step [OF Some True, of "set_delayed q ''quiet_hours''
          ''Delivery delayed due to quiet hours'' (cw_now w)" None])
        show "phase_step s (dw_clock w) None (phase_of a) (phase_of (set_delayed q ''quiet_hours''
          ''Delivery delayed due to quiet hours'' (cw_now w) a))"
          using ph next_quiet_hours_retry_later [OF quiet(1)]
          by (auto simp: phase_of_def set_delayed_def intro: phase_step.postpone)
      qed (use assms execute_send_quiet [OF Some True quiet] in
          \<open>auto simp: sends_of_def\<close>)
    next
      case (success p)
      show ?thesis
      proof (rule step [OF Some True, of "set_sent (cw_now w)" "Some True"])
        show "phase_step s (dw_clock w) (Some True) (phase_of a) (phase_of (set_sent (cw_now w) a))"
          using ph by (auto simp: phase_of_def set_sent_def intro: phase_step.deliver)
      qed (use assms execute_send_success [where ps = ps and p = p, OF Some True success] success in
          \<open>auto simp: sends_of_def\<close>)
    next
      case (dead p)
      let ?f = "set_failed Att_Dead (att_attempt_no a + 1)
        (or_default (res_error_code (answer p a w)) ''delivery_failed'')
        (take 512 (or_default (res_error_message (answer p a w)) ''Delivery failed'')) None (cw_now w)"
      show ?thesis
      proof (rule step [OF Some True, of ?f "Some False"])
        show "phase_step s (dw_clock w) (Some False) (phase_of a) (phase_of (?f a))"
          using ph dead(4) by (auto simp: phase_of_def set_failed_def intro: phase_step.abandon)
      qed (use assms execute_send_dead [where ps = ps and p = p, OF Some True dead] dead in
          \<open>auto simp: sends_of_def\<close>)
    next
      case (retry p r)
      let ?f = "set_failed Att_Failed (att_attempt_no a + 1)
        (or_default (res_error_code (answer p a w)) ''delivery_failed'')
        (take 512 (or_default (res_error_message (answer p a w)) ''Delivery failed'')) (Some r) (cw_now w)"
      show ?thesis
      proof (rule step [OF Some True, of ?f "Some False"])
        have "dw_clock w + least_backoff s (att_attempt_no a) \<le> r"
          using retry_time_ge [OF retry(5)] retry_draw_ge [of s a w] by simp
        then show "phase_step s (dw_clock w) (Some False) (phase_of a) (phase_of (?f a))"
          using ph retry(4) by (auto simp: phase_of_def set_failed_def intro: phase_step.retry)
      qed (use assms execute_send_retry [where ps = ps and p = p, OF Some True retry] retry in
          \<open>auto simp: sends_of_def\<close>)
    qed
  qed
qed

lemma execute_send_closed: "cw_tx (snd (execute_send s zi ps x w)) = Tx_None"
  by (simp add: execute_send_def transaction_closed)

lemma execute_send_rollback: "execute_send s zi ps x w = (Inl e, w') \<Longrightarrow> cw_db w' = cw_db w"
  unfolding execute_send_def by (drule transaction_rollback) simp

text \<open>A provider is asked only for a due attempt that the quiet hours do not hold back.\<close>

lemma execute_send_asks_provider:
  assumes "execute_send s zi ps x w = (r, w')" and "dw_sends w' \<noteq> dw_sends w"
  obtains a p where "selected x w = Some a" and "due a (dw_clock w)"
    and "next_quiet_hours_retry zi (dw_clock w) a = Inr None"
    and "dw_sends w' = dw_sends w @ [(x, res_success (answer p a w))]"
    and "ps (att_channel a) = Some p"
proof (cases "selected x w")
  case None
  then show ?thesis using assms by (auto simp: execute_send_absent)
next
  case (Some a)
  show ?thesis
  proof (cases "due a (dw_clock w)")
    case False
    then show ?thesis using assms Some by (auto simp: execute_send_not_due)
  next
    case True
    show ?thesis
    proof (cases "next_quiet_hours_retry zi (dw_clock w) a = Inr None")
      case False
      then show ?thesis using assms Some True
        by (cases "next_quiet_hours_retry zi (dw_clock w) a"; cases "dw_redis_up w")
          (auto simp: execute_send_due transaction_def delay_for_quiet_hours_def
            mark_delayed_def Let_def eff_simps split: option.splits)
    next
      case quiet: True
      show ?thesis
      proof (cases "ps (att_channel a)")
        case None
        then show ?thesis using assms Some True quiet
          by (auto simp: execute_send_due transaction_def send_now_def eff_simps)
      next
        case p: (Some p)
        have "dw_sends w' = dw_sends w @ [(x, res_success (answer p a w))]"
          using assms Some True quiet p selected_id [OF Some]
          by (cases "retry_time zi a (dw_clock w + seconds (retry_draw s a w))")
            (auto simp: execute_send_due transaction_def send_now_def call_provider_def
              record_success_def record_dead_def record_retry_def mark_sent_def mark_failed_def
              Let_def eff_simps retry_draw_def answer_def split: if_splits)
        then show ?thesis using that Some True quiet p by blast
      qed
    qed
  qed
qed

lemma next_quiet_hours_retry_found:
  assumes "att_quiet_hours_start a = Some start" and "att_quiet_hours_end a = Some end'"
    and "att_timezone a \<noteq> []" and "zi (att_timezone a) = Zone_Found z"
  shows "next_quiet_hours_retry zi t a = Inr (let n = next_allowed (to_wall z) (from_wall z) t start end'
     in if n \<le> t then None else Some n)"
  using assms by (simp add: next_quiet_hours_retry_def resolve_timezone_def
      compute_next_allowed_time_def Let_def)

lemma execute_send_tables:
  assumes "delivery_tables_ok (cw_db w)" and "execute_send s zi ps x w = (r, w')"
  shows "delivery_tables_ok (cw_db w')"
proof (cases r)
  case (Inl e)
  with assms execute_send_rollback show ?thesis by metis
next
  case (Inr u)
  with assms(2) have "execute_send s zi ps x w = (Inr u, w')" by simp
  then show ?thesis
  proof (cases rule: execute_send_step)
    case unchanged
    with assms(1) show ?thesis by simp
  next
    case (step a f c)
    have "attempt_ok (f b)" if "b \<in> set (db_attempts (cw_db w))" "att_id b = x" "attempt_ok b" for b
    proof -
      have "find_row (\<lambda>r. att_id r = x) (db_attempts (cw_db w)) = Some b"
        using assms(1) that by (intro find_row_unique) (auto simp: delivery_tables_ok_def)
      with step(1) have "b = a" by (simp add: selected_def)
      with that step(5) show ?thesis by simp
    qed
    with assms(1) step(3,4) show ?thesis by (simp add: on_row_def tables_ok_update)
  qed
qed

section \<open>A concrete worker, for the witnesses\<close>

definition sample_attempt :: "int option \<Rightarrow> int option \<Rightarrow> delivery_attempt" where
  "sample_attempt start end' = \<lparr>att_id = 7, att_notification_id = 8, att_user_id = 9,
     att_channel = ''push'', att_payload = [], att_quiet_hours_start = start,
     att_quiet_hours_end = end', att_timezone = ''UTC'', att_status = Att_Pending,
     att_attempt_no = 0, att_last_error_code = None, att_last_error_message = None,
     att_next_retry_at = None, att_created_at = 0, att_updated_at = 0\<rparr>"

definition sample_world :: "delivery_attempt list \<Rightarrow> bool \<Rightarrow> delivery_world" where
  "sample_world rows accepts = \<lparr>cw_db = \<lparr>db_attempts = rows, db_processed = []\<rparr>,
     cw_tx = Tx_None, cw_now = 12 * hour, cw_uuids = (\<lambda>n. 100 + n), cw_drawn = 0,
     dw_clock = 12 * hour, dw_metrics = empty_delivery_metrics, dw_jobs = [], dw_published = [],
     dw_random = (\<lambda>_. 0), dw_random_drawn = 0, dw_redis_up = True,
     dw_nats_accepts = (\<lambda>_. accepts), dw_sends = []\<rparr>"

definition utc_db :: zone_db where
  "utc_db name = (if name = ''UTC'' then Zone_Found (fixed_zone 0) else Zone_Not_Found)"

lemma calm_fixed [simp]: "calm (fixed_zone off) t"
  by (simp add: calm_def fixed_zone_def)

lemma sample_send: "execute_send default_delivery_settings utc_db (build_providers 0) 7
    (sample_world [sample_attempt (Some (22 * hour)) (Some (7 * hour))] True) =
   (Inr (), (sample_world [set_sent (12 * hour) (sample_attempt (Some (22 * hour)) (Some (7 * hour)))] True)
      \<lparr>cw_drawn := 1, dw_random_drawn := 1, dw_sends := [(7, True)],
       dw_metrics := inc_sent empty_delivery_metrics,
       dw_published := [(''delivery.succeeded.v1'', succeeded_event 100
         (sample_attempt (Some (22 * hour)) (Some (7 * hour))) (12 * hour))]\<rparr>)"
proof -
  let ?a = "sample_attempt (Some (22 * hour)) (Some (7 * hour))"
  let ?w = "sample_world [?a] True"
  have sel: "selected 7 ?w = Some ?a" by (simp add: selected_def sample_world_def sample_attempt_def)
  have due: "due ?a (dw_clock ?w)" by (simp add: due_def sample_world_def sample_attempt_def)
  have quiet: "next_quiet_hours_retry utc_db (dw_clock ?w) ?a = Inr None"
    by (simp add: next_quiet_hours_retry_def sample_attempt_def sample_world_def utc_db_def
        resolve_timezone_def compute_next_allowed_time_def next_allowed_def is_in_quiet_hours_def
        to_wall_def fixed_zone_def hour_def day_def Let_def)
  have prov: "build_providers 0 (att_channel ?a) = Some (stub_send 0)"
    by (simp add: build_providers_def sample_attempt_def)
  have ok: "res_success (answer (stub_send 0) ?a ?w)"
    by (simp add: answer_def stub_send_def stub_fail_rate_def random_units_def)
  show ?thesis
    using execute_send_success [where ps = "build_providers 0" and p = "stub_send 0"
        and s = default_delivery_settings, OF sel due quiet prov ok]
    by (simp add: sample_world_def default_delivery_settings_def on_row_def sample_attempt_def)
qed

section \<open>Properties\<close>

text \<open>
  C2: \<open>execute_send\<close> implements the life cycle of an attempt: a run that raises leaves every
  row as it was; a run that returns leaves the attempt and the providers alone, or performs
  exactly one step of the life cycle (postpone, deliver, retry, abandon) with the send that
  the step allows; no other row changes and no transaction stays open.
\<close>

theorem execute_send_refines_lifecycle:
  assumes "execute_send s zi ps x w = (r, w')"
  shows "(\<forall>e. r = Inl e \<longrightarrow> cw_db w' = cw_db w) \<and>
    (r = Inr () \<longrightarrow> (phase_at x w' = phase_at x w \<and> dw_sends w' = dw_sends w) \<or>
       (\<exists>p p' c. phase_at x w = Some p \<and> phase_at x w' = Some p' \<and>
          phase_step s (dw_clock w) c p p' \<and> dw_sends w' = dw_sends w @ sends_of x c)) \<and>
    (\<forall>y. y \<noteq> x \<longrightarrow> selected y w' = selected y w) \<and> cw_tx w' = Tx_None"
proof -
  have tx: "cw_tx w' = Tx_None" using execute_send_closed [of s zi ps x w] assms by simp
  show ?thesis
  proof (cases r)
    case (Inl e)
    then have "cw_db w' = cw_db w" using assms execute_send_rollback by blast
    with Inl tx show ?thesis by (simp add: selected_def)
  next
    case (Inr u)
    with assms have run: "execute_send s zi ps x w = (Inr u, w')" by simp
    from run show ?thesis
    proof (cases rule: execute_send_step)
      case unchanged
      with Inr tx show ?thesis by (simp add: phase_at_def selected_def)
    next
      case (step a f c)
      have sel: "selected y w' = map_option (\<lambda>r. if y = x then f r else r) (selected y w)" for y
        using step(4) by (intro selected_on_row [OF _ step(3)]) (simp add: same_identity_def)
      then have "phase_at x w = Some (phase_of a)" "phase_at x w' = Some (phase_of (f a))"
        using step(1) by (simp_all add: phase_at_def)
      moreover have "selected y w' = selected y w" if "y \<noteq> x" for y
        using sel [of y] that by (simp add: option.map_ident)
      ultimately show ?thesis using Inr tx step by auto
    qed
  qed
qed

theorem execute_send_refines_lifecycle_witness:
  "\<exists>w'. execute_send default_delivery_settings utc_db (build_providers 0) 7
      (sample_world [sample_attempt (Some (22 * hour)) (Some (7 * hour))] True) = (Inr (), w') \<and>
    phase_at 7 w' = Some Delivered \<and> cw_tx w' = Tx_None"
  using execute_send_refines_lifecycle [OF sample_send] sample_send
  by (auto simp: phase_at_def selected_def sample_world_def sample_attempt_def phase_of_def
      set_sent_def)

text \<open>
  Every run of \<open>execute_send\<close> keeps the constraints of the tables: identities unique,
  channels admitted, and the status in agreement with the attempt number and the retry time.
\<close>

theorem execute_send_keeps_tables:
  assumes "delivery_tables_ok (cw_db w)"
  shows "delivery_tables_ok (cw_db (snd (execute_send s zi ps x w)))"
  using execute_send_tables [OF assms] by (metis prod.collapse)

theorem execute_send_keeps_tables_witness:
  "delivery_tables_ok (cw_db (sample_world [sample_attempt None None] True)) \<and>
   delivery_tables_ok (cw_db (snd (execute_send default_delivery_settings utc_db
     (build_providers 0) 7 (sample_world [sample_attempt None None] True))))"
proof -
  have "delivery_tables_ok (cw_db (sample_world [sample_attempt None None] True))"
    by (simp add: delivery_tables_ok_def sample_world_def sample_attempt_def attempt_ok_def
        allowed_channels_def)
  then show ?thesis using execute_send_keeps_tables by blast
qed

text \<open>Without Redis the job of the delay cannot be stored, and the mark is undone.\<close>

lemma execute_send_quiet_refused:
  assumes "selected x w = Some a" and "due a (dw_clock w)"
    and "next_quiet_hours_retry zi (dw_clock w) a = Inr (Some q)" and "\<not> dw_redis_up w"
  shows "fst (execute_send s zi ps x w) = Inl (Runtime_Error ''redis'') \<and>
    cw_db (snd (execute_send s zi ps x w)) = cw_db w"
  using assms
  by (simp add: execute_send_due transaction_def delay_for_quiet_hours_def mark_delayed_def Let_def eff_simps)

text \<open>
  C3: a provider is never asked during the quiet hours: whenever a run hands a send to a
  provider, the attempt's local time is outside its quiet interval. A run on a due attempt in
  the quiet hours puts it off to their end: the first later instant outside them becomes its
  next retry time, one job is deferred by exactly the time that is left, the attempt number
  does not change, and no other attempt does; without Redis the run raises and the attempt
  stays as it was. The time zone is one that is known, and calm around that instant.
\<close>

theorem no_send_in_quiet_hours:
  assumes "execute_send s zi ps x w = (r, w')"
    and "selected x w = Some a" and "att_quiet_hours_start a = Some start"
    and "att_quiet_hours_end a = Some end'" and "att_timezone a \<noteq> []"
    and "zi (att_timezone a) = Zone_Found z" and "calm z (dw_clock w)"
    and "time_of_day start" and "time_of_day end'"
  shows "(dw_sends w' \<noteq> dw_sends w \<longrightarrow> \<not> quiet_at (to_wall z) start end' (dw_clock w)) \<and>
    (due a (dw_clock w) \<longrightarrow> quiet_at (to_wall z) start end' (dw_clock w) \<longrightarrow> \<not> dw_redis_up w \<longrightarrow>
      r = Inl (Runtime_Error ''redis'') \<and> cw_db w' = cw_db w) \<and>
    (due a (dw_clock w) \<longrightarrow> quiet_at (to_wall z) start end' (dw_clock w) \<longrightarrow> dw_redis_up w \<longrightarrow>
      (\<exists>q. dw_clock w < q \<and> \<not> quiet_at (to_wall z) start end' q \<and>
        (\<forall>t. dw_clock w \<le> t \<and> t < q \<longrightarrow> quiet_at (to_wall z) start end' t) \<and>
        r = Inr () \<and> dw_sends w' = dw_sends w \<and> dw_published w' = dw_published w \<and>
        selected x w' = Some (a\<lparr>att_status := Att_Failed, att_last_error_code := Some ''quiet_hours'',
          att_last_error_message := Some ''Delivery delayed due to quiet hours'',
          att_next_retry_at := Some q, att_updated_at := cw_now w\<rparr>) \<and>
        (\<forall>y. y \<noteq> x \<longrightarrow> selected y w' = selected y w) \<and>
        dw_jobs w' = dw_jobs w @ [\<lparr>job_function = ''retry_attempt'', job_attempt = x,
          job_channel = Some (att_channel a), job_defer_by = Some (q - dw_clock w)\<rparr>]))"
proof -
  let ?t = "dw_clock w"
  let ?n = "next_allowed (to_wall z) (from_wall z) ?t start end'"
  have n: "?t \<le> ?n" "\<not> quiet_at (to_wall z) start end' ?n"
      "\<forall>u. ?t \<le> u \<and> u < ?n \<longrightarrow> quiet_at (to_wall z) start end' u"
    using wall_clock.next_allowed_first [OF calm_wall_clock [OF assms(7)] assms(8,9)] by blast+
  note found = next_quiet_hours_retry_found [where zi = zi, OF assms(3-6), of ?t, unfolded Let_def]
  have sent: "\<not> quiet_at (to_wall z) start end' ?t" if "dw_sends w' \<noteq> dw_sends w"
  proof -
    from assms(1) that have "next_quiet_hours_retry zi ?t a = Inr None"
      using assms(2) by (auto elim: execute_send_asks_provider)
    then have "?n \<le> ?t" unfolding found by (simp split: if_splits)
    with n show ?thesis by (metis order_antisym)
  qed
  show ?thesis
  proof (cases "due a ?t \<and> quiet_at (to_wall z) start end' ?t")
    case False
    then show ?thesis using sent by blast
  next
    case True
    then have later: "?t < ?n" using n by (metis order_le_less)
    then have q: "next_quiet_hours_retry zi ?t a = Inr (Some ?n)" unfolding found by simp
    have no_send: "dw_sends w' = dw_sends w" using sent True by blast
    show ?thesis
    proof (cases "dw_redis_up w")
      case False
      then show ?thesis
        using execute_send_quiet_refused [OF assms(2) _ q False, of s ps] True assms(1) no_send by simp
    next
      case redis: True
      note run = execute_send_quiet [OF assms(2) conjunct1 [OF True] q redis, of s ps, unfolded assms(1)]
      let ?f = "set_delayed ?n ''quiet_hours'' ''Delivery delayed due to quiet hours'' (cw_now w)"
      have "cw_db w' = on_row x ?f (cw_db w)" using run by simp
      then have "selected y w' = map_option (\<lambda>r. if y = x then ?f r else r) (selected y w)" for y
        by (intro selected_on_row) simp_all
      then have "selected x w' = Some (?f a)" "\<forall>y. y \<noteq> x \<longrightarrow> selected y w' = selected y w"
        using assms(2) by (simp_all add: option.map_ident)
      moreover have "r = Inr ()" "dw_published w' = dw_published w"
          "dw_jobs w' = dw_jobs w @ [\<lparr>job_function = ''retry_attempt'', job_attempt = x,
            job_channel = Some (att_channel a), job_defer_by = Some (?n - ?t)\<rparr>]"
        using run later by simp_all
      ultimately show ?thesis
        using n later no_send sent True redis
        by (intro conjI impI exI [of _ ?n]) (simp_all add: set_delayed_def)
    qed
  qed
qed

text \<open>At noon: with the quiet hours from 22 to 7 it is sent; from 9 to 18 it is put off to 18.\<close>

lemma office_hours_quiet:
  "0 \<le> t \<Longrightarrow> t < day \<Longrightarrow>
    quiet_at (to_wall (fixed_zone 0)) (9 * hour) (18 * hour) t \<longleftrightarrow> 9 * hour \<le> t \<and> t < 18 * hour"
  by (auto simp: quiet_at_def to_wall_def fixed_zone_def is_in_quiet_hours_def hour_def)

theorem no_send_in_quiet_hours_witness:
  "dw_sends (snd (execute_send default_delivery_settings utc_db (build_providers 0) 7
     (sample_world [sample_attempt (Some (22 * hour)) (Some (7 * hour))] True))) = [(7, True)] \<and>
   \<not> quiet_at (to_wall (fixed_zone 0)) (22 * hour) (7 * hour) (12 * hour) \<and>
   (let w = sample_world [sample_attempt (Some (9 * hour)) (Some (18 * hour))] True;
        w' = snd (execute_send default_delivery_settings utc_db (build_providers 0) 7 w)
    in dw_sends w' = [] \<and> map_option att_next_retry_at (selected 7 w') = Some (Some (18 * hour)) \<and>
       map job_defer_by (dw_jobs w') = [Some (6 * hour)])"
proof -
  let ?a = "sample_attempt (Some (9 * hour)) (Some (18 * hour))"
  let ?w = "sample_world [?a] True"
  obtain r w' where run: "execute_send default_delivery_settings utc_db (build_providers 0) 7 ?w = (r, w')"
    by fastforce
  have sel: "selected 7 ?w = Some ?a" by (simp add: selected_def sample_world_def sample_attempt_def)
  have due: "due ?a (dw_clock ?w)" by (simp add: due_def sample_world_def sample_attempt_def)
  have clock: "dw_clock ?w = 12 * hour" "dw_redis_up ?w" "dw_sends ?w = []" "dw_jobs ?w = []"
    by (simp_all add: sample_world_def)
  have quiet: "quiet_at (to_wall (fixed_zone 0)) (9 * hour) (18 * hour) (12 * hour)"
    by (rule office_hours_quiet [THEN iffD2]) (simp_all add: hour_def day_def)
  obtain q where q: "12 * hour < q" "\<not> quiet_at (to_wall (fixed_zone 0)) (9 * hour) (18 * hour) q"
      "\<forall>t. 12 * hour \<le> t \<and> t < q \<longrightarrow> quiet_at (to_wall (fixed_zone 0)) (9 * hour) (18 * hour) t"
      "dw_sends w' = []" "map_option att_next_retry_at (selected 7 w') = Some (Some q)"
      "map job_defer_by (dw_jobs w') = [Some (q - 12 * hour)]"
    using no_send_in_quiet_hours [OF run sel, of "9 * hour" "18 * hour" "fixed_zone 0"] due quiet clock
    by (auto simp: sample_attempt_def utc_db_def time_of_day_def hour_def day_def)
  have "\<not> 18 * hour < q" "\<not> q < 18 * hour"
    using q(1-3) office_hours_quiet [of q] office_hours_quiet [of "18 * hour"]
    by (auto simp: hour_def day_def)
  then have "q = 18 * hour" by simp
  with q run have "dw_sends w' = []" "map_option att_next_retry_at (selected 7 w') = Some (Some (18 * hour))"
      "map job_defer_by (dw_jobs w') = [Some (6 * hour)]" by simp_all
  with run show ?thesis
    using no_send_in_quiet_hours [OF sample_send, of "sample_attempt (Some (22 * hour)) (Some (7 * hour))"
        "22 * hour" "7 * hour" "fixed_zone 0"] sample_send
    by (simp add: sample_world_def selected_def sample_attempt_def utc_db_def time_of_day_def
        hour_def day_def)
qed

text \<open>
  When JetStream does not take the success event, the run raises after the provider has
  taken the send: the attempt stays as it was, with no event and no retry job, and each
  further run sends to the user once more; \<open>n\<close> runs deliver the notification \<open>n\<close> times.
\<close>

lemma refused_event_repeats_delivery:
  assumes "selected x w = Some a" and "due a (dw_clock w)"
    and "next_quiet_hours_retry zi (dw_clock w) a = Inr None" and "ps (att_channel a) = Some p"
    and "\<And>draw. res_success (p (att_user_id a) (att_payload a) draw)"
    and "\<not> dw_nats_accepts w (ds_subject_succeeded s)"
  shows "let w' = ((\<lambda>v. snd (execute_send s zi ps x v)) ^^ n) w
    in cw_db w' = cw_db w \<and> dw_sends w' = dw_sends w @ replicate n (x, True) \<and>
       dw_jobs w' = dw_jobs w \<and> dw_published w' = dw_published w \<and>
       fst (execute_send s zi ps x w') = Inl (Publish_Error (ds_subject_succeeded s))"
proof -
  define env where "env v = (cw_db v, dw_clock v, dw_nats_accepts v, dw_jobs v, dw_published v)"
    for v :: delivery_world
  have one: "fst (execute_send s zi ps x v) = Inl (Publish_Error (ds_subject_succeeded s)) \<and>
      env (snd (execute_send s zi ps x v)) = env w \<and>
      dw_sends (snd (execute_send s zi ps x v)) = dw_sends v @ [(x, True)]"
    if "env v = env w" for v
    using assms that selected_id [OF assms(1)]
    by (simp add: env_def execute_send_due [of x v a] selected_def transaction_def send_now_def
        call_provider_def record_success_def mark_sent_def Let_def eff_simps)
  have "env (((\<lambda>v. snd (execute_send s zi ps x v)) ^^ n) w) = env w \<and>
      dw_sends (((\<lambda>v. snd (execute_send s zi ps x v)) ^^ n) w) = dw_sends w @ replicate n (x, True)"
    by (induction n) (auto simp: one replicate_append_same)
  then show ?thesis using one by (simp add: Let_def env_def)
qed

end
