(* ===== verification/Channels.thy ===== *)
theory Channels
  imports Prelude
begin

text \<open>
  The normalisation of a list of channel names, which the delivery service
  (\<open>services/fanout.py\<close>) and the subscriptions service (\<open>services/subscriptions.py\<close>) both have.
\<close>

fun normalize_from :: "string list \<Rightarrow> string list \<Rightarrow> string list" where
  "normalize_from seen [] = []"
| "normalize_from seen (channel # channels) =
     (let lowered = py_lower (py_strip channel)
      in if lowered \<noteq> [] \<and> lowered \<notin> set seen
         then lowered # normalize_from (lowered # seen) channels
         else normalize_from seen channels)"

definition normalize_channels :: "string list \<Rightarrow> string list" where
  "normalize_channels channels = normalize_from [] channels"

definition normalize_channels_non_empty :: "string list \<Rightarrow> exn + string list" where
  "normalize_channels_non_empty channels =
     (let normalized = normalize_from [] channels
      in if normalized = [] then Inl (App Kind_Validation ''channels must not be empty'')
         else Inr normalized)"

text \<open>The names a list denotes: trimmed, in lower case, without the empty ones.\<close>

definition channel_names :: "string list \<Rightarrow> string list" where
  "channel_names channels = filter (\<lambda>c. c \<noteq> []) (map (\<lambda>c. py_lower (py_strip c)) channels)"

definition first_occurrences :: "'a list \<Rightarrow> 'a list" where
  "first_occurrences xs = rev (remdups (rev xs))"

lemma set_normalize_from: "set (normalize_from seen cs) = set (channel_names cs) - set seen"
  by (induction seen cs rule: normalize_from.induct) (auto simp: channel_names_def Let_def)

lemma distinct_normalize_from: "distinct (normalize_from seen cs)"
  by (induction seen cs rule: normalize_from.induct) (auto simp: Let_def set_normalize_from)

lemma remdups_snoc: "remdups (xs @ [x]) = filter (\<lambda>y. y \<noteq> x) (remdups xs) @ [x]"
  by (induction xs) auto

lemma first_occurrences_Cons:
  "first_occurrences (x # xs) = x # filter (\<lambda>y. y \<noteq> x) (first_occurrences xs)"
  by (simp add: first_occurrences_def remdups_snoc rev_filter)

lemma normalize_from_eq:
  "normalize_from seen cs = filter (\<lambda>c. c \<notin> set seen) (first_occurrences (channel_names cs))"
proof (induction seen cs rule: normalize_from.induct)
  case (1 seen)
  show ?case by (simp add: channel_names_def first_occurrences_def)
next
  case (2 seen channel channels)
  have "filter (\<lambda>c. c \<notin> set seen) (filter (\<lambda>c. c \<noteq> l) xs) = filter (\<lambda>c. c \<notin> set (l # seen)) xs"
    for l :: string and xs by (auto intro: filter_cong)
  moreover have "filter (\<lambda>c. c \<notin> set seen) (filter (\<lambda>c. c \<noteq> l) xs) = filter (\<lambda>c. c \<notin> set seen) xs"
    if "l \<in> set seen" for l :: string and xs using that by (auto intro: filter_cong)
  ultimately show ?case
    using 2 by (auto simp: Let_def channel_names_def first_occurrences_Cons)
qed

lemma normalize_from_fixed:
  assumes "\<forall>c \<in> set cs. c \<noteq> [] \<and> py_lower (py_strip c) = c" and "distinct cs"
    and "set cs \<inter> set seen = {}"
  shows "normalize_from seen cs = cs"
  using assms by (induction cs arbitrary: seen) (auto simp: Let_def)

text \<open>
  Channel normalisation keeps the first occurrence of every trimmed, lower-case,
  non-empty name, in order, and nothing else; normalising again changes nothing.
\<close>

theorem normalize_channels_spec:
  "normalize_channels cs = first_occurrences (channel_names cs) \<and>
   distinct (normalize_channels cs) \<and>
   normalize_channels (normalize_channels cs) = normalize_channels cs"
proof -
  have "\<forall>c \<in> set (normalize_channels cs). c \<noteq> [] \<and> py_lower (py_strip c) = c"
    by (auto simp: normalize_channels_def set_normalize_from channel_names_def)
  then have "normalize_channels (normalize_channels cs) = normalize_channels cs"
    unfolding normalize_channels_def [of "normalize_channels cs"]
    by (rule normalize_from_fixed) (simp_all add: normalize_channels_def distinct_normalize_from)
  moreover have "normalize_channels cs = first_occurrences (channel_names cs)"
    by (simp add: normalize_channels_def normalize_from_eq [of "[]" cs])
  moreover have "distinct (normalize_channels cs)"
    by (simp add: normalize_channels_def distinct_normalize_from)
  ultimately show ?thesis by simp
qed

end
