(* ===== verification/Delivery_Fanout.thy ===== *)
theory Delivery_Fanout
  imports Delivery_Executor Channels
begin

text \<open>
  \<open>services/fanout.py\<close>, the page loop of \<open>services/subscriptions\_fetcher.py\<close> over
  \<open>infrastructure/http\_client.py\<close>, and the message handling of
  \<open>consumers/notification\_created\_consumer.py\<close>. The subscriptions service is a parameter:
  for the number of the request, the topic and the cursor it gives the exception of the HTTP
  client, or the latency and the page (or the exception of \<open>raise_for_status\<close> or of the
  validation).
\<close>

section \<open>Messages and pages\<close>

record notification_event =
  ev_event_id :: uuid
  ev_notification_id :: uuid
  ev_topic_id :: uuid
  ev_created_by :: uuid
  ev_payload :: json_dict
  ev_scheduled_at :: "instant option"
  ev_created_at :: instant

record subscriber_item =
  si_user_id :: string
  si_subscription_id :: string
  si_channels :: "string list"
  si_quiet_hours_start :: "int option"
  si_quiet_hours_end :: "int option"
  si_timezone :: string

record subscribers_page =
  sp_items :: "subscriber_item list"
  sp_next_cursor :: "string option"

type_synonym upstream =
  "nat \<Rightarrow> uuid \<Rightarrow> string option \<Rightarrow> exn + int \<times> (exn + subscribers_page)"

text \<open>\<open>if not page.next_cursor\<close>: the empty text ends the loop as \<open>None\<close> does.\<close>

definition next_cursor :: "subscribers_page \<Rightarrow> string option" where
  "next_cursor page = (case sp_next_cursor page of
     None \<Rightarrow> None | Some c \<Rightarrow> if c = [] then None else Some c)"

definition fetch_subscribers_page ::
  "upstream \<Rightarrow> nat \<Rightarrow> uuid \<Rightarrow> string option \<Rightarrow> (delivery_world, subscribers_page) eff" where
  "fetch_subscribers_page upstream n topic_id cursor =
     and_then (lift (upstream n topic_id cursor)) (\<lambda>(elapsed, response).
       seq (metric (observe_subscriptions_fetch_latency elapsed)) (lift response))"

text \<open>
  \<open>async for item in iter_subscribers(topic)\<close> with the body of the loop: the pages are fetched
  as the body consumes them. The first argument is fuel.
\<close>

fun iter_subscribers ::
  "nat \<Rightarrow> upstream \<Rightarrow> nat \<Rightarrow> uuid \<Rightarrow> string option \<Rightarrow>
   ('b \<Rightarrow> subscriber_item \<Rightarrow> (delivery_world, 'b) eff) \<Rightarrow> 'b \<Rightarrow> (delivery_world, 'b) eff" where
  "iter_subscribers 0 upstream n topic_id cursor body acc = raise Diverges"
| "iter_subscribers (Suc fuel) upstream n topic_id cursor body acc =
     and_then (fetch_subscribers_page upstream n topic_id cursor) (\<lambda>page.
     and_then (fold_eff body acc (sp_items page)) (\<lambda>acc'.
     case next_cursor page of
       None \<Rightarrow> ret acc'
     | Some c \<Rightarrow> iter_subscribers fuel upstream (Suc n) topic_id (Some c) body acc'))"

section \<open>FanoutService\<close>

type_synonym channel_counts = "(string \<times> int) list"

definition subscriber_timezone :: "subscriber_item \<Rightarrow> string" where
  "subscriber_timezone subscriber =
     (if si_timezone subscriber \<noteq> [] then py_strip (si_timezone subscriber) else ''UTC'')"

definition process_channel ::
  "delivery_settings \<Rightarrow> notification_event \<Rightarrow> subscriber_item \<Rightarrow> uuid \<Rightarrow>
   channel_counts \<Rightarrow> string \<Rightarrow> (delivery_world, channel_counts) eff" where
  "process_channel settings event subscriber subscriber_user_id counts channel =
     (if channel \<notin> set (settings_channels settings) then ret counts
      else and_then uuid4 (\<lambda>attempt_id.
        and_then (create_or_get attempt_id (ev_notification_id event) subscriber_user_id channel
          (ev_payload event) (si_quiet_hours_start subscriber) (si_quiet_hours_end subscriber)
          (subscriber_timezone subscriber)) (\<lambda>(attempt, created).
        seq (enqueue_job (''send_'' @ channel) (att_id attempt) None None)
          (ret (if created then dict_set channel (counter_get channel counts + 1) counts
                else counts)))))"

definition process_subscriber ::
  "delivery_settings \<Rightarrow> notification_event \<Rightarrow> channel_counts \<Rightarrow> subscriber_item \<Rightarrow>
   (delivery_world, channel_counts) eff" where
  "process_subscriber settings event counts subscriber =
     (case parse_uuid (si_user_id subscriber) of
        None \<Rightarrow> ret counts
      | Some subscriber_user_id \<Rightarrow>
          (let channels = normalize_channels (si_channels subscriber)
           in if channels = [] then ret counts
              else fold_eff (process_channel settings event subscriber subscriber_user_id)
                counts channels))"

definition process_notification_created ::
  "nat \<Rightarrow> delivery_settings \<Rightarrow> upstream \<Rightarrow> notification_event \<Rightarrow> string \<Rightarrow>
   (delivery_world, bool) eff" where
  "process_notification_created fuel settings upstream event subject =
     transaction (and_then (try_mark_processed (ev_event_id event) subject) (\<lambda>is_new.
       if \<not> is_new then ret False
       else and_then (iter_subscribers fuel upstream 0 (ev_topic_id event) None
              (process_subscriber settings event) []) (\<lambda>created_attempts_by_channel.
         seq (for_each (\<lambda>(channel, value). metric (inc_attempts_created channel value))
                created_attempts_by_channel)
        (seq (metric inc_jetstream_processed)
        (ret True)))))"

section \<open>The consumer\<close>

text \<open>
  A message is what \<open>json.loads\<close> and the validation make of its data, and its subject; the
  two flags say whether the server takes an \<open>ack\<close> and a \<open>nak\<close>. The page loop out of fuel
  (\<open>Diverges\<close>) is not an exception that \<open>except Exception\<close> could catch: the message is never
  answered then, and the open transaction is undone when the process goes away.
\<close>

record nats_message =
  msg_event :: "exn + notification_event"
  msg_subject :: string
  msg_ack_ok :: bool
  msg_nak_ok :: bool

datatype reply = Ack | Nak

definition handle_message ::
  "nat \<Rightarrow> delivery_settings \<Rightarrow> upstream \<Rightarrow> nats_message \<Rightarrow> (delivery_world, reply) eff" where
  "handle_message fuel settings upstream msg =
     catch
       (and_then (lift (msg_event msg)) (\<lambda>event.
        seq (process_notification_created fuel settings upstream event (msg_subject msg))
        (if msg_ack_ok msg then ret Ack else raise (Runtime_Error ''nats''))))
       (\<lambda>exc. if exc = Diverges then raise Diverges
         else if msg_nak_ok msg then ret Nak else raise (Runtime_Error ''nats''))"

definition handle_batch ::
  "nat \<Rightarrow> delivery_settings \<Rightarrow> upstream \<Rightarrow> nats_message list \<Rightarrow> (delivery_world, unit) eff" where
  "handle_batch fuel settings upstream messages =
     for_each (\<lambda>msg. and_then (handle_message fuel settings upstream msg) (\<lambda>_. ret ())) messages"

section \<open>When the consumer answers\<close>

text \<open>
  The pages of a topic end: from the given request on, within the given number of requests,
  there is a page without a cursor or a request that raises.
\<close>

fun pages_end :: "nat \<Rightarrow> upstream \<Rightarrow> nat \<Rightarrow> uuid \<Rightarrow> string option \<Rightarrow> bool" where
  "pages_end 0 up n topic cursor = False"
| "pages_end (Suc fuel) up n topic cursor = (case up n topic cursor of
     Inl e \<Rightarrow> e \<noteq> Diverges
   | Inr (elapsed, Inl e) \<Rightarrow> e \<noteq> Diverges
   | Inr (elapsed, Inr page) \<Rightarrow> (case next_cursor page of None \<Rightarrow> True
       | Some c \<Rightarrow> pages_end fuel up (Suc n) topic (Some c)))"

lemma metric_comes_back [simp]: "comes_back (metric f)"
  by (simp add: metric_def)

lemma comes_back_process_subscriber: "comes_back (process_subscriber s ev counts item)"
proof -
  have job: "comes_back (enqueue_job f a c d)" for f a c d
    by (simp add: comes_back_def enqueue_job_def)
  have insert: "comes_back (sql (insert_attempt a))" for a
    by (rule comes_back_sql) (simp add: insert_attempt_def)
  have find: "comes_back (sql (query f))" for f by (rule comes_back_sql) simp
  have "comes_back (create_or_get i n u c p st en tz)" for i n u c p st en tz
    unfolding create_or_get_def
    by (intro comes_back_catch comes_back_and_then comes_back_pure) (auto intro!: insert find split: option.split)
  then have "comes_back (process_channel s ev item u counts c)" for u counts c
    unfolding process_channel_def
    by (auto intro!: comes_back_and_then comes_back_seq job split: prod.split)
  then show ?thesis
    unfolding process_subscriber_def by (auto simp: Let_def split: option.split)
qed

lemma iter_subscribers_comes_back:
  assumes "\<And>acc item. comes_back (body acc item)" and "pages_end fuel up n topic cursor"
  shows "comes_back (iter_subscribers fuel up n topic cursor body acc)"
  using assms(2)
proof (induction fuel arbitrary: n cursor acc)
  case (Suc fuel)
  have go: "comes_back (case next_cursor page of None \<Rightarrow> ret acc'
      | Some c \<Rightarrow> iter_subscribers fuel up (Suc n) topic (Some c) body acc')"
    if "up n topic cursor = Inr (t, Inr page)" for t page acc'
    using Suc that by (auto split: option.split)
  show ?case
  proof (cases "up n topic cursor")
    case (Inl e)
    then show ?thesis using Suc.prems
      by (simp add: comes_back_def fetch_subscribers_page_def eff_simps)
  next
    case (Inr r)
    then obtain t p where r: "up n topic cursor = Inr (t, p)" by (cases r) simp
    show ?thesis
    proof (cases p)
      case (Inl e)
      then show ?thesis using Suc.prems r
        by (simp add: comes_back_def fetch_subscribers_page_def eff_simps)
    next
      case (Inr page)
      have "comes_back (and_then (fold_eff body acc (sp_items page)) (\<lambda>acc'.
          case next_cursor page of None \<Rightarrow> ret acc'
          | Some c \<Rightarrow> iter_subscribers fuel up (Suc n) topic (Some c) body acc'))"
        by (intro comes_back_and_then comes_back_fold_eff assms(1) go [OF r [unfolded Inr]])
      then show ?thesis
        using r Inr by (simp add: comes_back_def fetch_subscribers_page_def eff_simps)
    qed
  qed
qed simp

lemma process_comes_back:
  assumes "pages_end fuel up 0 (ev_topic_id ev) None"
  shows "comes_back (process_notification_created fuel s up ev sub)"
proof -
  have "comes_back (sql (insert_processed_event i sub now))" for i now
    by (rule comes_back_sql) (simp add: insert_processed_event_def)
  then have "comes_back (try_mark_processed i sub)" for i
    unfolding try_mark_processed_def by (intro comes_back_catch comes_back_and_then) auto
  then show ?thesis
    unfolding process_notification_created_def
    by (intro comes_back_transaction comes_back_and_then)
      (auto intro!: comes_back_and_then comes_back_seq comes_back_for_each iter_subscribers_comes_back
        comes_back_process_subscriber assms split: prod.split)
qed

section \<open>What a fan-out has to create\<close>

text \<open>The attempts that a subscriber asks for: a valid user and the channels in service.\<close>

type_synonym target = "subscriber_item \<times> uuid \<times> string"

definition targets_of :: "delivery_settings \<Rightarrow> subscriber_item \<Rightarrow> target list" where
  "targets_of settings item = (case parse_uuid (si_user_id item) of
     None \<Rightarrow> []
   | Some u \<Rightarrow> map (\<lambda>c. (item, u, c))
       (filter (\<lambda>c. c \<in> set (settings_channels settings)) (normalize_channels (si_channels item))))"

definition target_key :: "notification_event \<Rightarrow> target \<Rightarrow> uuid \<times> uuid \<times> string" where
  "target_key event t = (ev_notification_id event, fst (snd t), snd (snd t))"

definition new_attempt :: "notification_event \<Rightarrow> instant \<Rightarrow> uuid \<Rightarrow> target \<Rightarrow> delivery_attempt" where
  "new_attempt event now attempt_id t = (let (item, u, c) = t in
     \<lparr>att_id = attempt_id, att_notification_id = ev_notification_id event, att_user_id = u,
      att_channel = c, att_payload = ev_payload event,
      att_quiet_hours_start = si_quiet_hours_start item,
      att_quiet_hours_end = si_quiet_hours_end item, att_timezone = subscriber_timezone item,
      att_status = Att_Pending, att_attempt_no = 0, att_last_error_code = None,
      att_last_error_message = None, att_next_retry_at = None, att_created_at = now,
      att_updated_at = now\<rparr>)"

fun planned_attempts ::
  "notification_event \<Rightarrow> instant \<Rightarrow> (nat \<Rightarrow> uuid) \<Rightarrow> nat \<Rightarrow> target list \<Rightarrow> delivery_attempt list" where
  "planned_attempts event now ids k [] = []"
| "planned_attempts event now ids k (t # ts) =
     new_attempt event now (ids k) t # planned_attempts event now ids (Suc k) ts"

definition job_for :: "delivery_attempt \<Rightarrow> arq_job" where
  "job_for a = \<lparr>job_function = ''send_'' @ att_channel a, job_attempt = att_id a,
     job_channel = None, job_defer_by = None\<rparr>"

definition count_target :: "channel_counts \<Rightarrow> target \<Rightarrow> channel_counts" where
  "count_target counts t =
     (let c = snd (snd t) in dict_set c (counter_get c counts + 1) counts)"

definition deliver_target ::
  "notification_event \<Rightarrow> channel_counts \<Rightarrow> target \<Rightarrow> (delivery_world, channel_counts) eff" where
  "deliver_target event counts t = (let (item, u, c) = t in
     and_then uuid4 (\<lambda>attempt_id.
     and_then (create_or_get attempt_id (ev_notification_id event) u c (ev_payload event)
       (si_quiet_hours_start item) (si_quiet_hours_end item) (subscriber_timezone item))
       (\<lambda>(attempt, created).
     seq (enqueue_job (''send_'' @ c) (att_id attempt) None None)
       (ret (if created then count_target counts t else counts)))))"

lemma and_then_ret [simp]: "and_then (ret x) f = f x"
  by (rule ext) (simp add: eff_simps)

lemma and_then_ret_right [simp]: "and_then m ret = m"
  by (rule ext) (simp add: eff_simps split: prod.split sum.split)

lemma process_channel_in_service: "c \<in> set (settings_channels s) \<Longrightarrow>
    process_channel s ev item u counts c = deliver_target ev counts (item, u, c)"
  by (simp add: process_channel_def deliver_target_def count_target_def cong: if_cong)

lemma fold_process_channel: "fold_eff (process_channel s ev item u) counts cs =
    fold_eff (deliver_target ev) counts
      (map (\<lambda>c. (item, u, c)) (filter (\<lambda>c. c \<in> set (settings_channels s)) cs))"
proof (induction cs arbitrary: counts)
  case Nil
  show ?case by simp
next
  case (Cons c cs)
  then show ?case
    by (cases "c \<in> set (settings_channels s)")
      (simp_all add: process_channel_in_service, simp add: process_channel_def)
qed

text \<open>A page is a run over the targets of its subscribers.\<close>

lemma process_subscriber_eq:
  "process_subscriber s ev counts item = fold_eff (deliver_target ev) counts (targets_of s item)"
  by (auto simp: process_subscriber_def targets_of_def fold_process_channel Let_def
      split: option.split)

lemma fold_process_subscriber: "fold_eff (process_subscriber s ev) counts items =
    fold_eff (deliver_target ev) counts (concat (map (targets_of s) items))"
  by (induction items arbitrary: counts) (simp_all add: process_subscriber_eq fold_eff_append)

section \<open>A run over targets\<close>

text \<open>What the environment must grant: an open transaction, Redis, and fresh UUIDs.\<close>

definition ready :: "nat \<Rightarrow> delivery_world \<Rightarrow> bool" where
  "ready n w \<longleftrightarrow> cw_tx w = Tx_Open \<and> dw_redis_up w \<and>
     inj_on (\<lambda>i. cw_uuids w (cw_drawn w + i)) {..<n} \<and>
     (\<forall>i < n. cw_uuids w (cw_drawn w + i) \<notin> att_id ` set (db_attempts (cw_db w)))"

definition deliverable :: "target list \<Rightarrow> bool" where
  "deliverable ts \<longleftrightarrow> (\<forall>t \<in> set ts. snd (snd t) \<in> set allowed_channels)"

definition no_clash :: "notification_event \<Rightarrow> delivery_db \<Rightarrow> target list \<Rightarrow> bool" where
  "no_clash event d ts \<longleftrightarrow> distinct (map (target_key event) ts) \<and>
     set (map (target_key event) ts) \<inter> attempt_key ` set (db_attempts d) = {}"

definition with_targets ::
  "notification_event \<Rightarrow> target list \<Rightarrow> delivery_world \<Rightarrow> delivery_world" where
  "with_targets event ts w =
     (let new = planned_attempts event (cw_now w) (cw_uuids w) (cw_drawn w) ts
      in w\<lparr>cw_drawn := cw_drawn w + length ts,
           cw_db := (cw_db w)\<lparr>db_attempts := db_attempts (cw_db w) @ new\<rparr>,
           dw_jobs := dw_jobs w @ map job_for new\<rparr>)"

lemma new_attempt_simps [simp]:
  "att_id (new_attempt ev now x t) = x"
  "att_channel (new_attempt ev now x t) = snd (snd t)"
  "attempt_key (new_attempt ev now x t) = target_key ev t"
  "att_status (new_attempt ev now x t) = Att_Pending"
  "att_attempt_no (new_attempt ev now x t) = 0"
  "att_next_retry_at (new_attempt ev now x t) = None"
  by (auto simp: new_attempt_def attempt_key_def target_key_def split: prod.split)

lemma length_planned [simp]: "length (planned_attempts ev now ids k ts) = length ts"
  by (induction ts arbitrary: k) auto

lemma keys_planned [simp]:
  "map attempt_key (planned_attempts ev now ids k ts) = map (target_key ev) ts"
  by (induction ts arbitrary: k) auto

lemma ids_planned:
  "map att_id (planned_attempts ev now ids k ts) = map (\<lambda>i. ids (k + i)) [0..<length ts]"
  by (induction ts arbitrary: k) (auto simp: upt_conv_Cons map_Suc_upt [symmetric] simp del: upt_Suc)

lemma planned_append: "planned_attempts ev now ids k (ts @ us) =
    planned_attempts ev now ids k ts @ planned_attempts ev now ids (k + length ts) us"
  by (induction ts arbitrary: k) auto

lemma deliver_target_free:
  assumes "ready (Suc n) w" and "snd (snd t) \<in> set allowed_channels"
    and "target_key ev t \<notin> attempt_key ` set (db_attempts (cw_db w))"
  shows "deliver_target ev counts t w = (Inr (count_target counts t), with_targets ev [t] w)"
  using assms
  by (auto simp: deliver_target_def create_or_get_def insert_attempt_def eff_simps ready_def
      with_targets_def new_attempt_def job_for_def attempt_key_def target_key_def Let_def
      split: prod.splits)

lemma deliver_target_taken:
  assumes "ready (Suc n) w" and "snd (snd t) \<in> set allowed_channels"
    and "target_key ev t \<in> attempt_key ` set (db_attempts (cw_db w))"
  shows "deliver_target ev counts t w = (Inl in_failed_transaction,
     w\<lparr>cw_drawn := Suc (cw_drawn w), cw_tx := Tx_Failed\<rparr>)"
  using assms
  by (auto simp: deliver_target_def create_or_get_def insert_attempt_def eff_simps ready_def
      attempt_key_def target_key_def image_iff Let_def split: prod.splits)

lemma ready_with_targets:
  assumes "ready (length ts + n) w"
  shows "ready n (with_targets ev ts w)"
proof -
  let ?u = "\<lambda>i. cw_uuids w (cw_drawn w + i)"
  from assms have inj: "inj_on ?u {..<length ts + n}" by (simp add: ready_def)
  have "inj_on (\<lambda>i. ?u (length ts + i)) {..<n}"
  proof (rule inj_onI)
    fix x y assume "x \<in> {..<n}" and "y \<in> {..<n}" and "?u (length ts + x) = ?u (length ts + y)"
    with inj_onD [OF inj, of "length ts + x" "length ts + y"] show "x = y" by simp
  qed
  moreover have "?u (length ts + i) \<notin> ?u ` {..<length ts}" if "i < n" for i
    using that inj_onD [OF inj, of "length ts + i"] by fastforce
  moreover have "att_id ` set (planned_attempts ev (cw_now w) (cw_uuids w) (cw_drawn w) ts) =
      ?u ` {..<length ts}"
    using arg_cong [OF ids_planned, of set] by (simp add: atLeast_upt lessThan_atLeast0)
  ultimately show ?thesis
    using assms by (auto simp: ready_def with_targets_def Let_def add.assoc image_Un)
qed

lemma with_targets_Nil [simp]: "with_targets ev [] w = w"
  by (simp add: with_targets_def)

lemma with_targets_append: "with_targets ev us (with_targets ev ts w) = with_targets ev (ts @ us) w"
  by (simp add: with_targets_def Let_def planned_append add.assoc)

lemma no_clash_Cons: "no_clash ev (cw_db w) (t # ts) \<longleftrightarrow>
    target_key ev t \<notin> attempt_key ` set (db_attempts (cw_db w)) \<and>
    no_clash ev (cw_db (with_targets ev [t] w)) ts"
  by (auto simp: no_clash_def with_targets_def)

text \<open>
  Either every target gets its attempt and its job, or the run stops at the first key that is
  taken, with SQLSTATE 25P02.
\<close>

lemma fold_deliver_target:
  assumes "ready (length ts) w" and "deliverable ts"
  shows "no_clash ev (cw_db w) ts \<Longrightarrow>
      fold_eff (deliver_target ev) counts ts w =
        (Inr (fold (\<lambda>t c. count_target c t) ts counts), with_targets ev ts w)"
    and "\<not> no_clash ev (cw_db w) ts \<Longrightarrow>
      fst (fold_eff (deliver_target ev) counts ts w) = Inl in_failed_transaction"
  using assms
proof (induction ts arbitrary: w counts)
  case Nil
  { case 1 show ?case by (simp add: eff_simps) }
  { case 2 then show ?case by (simp add: no_clash_def) }
next
  case (Cons t ts)
  have next_ready: "ready (length ts) (with_targets ev [t] w)" if "ready (length (t # ts)) w" for w
    using ready_with_targets [of "[t]" "length ts" w ev] that by simp
  { case 1
    then have "target_key ev t \<notin> attempt_key ` set (db_attempts (cw_db w))"
      and "no_clash ev (cw_db (with_targets ev [t] w)) ts" by (simp_all add: no_clash_Cons)
    moreover have "ready (length ts) (with_targets ev [t] w)" and "deliverable ts"
      and "snd (snd t) \<in> set allowed_channels" using 1 next_ready by (auto simp: deliverable_def)
    ultimately show ?case
      using 1 Cons.IH(1) [of "with_targets ev [t] w" "count_target counts t"]
        deliver_target_free [of "length ts" w t ev counts]
      by (simp add: eff_simps with_targets_append) }
  { case 2
    show ?case
    proof (cases "target_key ev t \<in> attempt_key ` set (db_attempts (cw_db w))")
      case True
      with 2 deliver_target_taken show ?thesis by (simp add: eff_simps deliverable_def)
    next
      case False
      with 2 have "\<not> no_clash ev (cw_db (with_targets ev [t] w)) ts" by (simp add: no_clash_Cons)
      moreover have "ready (length ts) (with_targets ev [t] w)" and "deliverable ts"
        and "snd (snd t) \<in> set allowed_channels" using 2 next_ready by (auto simp: deliverable_def)
      ultimately show ?thesis
        using 2 False Cons.IH(2) [of "with_targets ev [t] w" "count_target counts t"]
          deliver_target_free [of "length ts" w t ev counts]
        by (simp add: eff_simps)
    qed }
qed

section \<open>A run over pages\<close>

text \<open>The upstream serves a chain of pages: each with its latency, the last without a cursor.\<close>

fun serves ::
  "upstream \<Rightarrow> uuid \<Rightarrow> nat \<Rightarrow> string option \<Rightarrow> (int \<times> subscribers_page) list \<Rightarrow> bool" where
  "serves up topic n cursor [] = False"
| "serves up topic n cursor ((elapsed, page) # pages) =
     (up n topic cursor = Inr (elapsed, Inr page) \<and>
      (case next_cursor page of
         None \<Rightarrow> pages = []
       | Some c \<Rightarrow> serves up topic (Suc n) (Some c) pages))"

definition page_targets :: "delivery_settings \<Rightarrow> (int \<times> subscribers_page) list \<Rightarrow> target list" where
  "page_targets s pages = concat (map (\<lambda>(_, p). concat (map (targets_of s) (sp_items p))) pages)"

definition fetched :: "(int \<times> subscribers_page) list \<Rightarrow> delivery_world \<Rightarrow> delivery_world" where
  "fetched pages w = w\<lparr>dw_metrics :=
     fold observe_subscriptions_fetch_latency (map fst pages) (dw_metrics w)\<rparr>"

lemma fetched_simps [simp]:
  "cw_db (fetched ps w) = cw_db w" "cw_tx (fetched ps w) = cw_tx w"
  "ready n (fetched ps w) = ready n w"
  "cw_now (fetched ps w) = cw_now w" "cw_uuids (fetched ps w) = cw_uuids w"
  "cw_drawn (fetched ps w) = cw_drawn w" "dw_jobs (fetched ps w) = dw_jobs w"
  "fetched [] w = w"
  by (simp_all add: fetched_def ready_def)

lemma fetched_with_targets: "fetched ps (with_targets ev ts w) = with_targets ev ts (fetched ps w)"
  by (simp add: fetched_def with_targets_def Let_def)

lemma fetched_Cons: "fetched (p # ps) w = fetched ps (fetched [p] w)"
  by (simp add: fetched_def)

lemma page_targets_simps [simp]:
  "page_targets s [] = []"
  "page_targets s ((l, p) # ps) = concat (map (targets_of s) (sp_items p)) @ page_targets s ps"
  by (simp_all add: page_targets_def)

lemma ready_less: "ready n w \<Longrightarrow> m \<le> n \<Longrightarrow> ready m w"
  by (auto simp: ready_def inj_on_def)

lemma no_clash_append: "no_clash ev (cw_db w) (ts @ us) \<longleftrightarrow>
    no_clash ev (cw_db w) ts \<and> no_clash ev (cw_db (with_targets ev ts w)) us"
proof -
  have "attempt_key ` set (planned_attempts ev now ids k ts) = target_key ev ` set ts" for now ids k
    by (metis keys_planned set_map)
  then show ?thesis
    by (auto simp: no_clash_def with_targets_def Let_def image_Un)
qed

lemma iter_subscribers_pages:
  assumes "serves up topic n cursor pages" and "length pages \<le> fuel"
    and "ready (length (page_targets s pages)) w" and "deliverable (page_targets s pages)"
  shows "(no_clash ev (cw_db w) (page_targets s pages) \<longrightarrow>
      iter_subscribers fuel up n topic cursor (process_subscriber s ev) counts w =
        (Inr (fold (\<lambda>t c. count_target c t) (page_targets s pages) counts),
         with_targets ev (page_targets s pages) (fetched pages w))) \<and>
    (\<not> no_clash ev (cw_db w) (page_targets s pages) \<longrightarrow>
      fst (iter_subscribers fuel up n topic cursor (process_subscriber s ev) counts w) =
        Inl in_failed_transaction)"
  using assms
proof (induction pages arbitrary: n cursor fuel w counts)
  case Nil
  then show ?case by simp
next
  case (Cons lp pages)
  obtain l p where lp: "lp = (l, p)" by fastforce
  let ?ts = "concat (map (targets_of s) (sp_items p))"
  let ?us = "page_targets s pages"
  obtain fuel' where fuel: "fuel = Suc fuel'" using Cons.prems(2) by (cases fuel) auto
  have page: "up n topic cursor = Inr (l, Inr p)" using Cons.prems(1) by (simp add: lp)
  let ?w1 = "fetched [lp] w"
  have head_ready: "ready (length ?ts) ?w1"
    using ready_less [OF Cons.prems(3)] by (simp add: lp)
  have head_deliv: "deliverable ?ts" and tail_deliv: "deliverable ?us"
    using Cons.prems(4) by (auto simp: lp deliverable_def)
  have tail_ready: "ready (length ?us) (with_targets ev ?ts ?w1)"
    using ready_with_targets [of ?ts "length ?us" ?w1 ev] Cons.prems(3) by (simp add: lp)
  have fetch: "fetch_subscribers_page up n topic cursor w = (Inr p, ?w1)"
    by (simp add: fetch_subscribers_page_def page eff_simps fetched_def lp)
  note run = iter_subscribers.simps(2) and_then_run fetch fold_process_subscriber fuel
  have split: "no_clash ev (cw_db w) (page_targets s (lp # pages)) \<longleftrightarrow>
      no_clash ev (cw_db ?w1) ?ts \<and> no_clash ev (cw_db (with_targets ev ?ts ?w1)) ?us"
    using no_clash_append [of ev ?w1 ?ts ?us] by (simp add: lp)
  show ?case
  proof (cases "no_clash ev (cw_db ?w1) ?ts")
    case False
    then have "fst (fold_eff (deliver_target ev) counts ?ts ?w1) = Inl in_failed_transaction"
      using fold_deliver_target(2) [OF head_ready head_deliv] by blast
    with False split show ?thesis
      by (auto simp: run split: prod.split sum.split)
  next
    case True
    note head = fold_deliver_target(1) [OF head_ready head_deliv True, of counts]
    show ?thesis
    proof (cases "next_cursor p")
      case None
      then have "pages = []" using Cons.prems(1) by (simp add: lp)
      with None True split head show ?thesis
        by (simp add: run ret_run lp)
    next
      case (Some c)
      then have "serves up topic (Suc n) (Some c) pages" using Cons.prems(1) by (simp add: lp)
      from Cons.IH [OF this _ tail_ready tail_deliv, of fuel'] Cons.prems(2) fuel
      show ?thesis using True split head Some
        by (simp add: run fetched_Cons [of "(l, p)" pages] fetched_with_targets with_targets_append
            fold_append lp)
    qed
  qed
qed

section \<open>What a fan-out can change\<close>

text \<open>
  Inside its transaction a fan-out only appends attempts and jobs under newly drawn UUIDs, and
  updates metrics.
\<close>

definition drawn_between :: "delivery_world \<Rightarrow> delivery_world \<Rightarrow> uuid set" where
  "drawn_between w w' = cw_uuids w ` {cw_drawn w..<cw_drawn w'}"

definition same_surroundings :: "delivery_world \<Rightarrow> delivery_world \<Rightarrow> bool" where
  "same_surroundings w w' \<longleftrightarrow> cw_uuids w' = cw_uuids w \<and> cw_now w' = cw_now w \<and>
     dw_clock w' = dw_clock w \<and> dw_random w' = dw_random w \<and> dw_redis_up w' = dw_redis_up w \<and>
     dw_nats_accepts w' = dw_nats_accepts w"

definition fan_frame :: "delivery_world \<Rightarrow> delivery_world \<Rightarrow> bool" where
  "fan_frame w w' \<longleftrightarrow> same_surroundings w w' \<and> cw_drawn w \<le> cw_drawn w' \<and>
     db_processed (cw_db w') = db_processed (cw_db w) \<and>
     dw_sends w' = dw_sends w \<and> dw_published w' = dw_published w \<and>
     (cw_tx w \<noteq> Tx_None \<longrightarrow> cw_tx w' \<noteq> Tx_None \<and>
       (\<exists>new. db_attempts (cw_db w') = db_attempts (cw_db w) @ new \<and>
          att_id ` set new \<subseteq> drawn_between w w' \<and> (\<forall>a \<in> set new. att_status a = Att_Pending)) \<and>
       (\<exists>jobs. dw_jobs w' = dw_jobs w @ jobs \<and> job_attempt ` set jobs \<subseteq> drawn_between w w') \<and>
       (delivery_tables_ok (cw_db w) \<longrightarrow> delivery_tables_ok (cw_db w')))"

lemma drawn_between_split: "cw_uuids v = cw_uuids u \<Longrightarrow> cw_drawn u \<le> cw_drawn v \<Longrightarrow>
    cw_drawn v \<le> cw_drawn w \<Longrightarrow> drawn_between u w = drawn_between u v \<union> drawn_between v w"
  by (simp add: drawn_between_def image_Un [symmetric] ivl_disj_un)

lemma fan_frame_preorder: "preorder_on_worlds fan_frame"
  unfolding preorder_on_worlds_def
proof (intro conjI allI impI)
  fix u v w assume uv: "fan_frame u v" and vw: "fan_frame v w"
  then have split: "drawn_between u w = drawn_between u v \<union> drawn_between v w"
    by (intro drawn_between_split) (auto simp: fan_frame_def same_surroundings_def)
  show "fan_frame u w"
  proof (cases "cw_tx u = Tx_None")
    case True
    with uv vw show ?thesis by (auto simp: fan_frame_def same_surroundings_def)
  next
    case False
    then obtain n1 j1 where a: "db_attempts (cw_db v) = db_attempts (cw_db u) @ n1"
        "att_id ` set n1 \<subseteq> drawn_between u v" "\<forall>a \<in> set n1. att_status a = Att_Pending"
        "dw_jobs v = dw_jobs u @ j1" "job_attempt ` set j1 \<subseteq> drawn_between u v"
      and tx: "cw_tx v \<noteq> Tx_None"
      using uv by (auto simp: fan_frame_def)
    from vw tx obtain n2 j2 where b: "db_attempts (cw_db w) = db_attempts (cw_db v) @ n2"
        "att_id ` set n2 \<subseteq> drawn_between v w" "\<forall>a \<in> set n2. att_status a = Att_Pending"
        "dw_jobs w = dw_jobs v @ j2" "job_attempt ` set j2 \<subseteq> drawn_between v w"
      by (auto simp: fan_frame_def)
    have "db_attempts (cw_db w) = db_attempts (cw_db u) @ (n1 @ n2) \<and>
        att_id ` set (n1 @ n2) \<subseteq> drawn_between u w \<and> (\<forall>a \<in> set (n1 @ n2). att_status a = Att_Pending)"
      and "dw_jobs w = dw_jobs u @ (j1 @ j2) \<and> job_attempt ` set (j1 @ j2) \<subseteq> drawn_between u w"
      using a b split by auto
    moreover have "cw_tx w \<noteq> Tx_None" and
      "delivery_tables_ok (cw_db u) \<longrightarrow> delivery_tables_ok (cw_db w)"
      using uv vw False tx by (auto simp: fan_frame_def)
    moreover have "same_surroundings u w" and "cw_drawn u \<le> cw_drawn w"
      and "db_processed (cw_db w) = db_processed (cw_db u)" and "dw_sends w = dw_sends u"
      and "dw_published w = dw_published u"
      using uv vw by (auto simp: fan_frame_def same_surroundings_def)
    ultimately show ?thesis unfolding fan_frame_def by blast
  qed
qed (simp add: fan_frame_def same_surroundings_def)

lemma insert_attempt_Inr:
  "insert_attempt a d = Inr (r, d') \<Longrightarrow> r = a \<and> d' = d\<lparr>db_attempts := db_attempts d @ [a]\<rparr>"
  by (auto simp: insert_attempt_def split: if_splits)

lemma obeys_metric: "obeys fan_frame (metric f)"
  by (simp add: obeys_def metric_run fan_frame_def same_surroundings_def)

text \<open>The three outcomes of an insertion inside a transaction.\<close>

lemma create_or_get_in_transaction:
  assumes "cw_tx w \<noteq> Tx_None" and "create_or_get x nid u c payload qs qe tz w = (r, w')"
  obtains e where "r = Inl e" and "w' = w\<lparr>cw_tx := Tx_Failed\<rparr>"
  | a where "r = Inr (a, True)" and "insert_attempt a (cw_db w) = Inr (a, cw_db w')"
      and "w' = w\<lparr>cw_db := cw_db w'\<rparr>" and "att_id a = x" and "att_status a = Att_Pending"
      and "att_attempt_no a = 0" and "att_next_retry_at a = None"
proof (cases "cw_tx w")
  case Tx_None
  with assms show ?thesis by simp
next
  case Tx_Failed
  then have "w\<lparr>cw_tx := Tx_Failed\<rparr> = w" by simp
  with assms Tx_Failed that(1) show ?thesis by (auto simp: create_or_get_def eff_simps)
next
  case Tx_Open
  let ?a = "\<lparr>att_id = x, att_notification_id = nid, att_user_id = u, att_channel = c,
    att_payload = payload, att_quiet_hours_start = qs, att_quiet_hours_end = qe,
    att_timezone = tz, att_status = Att_Pending, att_attempt_no = 0,
    att_last_error_code = None, att_last_error_message = None, att_next_retry_at = None,
    att_created_at = cw_now w, att_updated_at = cw_now w\<rparr>"
  show ?thesis
  proof (cases "insert_attempt ?a (cw_db w)")
    case (Inl e)
    with assms(2) Tx_Open have "\<exists>e'. r = Inl e' \<and> w' = w\<lparr>cw_tx := Tx_Failed\<rparr>"
      by (cases "e = unique_violation") (auto simp: create_or_get_def eff_simps)
    with that(1) show ?thesis by blast
  next
    case (Inr res)
    then obtain d where res: "res = (?a, d)" by (auto simp: insert_attempt_def split: if_splits)
    with assms(2) Tx_Open Inr have "r = Inr (?a, True)" and "w' = w\<lparr>cw_db := d\<rparr>"
      by (auto simp: create_or_get_def eff_simps)
    with that(2) [of ?a] Inr res show ?thesis by simp
  qed
qed

lemma obeys_process_channel: "obeys fan_frame (process_channel s ev item u counts c)"
  unfolding obeys_def
proof
  fix w :: delivery_world
  let ?x = "cw_uuids w (cw_drawn w)"
  let ?w1 = "w\<lparr>cw_drawn := Suc (cw_drawn w)\<rparr>"
  let ?m = "create_or_get ?x (ev_notification_id ev) u c (ev_payload ev) (si_quiet_hours_start item)
      (si_quiet_hours_end item) (subscriber_timezone item)"
  obtain r w2 where m: "?m ?w1 = (r, w2)" by fastforce
  show "fan_frame w (snd (process_channel s ev item u counts c w))"
  proof (cases "c \<in> set (settings_channels s)")
    case False
    then show ?thesis
      using fan_frame_preorder by (simp add: process_channel_def ret_run preorder_on_worlds_def)
  next
    case True
    show ?thesis
    proof (cases "cw_tx w = Tx_None")
      case none: True
      have "same_surroundings w w2 \<and> cw_drawn w \<le> cw_drawn w2 \<and>
          db_processed (cw_db w2) = db_processed (cw_db w) \<and>
          dw_sends w2 = dw_sends w \<and> dw_published w2 = dw_published w"
        using m none by (auto simp: create_or_get_def eff_simps insert_attempt_def
            same_surroundings_def split: if_splits option.splits)
      then show ?thesis using True none m
        by (cases r) (auto simp: process_channel_def eff_simps fan_frame_def same_surroundings_def)
    next
      case tx: False
      then have "cw_tx ?w1 \<noteq> Tx_None" by simp
      from this m show ?thesis
      proof (cases rule: create_or_get_in_transaction)
        case (1 e)
        then show ?thesis using True m tx
          by (simp add: process_channel_def eff_simps fan_frame_def same_surroundings_def)
      next
        case (2 a)
        have ok: "delivery_tables_ok (cw_db w) \<longrightarrow> delivery_tables_ok (cw_db w2)"
          using tables_ok_insert_attempt [of "cw_db w" a a "cw_db w2"] 2
          by (auto simp: attempt_ok_def insert_attempt_def split: if_splits)
        have rows: "db_attempts (cw_db w2) = db_attempts (cw_db w) @ [a]"
            "db_processed (cw_db w2) = db_processed (cw_db w)"
          using insert_attempt_Inr [OF 2(2)] by simp_all
        have drawn: "?x \<in> drawn_between w ?w1" by (simp add: drawn_between_def)
        have w2: "cw_drawn w2 = Suc (cw_drawn w)" "cw_uuids w2 = cw_uuids w" "cw_tx w2 = cw_tx w"
            "same_surroundings w w2" "dw_sends w2 = dw_sends w" "dw_published w2 = dw_published w"
            "dw_jobs w2 = dw_jobs w" "dw_redis_up w2 = dw_redis_up w"
          by (subst 2(3), simp add: same_surroundings_def)+
        show ?thesis
          using True m tx 2(1,4,5) ok rows drawn w2
          by (auto simp: process_channel_def eff_simps fan_frame_def same_surroundings_def
              drawn_between_def)
      qed
    qed
  qed
qed

lemma obeys_iter_subscribers: "obeys fan_frame
    (iter_subscribers fuel up n topic cursor (process_subscriber s ev) counts)"
proof (induction fuel arbitrary: n cursor counts)
  case 0
  show ?case by (simp add: obeys_pure fan_frame_preorder)
next
  case (Suc fuel)
  have item: "obeys fan_frame (process_subscriber s ev acc item)" for acc item
    by (auto simp: process_subscriber_def Let_def fan_frame_preorder obeys_rules
        obeys_process_channel split: option.split)
  have fetch: "obeys fan_frame (fetch_subscribers_page up n topic cursor)"
    by (simp add: fetch_subscribers_page_def fan_frame_preorder obeys_rules obeys_metric
        split: prod.split)
  show ?case
    unfolding iter_subscribers.simps
    by (intro obeys_and_then fan_frame_preorder fetch obeys_fold_eff item)
      (auto split: option.split intro: obeys_pure fan_frame_preorder Suc.IH)
qed

text \<open>A fan-out that goes on has not aborted its transaction.\<close>

definition tx_open :: "delivery_world \<Rightarrow> bool" where
  "tx_open w \<longleftrightarrow> cw_tx w = Tx_Open"

lemma stays_open_create_or_get: "stays tx_open (create_or_get x nid u c payload qs qe tz)"
  unfolding stays_def
proof (intro allI impI)
  fix w r w' assume "tx_open w" and run: "create_or_get x nid u c payload qs qe tz w = (Inr r, w')"
  then have "cw_tx w \<noteq> Tx_None" and "tx_open w" by (simp_all add: tx_open_def)
  from this(1) run show "tx_open w'"
  proof (cases rule: create_or_get_in_transaction)
    case (2 a)
    have "cw_tx w' = cw_tx w" by (subst 2(3)) simp
    with \<open>tx_open w\<close> show ?thesis by (simp add: tx_open_def)
  qed simp
qed

lemma stays_open_process_channel: "stays tx_open (process_channel s ev item u counts c)"
  by (auto simp: process_channel_def stays_pure split: prod.split
      intro!: stays_and_then stays_seq stays_open_create_or_get)
    (auto simp: stays_def eff_simps tx_open_def split: if_splits)

lemma stays_open_iter:
  "stays tx_open (iter_subscribers fuel up n topic cursor (process_subscriber s ev) counts)"
proof (induction fuel arbitrary: n cursor counts)
  case 0
  show ?case by (simp add: stays_pure)
next
  case (Suc fuel)
  have item: "stays tx_open (process_subscriber s ev acc item)" for acc item
    by (auto simp: process_subscriber_def Let_def stays_rules stays_open_process_channel
        split: option.split)
  have fetch: "stays tx_open (fetch_subscribers_page up n topic cursor)"
    by (auto simp: fetch_subscribers_page_def stays_def eff_simps tx_open_def split: prod.splits sum.splits)
  show ?case
    unfolding iter_subscribers.simps
    by (intro stays_and_then fetch stays_fold_eff item)
      (auto split: option.split intro: stays_pure Suc.IH)
qed

section \<open>The runs of a fan-out\<close>

definition event_seen :: "notification_event \<Rightarrow> delivery_db \<Rightarrow> bool" where
  "event_seen ev d \<longleftrightarrow> ev_event_id ev \<in> set (map pev_event_id (db_processed d))"

definition marked :: "notification_event \<Rightarrow> string \<Rightarrow> delivery_world \<Rightarrow> delivery_world" where
  "marked ev subject w = w\<lparr>cw_tx := Tx_Open, cw_db := (cw_db w)\<lparr>db_processed := db_processed (cw_db w) @
     [\<lparr>pev_event_id = ev_event_id ev, pev_subject = subject, pev_processed_at = cw_now w\<rparr>]\<rparr>\<rparr>"

definition created_metrics :: "channel_counts \<Rightarrow> delivery_metrics \<Rightarrow> delivery_metrics" where
  "created_metrics counts m =
     inc_jetstream_processed (fold (\<lambda>(c, v). inc_attempts_created c v) counts m)"

lemma marked_simps [simp]:
  "cw_tx (marked ev sub w) = Tx_Open" "cw_drawn (marked ev sub w) = cw_drawn w"
  "cw_uuids (marked ev sub w) = cw_uuids w" "dw_jobs (marked ev sub w) = dw_jobs w"
  "dw_sends (marked ev sub w) = dw_sends w" "cw_now (marked ev sub w) = cw_now w"
  "dw_metrics (marked ev sub w) = dw_metrics w" "dw_redis_up (marked ev sub w) = dw_redis_up w"
  "db_attempts (cw_db (marked ev sub w)) = db_attempts (cw_db w)"
  "db_processed (cw_db (marked ev sub w)) = db_processed (cw_db w) @
     [\<lparr>pev_event_id = ev_event_id ev, pev_subject = sub, pev_processed_at = cw_now w\<rparr>]"
  by (simp_all add: marked_def)

lemma for_each_metric: "for_each (\<lambda>(c, v). metric (f c v)) xs w =
    (Inr (), w\<lparr>dw_metrics := fold (\<lambda>(c, v). f c v) xs (dw_metrics w)\<rparr>)"
  by (induction xs arbitrary: w) (auto simp: eff_simps)

lemma process_seen: "event_seen ev (cw_db w) \<Longrightarrow>
    process_notification_created fuel s up ev sub w = (Inr False, w\<lparr>cw_tx := Tx_None\<rparr>)"
  by (simp add: process_notification_created_def transaction_def try_mark_processed_def
      insert_processed_event_def event_seen_def eff_simps)

lemma process_fresh:
  assumes "\<not> event_seen ev (cw_db w)"
  shows "process_notification_created fuel s up ev sub w =
    (case iter_subscribers fuel up 0 (ev_topic_id ev) None (process_subscriber s ev) []
        (marked ev sub w) of
      (Inl e, w') \<Rightarrow> (Inl e, w'\<lparr>cw_db := cw_db w, cw_tx := Tx_None\<rparr>)
    | (Inr counts, w') \<Rightarrow> (Inr True, w'\<lparr>dw_metrics := created_metrics counts (dw_metrics w'),
        cw_db := (if cw_tx w' = Tx_Failed then cw_db w else cw_db w'), cw_tx := Tx_None\<rparr>))"
proof -
  have "try_mark_processed (ev_event_id ev) sub (w\<lparr>cw_tx := Tx_Open\<rparr>) = (Inr True, marked ev sub w)"
    using assms by (simp add: try_mark_processed_def insert_processed_event_def event_seen_def
        marked_def eff_simps)
  moreover obtain r w' where "iter_subscribers fuel up 0 (ev_topic_id ev) None
      (process_subscriber s ev) [] (marked ev sub w) = (r, w')" by fastforce
  ultimately show ?thesis
    by (cases r) (simp_all add: process_notification_created_def transaction_def and_then_run
        seq_run ret_run for_each_metric metric_run created_metrics_def)
qed

section \<open>A concrete fan-out, for the witnesses\<close>

definition sample_event :: notification_event where
  "sample_event = \<lparr>ev_event_id = 50, ev_notification_id = 8, ev_topic_id = 60, ev_created_by = 61,
     ev_payload = [], ev_scheduled_at = None, ev_created_at = 0\<rparr>"

definition sample_item :: "uuid \<Rightarrow> subscriber_item" where
  "sample_item u = \<lparr>si_user_id = str_uuid u, si_subscription_id = [], si_channels = [''push''],
     si_quiet_hours_start = None, si_quiet_hours_end = None, si_timezone = ''UTC''\<rparr>"

definition sample_pages :: "uuid list \<Rightarrow> (int \<times> subscribers_page) list" where
  "sample_pages us = [(3, \<lparr>sp_items = map sample_item us, sp_next_cursor = None\<rparr>)]"

definition sample_upstream :: "uuid list \<Rightarrow> upstream" where
  "sample_upstream us n topic cursor = Inr (3, Inr (snd (hd (sample_pages us))))"

lemma sample_uuid: "parse_uuid (str_uuid 9) = Some 9" "parse_uuid (str_uuid 10) = Some 10"
  by code_simp+

lemma sample_normalize: "normalize_channels [''push''] = [''push'']"
  and sample_channels: "settings_channels default_delivery_settings = [''push'', ''email'', ''web'']"
  by code_simp+

lemma sample_targets: "page_targets default_delivery_settings (sample_pages [9, 10]) =
    [(sample_item 9, 9, ''push''), (sample_item 10, 10, ''push'')]"
  "page_targets default_delivery_settings (sample_pages [9]) = [(sample_item 9, 9, ''push'')]"
  by (simp_all add: page_targets_def sample_pages_def targets_of_def sample_item_def sample_uuid
      sample_normalize sample_channels)

lemma sample_serves: "serves (sample_upstream us) topic 0 None (sample_pages us)"
  by (simp add: sample_upstream_def sample_pages_def next_cursor_def)

section \<open>The effect of any fan-out\<close>

lemma tables_ok_marked: "delivery_tables_ok (cw_db w) \<Longrightarrow> \<not> event_seen ev (cw_db w) \<Longrightarrow>
    delivery_tables_ok (cw_db (marked ev sub w))"
  by (simp add: delivery_tables_ok_def event_seen_def)

lemma same_surroundings_marked: "same_surroundings (marked ev sub w) v = same_surroundings w v"
  "drawn_between (marked ev sub w) v = drawn_between w v"
  "dw_published (marked ev sub w) = dw_published w"
  by (simp_all add: marked_def same_surroundings_def drawn_between_def)

lemma process_frame:
  assumes "process_notification_created fuel s up ev sub w = (r, w')"
  shows "same_surroundings w w'" and "cw_drawn w \<le> cw_drawn w'" and "dw_sends w' = dw_sends w"
    and "cw_tx w' = Tx_None" and "dw_published w' = dw_published w"
    and "\<exists>new. db_attempts (cw_db w') = db_attempts (cw_db w) @ new \<and>
      att_id ` set new \<subseteq> drawn_between w w' \<and> (\<forall>a \<in> set new. att_status a = Att_Pending)"
    and "\<exists>jobs. dw_jobs w' = dw_jobs w @ jobs \<and> job_attempt ` set jobs \<subseteq> drawn_between w w'"
    and "\<exists>marks. db_processed (cw_db w') = db_processed (cw_db w) @ marks"
    and "delivery_tables_ok (cw_db w) \<Longrightarrow> delivery_tables_ok (cw_db w')"
proof -
  obtain ri wi where iter: "iter_subscribers fuel up 0 (ev_topic_id ev) None
      (process_subscriber s ev) [] (marked ev sub w) = (ri, wi)" by fastforce
  have frame: "fan_frame (marked ev sub w) wi"
    by (rule obeysD [OF obeys_iter_subscribers iter])
  have unseen: "same_surroundings w wi \<and> cw_drawn w \<le> cw_drawn wi \<and> dw_sends wi = dw_sends w \<and>
      dw_published wi = dw_published w \<and>
      (\<exists>jobs. dw_jobs wi = dw_jobs w @ jobs \<and> job_attempt ` set jobs \<subseteq> drawn_between w wi)"
    using frame by (simp add: fan_frame_def same_surroundings_marked)
  have rows: "\<exists>new. db_attempts (cw_db wi) = db_attempts (cw_db w) @ new \<and>
      att_id ` set new \<subseteq> drawn_between w wi \<and> (\<forall>a \<in> set new. att_status a = Att_Pending)"
    "\<exists>marks. db_processed (cw_db wi) = db_processed (cw_db w) @ marks"
    using frame by (simp_all add: fan_frame_def same_surroundings_marked)
  have ok: "delivery_tables_ok (cw_db wi)"
    if "delivery_tables_ok (cw_db w)" and "\<not> event_seen ev (cw_db w)"
    using frame tables_ok_marked [OF that] by (simp add: fan_frame_def)
  consider (seen) "event_seen ev (cw_db w)" "w' = w\<lparr>cw_tx := Tx_None\<rparr>"
    | (undone) "w' = wi\<lparr>cw_db := cw_db w, cw_tx := Tx_None\<rparr>" "\<not> event_seen ev (cw_db w)"
    | (redone) m where "w' = wi\<lparr>dw_metrics := m, cw_db := cw_db w, cw_tx := Tx_None\<rparr>"
        "\<not> event_seen ev (cw_db w)"
    | (kept) m where "w' = wi\<lparr>dw_metrics := m, cw_tx := Tx_None\<rparr>" "\<not> event_seen ev (cw_db w)"
  proof (cases "event_seen ev (cw_db w)")
    case True
    with assms seen show ?thesis by (simp add: process_seen)
  next
    case False
    show ?thesis
    proof (cases ri)
      case (Inl e)
      with assms iter undone False show ?thesis by (simp add: process_fresh [OF False])
    next
      case (Inr counts)
      with assms iter redone [OF _ False] kept [OF _ False] show ?thesis
        by (auto simp: process_fresh [OF False] split: if_splits)
    qed
  qed
  note cases = this
  have goal: "same_surroundings w w' \<and> cw_drawn w \<le> cw_drawn w' \<and> dw_sends w' = dw_sends w \<and>
    cw_tx w' = Tx_None \<and> dw_published w' = dw_published w \<and>
    (\<exists>new. db_attempts (cw_db w') = db_attempts (cw_db w) @ new \<and>
      att_id ` set new \<subseteq> drawn_between w w' \<and> (\<forall>a \<in> set new. att_status a = Att_Pending)) \<and>
    (\<exists>jobs. dw_jobs w' = dw_jobs w @ jobs \<and> job_attempt ` set jobs \<subseteq> drawn_between w w') \<and>
    (\<exists>marks. db_processed (cw_db w') = db_processed (cw_db w) @ marks) \<and>
    (delivery_tables_ok (cw_db w) \<longrightarrow> delivery_tables_ok (cw_db w'))"
    using cases
  proof cases
    case seen
    then show ?thesis by (simp add: same_surroundings_def)
  next
    case undone
    then show ?thesis using unseen by (simp add: same_surroundings_def drawn_between_def)
  next
    case redone
    then show ?thesis using unseen by (simp add: same_surroundings_def drawn_between_def)
  next
    case kept
    then show ?thesis using unseen rows ok by (simp add: same_surroundings_def drawn_between_def)
  qed
  then show "same_surroundings w w'" and "cw_drawn w \<le> cw_drawn w'" and "dw_sends w' = dw_sends w"
    and "cw_tx w' = Tx_None" and "dw_published w' = dw_published w"
    and "\<exists>new. db_attempts (cw_db w') = db_attempts (cw_db w) @ new \<and>
      att_id ` set new \<subseteq> drawn_between w w' \<and> (\<forall>a \<in> set new. att_status a = Att_Pending)"
    and "\<exists>jobs. dw_jobs w' = dw_jobs w @ jobs \<and> job_attempt ` set jobs \<subseteq> drawn_between w w'"
    and "\<exists>marks. db_processed (cw_db w') = db_processed (cw_db w) @ marks"
    and "delivery_tables_ok (cw_db w) \<Longrightarrow> delivery_tables_ok (cw_db w')"
    by blast+
qed

lemma fanout_run:
  assumes "\<not> event_seen ev (cw_db w)"
    and "serves up (ev_topic_id ev) 0 None pages" and "length pages \<le> fuel"
    and "ready (length (page_targets s pages)) (w\<lparr>cw_tx := Tx_Open\<rparr>)"
    and "deliverable (page_targets s pages)"
    and "no_clash ev (cw_db w) (page_targets s pages)"
  shows "\<exists>w'. process_notification_created fuel s up ev sub w = (Inr True, w') \<and>
    (let new = planned_attempts ev (cw_now w) (cw_uuids w) (cw_drawn w) (page_targets s pages)
     in db_attempts (cw_db w') = db_attempts (cw_db w) @ new \<and>
        dw_jobs w' = dw_jobs w @ map job_for new) \<and>
    db_processed (cw_db w') = db_processed (cw_db w) @ [\<lparr>pev_event_id = ev_event_id ev,
      pev_subject = sub, pev_processed_at = cw_now w\<rparr>] \<and>
    cw_tx w' = Tx_None"
proof -
  let ?ts = "page_targets s pages"
  have "ready (length ?ts) (marked ev sub w)" using assms(4) by (simp add: ready_def)
  moreover have "no_clash ev (cw_db (marked ev sub w)) ?ts" using assms(6) by (simp add: no_clash_def)
  ultimately show ?thesis
    using iter_subscribers_pages [where ev = ev and counts = "[]", OF assms(2,3) _ assms(5), of "marked ev sub w"]
    by (simp add: process_fresh [OF assms(1)] with_targets_def Let_def)
qed

section \<open>Properties\<close>

text \<open>
  C5: a fan-out whose keys are free creates exactly the attempts that the subscribers ask for:
  one pending attempt and one job for each subscriber with a valid id and each of its channels
  in service, over all pages, in order, and it marks the event as processed.
\<close>

theorem fanout_creates_every_attempt:
  assumes "\<not> event_seen ev (cw_db w)"
    and "serves up (ev_topic_id ev) 0 None pages" and "length pages \<le> fuel"
    and "ready (length (page_targets s pages)) (w\<lparr>cw_tx := Tx_Open\<rparr>)"
    and "deliverable (page_targets s pages)"
    and "no_clash ev (cw_db w) (page_targets s pages)"
  shows "\<exists>w'. process_notification_created fuel s up ev sub w = (Inr True, w') \<and>
    (let new = planned_attempts ev (cw_now w) (cw_uuids w) (cw_drawn w) (page_targets s pages)
     in db_attempts (cw_db w') = db_attempts (cw_db w) @ new \<and>
        dw_jobs w' = dw_jobs w @ map job_for new) \<and>
    db_processed (cw_db w') = db_processed (cw_db w) @ [\<lparr>pev_event_id = ev_event_id ev,
      pev_subject = sub, pev_processed_at = cw_now w\<rparr>] \<and>
    cw_tx w' = Tx_None"
  using assms by (rule fanout_run)

theorem fanout_creates_every_attempt_witness:
  "\<exists>w'. process_notification_created 1 default_delivery_settings (sample_upstream [9, 10])
      sample_event ''notification.created.v1'' (sample_world [] True) = (Inr True, w') \<and>
    map attempt_key (db_attempts (cw_db w')) = [(8, 9, ''push''), (8, 10, ''push'')] \<and>
    map job_attempt (dw_jobs w') = [100, 101]"
proof -
  have "\<exists>w'. process_notification_created 1 default_delivery_settings (sample_upstream [9, 10])
      sample_event ''notification.created.v1'' (sample_world [] True) = (Inr True, w') \<and>
    (let new = planned_attempts sample_event (cw_now (sample_world [] True)) (cw_uuids (sample_world [] True))
        (cw_drawn (sample_world [] True)) (page_targets default_delivery_settings (sample_pages [9, 10]))
     in db_attempts (cw_db w') = db_attempts (cw_db (sample_world [] True)) @ new \<and>
        dw_jobs w' = dw_jobs (sample_world [] True) @ map job_for new) \<and>
    db_processed (cw_db w') = db_processed (cw_db (sample_world [] True)) @ [\<lparr>pev_event_id = ev_event_id sample_event,
      pev_subject = ''notification.created.v1'', pev_processed_at = cw_now (sample_world [] True)\<rparr>] \<and>
    cw_tx w' = Tx_None"
    by (rule fanout_creates_every_attempt)
      (simp_all add: event_seen_def sample_world_def sample_serves sample_targets,
        simp_all add: sample_pages_def ready_def inj_on_def deliverable_def no_clash_def target_key_def
          allowed_channels_def)
  then show ?thesis
    by (elim exE conjE) (auto simp: Let_def sample_targets sample_world_def target_key_def
        sample_event_def job_for_def)
qed

text \<open>
  C6: a fan-out that meets a key that is already taken never completes: the failed insertion
  aborts the transaction, the look-up that should return the existing row answers 25P02, the
  tables stay as they were, and the consumer asks for the message again, without end.
\<close>

theorem fanout_clash_never_completes:
  assumes "\<not> event_seen (ev :: notification_event) (cw_db w)" and "msg_event msg = Inr ev"
    and "serves up (ev_topic_id ev) 0 None pages" and "length pages \<le> fuel"
    and "ready (length (page_targets s pages)) (w\<lparr>cw_tx := Tx_Open\<rparr>)"
    and "deliverable (page_targets s pages)" and "msg_nak_ok msg"
    and "\<not> no_clash ev (cw_db w) (page_targets s pages)"
  shows "fst (process_notification_created fuel s up ev (msg_subject msg) w) = Inl in_failed_transaction \<and>
    fst (handle_message fuel s up msg w) = Inr Nak \<and>
    cw_db (snd (handle_message fuel s up msg w)) = cw_db w"
proof -
  let ?ts = "page_targets s pages"
  let ?p = "process_notification_created fuel s up ev (msg_subject msg) w"
  have "ready (length ?ts) (marked ev (msg_subject msg) w)" using assms(5) by (simp add: ready_def)
  moreover have "\<not> no_clash ev (cw_db (marked ev (msg_subject msg) w)) ?ts"
    using assms(8) by (simp add: no_clash_def)
  ultimately have "fst (iter_subscribers fuel up 0 (ev_topic_id ev) None (process_subscriber s ev) []
      (marked ev (msg_subject msg) w)) = Inl in_failed_transaction"
    using iter_subscribers_pages [OF assms(3,4) _ assms(6)] by blast
  then have p: "fst ?p = Inl in_failed_transaction \<and> cw_db (snd ?p) = cw_db w"
    by (auto simp: process_fresh [OF assms(1)] split: prod.split)
  obtain w' where "?p = (Inl in_failed_transaction, w')" using p by (metis prod.collapse)
  with p show ?thesis
    using assms(2,7) by (simp add: handle_message_def catch_run and_then_run seq_run lift_run ret_run)
qed

definition sample_message :: nats_message where
  "sample_message = \<lparr>msg_event = Inr sample_event, msg_subject = ''notification.created.v1'',
     msg_ack_ok = True, msg_nak_ok = True\<rparr>"

theorem fanout_clash_never_completes_witness:
  "fst (handle_message 1 default_delivery_settings (sample_upstream [9]) sample_message
     (sample_world [sample_attempt None None] True)) = Inr Nak"
proof -
  have "fst (process_notification_created 1 default_delivery_settings (sample_upstream [9])
        sample_event (msg_subject sample_message) (sample_world [sample_attempt None None] True)) =
        Inl in_failed_transaction \<and>
    fst (handle_message 1 default_delivery_settings (sample_upstream [9]) sample_message
        (sample_world [sample_attempt None None] True)) = Inr Nak \<and>
    cw_db (snd (handle_message 1 default_delivery_settings (sample_upstream [9]) sample_message
        (sample_world [sample_attempt None None] True))) =
      cw_db (sample_world [sample_attempt None None] True)"
    by (rule fanout_clash_never_completes [where pages = "sample_pages [9]" and ev = sample_event])
      (simp_all add: event_seen_def sample_world_def sample_serves sample_targets sample_message_def,
        simp_all add: sample_pages_def ready_def inj_on_def deliverable_def no_clash_def
          target_key_def allowed_channels_def sample_attempt_def attempt_key_def sample_event_def)
  then show ?thesis by blast
qed

lemma seen_message_answer:
  assumes "msg_event msg = Inr ev" and "event_seen ev (cw_db w)"
  shows "handle_message fuel s up msg w =
    (if msg_ack_ok msg then Inr Ack else if msg_nak_ok msg then Inr Nak else Inl (Runtime_Error ''nats''),
     w\<lparr>cw_tx := Tx_None\<rparr>)"
  using assms by (simp add: handle_message_def process_seen eff_simps)

text \<open>
  C7: a fan-out happens at most once for an event, whatever the subscriptions service answers:
  an exception leaves the tables as they were; \<open>False\<close> means that the event had been processed
  before, and then nothing changes; \<open>True\<close> means that it had not, and the mark and the new
  attempts are stored together; no attempt that existed is touched. A message whose event has
  been processed, before or by this fan-out, is acknowledged (refused only when the
  acknowledgement itself fails) and changes nothing.
\<close>

theorem fanout_at_most_once:
  assumes "msg_event msg = Inr ev"
    and "process_notification_created fuel s up ev (msg_subject msg) w = (r, w')"
  shows "(\<forall>e. r = Inl e \<longrightarrow> cw_db w' = cw_db w \<and> \<not> event_seen ev (cw_db w)) \<and>
    (r = Inr False \<longrightarrow> event_seen ev (cw_db w) \<and> w' = w\<lparr>cw_tx := Tx_None\<rparr>) \<and>
    (r = Inr True \<longrightarrow> \<not> event_seen ev (cw_db w) \<and>
      event_seen ev (cw_db w') \<and>
      (\<exists>new. db_attempts (cw_db w') = db_attempts (cw_db w) @ new \<and>
        (\<forall>a \<in> set new. att_status a = Att_Pending))) \<and>
    dw_sends w' = dw_sends w \<and>
    (event_seen ev (cw_db w) \<longrightarrow> handle_message fuel s up msg w =
      (if msg_ack_ok msg then Inr Ack else if msg_nak_ok msg then Inr Nak else Inl (Runtime_Error ''nats''),
       w\<lparr>cw_tx := Tx_None\<rparr>)) \<and>
    (r = Inr True \<longrightarrow> (\<forall>fuel' s' up'. msg_ack_ok msg \<longrightarrow> handle_message fuel' s' up' msg w' = (Inr Ack, w')))"
proof (cases "event_seen ev (cw_db w)")
  case True
  with assms show ?thesis by (auto simp: process_seen seen_message_answer)
next
  case False
  let ?sub = "msg_subject msg"
  obtain ri wi where iter: "iter_subscribers fuel up 0 (ev_topic_id ev) None
      (process_subscriber s ev) [] (marked ev ?sub w) = (ri, wi)" by fastforce
  have frame: "fan_frame (marked ev ?sub w) wi"
    by (rule obeysD [OF obeys_iter_subscribers iter])
  show ?thesis
  proof (cases ri)
    case (Inl e)
    with assms iter frame show ?thesis
      by (auto simp: process_fresh [OF False] False fan_frame_def)
  next
    case (Inr counts)
    with assms iter have r: "r = Inr True" "w' = wi\<lparr>dw_metrics := created_metrics counts (dw_metrics wi),
        cw_db := (if cw_tx wi = Tx_Failed then cw_db w else cw_db wi), cw_tx := Tx_None\<rparr>"
      by (auto simp: process_fresh [OF False])
    moreover have "cw_tx wi = Tx_Open"
      using staysD [OF stays_open_iter iter [unfolded Inr]] by (simp add: tx_open_def)
    moreover have "event_seen ev (cw_db w')"
      using frame calculation by (auto simp: fan_frame_def event_seen_def)
    ultimately show ?thesis using frame False seen_message_answer [OF assms(1), of w']
      by (auto simp: fan_frame_def event_seen_def)
  qed
qed

theorem fanout_at_most_once_witness:
  "\<exists>w'. process_notification_created 1 default_delivery_settings (sample_upstream [9, 10])
      sample_event (msg_subject sample_message) (sample_world [] True) = (Inr True, w') \<and> dw_sends w' = [] \<and>
    event_seen sample_event (cw_db w') \<and>
    handle_message 1 default_delivery_settings (sample_upstream [9]) sample_message w' = (Inr Ack, w')"
proof -
  let ?sub = "msg_subject sample_message"
  let ?run = "process_notification_created 1 default_delivery_settings (sample_upstream [9, 10])
      sample_event ?sub (sample_world [] True)"
  have fresh: "\<not> event_seen sample_event (cw_db (sample_world [] True))"
    by (simp add: event_seen_def sample_world_def)
  have "ready 2 (marked sample_event ?sub (sample_world [] True))"
    by (simp add: ready_def sample_world_def inj_on_def)
  then have "fst (iter_subscribers 1 (sample_upstream [9, 10]) 0 (ev_topic_id sample_event) None
      (process_subscriber default_delivery_settings sample_event) []
      (marked sample_event ?sub (sample_world [] True))) =
      Inr (fold (\<lambda>t c. count_target c t) (page_targets default_delivery_settings (sample_pages [9, 10])) [])"
    using iter_subscribers_pages [OF sample_serves, of "[9, 10]" 1 default_delivery_settings
        "marked sample_event ?sub (sample_world [] True)" sample_event "ev_topic_id sample_event" "[]"]
    by (simp add: sample_targets deliverable_def allowed_channels_def no_clash_def target_key_def
        sample_world_def) (simp add: sample_pages_def numeral_2_eq_2)
  then have "fst ?run = Inr True"
    by (auto simp: process_fresh [OF fresh] split: prod.split)
  then obtain w' where run: "?run = (Inr True, w')" by (metis prod.collapse)
  have "msg_event sample_message = Inr sample_event" "msg_ack_ok sample_message"
    by (simp_all add: sample_message_def)
  with run show ?thesis using fanout_at_most_once [OF _ run] by (simp add: sample_world_def)
qed

text \<open>
  The jobs of a fan-out are on the queue before its rows are committed: a worker that takes
  one while the other sessions still see the old tables, or after the fan-out was rolled back,
  finds no row, returns normally and so consumes the job without a send.
\<close>

lemma early_job_is_lost:
  assumes "process_notification_created fuel s up ev sub w = (r, w')"
    and "\<And>i. cw_drawn w \<le> i \<Longrightarrow> cw_uuids w i \<notin> att_id ` set (db_attempts (cw_db w))"
    and "job \<in> set (drop (length (dw_jobs w)) (dw_jobs w'))" and "cw_db v = cw_db w"
  shows "send_channel s zi ps (job_attempt job) v = (Inr (), v\<lparr>cw_tx := Tx_None\<rparr>)"
proof -
  obtain jobs where "dw_jobs w' = dw_jobs w @ jobs" and ids: "job_attempt ` set jobs \<subseteq> drawn_between w w'"
    using process_frame(7) [OF assms(1)] by blast
  with assms(3) have "job_attempt job \<in> drawn_between w w'" by auto
  then obtain i where "cw_drawn w \<le> i" and "job_attempt job = cw_uuids w i"
    by (auto simp: drawn_between_def)
  with assms(2) have "job_attempt job \<notin> att_id ` set (db_attempts (cw_db w))" by simp
  then have "selected (job_attempt job) v = None"
    by (auto simp: selected_def find_row_None assms(4)) (metis imageI)
  then show ?thesis by (simp add: send_channel_def execute_send_absent)
qed

lemma early_job_is_lost_witness:
  "\<exists>r w' job. process_notification_created 1 default_delivery_settings (sample_upstream [9])
      sample_event ''created'' (sample_world [] True) = (r, w') \<and> job \<in> set (dw_jobs w') \<and>
    dw_sends (snd (send_channel default_delivery_settings utc_db (build_providers 0)
      (job_attempt job) (sample_world [] True))) = []"
proof -
  let ?run = "process_notification_created 1 default_delivery_settings (sample_upstream [9])
      sample_event ''created'' (sample_world [] True)"
  let ?job = "\<lparr>job_function = ''send_push'', job_attempt = 100, job_channel = None, job_defer_by = None\<rparr>"
  obtain r w' where run: "?run = (r, w')" by fastforce
  have fresh: "\<not> event_seen sample_event (cw_db (sample_world [] True))"
    by (simp add: event_seen_def sample_world_def)
  have "ready (Suc 0) (marked sample_event ''created'' (sample_world [] True))"
    by (simp add: ready_def sample_world_def inj_on_def)
  then have "?job \<in> set (dw_jobs (snd (iter_subscribers 1 (sample_upstream [9]) 0
      (ev_topic_id sample_event) None (process_subscriber default_delivery_settings sample_event) []
      (marked sample_event ''created'' (sample_world [] True)))))"
    using iter_subscribers_pages [OF sample_serves, of "[9]" 1 default_delivery_settings
        "marked sample_event ''created'' (sample_world [] True)" sample_event "ev_topic_id sample_event" "[]"]
    by (simp add: sample_targets deliverable_def allowed_channels_def
        no_clash_def target_key_def sample_world_def del: iter_subscribers.simps One_nat_def)
      (simp add: sample_pages_def with_targets_def job_for_def Let_def del: iter_subscribers.simps One_nat_def)
  then have "?job \<in> set (dw_jobs (snd ?run))"
    by (auto simp add: process_fresh [OF fresh] split: prod.split sum.split)
  then have job: "?job \<in> set (dw_jobs w')" using run by simp
  have "send_channel default_delivery_settings utc_db (build_providers 0) (job_attempt ?job)
      (sample_world [] True) = (Inr (), (sample_world [] True)\<lparr>cw_tx := Tx_None\<rparr>)"
    by (rule early_job_is_lost [OF run]) (use job in \<open>simp_all add: sample_world_def\<close>)
  then have "dw_sends (snd (send_channel default_delivery_settings utc_db (build_providers 0)
      (job_attempt ?job) (sample_world [] True))) = []" by (simp add: sample_world_def)
  with run job show ?thesis by blast
qed

end
