(* ===== verification/Delivery_History.thy ===== *)
theory Delivery_History
  imports Delivery_Fanout
begin

text \<open>
  Histories of the delivery service: any interleaving of consumed messages, worker jobs, clock
  readings and outages of Redis and JetStream. One operation is one message or one job, which
  the code runs in one transaction. The interfaces \<open>operations\<close> and \<open>monotone\_operations\<close> of
  the prelude are interpreted on them, so what one operation keeps holds after every history.
\<close>

section \<open>Operations\<close>

record delivery_config =
  cfg_settings :: delivery_settings
  cfg_zones :: zone_db
  cfg_providers :: providers

datatype delivery_op =
    Receive nat upstream nats_message
  | Work arq_job
  | Tick instant
  | Outage bool "string \<Rightarrow> bool"

fun apply_delivery :: "delivery_config \<Rightarrow> delivery_op \<Rightarrow> delivery_world \<Rightarrow> delivery_world" where
  "apply_delivery cfg (Receive fuel up msg) w = snd (handle_message fuel (cfg_settings cfg) up msg w)"
| "apply_delivery cfg (Work job) w =
     snd (run_job (cfg_settings cfg) (cfg_zones cfg) (cfg_providers cfg) job w)"
| "apply_delivery cfg (Tick t) w = w\<lparr>dw_clock := t, cw_now := t\<rparr>"
| "apply_delivery cfg (Outage redis nats) w = w\<lparr>dw_redis_up := redis, dw_nats_accepts := nats\<rparr>"

text \<open>What an operation can be, by its effect on the world.\<close>

lemma handle_message_cases:
  obtains "apply_delivery cfg (Receive fuel up msg) w = w"
  | ev r where "process_notification_created fuel (cfg_settings cfg) up ev (msg_subject msg) w =
      (r, apply_delivery cfg (Receive fuel up msg) w)"
proof (cases "msg_event msg")
  case (Inl e)
  then show ?thesis by (intro that(1)) (simp add: handle_message_def eff_simps)
next
  case (Inr ev)
  then show ?thesis
    by (intro that(2) [of ev "fst (process_notification_created fuel (cfg_settings cfg) up ev (msg_subject msg) w)"])
      (auto simp: handle_message_def eff_simps split: prod.split sum.split)
qed

definition same_but_jobs :: "delivery_world \<Rightarrow> delivery_world \<Rightarrow> bool" where
  "same_but_jobs w w' \<longleftrightarrow> (\<exists>jobs. w' = w\<lparr>dw_jobs := jobs\<rparr>)"

lemma run_job_cases:
  obtains "same_but_jobs w (apply_delivery cfg (Work job) w)"
  | r where "execute_send (cfg_settings cfg) (cfg_zones cfg) (cfg_providers cfg) (job_attempt job) w =
      (r, apply_delivery cfg (Work job) w)"
proof (cases "job_function job \<in> set worker_functions \<and> job_function job \<noteq> ''retry_attempt''")
  case True
  then show ?thesis
    by (intro that(2) [of "fst (execute_send (cfg_settings cfg) (cfg_zones cfg) (cfg_providers cfg)
        (job_attempt job) w)"]) (simp add: run_job_def send_channel_def)
next
  case False
  have "\<exists>jobs. w = w\<lparr>dw_jobs := jobs\<rparr>" by (rule exI [of _ "dw_jobs w"]) simp
  with False show ?thesis
    by (intro that(1)) (auto simp: run_job_def same_but_jobs_def retry_attempt_def eff_simps
        split: option.split)
qed

section \<open>Every history keeps the tables\<close>

definition delivery_ok :: "delivery_world \<Rightarrow> bool" where
  "delivery_ok w \<longleftrightarrow> delivery_tables_ok (cw_db w) \<and> cw_tx w = Tx_None"

lemma apply_delivery_ok: "delivery_ok w \<Longrightarrow> delivery_ok (apply_delivery cfg op w)"
proof (cases op)
  case (Receive fuel up msg)
  assume "delivery_ok w"
  with Receive show ?thesis
    by (cases rule: handle_message_cases [of cfg fuel up msg w])
      (auto simp: delivery_ok_def dest: process_frame(4,9))
next
  case (Work job)
  assume ok: "delivery_ok w"
  show ?thesis
  proof (cases rule: run_job_cases [of w cfg job])
    case 1
    with ok Work show ?thesis by (auto simp: delivery_ok_def same_but_jobs_def)
  next
    case (2 r)
    have "cw_tx (apply_delivery cfg (Work job) w) = Tx_None"
      using execute_send_closed 2 by (metis snd_conv)
    with ok Work execute_send_tables [OF _ 2] show ?thesis by (simp add: delivery_ok_def)
  qed
qed (simp_all add: delivery_ok_def)

interpretation delivery: operations "apply_delivery cfg" delivery_ok for cfg
  by unfold_locales (rule apply_delivery_ok)

section \<open>Nothing that was settled is ever undone\<close>

definition settled :: "delivery_world \<Rightarrow> uuid \<Rightarrow> phase option" where
  "settled w x = (case phase_at x w of
     Some Delivered \<Rightarrow> Some Delivered | Some Abandoned \<Rightarrow> Some Abandoned | _ \<Rightarrow> None)"

definition delivery_grows :: "delivery_world \<Rightarrow> delivery_world \<Rightarrow> bool" where
  "delivery_grows w w' \<longleftrightarrow>
     set (db_processed (cw_db w)) \<subseteq> set (db_processed (cw_db w')) \<and>
     attempt_key ` set (db_attempts (cw_db w)) \<subseteq> attempt_key ` set (db_attempts (cw_db w')) \<and>
     (\<forall>x. settled w x \<noteq> None \<longrightarrow> settled w' x = settled w x) \<and>
     (\<exists>sends. dw_sends w' = dw_sends w @ sends)"

lemma delivery_grows_refl: "delivery_grows w w"
  by (simp add: delivery_grows_def)

lemma delivery_grows_trans:
  assumes "delivery_grows u v" and "delivery_grows v w"
  shows "delivery_grows u w"
proof -
  have "\<exists>sends. dw_sends w = dw_sends u @ sends"
    using assms by (auto simp: delivery_grows_def)
  moreover have "settled w x = settled u x" if "settled u x \<noteq> None" for x
    using assms that by (simp add: delivery_grows_def)
  ultimately show ?thesis using assms unfolding delivery_grows_def by (meson order_trans)
qed

lemma delivery_grows_same:
  "cw_db w' = cw_db w \<Longrightarrow> \<exists>sends. dw_sends w' = dw_sends w @ sends \<Longrightarrow> delivery_grows w w'"
  by (simp add: delivery_grows_def settled_def phase_at_def selected_def)

lemma execute_send_settled:
  assumes "execute_send s zi ps x w = (Inr u, w')"
  shows "settled w y \<noteq> None \<Longrightarrow> settled w' y = settled w y"
    and "map attempt_key (db_attempts (cw_db w')) = map attempt_key (db_attempts (cw_db w))"
    and "db_processed (cw_db w') = db_processed (cw_db w)"
    and "\<exists>sends. dw_sends w' = dw_sends w @ sends"
proof -
  have "(settled w y \<noteq> None \<longrightarrow> settled w' y = settled w y) \<and>
      map attempt_key (db_attempts (cw_db w')) = map attempt_key (db_attempts (cw_db w)) \<and>
      db_processed (cw_db w') = db_processed (cw_db w) \<and> (\<exists>sends. dw_sends w' = dw_sends w @ sends)"
    using assms
  proof (cases rule: execute_send_step)
    case unchanged
    then show ?thesis by (simp add: settled_def phase_at_def selected_def)
  next
    case (step a f c)
    have sel: "selected y w' = map_option (\<lambda>r. if y = x then f r else r) (selected y w)"
      using step(4) by (intro selected_on_row [OF _ step(3)]) (simp add: same_identity_def)
    have "settled w' y = settled w y" if "settled w y \<noteq> None"
    proof (cases "y = x")
      case True
      with step(1) that have "phase_of a \<in> {Delivered, Abandoned}"
        by (auto simp: settled_def phase_at_def split: phase.splits)
      with step(6) show ?thesis by auto
    next
      case False
      then show ?thesis using sel by (simp add: settled_def phase_at_def option.map_ident)
    qed
    moreover have "map attempt_key (db_attempts (cw_db w')) = map attempt_key (db_attempts (cw_db w))"
      using step(3,4) by (auto simp: on_row_def same_identity_def intro!: map_update_where)
    ultimately show ?thesis using step(3,7) by (simp add: on_row_def)
  qed
  then show "settled w y \<noteq> None \<Longrightarrow> settled w' y = settled w y"
    and "map attempt_key (db_attempts (cw_db w')) = map attempt_key (db_attempts (cw_db w))"
    and "db_processed (cw_db w') = db_processed (cw_db w)"
    and "\<exists>sends. dw_sends w' = dw_sends w @ sends" by blast+
qed

text \<open>New rows do not hide the old ones.\<close>

lemma selected_append:
  assumes "db_attempts (cw_db w') = db_attempts (cw_db w) @ new" and "selected x w = Some a"
  shows "selected x w' = Some a"
  using assms by (simp add: selected_def find_row_append)

lemma execute_send_sends: "execute_send s zi ps x w = (r, w') \<Longrightarrow>
    \<exists>sends. dw_sends w' = dw_sends w @ sends \<and> set sends \<subseteq> {x} \<times> UNIV"
proof (cases "dw_sends w' = dw_sends w")
  case False
  assume "execute_send s zi ps x w = (r, w')"
  from this False show ?thesis by (rule execute_send_asks_provider) auto
qed simp

lemma apply_delivery_grows: "delivery_grows w (apply_delivery cfg op w)"
proof (cases op)
  case (Receive fuel up msg)
  show ?thesis
  proof (cases rule: handle_message_cases [of cfg fuel up msg w])
    case 1
    with Receive show ?thesis by (simp add: delivery_grows_refl)
  next
    case (2 ev r)
    let ?w' = "apply_delivery cfg (Receive fuel up msg) w"
    obtain new where new: "db_attempts (cw_db ?w') = db_attempts (cw_db w) @ new"
      using process_frame(6) [OF 2] by blast
    obtain marks where "db_processed (cw_db ?w') = db_processed (cw_db w) @ marks"
      using process_frame(8) [OF 2] by blast
    moreover have "settled ?w' x = settled w x" if "settled w x \<noteq> None" for x
      using that selected_append [OF new, of x]
      by (auto simp: settled_def phase_at_def split: option.splits phase.splits)
    ultimately have "delivery_grows w ?w'"
      using new process_frame(3) [OF 2] by (auto simp: delivery_grows_def)
    with Receive show ?thesis by simp
  qed
next
  case (Work job)
  show ?thesis
  proof (cases rule: run_job_cases [of w cfg job])
    case 1
    with Work show ?thesis by (auto simp: same_but_jobs_def intro: delivery_grows_same)
  next
    case (2 r)
    show ?thesis
    proof (cases r)
      case (Inl e)
      with 2 Work execute_send_rollback execute_send_sends [OF 2] show ?thesis
        by (metis delivery_grows_same)
    next
      case (Inr u)
      note run = 2 [unfolded Inr]
      have "attempt_key ` set (db_attempts (cw_db (apply_delivery cfg op w))) =
          attempt_key ` set (db_attempts (cw_db w))"
        using arg_cong [OF execute_send_settled(2) [OF run], of set] Work by simp
      with execute_send_settled [OF run] Work show ?thesis by (simp add: delivery_grows_def)
    qed
  qed
qed (auto intro: delivery_grows_same)

interpretation delivery_order:
  monotone_operations "apply_delivery cfg" delivery_ok delivery_grows for cfg
  by unfold_locales (auto intro: delivery_grows_refl delivery_grows_trans apply_delivery_grows)

section \<open>How often a provider is asked\<close>

text \<open>
  While Redis and JetStream accept what they are given, the log of the sends of an attempt
  agrees with its row: refusals, then at most one acceptance, at most \<open>max 1 max\_attempts\<close> in
  all. Outages are left out of these histories: see \<open>publish\_failure\_repeats\_delivery\<close>.
\<close>

definition sends_to :: "uuid \<Rightarrow> (uuid \<times> bool) list \<Rightarrow> bool list" where
  "sends_to x log = map snd (filter (\<lambda>(y, _). y = x) log)"

definition send_limit :: "delivery_settings \<Rightarrow> int" where
  "send_limit s = max 1 (ds_max_attempts s)"

fun accounted :: "delivery_settings \<Rightarrow> phase \<Rightarrow> bool list \<Rightarrow> bool" where
  "accounted s (Waiting k t) log =
     (0 \<le> k \<and> k < send_limit s \<and> log = replicate (nat k) False)"
| "accounted s Delivered log =
     (log \<noteq> [] \<and> last log \<and> True \<notin> set (butlast log) \<and> int (length log) \<le> send_limit s)"
| "accounted s Abandoned log = (True \<notin> set log \<and> int (length log) = send_limit s)"

definition log_agrees :: "delivery_settings \<Rightarrow> delivery_world \<Rightarrow> uuid \<Rightarrow> bool" where
  "log_agrees s w x \<longleftrightarrow> (case phase_at x w of
     None \<Rightarrow> sends_to x (dw_sends w) = []
   | Some p \<Rightarrow> accounted s p (sends_to x (dw_sends w)))"

definition log_ok :: "delivery_settings \<Rightarrow> delivery_world \<Rightarrow> bool" where
  "log_ok s w \<longleftrightarrow> delivery_ok w \<and> inj (cw_uuids w) \<and> dw_redis_up w \<and>
     dw_nats_accepts w = (\<lambda>_. True) \<and>
     att_id ` set (db_attempts (cw_db w)) \<subseteq> cw_uuids w ` {..<cw_drawn w} \<and>
     (\<forall>x. log_agrees s w x)"

lemma log_ok_same:
  assumes "log_ok s w" and "cw_db w' = cw_db w" and "dw_sends w' = dw_sends w"
    and "delivery_ok w'" and "cw_uuids w' = cw_uuids w" and "cw_drawn w \<le> cw_drawn w'"
    and "dw_redis_up w' = dw_redis_up w" and "dw_nats_accepts w' = dw_nats_accepts w"
  shows "log_ok s w'"
proof -
  have "log_agrees s w' x = log_agrees s w x" for x
    unfolding log_agrees_def phase_at_def selected_def assms(2,3) by (rule refl)
  moreover have "cw_uuids w ` {..<cw_drawn w} \<subseteq> cw_uuids w ` {..<cw_drawn w'}"
    using assms(6) by auto
  ultimately show ?thesis using assms unfolding log_ok_def by auto
qed

lemma sends_to_append [simp]: "sends_to x (l @ m) = sends_to x l @ sends_to x m"
  by (simp add: sends_to_def)

lemma sends_to_sends_of: "sends_to y (sends_of x c) =
    (if y = x then (case c of None \<Rightarrow> [] | Some ok \<Rightarrow> [ok]) else [])"
  by (auto simp: sends_to_def sends_of_def split: option.split)

lemma accounted_step:
  assumes "phase_step s now c p p'" and "accounted s p log"
  shows "accounted s p' (log @ (case c of None \<Rightarrow> [] | Some ok \<Rightarrow> [ok]))"
  using assms
proof (cases rule: phase_step.cases)
  case (retry t k r)
  have "replicate (nat k) False @ [False] = replicate (nat (k + 1)) False" if "0 \<le> k"
    using that by (simp add: nat_add_distrib replicate_append_same [symmetric])
  with retry assms(2) show ?thesis by (auto simp: send_limit_def)
qed (auto simp: send_limit_def split: if_splits)

text \<open>A run that raises has not asked the provider.\<close>

lemma next_quiet_hours_retry_uniform:
  "next_quiet_hours_retry zi t a = Inr q \<Longrightarrow> \<exists>q'. next_quiet_hours_retry zi t' a = Inr q'"
  by (auto simp: next_quiet_hours_retry_def Let_def bind_sum_def compute_next_allowed_time_def
      split: option.splits sum.splits prod.splits if_splits)

lemma raising_sends_nothing:
  assumes "execute_send s zi ps x w = (Inl e, w')" and "dw_redis_up w"
    and "dw_nats_accepts w = (\<lambda>_. True)"
  shows "dw_sends w' = dw_sends w"
proof (rule ccontr)
  assume "dw_sends w' \<noteq> dw_sends w"
  with assms(1) obtain a p where run: "selected x w = Some a" "due a (dw_clock w)"
      "next_quiet_hours_retry zi (dw_clock w) a = Inr None" "ps (att_channel a) = Some p"
    by (rule execute_send_asks_provider)
  let ?t = "dw_clock w + seconds (retry_draw s a w)"
  obtain q where "next_quiet_hours_retry zi ?t a = Inr q"
    using next_quiet_hours_retry_uniform [OF run(3)] by blast
  then obtain r where "retry_time zi a ?t = Inr r" by (simp add: retry_time_def)
  then have "fst (execute_send s zi ps x w) = Inr ()"
    using execute_send_success [where ps = ps and p = p and s = s, OF run]
      execute_send_dead [where ps = ps and p = p and s = s, OF run]
      execute_send_retry [where ps = ps and p = p and s = s, OF run] assms(2,3)
    by (cases "res_success (answer p a w)"; cases "ds_max_attempts s \<le> att_attempt_no a + 1") auto
  with assms(1) show False by simp
qed

definition send_env :: "delivery_world \<Rightarrow> delivery_world \<Rightarrow> bool" where
  "send_env w w' \<longleftrightarrow> cw_uuids w' = cw_uuids w \<and> cw_drawn w \<le> cw_drawn w' \<and>
     dw_redis_up w' = dw_redis_up w \<and> dw_nats_accepts w' = dw_nats_accepts w"

lemma send_env_preorder: "preorder_on_worlds send_env"
  by (auto simp: preorder_on_worlds_def send_env_def)

lemma obeys_send_env:
  "obeys send_env (sql st)" "obeys send_env uuid4" "obeys send_env (metric f)"
  "obeys send_env random_draw" "obeys send_env (enqueue_job n x c d)"
  "obeys send_env (publish_json sub p)" "obeys send_env (modify (\<lambda>w. w\<lparr>dw_sends := l w\<rparr>))"
  by (auto simp: obeys_def send_env_def sql_def eff_simps split: sum.split)

lemmas send_env_rules = obeys_send_env obeys_rules [OF send_env_preorder]

lemma obeys_send_env_transaction: "obeys send_env m \<Longrightarrow> obeys send_env (transaction m)"
  unfolding obeys_def
proof
  fix w assume m: "\<forall>w. send_env w (snd (m w))"
  have "send_env (w\<lparr>cw_tx := Tx_Open\<rparr>) (snd (m (w\<lparr>cw_tx := Tx_Open\<rparr>)))" using m by blast
  then show "send_env w (snd (transaction m w))"
    by (auto simp: transaction_def send_env_def split: prod.split sum.split)
qed

lemma obeys_send_env_execute_send: "obeys send_env (execute_send s zi ps x)"
  unfolding execute_send_def get_for_update_def handle_attempt_def delay_for_quiet_hours_def
    send_now_def call_provider_def record_success_def record_dead_def record_retry_def
    mark_sent_def mark_failed_def mark_delayed_def update_attempt_def Let_def
  by (intro obeys_send_env_transaction send_env_rules)
    (auto split: option.split intro!: send_env_rules)

lemma execute_send_env:
  assumes "execute_send s zi ps x w = (r, w')"
  shows "cw_uuids w' = cw_uuids w" and "cw_drawn w \<le> cw_drawn w'"
    and "dw_redis_up w' = dw_redis_up w" and "dw_nats_accepts w' = dw_nats_accepts w"
  using obeysD [OF obeys_send_env_execute_send assms] by (simp_all add: send_env_def)

lemma execute_send_log_ok:
  assumes "log_ok s w" and "execute_send s zi ps x w = (r, w')"
  shows "log_ok s w'"
proof -
  have env: "dw_redis_up w" "dw_nats_accepts w = (\<lambda>_. True)" using assms(1) by (simp_all add: log_ok_def)
  note keep = execute_send_env [OF assms(2)]
  have ok: "delivery_ok w'"
    using assms execute_send_tables [OF _ assms(2)] execute_send_closed [of s zi ps x w]
    by (simp add: log_ok_def delivery_ok_def)
  have mono: "cw_uuids w ` {..<cw_drawn w} \<subseteq> cw_uuids w ` {..<cw_drawn w'}" using keep(2) by auto
  have same: ?thesis if "cw_db w' = cw_db w" and "dw_sends w' = dw_sends w"
    using log_ok_same [OF assms(1) that ok keep] .
  show ?thesis
  proof (cases r)
    case (Inl e)
    with assms(2) env execute_send_rollback raising_sends_nothing show ?thesis
      by (metis same)
  next
    case (Inr u)
    with assms(2) have "execute_send s zi ps x w = (Inr u, w')" by simp
    then show ?thesis
    proof (cases rule: execute_send_step)
      case unchanged
      then show ?thesis by (rule same)
    next
      case (step a f c)
      have ids: "att_id ` set (db_attempts (cw_db w')) = att_id ` set (db_attempts (cw_db w))"
      proof -
        have "map att_id (db_attempts (cw_db w')) = map att_id (db_attempts (cw_db w))"
          using step(3,4) by (auto simp: on_row_def same_identity_def intro!: map_update_where)
        from arg_cong [OF this, of set] show ?thesis by simp
      qed
      have sel: "selected y w' = map_option (\<lambda>r. if y = x then f r else r) (selected y w)" for y
        using step(4) by (intro selected_on_row [OF _ step(3)]) (simp add: same_identity_def)
      have "log_agrees s w' y" for y
      proof (cases "y = x")
        case True
        have "phase_at x w = Some (phase_of a)" using step(1) by (simp add: phase_at_def)
        then have "accounted s (phase_of a) (sends_to x (dw_sends w))"
          using assms(1) unfolding log_ok_def log_agrees_def by (metis option.simps(5))
        from accounted_step [OF step(6) this] show ?thesis
          using sel [of x] step(1,7) True by (simp add: log_agrees_def phase_at_def sends_to_sends_of)
      next
        case False
        then have "phase_at y w' = phase_at y w"
          using sel [of y] by (simp add: phase_at_def option.map_ident)
        moreover have "sends_to y (dw_sends w') = sends_to y (dw_sends w)"
          using False step(7) by (simp add: sends_to_sends_of)
        ultimately have "log_agrees s w' y = log_agrees s w y"
          unfolding log_agrees_def by (simp only:)
        then show ?thesis using assms(1) by (simp add: log_ok_def)
      qed
      moreover have "inj (cw_uuids w)"
        and "att_id ` set (db_attempts (cw_db w)) \<subseteq> cw_uuids w ` {..<cw_drawn w}"
        using assms(1) by (simp_all add: log_ok_def)
      ultimately show ?thesis using ok keep env ids mono unfolding log_ok_def by auto
    qed
  qed
qed

lemma process_log_ok:
  assumes "log_ok s w" and "process_notification_created fuel s' up ev sub w = (r, w')"
  shows "log_ok s w'"
proof -
  note frame = process_frame [OF assms(2)]
  have ok: "delivery_ok w'" using assms(1) frame(4,9) by (simp add: log_ok_def delivery_ok_def)
  obtain new where new: "db_attempts (cw_db w') = db_attempts (cw_db w) @ new"
      "att_id ` set new \<subseteq> drawn_between w w'" "\<forall>a \<in> set new. att_status a = Att_Pending"
    using frame(6) by blast
  have ids: "att_id ` set (db_attempts (cw_db w)) \<subseteq> cw_uuids w ` {..<cw_drawn w}"
    and inj: "inj (cw_uuids w)" using assms(1) by (simp_all add: log_ok_def)
  have "cw_uuids w ` {..<cw_drawn w} \<union> drawn_between w w' \<subseteq> cw_uuids w ` {..<cw_drawn w'}"
    using frame(2) by (auto simp: drawn_between_def)
  with ids new(1,2) have ids': "att_id ` set (db_attempts (cw_db w')) \<subseteq> cw_uuids w ` {..<cw_drawn w'}"
    unfolding new(1) set_append image_Un by blast
  have "log_agrees s w' x" for x
  proof (cases "selected x w")
    case (Some a)
    then show ?thesis using assms(1) selected_append [OF new(1) Some] frame(3)
      unfolding log_ok_def log_agrees_def phase_at_def by (metis option.simps(9))
  next
    case None
    then have none: "sends_to x (dw_sends w') = []"
      using assms(1) frame(3) unfolding log_ok_def log_agrees_def phase_at_def
      by (metis option.simps(4) option.simps(8))
    show ?thesis
    proof (cases "selected x w'")
      case (Some a)
      with None new(1) have "a \<in> set new"
        by (auto simp: selected_def find_row_append dest: find_row_Some)
      with new(3) have "att_status a = Att_Pending" by blast
      moreover have "attempt_ok a"
        using ok selected_id [OF Some] by (simp add: delivery_ok_def delivery_tables_ok_def)
      ultimately have "phase_of a = Waiting 0 None" by (simp add: phase_of_def attempt_ok_def)
      with Some none show ?thesis by (simp add: log_agrees_def phase_at_def send_limit_def)
    qed (use none in \<open>simp add: log_agrees_def phase_at_def\<close>)
  qed
  with ok inj ids' frame(1) assms(1) show ?thesis
    unfolding log_ok_def same_surroundings_def by auto
qed

fun steady :: "delivery_config \<Rightarrow> delivery_op \<Rightarrow> delivery_world \<Rightarrow> delivery_world" where
  "steady cfg (Outage redis nats) w = w"
| "steady cfg op w = apply_delivery cfg op w"

lemma steady_log_ok: "log_ok (cfg_settings cfg) w \<Longrightarrow> log_ok (cfg_settings cfg) (steady cfg op w)"
proof (cases op)
  case (Receive fuel up msg)
  assume "log_ok (cfg_settings cfg) w"
  with Receive show ?thesis
    by (cases rule: handle_message_cases [of cfg fuel up msg w]) (auto dest: process_log_ok)
next
  case (Work job)
  assume ok: "log_ok (cfg_settings cfg) w"
  show ?thesis
  proof (cases rule: run_job_cases [of w cfg job])
    case 1
    then obtain jobs where "steady cfg op w = w\<lparr>dw_jobs := jobs\<rparr>"
      using Work by (auto simp: same_but_jobs_def)
    with ok show ?thesis by (intro log_ok_same [OF ok]) (simp_all add: log_ok_def delivery_ok_def)
  next
    case (2 r)
    with Work execute_send_log_ok [OF ok 2] show ?thesis by simp
  qed
next
  case (Tick t)
  assume ok: "log_ok (cfg_settings cfg) w"
  with Tick show ?thesis by (intro log_ok_same [OF ok]) (simp_all add: log_ok_def delivery_ok_def)
qed simp

interpretation steady_delivery: operations "steady cfg" "log_ok (cfg_settings cfg)" for cfg
  by unfold_locales (rule steady_log_ok)

lemma accounted_bound:
  assumes "accounted s p log"
  shows "int (length log) \<le> send_limit s \<and> True \<notin> set (butlast log)"
  using assms by (cases p) (auto dest: in_set_butlastD split: if_splits)

section \<open>Properties\<close>

text \<open>
  C8: over every history of messages, jobs and outages, the tables keep their constraints, no
  transaction stays open, a processed event stays processed, an attempt once delivered or
  abandoned stays so, and no send is forgotten.
\<close>

theorem delivery_history_safe:
  assumes "delivery_ok w"
  shows "delivery_ok (fold (apply_delivery cfg) ops w) \<and>
    delivery_grows w (fold (apply_delivery cfg) ops w)"
  using assms by (simp add: delivery.history_keeps delivery_order.history_grows)

theorem delivery_history_safe_witness:
  "delivery_ok (fold (apply_delivery \<lparr>cfg_settings = default_delivery_settings, cfg_zones = utc_db,
     cfg_providers = build_providers 0\<rparr>) [Receive 1 (sample_upstream [9]) sample_message, Tick 5,
     Work \<lparr>job_function = ''send_push'', job_attempt = 100, job_channel = None, job_defer_by = None\<rparr>]
     (sample_world [] True))"
  by (rule delivery_history_safe [THEN conjunct1])
    (simp add: delivery_ok_def delivery_tables_ok_def sample_world_def)

text \<open>
  C9: while Redis and JetStream accept, a provider is asked at most \<open>max 1 max\_attempts\<close> times
  for an attempt over any history of messages, duplicated, early or late jobs and clock
  readings, and never again after it has accepted: an acceptance can only be the last entry of
  the log of the attempt.
\<close>

theorem provider_asked_at_most:
  assumes "delivery_ok w" and "inj (cw_uuids w)" and "dw_redis_up w"
    and "dw_nats_accepts w = (\<lambda>_. True)" and "db_attempts (cw_db w) = []" and "dw_sends w = []"
  shows "let log = sends_to x (dw_sends (fold (steady cfg) ops w))
    in int (length log) \<le> max 1 (ds_max_attempts (cfg_settings cfg)) \<and> True \<notin> set (butlast log)"
proof -
  have "log_ok (cfg_settings cfg) w"
    using assms by (simp add: log_ok_def log_agrees_def phase_at_def selected_def sends_to_def)
  then have "log_ok (cfg_settings cfg) (fold (steady cfg) ops w)"
    by (rule steady_delivery.history_keeps)
  then have "log_agrees (cfg_settings cfg) (fold (steady cfg) ops w) x" by (simp add: log_ok_def)
  then show ?thesis
    by (auto simp: Let_def log_agrees_def send_limit_def [symmetric] dest: accounted_bound split: option.splits)
      (simp add: send_limit_def)
qed

theorem provider_asked_at_most_witness:
  "let log = sends_to 100 (dw_sends (fold (steady \<lparr>cfg_settings = default_delivery_settings,
     cfg_zones = utc_db, cfg_providers = build_providers 0\<rparr>)
     [Receive 1 (sample_upstream [9]) sample_message,
      Work \<lparr>job_function = ''send_push'', job_attempt = 100, job_channel = None, job_defer_by = None\<rparr>]
     (sample_world [] True))) in length log \<le> 5 \<and> True \<notin> set (butlast log)"
  using provider_asked_at_most [of "sample_world [] True" 100 "\<lparr>cfg_settings = default_delivery_settings,
     cfg_zones = utc_db, cfg_providers = build_providers 0\<rparr>"
     "[Receive 1 (sample_upstream [9]) sample_message,
      Work \<lparr>job_function = ''send_push'', job_attempt = 100, job_channel = None, job_defer_by = None\<rparr>]"]
  by (simp add: delivery_ok_def delivery_tables_ok_def sample_world_def Let_def inj_on_def
      default_delivery_settings_def)

end
