(* ===== verification/Cursor.thy ===== *)
theory Cursor
  imports Json
begin

text \<open>
  \<open>core/pagination.py\<close> of the subscriptions and of the notifications service, with the parts of
  \<open>base64\<close> and \<open>json\<close> that it uses: the URL-safe alphabet, the decoder of \<open>binascii\<close> (which
  skips what is not in the alphabet and stops at a complete padding) and \<open>json.dumps\<close> on a
  dict of strings. \<open>json.loads\<close> is translated on the texts that \<open>encode_cursor\<close> writes, flat
  objects of plain strings; what it makes of any other text is a parameter.
\<close>

section \<open>base64\<close>

definition b64_alphabet :: string where
  "b64_alphabet = ''ABCDEFGHIJKLMNOPQRSTUVWXYZabcdefghijklmnopqrstuvwxyz0123456789-_''"

definition b64_char :: "nat \<Rightarrow> char" where
  "b64_char n = b64_alphabet ! n"

definition b64_index :: "char \<Rightarrow> nat option" where
  "b64_index c = (if c = CHR ''+'' then Some 62 else if c = CHR ''/'' then Some 63
     else map_of (zip b64_alphabet [0..<64]) c)"

fun urlsafe_b64encode :: "string \<Rightarrow> string" where
  "urlsafe_b64encode [] = []"
| "urlsafe_b64encode [a] = (let x = of_char a in
     [b64_char (x div 4), b64_char (x mod 4 * 16), CHR ''='', CHR ''=''])"
| "urlsafe_b64encode [a, b] = (let x = of_char a; y = of_char b in
     [b64_char (x div 4), b64_char (x mod 4 * 16 + y div 16), b64_char (y mod 16 * 4), CHR ''=''])"
| "urlsafe_b64encode (a # b # c # cs) = (let x = of_char a; y = of_char b; z = of_char c in
     [b64_char (x div 4), b64_char (x mod 4 * 16 + y div 16), b64_char (y mod 16 * 4 + z div 64),
      b64_char (z mod 64)] @ urlsafe_b64encode cs)"

text \<open>The loop of \<open>binascii.a2b_base64\<close>: position in the quad, left bits, paddings seen.\<close>

fun a2b_base64 :: "nat \<Rightarrow> nat \<Rightarrow> nat \<Rightarrow> string \<Rightarrow> string option" where
  "a2b_base64 quad left pads [] = (if quad = 0 then Some [] else None)"
| "a2b_base64 quad left pads (c # cs) =
     (if c = CHR ''='' then
        (if 2 \<le> quad \<and> 4 \<le> quad + (pads + 1) then Some []
         else a2b_base64 quad left (if 2 \<le> quad then pads + 1 else pads) cs)
      else case b64_index c of
        None \<Rightarrow> a2b_base64 quad left pads cs
      | Some v \<Rightarrow>
          if quad = 0 then a2b_base64 1 v 0 cs
          else if quad = 1 then
            map_option ((#) (char_of (left * 4 + v div 16))) (a2b_base64 2 (v mod 16) 0 cs)
          else if quad = 2 then
            map_option ((#) (char_of (left * 16 + v div 4))) (a2b_base64 3 (v mod 4) 0 cs)
          else map_option ((#) (char_of (left * 64 + v))) (a2b_base64 0 0 0 cs))"

definition urlsafe_b64decode :: "string \<Rightarrow> string option" where
  "urlsafe_b64decode s = a2b_base64 0 0 0 s"

lemma b64_chars: "list_all (\<lambda>n. b64_index (b64_char n) = Some n \<and> b64_char n \<noteq> CHR ''='') [0..<64]"
  by code_simp

lemma b64_index_char [simp]: "n < 64 \<Longrightarrow> b64_index (b64_char n) = Some n"
  and b64_char_not_pad [simp]: "n < 64 \<Longrightarrow> b64_char n \<noteq> CHR ''=''"
  using b64_chars by (auto simp: list_all_iff)

lemma six_bits:
  fixes x y z :: nat
  assumes "x < 256" and "y < 256" and "z < 256"
  shows "x div 4 < 64" and "x mod 4 * 16 + y div 16 < 64" and "x mod 4 * 16 < 64"
    and "y mod 16 * 4 + z div 64 < 64" and "y mod 16 * 4 < 64" and "y div 16 < 16" and "z div 64 < 4"
  using assms by (auto simp: less_mult_imp_div_less)

lemma byte_join:
  fixes x y z :: nat
  assumes "x < 256" and "y < 256" and "z < 256"
  shows "x div 4 * 4 + (x mod 4 * 16 + y div 16) div 16 = x" and "x div 4 * 4 + x mod 4 * 16 div 16 = x"
    and "(x mod 4 * 16 + y div 16) mod 16 * 16 + (y mod 16 * 4 + z div 64) div 4 = y"
    and "(x mod 4 * 16 + y div 16) mod 16 * 16 + y mod 16 * 4 div 4 = y"
    and "(y mod 16 * 4 + z div 64) mod 4 * 64 + z mod 64 = z"
proof -
  have shift: "(p * n + q) div n = p \<and> (p * n + q) mod n = q" if "q < n" for p q n :: nat
    using that by simp
  note bits = six_bits [OF assms]
  show "x div 4 * 4 + (x mod 4 * 16 + y div 16) div 16 = x"
    using shift [OF bits(6), of "x mod 4"] by simp
  show "x div 4 * 4 + x mod 4 * 16 div 16 = x" by simp
  show "(x mod 4 * 16 + y div 16) mod 16 * 16 + (y mod 16 * 4 + z div 64) div 4 = y"
    using shift [OF bits(6), of "x mod 4"] shift [OF bits(7), of "y mod 16"] by simp
  show "(x mod 4 * 16 + y div 16) mod 16 * 16 + y mod 16 * 4 div 4 = y"
    using shift [OF bits(6), of "x mod 4"] by simp
  show "(y mod 16 * 4 + z div 64) mod 4 * 64 + z mod 64 = z"
    using shift [OF bits(7), of "y mod 16"] by simp
qed

lemma of_char_less: "of_char (c :: char) < (256 :: nat)"
  by simp

lemma base64_roundtrip: "urlsafe_b64decode (urlsafe_b64encode s) = Some s"
  unfolding urlsafe_b64decode_def
proof (induction s rule: urlsafe_b64encode.induct)
  case 1
  show ?case by simp
next
  case (2 a)
  note bits = six_bits [OF of_char_less [of a] of_char_less of_char_less]
    byte_join [OF of_char_less [of a] of_char_less of_char_less]
  show ?case by (simp add: Let_def bits)
next
  case (3 a b)
  note bits = six_bits [OF of_char_less [of a] of_char_less [of b] of_char_less]
    byte_join [OF of_char_less [of a] of_char_less [of b] of_char_less]
  show ?case by (simp add: Let_def bits)
next
  case (4 a b c cs)
  note bits = six_bits [OF of_char_less [of a] of_char_less [of b] of_char_less [of c]]
    byte_join [OF of_char_less [of a] of_char_less [of b] of_char_less [of c]]
  show ?case using 4 by (simp add: Let_def bits)
qed

section \<open>json.dumps and json.loads on flat objects\<close>

definition hex4 :: "nat \<Rightarrow> string" where
  "hex4 n = digits_of 16 4 n"

definition json_escape :: "char \<Rightarrow> string" where
  "json_escape c = (let n = of_char c :: nat in
     if c = CHR 0x22 then [CHR 0x5C, CHR 0x22]
     else if c = CHR 0x5C then [CHR 0x5C, CHR 0x5C]
     else if n = 10 then [CHR 0x5C, CHR ''n'']
     else if n = 13 then [CHR 0x5C, CHR ''r'']
     else if n = 9 then [CHR 0x5C, CHR ''t'']
     else if n = 12 then [CHR 0x5C, CHR ''f'']
     else if n = 8 then [CHR 0x5C, CHR ''b'']
     else if 32 \<le> n \<and> n \<le> 126 then [c]
     else CHR 0x5C # CHR ''u'' # hex4 n)"

definition json_string :: "string \<Rightarrow> string" where
  "json_string s = CHR 0x22 # concat (map json_escape s) @ [CHR 0x22]"

definition json_member :: "string \<times> string \<Rightarrow> string" where
  "json_member kv = json_string (fst kv) @ CHR '':'' # json_string (snd kv)"

definition dumps_strings :: "(string \<times> string) list \<Rightarrow> string" where
  "dumps_strings d = CHR ''{'' # py_join '','' (map json_member d) @ ''}''"

text \<open>A string without escapes: its text up to the closing quote, and what follows.\<close>

definition plain_char :: "char \<Rightarrow> bool" where
  "plain_char c \<longleftrightarrow> (let n = of_char c :: nat in 32 \<le> n \<and> n \<le> 126 \<and> c \<noteq> CHR 0x22 \<and> c \<noteq> CHR 0x5C)"

fun read_chars :: "string \<Rightarrow> (string \<times> string) option" where
  "read_chars [] = None"
| "read_chars (c # cs) = (if c = CHR 0x22 then Some ([], cs)
     else if plain_char c then map_option (\<lambda>(s, rest). (c # s, rest)) (read_chars cs)
     else None)"

definition read_string :: "string \<Rightarrow> (string \<times> string) option" where
  "read_string s = (case s of [] \<Rightarrow> None | c # cs \<Rightarrow> if c = CHR 0x22 then read_chars cs else None)"

definition read_member :: "string \<Rightarrow> ((string \<times> string) \<times> string) option" where
  "read_member s = (case read_string s of
     None \<Rightarrow> None
   | Some (k, rest) \<Rightarrow> (case rest of
       [] \<Rightarrow> None
     | c # cs \<Rightarrow> if c \<noteq> CHR '':'' then None
         else case read_string cs of None \<Rightarrow> None | Some (v, rest') \<Rightarrow> Some ((k, v), rest')))"

fun read_members ::
  "nat \<Rightarrow> (string \<times> string) list \<Rightarrow> string \<Rightarrow> (string \<times> string) list option" where
  "read_members 0 d s = None"
| "read_members (Suc n) d s = (case read_member s of
     None \<Rightarrow> None
   | Some ((k, v), rest) \<Rightarrow>
       if rest = ''}'' then Some (dict_set k v d)
       else case rest of
         [] \<Rightarrow> None
       | c # cs \<Rightarrow> if c = CHR '','' then read_members n (dict_set k v d) cs else None)"

definition read_object :: "string \<Rightarrow> (string \<times> string) list option" where
  "read_object s = (if s = ''{}'' then Some []
     else case s of [] \<Rightarrow> None
      | c # cs \<Rightarrow> if c = CHR ''{'' then read_members (length cs) [] cs else None)"

section \<open>core/pagination.py\<close>

text \<open>
  What \<open>.decode('utf-8')\<close>, \<open>json.loads\<close> and the conversion of keys and values to \<open>str\<close> make of
  a text: an exception, a value that is not a dict, or a dict of strings.
\<close>

datatype loaded = Load_Error | Not_Dict | Loaded "(string \<times> string) list"

type_synonym other_json = "string \<Rightarrow> loaded"

definition load_strings :: "other_json \<Rightarrow> string \<Rightarrow> loaded" where
  "load_strings other raw = (case read_object raw of Some d \<Rightarrow> Loaded d | None \<Rightarrow> other raw)"

definition encode_cursor :: "(string \<times> string) list \<Rightarrow> string" where
  "encode_cursor payload = urlsafe_b64encode (dumps_strings payload)"

definition decode_cursor ::
  "other_json \<Rightarrow> string option \<Rightarrow> exn + (string \<times> string) list option" where
  "decode_cursor other cursor = (case cursor of
     None \<Rightarrow> Inr None
   | Some c \<Rightarrow> if c = [] then Inr None
       else case urlsafe_b64decode c of
         None \<Rightarrow> Inl (App Kind_Validation ''Invalid cursor'')
       | Some raw \<Rightarrow> (case load_strings other raw of
           Load_Error \<Rightarrow> Inl (App Kind_Validation ''Invalid cursor'')
         | Not_Dict \<Rightarrow> Inl (App Kind_Validation ''Invalid cursor'')
         | Loaded d \<Rightarrow> Inr (Some d)))"

definition instant_cursor :: "instant \<Rightarrow> uuid \<Rightarrow> string" where
  "instant_cursor created_at row_id =
     encode_cursor [(''created_at'', isoformat created_at), (''id'', str_uuid row_id)]"

section \<open>A cursor is read back as it was written\<close>

definition plain :: "string \<Rightarrow> bool" where
  "plain s \<longleftrightarrow> list_all plain_char s"

lemma plain_escape: "plain_char c \<Longrightarrow> json_escape c = [c] \<and> c \<noteq> CHR 0x22"
  by (auto simp: plain_char_def json_escape_def Let_def)

lemma read_chars_plain: "plain s \<Longrightarrow>
    read_chars (concat (map json_escape s) @ CHR 0x22 # rest) = Some (s, rest)"
  by (induction s) (auto simp: plain_def plain_escape)

lemma read_member_json: "plain k \<Longrightarrow> plain v \<Longrightarrow>
    read_member (json_member (k, v) @ rest) = Some ((k, v), rest)"
  by (simp add: read_member_def json_member_def json_string_def read_string_def read_chars_plain)

definition set_all :: "(string \<times> string) list \<Rightarrow> (string \<times> string) list \<Rightarrow> (string \<times> string) list" where
  "set_all d acc = fold (\<lambda>(k, v). dict_set k v) d acc"

lemma dict_set_new: "k \<notin> set (map fst d) \<Longrightarrow> dict_set k v d = d @ [(k, v)]"
  by (induction d) auto

lemma set_all_distinct: "distinct (map fst (acc @ d)) \<Longrightarrow> set_all d acc = acc @ d"
proof (induction d arbitrary: acc)
  case Nil
  show ?case by (simp add: set_all_def)
next
  case (Cons kv d)
  obtain k v where kv: "kv = (k, v)" by fastforce
  have "set_all (kv # d) acc = set_all d (acc @ [kv])"
    using Cons.prems by (simp add: set_all_def kv dict_set_new)
  with Cons.IH [of "acc @ [kv]"] Cons.prems show ?case by simp
qed

lemma read_members_json:
  assumes "\<forall>kv \<in> set (kv # d). plain (fst kv) \<and> plain (snd kv)" and "length (kv # d) \<le> n"
  shows "read_members n acc (json_member kv @ concat (map (\<lambda>x. '','' @ x) (map json_member d)) @ ''}'') =
    Some (set_all (kv # d) acc)"
  using assms
proof (induction d arbitrary: kv n acc)
  case Nil
  obtain k v where "kv = (k, v)" by fastforce
  moreover obtain m where "n = Suc m" using Nil.prems(2) by (cases n) auto
  ultimately show ?case using Nil.prems(1) by (simp add: read_member_json set_all_def)
next
  case (Cons kv' d)
  obtain k v where kv: "kv = (k, v)" by fastforce
  obtain m where n: "n = Suc m" using Cons.prems(2) by (cases n) auto
  have "read_members m (dict_set k v acc) (json_member kv' @
      concat (map (\<lambda>x. '','' @ x) (map json_member d)) @ ''}'') = Some (set_all (kv' # d) (dict_set k v acc))"
    using Cons.prems n by (intro Cons.IH) auto
  then show ?case using Cons.prems(1)
    by (simp add: n kv read_member_json set_all_def)
qed

lemma length_json_member: "0 < length (json_member kv)"
  by (simp add: json_member_def json_string_def)

lemma read_object_dumps:
  assumes "\<forall>kv \<in> set d. plain (fst kv) \<and> plain (snd kv)" and "distinct (map fst d)"
  shows "read_object (dumps_strings d) = Some d"
proof (cases d)
  case Nil
  then show ?thesis by (simp add: read_object_def dumps_strings_def py_join_def)
next
  case (Cons kv d')
  let ?body = "json_member kv @ concat (map (\<lambda>x. '','' @ x) (map json_member d')) @ ''}''"
  have dump: "dumps_strings d = CHR ''{'' # ?body"
    by (simp add: dumps_strings_def py_join_def Cons comp_def)
  have "length d' \<le> length (concat (map (\<lambda>x. '','' @ x) (map json_member d')))"
    by (induction d') auto
  then have "length (kv # d') \<le> length ?body" using length_json_member [of kv] by simp
  then have "read_members (length ?body) [] ?body = Some (set_all d [])"
    using read_members_json [of kv d' "length ?body" "[]"] assms(1) Cons by simp
  moreover have "set_all d [] = d" using set_all_distinct [of "[]" d] assms(2) by simp
  moreover have "?body \<noteq> ''}''" and "json_member kv \<noteq> []"
    by (simp_all add: json_member_def json_string_def)
  ultimately show ?thesis by (simp add: read_object_def dump del: read_members.simps)
qed

lemma encode_cursor_nonempty: "encode_cursor d \<noteq> []"
  using base64_roundtrip [of "dumps_strings d"]
  by (auto simp: encode_cursor_def urlsafe_b64decode_def dumps_strings_def)

lemma decode_encode_cursor:
  assumes "\<forall>kv \<in> set d. plain (fst kv) \<and> plain (snd kv)" and "distinct (map fst d)"
  shows "decode_cursor other (Some (encode_cursor d)) = Inr (Some d)"
  using encode_cursor_nonempty [of d]
  by (simp add: decode_cursor_def load_strings_def read_object_dumps [OF assms]
      encode_cursor_def base64_roundtrip)

section \<open>The cursors of the services\<close>

lemma plain_append [simp]: "plain (xs @ ys) = (plain xs \<and> plain ys)"
  by (simp add: plain_def)

lemma plain_Cons: "plain (c # s) = (plain_char c \<and> plain s)"
  by (simp add: plain_def)

lemma plain_subset: "plain s \<Longrightarrow> set t \<subseteq> set s \<Longrightarrow> plain t"
  by (auto simp: plain_def list_all_iff)

lemma plain_hex_char: "hex_char c \<Longrightarrow> plain_char c"
proof -
  assume c: "hex_char c"
  have "digit_val CHR 0x22 = None" and "digit_val CHR 0x5C = None" by code_simp+
  with c have "c \<noteq> CHR 0x22" and "c \<noteq> CHR 0x5C" by (metis hex_char_def)+
  with c show ?thesis unfolding hex_char_def plain_char_def Let_def by blast
qed

lemma plain_digits_of: "0 < b \<Longrightarrow> b \<le> 16 \<Longrightarrow> plain (digits_of b k n)"
proof -
  assume "0 < b" and "b \<le> 16"
  then have "hex_text (digits_of b k n)" using set_digits_of [of b k n] by (auto simp: hex_text_def)
  then show ?thesis using hex_text_chars plain_hex_char by (auto simp: plain_def list_all_iff)
qed

lemma plain_str_uuid: "plain (str_uuid u)"
proof -
  have h: "plain (digits_of 16 32 u)" by (simp add: plain_digits_of)
  have cut: "plain (take i (drop j (digits_of 16 32 u)))" "plain (take i (digits_of 16 32 u))"
    "plain (drop j (digits_of 16 32 u))" for i j
    by (auto intro!: plain_subset [OF h] dest: in_set_takeD in_set_dropD)
  have "plain_char CHR ''-''" by code_simp
  with cut show ?thesis by (simp add: str_uuid_def Let_def plain_Cons)
qed

lemma plain_isoformat: "plain (isoformat t)"
proof -
  have d: "plain (dec k n)" for k n by (simp add: dec_def plain_digits_of)
  have "plain_char CHR ''-''" "plain_char CHR ''T''" "plain_char CHR '':''" "plain_char CHR ''.''"
    "plain ''+00:00''" by code_simp+
  with d show ?thesis by (simp add: isoformat_def Let_def plain_Cons split: prod.split)
qed

lemma plain_names: "plain ''created_at''" "plain ''id''" "plain ''user_id''"
  by code_simp+

end
