(* ===== verification/Paging.thy ===== *)
theory Paging
  imports Cursor
begin

text \<open>
  Keyset pagination, as the list operations of the services do it: a statement selects one row
  more than the page holds, the service cuts the page and makes a cursor of its last row. The
  interface \<open>paged\_listing\<close> says what one request promises; following the cursors then visits
  every row once, in order.
\<close>

section \<open>One page\<close>

text \<open>
  \<open>if len(rows) > limit: rows = rows[:limit]; last = rows[-1]; next_cursor = ...\<close>. With a
  limit of 0 the cut page is empty and \<open>rows[-1]\<close> raises.
\<close>

definition cut_page :: "('r \<Rightarrow> string) \<Rightarrow> nat \<Rightarrow> 'r list \<Rightarrow> exn + 'r list \<times> string option" where
  "cut_page cursor_of limit rows =
     (if limit < length rows
      then (if limit = 0 then Inl Index_Error
            else Inr (take limit rows, Some (cursor_of (last (take limit rows)))))
      else Inr (rows, None))"

definition after_cursor :: "('r \<Rightarrow> 'k::linorder) \<Rightarrow> 'k option \<Rightarrow> 'r \<Rightarrow> bool" where
  "after_cursor key c r = (case c of None \<Rightarrow> True | Some k \<Rightarrow> k < key r)"

text \<open>A client that follows the cursors; the fuel bounds the number of requests.\<close>

fun follow_pages ::
  "nat \<Rightarrow> (string option \<Rightarrow> exn + 'r list \<times> string option) \<Rightarrow> string option \<Rightarrow> exn + 'r list list" where
  "follow_pages 0 fetch c = Inl Diverges"
| "follow_pages (Suc fuel) fetch c = bind_sum (fetch c) (\<lambda>(rows, next).
     case next of
       None \<Rightarrow> Inr [rows]
     | Some c' \<Rightarrow> bind_sum (follow_pages fuel fetch (Some c')) (\<lambda>pages. Inr (rows # pages)))"

section \<open>Sorted selections\<close>

lemma sort_key_filter: "sort_key k (filter p xs) = filter p (sort_key k xs)"
  by (simp add: filter_sort)

lemma sorted_distinct_strict:
  "sorted (map k xs) \<Longrightarrow> distinct (map k xs) \<Longrightarrow> sorted_wrt (<) (map k xs)"
  by (simp add: strict_sorted_iff)

lemma strict_sort_key: "distinct (map k xs) \<Longrightarrow> sorted_wrt (<) (map k (sort_key k xs))"
  by (rule sorted_distinct_strict) (simp_all add: distinct_map)

lemma filter_after_nth:
  fixes key :: "'r \<Rightarrow> 'k::linorder"
  assumes "sorted_wrt (<) (map key xs)" and "m < length xs"
  shows "filter (\<lambda>x. key (xs ! m) < key x) xs = drop (Suc m) xs"
proof -
  have less: "key (xs ! i) < key (xs ! j)" if "i < j" "j < length xs" for i j
    using assms(1) that by (simp add: sorted_wrt_iff_nth_less)
  have "\<not> key (xs ! m) < key x" if x: "x \<in> set (take (Suc m) xs)" for x
  proof -
    obtain i where "i < length (take (Suc m) xs)" and "take (Suc m) xs ! i = x"
      using x unfolding in_set_conv_nth by blast
    then have "i \<le> m" and "x = xs ! i" by auto
    then show ?thesis using less [of i m] assms(2) by (cases "i = m") (auto simp: less_not_sym)
  qed
  then have "filter (\<lambda>x. key (xs ! m) < key x) (take (Suc m) xs) = []" by (simp add: filter_empty_conv)
  moreover have "key (xs ! m) < key x" if x: "x \<in> set (drop (Suc m) xs)" for x
  proof -
    obtain j where "j < length (drop (Suc m) xs)" and "drop (Suc m) xs ! j = x"
      using x unfolding in_set_conv_nth by blast
    then have "j < length xs - Suc m" and "x = xs ! (Suc m + j)" by auto
    then show ?thesis using less [of m "Suc m + j"] by simp
  qed
  then have "filter (\<lambda>x. key (xs ! m) < key x) (drop (Suc m) xs) = drop (Suc m) xs"
    by (simp add: filter_id_conv)
  ultimately show ?thesis by (metis append_Nil append_take_drop_id filter_append)
qed

section \<open>A selected page\<close>

lemma cut_page_take: "cut_page c n (take (n + 1) rows) = cut_page c n rows"
  by (auto simp: cut_page_def min_def)

text \<open>
  A page of a selection that asks for one row more than the limit, as the services do it, is
  the cut of everything that follows the cursor.
\<close>

lemma cut_selected_page:
  assumes "\<And>r. key (f r) = k r"
  shows "cut_page c n (map f (select_page (\<lambda>r. p r \<and> after_cursor k a r) k (n + 1) rows)) =
    cut_page c n (filter (after_cursor key a) (map f (sort_key k (filter p rows))))"
proof -
  have "filter (\<lambda>r. p r \<and> after_cursor k a r) rows = filter (after_cursor k a) (filter p rows)"
    by (simp add: conj_commute)
  then have "select_page (\<lambda>r. p r \<and> after_cursor k a r) k (n + 1) rows =
      take (n + 1) (filter (after_cursor k a) (sort_key k (filter p rows)))"
    by (simp only: select_page_def sort_key_filter)
  moreover have "map f (filter (after_cursor k a) xs) = filter (after_cursor key a) (map f xs)" for xs
  proof -
    have "after_cursor key a (f r) = after_cursor k a r" for r
      by (simp add: after_cursor_def assms split: option.split)
    then show ?thesis by (simp add: filter_map comp_def)
  qed
  ultimately show ?thesis by (simp only: take_map [symmetric] cut_page_take)
qed

lemma after_cursor_simps [simp]:
  "after_cursor key None = (\<lambda>_. True)" "after_cursor key (Some k) = (\<lambda>r. k < key r)"
  by (auto simp: after_cursor_def)

lemma strict_selection:
  assumes "\<And>r. key (f r) = k r" and "distinct (map k rows)"
  shows "sorted_wrt (<) (map key (map f (sort_key k (filter p rows))))"
proof -
  have "map key (map f xs) = map k xs" for xs using assms(1) by (simp add: comp_def)
  moreover have "distinct (map k (filter p rows))" using assms(2) by (rule distinct_map_filter)
  ultimately show ?thesis by (simp only: strict_sort_key)
qed

section \<open>The interface of a listing\<close>

locale paged_listing =
  fixes ok :: "'s \<Rightarrow> bool" and items :: "'s \<Rightarrow> 'r list" and key :: "'r \<Rightarrow> 'k::linorder"
    and fetch :: "'s \<Rightarrow> nat \<Rightarrow> string option \<Rightarrow> exn + 'r list \<times> string option"
    and cursor_of :: "'r \<Rightarrow> string"
  assumes items_sorted: "ok s \<Longrightarrow> sorted_wrt (<) (map key (items s))"
    and fetch_first: "ok s \<Longrightarrow> fetch s limit None = cut_page cursor_of limit (items s)"
    and fetch_next: "ok s \<Longrightarrow> r \<in> set (items s) \<Longrightarrow> fetch s limit (Some (cursor_of r)) =
      cut_page cursor_of limit (filter (\<lambda>x. key r < key x) (items s))"
begin

text \<open>The cursor of a cut page leads to the rows after it.\<close>

lemma next_fetch:
  assumes "ok s" and "0 < limit" and "limit < length (drop m (items s))"
  shows "fetch s limit (Some (cursor_of (last (take limit (drop m (items s)))))) =
    cut_page cursor_of limit (drop (m + limit) (items s))"
proof -
  let ?i = "m + limit - 1"
  have last: "last (take limit (drop m (items s))) = items s ! ?i"
    using assms(2,3) by (simp add: last_conv_nth)
  have i: "?i < length (items s)" and suc: "Suc ?i = m + limit" using assms(2,3) by auto
  show ?thesis
    using fetch_next [OF assms(1) nth_mem [OF i]] filter_after_nth [OF items_sorted [OF assms(1)] i]
    unfolding suc last by simp
qed

lemma follow_from:
  assumes "ok s" and "0 < limit" and "length (drop m (items s)) < fuel"
    and "fetch s limit c = cut_page cursor_of limit (drop m (items s))"
  shows "\<exists>pages. follow_pages fuel (fetch s limit) c = Inr pages \<and>
    concat pages = drop m (items s) \<and> (\<forall>p \<in> set pages. length p \<le> limit)"
  using assms(3,4)
proof (induction fuel arbitrary: m c)
  case 0
  then show ?case by simp
next
  case (Suc fuel)
  let ?rest = "drop m (items s)"
  show ?case
  proof (cases "limit < length ?rest")
    case False
    with Suc.prems(2) show ?thesis by (simp add: cut_page_def)
  next
    case True
    let ?k = "cursor_of (last (take limit ?rest))"
    note next_fetch [OF assms(1,2) True]
    moreover have "length (drop (m + limit) (items s)) < fuel"
      using Suc.prems(1) True assms(2) by simp
    ultimately obtain pages where "follow_pages fuel (fetch s limit) (Some ?k) = Inr pages"
        and "concat pages = drop (m + limit) (items s)" and "\<forall>p \<in> set pages. length p \<le> limit"
      using Suc.IH by blast
    moreover have "take limit ?rest @ drop (m + limit) (items s) = ?rest"
      by (metis add.commute append_take_drop_id drop_drop)
    ultimately show ?thesis
      using Suc.prems(2) True assms(2) by (simp add: cut_page_def)
  qed
qed

lemma follow_visits_all:
  assumes "ok s" and "0 < limit"
  shows "\<exists>pages. follow_pages (Suc (length (items s))) (fetch s limit) None = Inr pages \<and>
    concat pages = items s \<and> (\<forall>p \<in> set pages. length p \<le> limit)"
  using follow_from [of s limit 0 "Suc (length (items s))" None] fetch_first assms by simp

end

end
