(* ===== verification/Requests.thy ===== *)
theory Requests
  imports Paging
begin

text \<open>
  What the HTTP services share: the replies and the exception handlers (\<open>api/errors.py\<close>,
  \<open>core/exceptions.py\<close>), the identity headers (\<open>core/dependencies.py\<close>), the query limits, and the
  cursors of listings by creation time (\<open>core/pagination.py\<close>). The subscriptions and the
  notifications service have the same text of them.
\<close>

section \<open>Replies\<close>

datatype 'a reply = Reply nat 'a | Refusal nat string string

definition error_status :: "exn \<Rightarrow> nat" where
  "error_status e = (case e of
     App k _ \<Rightarrow> (case k of Kind_App \<Rightarrow> 400 | Kind_Unauthorized \<Rightarrow> 401 | Kind_Forbidden \<Rightarrow> 403
       | Kind_Not_Found \<Rightarrow> 404 | Kind_Conflict \<Rightarrow> 409 | Kind_Validation \<Rightarrow> 422)
   | _ \<Rightarrow> 500)"

definition error_code :: "exn \<Rightarrow> string" where
  "error_code e = (case e of
     App k _ \<Rightarrow> (case k of Kind_App \<Rightarrow> ''app_error'' | Kind_Unauthorized \<Rightarrow> ''unauthorized''
       | Kind_Forbidden \<Rightarrow> ''forbidden'' | Kind_Not_Found \<Rightarrow> ''not_found''
       | Kind_Conflict \<Rightarrow> ''conflict'' | Kind_Validation \<Rightarrow> ''validation_error'')
   | _ \<Rightarrow> ''internal_error'')"

definition error_message :: "exn \<Rightarrow> string" where
  "error_message e = (case e of App _ m \<Rightarrow> m | _ \<Rightarrow> ''Internal server error'')"

definition endpoint :: "('w, nat \<times> 'a) eff \<Rightarrow> 'w \<Rightarrow> 'a reply \<times> 'w" where
  "endpoint m w = (case m w of
     (Inr (status, body), w') \<Rightarrow> (Reply status body, w')
   | (Inl e, w') \<Rightarrow> (Refusal (error_status e) (error_code e) (error_message e), w'))"

section \<open>core/dependencies.py\<close>

definition current_user_id :: "string option \<Rightarrow> exn + uuid" where
  "current_user_id x_user_id = (case x_user_id of
     None \<Rightarrow> Inl (App Kind_Unauthorized ''Unauthorized'')
   | Some s \<Rightarrow> if s = [] then Inl (App Kind_Unauthorized ''Unauthorized'')
       else (case parse_uuid s of
         None \<Rightarrow> Inl (App Kind_Unauthorized ''Unauthorized'') | Some u \<Rightarrow> Inr u))"

definition current_roles :: "string \<Rightarrow> string list" where
  "current_roles x_user_roles = map (\<lambda>role. py_lower (py_strip role))
     (filter (\<lambda>role. py_strip role \<noteq> []) (py_split (CHR '','') x_user_roles))"

section \<open>Cursors\<close>

definition invalid_cursor :: "exn + 'a \<Rightarrow> exn + 'a" where
  "invalid_cursor r = (case r of
     Inl Value_Error \<Rightarrow> Inl (App Kind_Validation ''Invalid cursor'')
   | Inl Key_Error \<Rightarrow> Inl (App Kind_Validation ''Invalid cursor'')
   | _ \<Rightarrow> r)"

definition item :: "(string \<times> string) list \<Rightarrow> string \<Rightarrow> exn + string" where
  "item d k = (case dict_get d k of None \<Rightarrow> Inl Key_Error | Some v \<Rightarrow> Inr v)"

definition uuid_arg :: "string \<Rightarrow> exn + uuid" where
  "uuid_arg s = (case parse_uuid s of None \<Rightarrow> Inl Value_Error | Some u \<Rightarrow> Inr u)"

text \<open>\<open>if cursor_data:\<close>: no cursor and an empty dict both mean the first page.\<close>

definition instant_cursor_data ::
  "other_dates \<Rightarrow> (string \<times> string) list option \<Rightarrow> exn + (instant \<times> uuid) option" where
  "instant_cursor_data dates cursor_data = (case cursor_data of
     None \<Rightarrow> Inr None
   | Some d \<Rightarrow> if d = [] then Inr None else invalid_cursor
       (bind_sum (bind_sum (item d ''created_at'') (fromisoformat dates)) (\<lambda>created_at.
        bind_sum (bind_sum (item d ''id'') uuid_arg) (\<lambda>row_id.
          Inr (Some (created_at, row_id))))))"

text \<open>The library parameters of the listings: other JSON texts and other date texts.\<close>

type_synonym readers = "other_json \<times> other_dates"

definition row_cursor :: "instant \<Rightarrow> uuid \<Rightarrow> string" where
  "row_cursor created_at row_id =
     encode_cursor [(''created_at'', isoformat created_at), (''id'', str_uuid row_id)]"

text \<open>\<open>ORDER BY a DESC, id DESC\<close> as the ascending order of a negated key.\<close>

definition desc_key :: "instant \<Rightarrow> uuid \<Rightarrow> int \<times> int" where
  "desc_key created_at row_id = (- created_at, - int row_id)"

lemma desc_key_inj: "desc_key t i = desc_key t' i' \<longleftrightarrow> t = t' \<and> i = i'"
  by (auto simp: desc_key_def)

lemma distinct_keys:
  assumes "distinct (map k rows)" and "\<And>r s. f r = f s \<Longrightarrow> k r = k s"
  shows "distinct (map f rows)"
  using assms unfolding distinct_map inj_on_def by metis

section \<open>Path and query parameters\<close>

text \<open>\<open>if text\<close>: the empty text counts as none.\<close>

definition truthy :: "string option \<Rightarrow> string option" where
  "truthy s = (case s of None \<Rightarrow> None | Some t \<Rightarrow> if t = [] then None else Some t)"

definition invalid_request :: exn where
  "invalid_request = App Kind_Validation ''Invalid request''"

definition page_limit :: "int \<Rightarrow> int \<Rightarrow> exn + nat" where
  "page_limit highest limit =
     (if 1 \<le> limit \<and> limit \<le> highest then Inr (nat limit) else Inl invalid_request)"

definition path_uuid :: "string \<Rightarrow> exn + uuid" where
  "path_uuid s = (case parse_uuid s of None \<Rightarrow> Inl invalid_request | Some u \<Rightarrow> Inr u)"

section \<open>The cursor of a row is read back\<close>

lemma invalid_cursor_Inr [simp]: "invalid_cursor (Inr x) = Inr x"
  by (simp add: invalid_cursor_def)

lemma instant_cursor_roundtrip:
  assumes "instant_ok t" and "is_uuid i"
  shows "bind_sum (decode_cursor json (Some (row_cursor t i))) (instant_cursor_data dates) =
    Inr (Some (t, i))"
proof -
  have "decode_cursor json (Some (row_cursor t i)) =
      Inr (Some [(''created_at'', isoformat t), (''id'', str_uuid i)])"
    unfolding row_cursor_def
    by (rule decode_encode_cursor) (simp_all add: plain_names plain_isoformat plain_str_uuid)
  with assms show ?thesis
    by (simp add: instant_cursor_data_def item_def dict_get_def uuid_arg_def parse_str_uuid
        fromisoformat_isoformat)
qed

lemma decode_no_cursor [simp]: "decode_cursor json None = Inr None"
  by (simp add: decode_cursor_def)

lemma no_cursor_data [simp]: "instant_cursor_data dates None = Inr None"
  by (simp add: instant_cursor_data_def)

lemma lift_bind: "and_then (lift a) (\<lambda>x. and_then (lift (f x)) g) = and_then (lift (bind_sum a f)) g"
  by (rule ext) (simp add: and_then_run lift_run bind_sum_def split: sum.split)

end
