(* ===== verification/Limits.thy ===== *)
theory Limits
  imports Prelude
begin

text \<open>
  Counters in Redis that expire, and the interface of a limiter with a fixed window, which the
  rate limiter of the auth service and the one of the gateway provide: the first request for a
  key opens a window, and until it closes a number of requests is allowed.
\<close>

section \<open>Counters\<close>

type_synonym counter = "(int \<times> instant option) option"

definition alive :: "instant \<Rightarrow> counter \<Rightarrow> counter" where
  "alive now c = (case c of
     Some (n, Some t) \<Rightarrow> if t \<le> now then None else c
   | _ \<Rightarrow> c)"

text \<open>\<open>INCR\<close> keeps the expiry of the key, \<open>EXPIRE\<close> sets it or, at once, deletes the key.\<close>

definition redis_incr :: "instant \<Rightarrow> counter \<Rightarrow> int \<times> counter" where
  "redis_incr now c = (case alive now c of
     None \<Rightarrow> (1, Some (1, None))
   | Some (n, e) \<Rightarrow> (n + 1, Some (n + 1, e)))"

definition redis_expire :: "instant \<Rightarrow> int \<Rightarrow> counter \<Rightarrow> counter" where
  "redis_expire now seconds c = (case alive now c of
     None \<Rightarrow> None
   | Some (n, e) \<Rightarrow> if seconds \<le> 0 then None else Some (n, Some (now + seconds * 1000000)))"

text \<open>\<open>INCR\<close>, and \<open>EXPIRE\<close> after the first one: the counter of a fixed window.\<close>

definition window_hit :: "instant \<Rightarrow> int \<Rightarrow> counter \<Rightarrow> int \<times> counter" where
  "window_hit now seconds c = (let (current, c') = redis_incr now c
     in (current, if current = 1 then redis_expire now seconds c' else c'))"

definition used_ok :: "counter \<Rightarrow> bool" where
  "used_ok c \<longleftrightarrow> (case c of None \<Rightarrow> True | Some (n, e) \<Rightarrow> 1 \<le> n)"

lemma window_hit_opens:
  "alive now c = None \<Longrightarrow> 0 < seconds \<Longrightarrow>
    window_hit now seconds c = (1, Some (1, Some (now + seconds * 1000000)))"
  by (simp add: window_hit_def redis_incr_def redis_expire_def alive_def)

lemma window_hit_counts:
  "alive now c = Some (n, e) \<Longrightarrow> used_ok c \<Longrightarrow> window_hit now seconds c = (n + 1, Some (n + 1, e))"
  by (auto simp: window_hit_def redis_incr_def alive_def used_ok_def split: option.splits if_splits)

lemma window_hit_used: "used_ok c \<Longrightarrow> used_ok (snd (window_hit now seconds c))"
  by (auto simp: used_ok_def window_hit_def redis_incr_def redis_expire_def alive_def split: option.splits if_splits)

section \<open>Sequences of requests\<close>

text \<open>The answers to a sequence of requests, each with its time and its key.\<close>

fun answers ::
  "(instant \<Rightarrow> 'k \<Rightarrow> 's \<Rightarrow> bool \<times> 's) \<Rightarrow> (instant \<times> 'k) list \<Rightarrow> 's \<Rightarrow> ('k \<times> bool) list" where
  "answers hit [] s = []"
| "answers hit ((now, k) # rs) s = (k, fst (hit now k s)) # answers hit rs (snd (hit now k s))"

definition for_key :: "'k \<Rightarrow> ('k \<times> bool) list \<Rightarrow> bool list" where
  "for_key k as = map snd (filter (\<lambda>(k', b). k' = k) as)"

lemma for_key_simps [simp]:
  "for_key k [] = []" "for_key k ((k', b) # as) = (if k' = k then b # for_key k as else for_key k as)"
  by (simp_all add: for_key_def)

section \<open>The interface\<close>

locale window_limiter =
  fixes ok :: "'s \<Rightarrow> bool" and used :: "'k \<Rightarrow> 's \<Rightarrow> counter"
    and hit :: "instant \<Rightarrow> 'k \<Rightarrow> 's \<Rightarrow> bool \<times> 's" and limit :: int and window :: int
  assumes hit_ok: "ok s \<Longrightarrow> ok (snd (hit now k s))"
    and opens: "ok s \<Longrightarrow> alive now (used k s) = None \<Longrightarrow>
      fst (hit now k s) = (1 \<le> limit) \<and> used k (snd (hit now k s)) = Some (1, Some (now + window))"
    and counts: "ok s \<Longrightarrow> alive now (used k s) = Some (n, e) \<Longrightarrow>
      fst (hit now k s) = (n + 1 \<le> limit) \<and> used k (snd (hit now k s)) = Some (n + 1, e)"
    and others: "ok s \<Longrightarrow> k' \<noteq> k \<Longrightarrow> used k' (snd (hit now k s)) = used k' s"
begin

lemma answers_in_window:
  assumes "ok s" and "used k s = Some (n, e)" and "\<forall>(now, k') \<in> set rs. \<forall>t. e = Some t \<longrightarrow> now < t"
  shows "for_key k (answers hit rs s) =
    map (\<lambda>i. n + 1 + int i \<le> limit) [0..<length (filter (\<lambda>(now, k'). k' = k) rs)]"
  using assms
proof (induction rs arbitrary: s n)
  case Nil
  show ?case by simp
next
  case (Cons r rs)
  obtain now k' where r: "r = (now, k')" by (cases r)
  let ?s = "snd (hit now k' s)"
  have rest: "\<forall>(now, k') \<in> set rs. \<forall>t. e = Some t \<longrightarrow> now < t" using Cons.prems(3) by simp
  show ?case
  proof (cases "k' = k")
    case False
    then have "used k ?s = Some (n, e)" using others [OF Cons.prems(1)] Cons.prems(2) by simp
    from Cons.IH [OF hit_ok [OF Cons.prems(1)] this rest] False show ?thesis by (simp add: r)
  next
    case True
    have "alive now (used k s) = Some (n, e)"
      using Cons.prems(2,3) r by (auto simp: alive_def split: option.split)
    from counts [OF Cons.prems(1) this]
    have hit: "fst (hit now k s) = (n + 1 \<le> limit)" "used k ?s = Some (n + 1, e)"
      using True by simp_all
    let ?m = "length (filter (\<lambda>(now, k'). k' = k) rs)"
    have "map (\<lambda>i. n + 1 + int i \<le> limit) [0..<Suc ?m] =
        (n + 1 \<le> limit) # map (\<lambda>i. n + 1 + 1 + int i \<le> limit) [0..<?m]"
      by (simp add: upt_conv_Cons map_Suc_upt [symmetric] del: upt_Suc) (simp add: ac_simps)
    with Cons.IH [OF hit_ok [OF Cons.prems(1)] hit(2) rest] True hit(1) show ?thesis by (simp add: r del: upt_Suc)
  qed
qed

text \<open>From the request that opens the window until it closes: \<open>limit\<close> requests are allowed.\<close>

lemma allowed_in_window:
  assumes "ok s" and "alive now (used k s) = None" and "\<forall>(t, k') \<in> set rs. t < now + window"
  shows "for_key k (answers hit ((now, k) # rs) s) =
    map (\<lambda>i. int i < limit) [0..<Suc (length (filter (\<lambda>(t, k'). k' = k) rs))]"
proof -
  let ?s = "snd (hit now k s)" and ?m = "length (filter (\<lambda>(t, k'). k' = k) rs)"
  note hit = opens [OF assms(1,2)]
  have "map (\<lambda>i. int i < limit) [0..<Suc ?m] = (0 < limit) # map (\<lambda>i. 1 + 1 + int i \<le> limit) [0..<?m]"
    by (simp add: upt_conv_Cons map_Suc_upt [symmetric] del: upt_Suc) auto
  moreover have "\<forall>(t, k') \<in> set rs. \<forall>t'. Some (now + window) = Some t' \<longrightarrow> t < t'" using assms(3) by auto
  ultimately show ?thesis
    using answers_in_window [OF hit_ok [OF assms(1)] conjunct2 [OF hit]] hit by (simp del: upt_Suc) auto
qed

end

end
