(* ===== verification/Hashing.thy ===== *)
theory Hashing
  imports Py_Values "HOL-Library.Word"
begin

unbundle bit_operations_syntax

text \<open>
  \<open>str.encode("utf-8")\<close> on code points below 256, and SHA-256 of a byte text as hexadecimal
  digits (\<open>hashlib.sha256(...).hexdigest()\<close>), on 32-bit words with their wrap-around. Texts of
  2 power 61 bytes and more, whose bit length does not fit 64 bits, are left out.
\<close>

section \<open>UTF-8\<close>

definition utf8 :: "char \<Rightarrow> string" where
  "utf8 c = (let n = of_char c :: nat
     in if n < 128 then [c] else [char_of (192 + n div 64), char_of (128 + n mod 64)])"

definition encode_utf8 :: "string \<Rightarrow> string" where
  "encode_utf8 s = concat (map utf8 s)"

section \<open>SHA-256\<close>

type_synonym word32 = "32 word"

definition sha_constants :: "word32 list" where
  "sha_constants =
     [0x428A2F98, 0x71374491, 0xB5C0FBCF, 0xE9B5DBA5, 0x3956C25B, 0x59F111F1,
      0x923F82A4, 0xAB1C5ED5, 0xD807AA98, 0x12835B01, 0x243185BE, 0x550C7DC3,
      0x72BE5D74, 0x80DEB1FE, 0x9BDC06A7, 0xC19BF174, 0xE49B69C1, 0xEFBE4786,
      0x0FC19DC6, 0x240CA1CC, 0x2DE92C6F, 0x4A7484AA, 0x5CB0A9DC, 0x76F988DA,
      0x983E5152, 0xA831C66D, 0xB00327C8, 0xBF597FC7, 0xC6E00BF3, 0xD5A79147,
      0x06CA6351, 0x14292967, 0x27B70A85, 0x2E1B2138, 0x4D2C6DFC, 0x53380D13,
      0x650A7354, 0x766A0ABB, 0x81C2C92E, 0x92722C85, 0xA2BFE8A1, 0xA81A664B,
      0xC24B8B70, 0xC76C51A3, 0xD192E819, 0xD6990624, 0xF40E3585, 0x106AA070,
      0x19A4C116, 0x1E376C08, 0x2748774C, 0x34B0BCB5, 0x391C0CB3, 0x4ED8AA4A,
      0x5B9CCA4F, 0x682E6FF3, 0x748F82EE, 0x78A5636F, 0x84C87814, 0x8CC70208,
      0x90BEFFFA, 0xA4506CEB, 0xBEF9A3F7, 0xC67178F2]"

definition sha_start :: "word32 list" where
  "sha_start =
     [0x6A09E667, 0xBB67AE85, 0x3C6EF372, 0xA54FF53A, 0x510E527F, 0x9B05688C,
      0x1F83D9AB, 0x5BE0CD19]"

text \<open>The padding: a one bit, zero bits, and the bit length in 64 bits.\<close>

definition sha_byte :: "64 word \<Rightarrow> nat \<Rightarrow> char" where
  "sha_byte n i = char_of (unat (drop_bit (8 * i) n AND 0xFF))"

definition sha_pad :: "string \<Rightarrow> string" where
  "sha_pad m = m @ [char_of (128 :: nat)] @ replicate ((119 - length m mod 64) mod 64) (char_of (0 :: nat)) @
     map (sha_byte (word_of_nat (8 * length m))) [7, 6, 5, 4, 3, 2, 1, 0]"

fun sha_words :: "string \<Rightarrow> word32 list" where
  "sha_words (a # b # c # d # bs) =
     word_of_nat (((of_char a * 256 + of_char b) * 256 + of_char c) * 256 + of_char d) # sha_words bs"
| "sha_words _ = []"

text \<open>The message schedule, the newest word first.\<close>

fun sha_schedule :: "nat \<Rightarrow> word32 list \<Rightarrow> word32 list" where
  "sha_schedule 0 ws = ws"
| "sha_schedule (Suc k) ws =
     (let w15 = ws ! 14; w2 = ws ! 1;
          s0 = word_rotr 7 w15 XOR word_rotr 18 w15 XOR drop_bit 3 w15;
          s1 = word_rotr 17 w2 XOR word_rotr 19 w2 XOR drop_bit 10 w2
      in sha_schedule k ((ws ! 15 + s0 + ws ! 6 + s1) # ws))"

definition sha_round :: "word32 list \<Rightarrow> word32 \<times> word32 \<Rightarrow> word32 list" where
  "sha_round v kw = (case v of
     [a, b, c, d, e, f, g, h] \<Rightarrow>
       let s1 = word_rotr 6 e XOR word_rotr 11 e XOR word_rotr 25 e;
           ch = (e AND f) XOR (NOT e AND g);
           t1 = h + s1 + ch + fst kw + snd kw;
           s0 = word_rotr 2 a XOR word_rotr 13 a XOR word_rotr 22 a;
           maj = (a AND b) XOR (a AND c) XOR (b AND c)
       in [t1 + s0 + maj, a, b, c, d + t1, e, f, g]
   | _ \<Rightarrow> v)"

definition sha_block :: "word32 list \<Rightarrow> word32 list \<Rightarrow> word32 list" where
  "sha_block v block = map2 (+) v
     (foldl sha_round v (zip sha_constants (rev (sha_schedule 48 (rev block)))))"

function sha_blocks :: "word32 list \<Rightarrow> word32 list \<Rightarrow> word32 list" where
  "sha_blocks v ws = (if length ws < 16 then v else sha_blocks (sha_block v (take 16 ws)) (drop 16 ws))"
  by auto
termination by (relation "measure (\<lambda>(v, ws). length ws)") auto

declare sha_blocks.simps [simp del]

definition sha256_hex :: "string \<Rightarrow> string" where
  "sha256_hex m = concat (map (\<lambda>w. digits_of 16 8 (unat w)) (sha_blocks sha_start (sha_words (sha_pad m))))"

end
