(* ===== verification/Auth_Store.thy ===== *)
theory Auth_Store
  imports Requests Limits Hashing
begin

text \<open>
  The tables of the auth service (its migration), the two repositories, the world of its
  process, and the libraries that it calls: Argon2, PyJWT, the e-mail validator of Pydantic and
  the encoder of \<open>inet\<close> values are parameters.
\<close>

section \<open>domain/models.py\<close>

record user_row =
  us_id :: uuid
  us_email :: string
  us_password_hash :: string
  us_is_active :: bool
  us_created_at :: instant

record session_row =
  ss_id :: uuid
  ss_user_id :: uuid
  ss_token_hash :: string
  ss_user_agent :: "string option"
  ss_ip_address :: "string option"
  ss_expires_at :: instant
  ss_revoked_at :: "instant option"
  ss_created_at :: instant

record auth_db =
  adb_users :: "user_row list"
  adb_sessions :: "session_row list"

section \<open>The libraries\<close>

text \<open>
  \<open>al\_hash n p\<close> is the hash of the password \<open>p\<close> with the \<open>n\<close>-th salt that is drawn. \<open>verify\<close>
  returns or raises \<open>VerifyMismatchError\<close> or another exception. \<open>al\_decode\<close> is \<open>jwt.decode\<close> at a
  time: the claims, or none for an \<open>InvalidTokenError\<close>.
\<close>

datatype verification = Verified | Mismatch | Verify_Raises exn

record auth_library =
  al_hash :: "nat \<Rightarrow> string \<Rightarrow> string"
  al_verify :: "string \<Rightarrow> string \<Rightarrow> verification"
  al_encode :: "json_dict \<Rightarrow> string \<Rightarrow> string \<Rightarrow> string"
  al_decode :: "instant \<Rightarrow> string \<Rightarrow> string \<Rightarrow> string \<Rightarrow> string \<Rightarrow> string \<Rightarrow> json_dict option"
  al_email :: "string \<Rightarrow> string option"
  al_inet :: "string \<Rightarrow> exn + string"

text \<open>
  Beside the session with PostgreSQL: the clock, the counters in Redis and which of its commands
  are answered (a lost answer raises), and the supplies of salts and of refresh tokens.
\<close>

record auth_world = "auth_db conn_world" +
  aw_clock :: instant
  aw_redis :: "string \<Rightarrow> counter"
  aw_answered :: "nat \<Rightarrow> bool"
  aw_commands :: nat
  aw_salts :: nat
  aw_tokens :: "nat \<Rightarrow> string"
  aw_tokens_drawn :: nat

abbreviation redis_lost :: exn where "redis_lost \<equiv> Runtime_Error ''redis''"

definition redis_command :: "string \<Rightarrow> (counter \<Rightarrow> 'a \<times> counter) \<Rightarrow> (auth_world, 'a) eff" where
  "redis_command key f = (\<lambda>w.
     let w' = w\<lparr>aw_commands := Suc (aw_commands w)\<rparr>
     in if aw_answered w (aw_commands w)
        then (let (x, c) = f (aw_redis w key) in (Inr x, w'\<lparr>aw_redis := (aw_redis w)(key := c)\<rparr>))
        else (Inl redis_lost, w'))"

lemma redis_command_run [eff_simps]:
  "redis_command key f w = (if aw_answered w (aw_commands w)
     then (Inr (fst (f (aw_redis w key))), w\<lparr>aw_commands := Suc (aw_commands w),
       aw_redis := (aw_redis w)(key := snd (f (aw_redis w key)))\<rparr>)
     else (Inl redis_lost, w\<lparr>aw_commands := Suc (aw_commands w)\<rparr>))"
  by (simp add: redis_command_def Let_def split: prod.split)

section \<open>repositories/users.py\<close>

text \<open>\<open>CITEXT\<close> compares what \<open>lower\<close> makes of the texts.\<close>

definition citext_eq :: "string \<Rightarrow> string \<Rightarrow> bool" where
  "citext_eq a b \<longleftrightarrow> py_lower a = py_lower b"

definition insert_user :: "uuid \<Rightarrow> string \<Rightarrow> string \<Rightarrow> instant \<Rightarrow> (auth_db, user_row) stmt" where
  "insert_user user_id email password_hash now d =
     (if \<exists>u \<in> set (adb_users d). us_id u = user_id \<or> citext_eq (us_email u) email
      then Inl unique_violation
      else let u = \<lparr>us_id = user_id, us_email = email, us_password_hash = password_hash,
          us_is_active = True, us_created_at = now\<rparr>
        in Inr (u, d\<lparr>adb_users := adb_users d @ [u]\<rparr>))"

definition create_user :: "uuid \<Rightarrow> string \<Rightarrow> string \<Rightarrow> (auth_world, user_row) eff" where
  "create_user user_id email password_hash =
     and_then (gets cw_now) (\<lambda>now. sql (insert_user user_id email password_hash now))"

definition get_user_by_email :: "string \<Rightarrow> (auth_world, user_row option) eff" where
  "get_user_by_email email =
     sql (query (\<lambda>d. find_row (\<lambda>u. citext_eq (us_email u) email) (adb_users d)))"

definition get_user_by_id :: "uuid \<Rightarrow> (auth_world, user_row option) eff" where
  "get_user_by_id user_id = sql (query (\<lambda>d. find_row (\<lambda>u. us_id u = user_id) (adb_users d)))"

section \<open>repositories/sessions.py\<close>

definition insert_session :: "session_row \<Rightarrow> (auth_db, session_row) stmt" where
  "insert_session s d =
     (if ss_id s \<in> set (map ss_id (adb_sessions d)) then Inl unique_violation
      else if ss_user_id s \<notin> set (map us_id (adb_users d)) then Inl foreign_key_violation
      else Inr (s, d\<lparr>adb_sessions := adb_sessions d @ [s]\<rparr>))"

text \<open>The encoder of the argument \<open>$5::inet\<close> runs before the statement is sent.\<close>

definition inet_arg :: "auth_library \<Rightarrow> string option \<Rightarrow> exn + string option" where
  "inet_arg lib ip_address = (case ip_address of
     None \<Rightarrow> Inr None | Some a \<Rightarrow> bind_sum (al_inet lib a) (\<lambda>b. Inr (Some b)))"

definition create_session ::
  "auth_library \<Rightarrow> uuid \<Rightarrow> uuid \<Rightarrow> string \<Rightarrow> string option \<Rightarrow> string option \<Rightarrow> instant \<Rightarrow>
   (auth_world, session_row) eff" where
  "create_session lib session_id user_id token_hash user_agent ip_address expires_at =
     and_then (lift (inet_arg lib ip_address)) (\<lambda>ip.
     and_then (gets cw_now) (\<lambda>now. sql (insert_session
       \<lparr>ss_id = session_id, ss_user_id = user_id, ss_token_hash = token_hash,
        ss_user_agent = user_agent, ss_ip_address = ip, ss_expires_at = expires_at,
        ss_revoked_at = None, ss_created_at = now\<rparr>)))"

definition active_session :: "instant \<Rightarrow> string \<Rightarrow> session_row \<Rightarrow> bool" where
  "active_session now token_hash s \<longleftrightarrow>
     ss_token_hash s = token_hash \<and> ss_revoked_at s = None \<and> now < ss_expires_at s"

definition get_active_by_hash :: "string \<Rightarrow> (auth_world, session_row option) eff" where
  "get_active_by_hash token_hash = and_then (gets cw_now) (\<lambda>now.
     sql (query (\<lambda>d. find_row (active_session now token_hash) (adb_sessions d))))"

definition set_revoked :: "instant \<Rightarrow> session_row \<Rightarrow> session_row" where
  "set_revoked now s = s\<lparr>ss_revoked_at := Some now\<rparr>"

definition revoke_where :: "(session_row \<Rightarrow> bool) \<Rightarrow> instant \<Rightarrow> (auth_db, unit) stmt" where
  "revoke_where p now d = Inr ((), d\<lparr>adb_sessions :=
     update_where (\<lambda>s. p s \<and> ss_revoked_at s = None) (set_revoked now) (adb_sessions d)\<rparr>)"

definition revoke_by_hash :: "string \<Rightarrow> (auth_world, unit) eff" where
  "revoke_by_hash token_hash = and_then (gets cw_now) (\<lambda>now.
     sql (revoke_where (\<lambda>s. ss_token_hash s = token_hash) now))"

definition revoke_by_id :: "uuid \<Rightarrow> (auth_world, unit) eff" where
  "revoke_by_id session_id = and_then (gets cw_now) (\<lambda>now.
     sql (revoke_where (\<lambda>s. ss_id s = session_id) now))"

end
