(* ===== verification/Auth_Service.thy ===== *)
theory Auth_Service
  imports Auth_Store
begin

text \<open>
  \<open>core/security.py\<close>, \<open>core/jwt.py\<close>, \<open>core/rate\_limiter.py\<close>, \<open>services/auth.py\<close> and the
  endpoints of the auth service.
\<close>

section \<open>core/settings.py\<close>

record auth_settings =
  as_jwt_algorithm :: string
  as_jwt_issuer :: string
  as_jwt_audience :: string
  as_access_ttl_minutes :: int
  as_refresh_ttl_seconds :: "int option"
  as_refresh_ttl_days :: int
  as_jwt_secret :: string
  as_jwt_private_key :: string
  as_jwt_public_key :: string
  as_pepper :: string
  as_limit_login :: int
  as_limit_register :: int
  as_window_seconds :: int

definition default_auth_settings :: auth_settings where
  "default_auth_settings = \<lparr>as_jwt_algorithm = ''HS256'', as_jwt_issuer = ''auth-service'',
     as_jwt_audience = ''substy'', as_access_ttl_minutes = 15, as_refresh_ttl_seconds = None,
     as_refresh_ttl_days = 30, as_jwt_secret = ''change-me-super-secret'', as_jwt_private_key = [],
     as_jwt_public_key = [], as_pepper = ''change-me-token-pepper'', as_limit_login = 10,
     as_limit_register = 5, as_window_seconds = 60\<rparr>"

definition effective_refresh_token_ttl_seconds :: "auth_settings \<Rightarrow> int" where
  "effective_refresh_token_ttl_seconds s = (case as_refresh_ttl_seconds s of
     Some n \<Rightarrow> max 1 n | None \<Rightarrow> max 1 (as_refresh_ttl_days s * 24 * 60 * 60))"

section \<open>core/rate_limiter.py\<close>

definition enforce :: "int \<Rightarrow> string \<Rightarrow> int \<Rightarrow> (auth_world, unit) eff" where
  "enforce window_seconds key limit =
     and_then (gets aw_clock) (\<lambda>now.
     and_then (redis_command key (redis_incr now)) (\<lambda>current.
     seq (if current = 1 then redis_command key (\<lambda>c. ((), redis_expire now window_seconds c)) else ret ())
       (if current > limit then raise (Auth Kind_Rate_Limit_Exceeded ''Too many requests'') else ret ())))"

section \<open>core/security.py\<close>

definition hash_password :: "auth_library \<Rightarrow> string \<Rightarrow> (auth_world, string) eff" where
  "hash_password lib plain_password =
     (\<lambda>w. (Inr (al_hash lib (aw_salts w) plain_password), w\<lparr>aw_salts := Suc (aw_salts w)\<rparr>))"

definition verify_password :: "auth_library \<Rightarrow> string \<Rightarrow> string \<Rightarrow> exn + bool" where
  "verify_password lib plain_password hashed_password =
     (case al_verify lib hashed_password plain_password of
        Verified \<Rightarrow> Inr True | Mismatch \<Rightarrow> Inr False | Verify_Raises e \<Rightarrow> Inl e)"

definition generate_token :: "(auth_world, string) eff" where
  "generate_token = (\<lambda>w. (Inr (aw_tokens w (aw_tokens_drawn w)),
     w\<lparr>aw_tokens_drawn := Suc (aw_tokens_drawn w)\<rparr>))"

definition hash_token :: "string \<Rightarrow> string \<Rightarrow> string" where
  "hash_token pepper token = sha256_hex (encode_utf8 (token @ '':'' @ pepper))"

definition expires_at :: "instant \<Rightarrow> int \<Rightarrow> instant" where
  "expires_at now ttl_seconds = now + ttl_seconds * 1000000"

section \<open>core/jwt.py\<close>

fun unescape_newlines :: "string \<Rightarrow> string" where
  "unescape_newlines (c # d # cs) =
     (if c = CHR 0x5C \<and> d = CHR ''n'' then CHR 0x0A # unescape_newlines cs
      else c # unescape_newlines (d # cs))"
| "unescape_newlines s = s"

text \<open>The constructor: the key to sign with and the key to check with.\<close>

definition jwt_keys :: "auth_settings \<Rightarrow> exn + string \<times> string" where
  "jwt_keys s =
     (if take 2 (as_jwt_algorithm s) = ''RS''
      then (if as_jwt_private_key s = [] \<or> as_jwt_public_key s = [] then Inl Value_Error
            else Inr (unescape_newlines (as_jwt_private_key s), unescape_newlines (as_jwt_public_key s)))
      else Inr (as_jwt_secret s, as_jwt_secret s))"

text \<open>\<open>int(t.timestamp())\<close> truncates towards zero.\<close>

definition timestamp :: "instant \<Rightarrow> int" where
  "timestamp t = (if 0 \<le> t then t div 1000000 else - ((- t) div 1000000))"

definition access_claims :: "auth_settings \<Rightarrow> instant \<Rightarrow> string \<Rightarrow> json_dict" where
  "access_claims s now subject =
     [(''sub'', JStr subject), (''iss'', JStr (as_jwt_issuer s)), (''aud'', JStr (as_jwt_audience s)),
      (''iat'', JInt (timestamp now)), (''exp'', JInt (timestamp (now + as_access_ttl_minutes s * 60000000))),
      (''type'', JStr ''access'')]"

definition create_access_token :: "auth_library \<Rightarrow> auth_settings \<Rightarrow> string \<Rightarrow> (auth_world, string \<times> int) eff" where
  "create_access_token lib s subject =
     and_then (lift (jwt_keys s)) (\<lambda>(encode_key, _).
     and_then (gets aw_clock) (\<lambda>now.
       ret (al_encode lib (access_claims s now subject) encode_key (as_jwt_algorithm s),
            as_access_ttl_minutes s * 60)))"

definition invalid_token :: exn where
  "invalid_token = Auth Kind_Authorization ''Invalid token''"

definition decode_access_token :: "auth_library \<Rightarrow> auth_settings \<Rightarrow> string \<Rightarrow> (auth_world, json_dict) eff" where
  "decode_access_token lib s token =
     and_then (lift (jwt_keys s)) (\<lambda>(_, decode_key).
     and_then (gets aw_clock) (\<lambda>now.
       case al_decode lib now token decode_key (as_jwt_algorithm s) (as_jwt_audience s) (as_jwt_issuer s) of
         None \<Rightarrow> raise invalid_token
       | Some payload \<Rightarrow>
           if dict_get payload ''type'' \<noteq> Some (JStr ''access'') then raise invalid_token
           else ret payload))"

section \<open>services/auth.py\<close>

record token_pair =
  tk_access_token :: string
  tk_refresh_token :: string
  tk_expires_in :: int

definition register :: "auth_library \<Rightarrow> string \<Rightarrow> string \<Rightarrow> (auth_world, bool) eff" where
  "register lib email password =
     and_then (hash_password lib password) (\<lambda>password_hash.
     catch (seq (transaction (and_then uuid4 (\<lambda>user_id. create_user user_id email password_hash))) (ret True))
       (\<lambda>exc. if exc = unique_violation then ret False else raise exc))"

definition create_session_tokens ::
  "auth_library \<Rightarrow> auth_settings \<Rightarrow> uuid \<Rightarrow> string option \<Rightarrow> string option \<Rightarrow> (auth_world, token_pair) eff" where
  "create_session_tokens lib s user_id user_agent ip_address =
     and_then generate_token (\<lambda>refresh_token.
     and_then uuid4 (\<lambda>session_id.
     and_then (gets aw_clock) (\<lambda>now.
     seq (create_session lib session_id user_id (hash_token (as_pepper s) refresh_token) user_agent
            ip_address (expires_at now (effective_refresh_token_ttl_seconds s)))
     (and_then (create_access_token lib s (str_uuid user_id)) (\<lambda>(access_token, expires_in).
       ret \<lparr>tk_access_token = access_token, tk_refresh_token = refresh_token, tk_expires_in = expires_in\<rparr>)))))"

definition invalid_credentials :: exn where
  "invalid_credentials = Auth Kind_Authentication ''Invalid credentials''"

definition login ::
  "auth_library \<Rightarrow> auth_settings \<Rightarrow> string \<Rightarrow> string \<Rightarrow> string option \<Rightarrow> string option \<Rightarrow>
   (auth_world, token_pair) eff" where
  "login lib s email password user_agent ip_address =
     and_then (get_user_by_email email) (\<lambda>found. case found of
       None \<Rightarrow> raise invalid_credentials
     | Some user \<Rightarrow>
        if \<not> us_is_active user then raise invalid_credentials
        else and_then (lift (verify_password lib password (us_password_hash user))) (\<lambda>good.
          if \<not> good then raise invalid_credentials
          else create_session_tokens lib s (us_id user) user_agent ip_address))"

definition invalid_refresh_token :: exn where
  "invalid_refresh_token = Auth Kind_Authorization ''Invalid refresh token''"

text \<open>The part of \<open>refresh\<close> after the two look-ups.\<close>

definition rotate_session ::
  "auth_library \<Rightarrow> auth_settings \<Rightarrow> uuid \<Rightarrow> uuid \<Rightarrow> string option \<Rightarrow> string option \<Rightarrow>
   (auth_world, token_pair) eff" where
  "rotate_session lib s session_id user_id user_agent ip_address = transaction
     (seq (revoke_by_id session_id) (create_session_tokens lib s user_id user_agent ip_address))"

definition refresh ::
  "auth_library \<Rightarrow> auth_settings \<Rightarrow> string \<Rightarrow> string option \<Rightarrow> string option \<Rightarrow>
   (auth_world, token_pair) eff" where
  "refresh lib s refresh_token user_agent ip_address =
     and_then (get_active_by_hash (hash_token (as_pepper s) refresh_token)) (\<lambda>found. case found of
       None \<Rightarrow> raise invalid_refresh_token
     | Some session \<Rightarrow>
        and_then (get_user_by_id (ss_user_id session)) (\<lambda>owner. case owner of
          None \<Rightarrow> raise invalid_refresh_token
        | Some user \<Rightarrow>
            if \<not> us_is_active user then raise invalid_refresh_token
            else rotate_session lib s (ss_id session) (us_id user) user_agent ip_address))"

definition logout :: "auth_settings \<Rightarrow> string \<Rightarrow> (auth_world, unit) eff" where
  "logout s refresh_token = revoke_by_hash (hash_token (as_pepper s) refresh_token)"

text \<open>
  \<open>UUID(payload["sub"])\<close> under \<open>except ValueError\<close>: a missing claim, a null or a value without
  \<open>replace\<close> raises something else.
\<close>

definition subject_uuid :: "json_dict \<Rightarrow> exn + uuid" where
  "subject_uuid payload = (case dict_get payload ''sub'' of
     None \<Rightarrow> Inl Key_Error
   | Some (JStr t) \<Rightarrow> (case parse_uuid t of None \<Rightarrow> Inl invalid_token | Some u \<Rightarrow> Inr u)
   | Some JNull \<Rightarrow> Inl Type_Error
   | Some _ \<Rightarrow> Inl Attribute_Error)"

definition get_user_by_access_token ::
  "auth_library \<Rightarrow> auth_settings \<Rightarrow> string \<Rightarrow> (auth_world, uuid \<times> string \<times> bool) eff" where
  "get_user_by_access_token lib s access_token =
     and_then (decode_access_token lib s access_token) (\<lambda>payload.
     and_then (lift (subject_uuid payload)) (\<lambda>user_id.
     and_then (get_user_by_id user_id) (\<lambda>found. case found of
       None \<Rightarrow> raise invalid_token
     | Some user \<Rightarrow> if \<not> us_is_active user then raise invalid_token
         else ret (us_id user, us_email user, us_is_active user))))"

section \<open>api/errors.py\<close>

datatype 'a answer = Answer nat 'a | Detail nat string

text \<open>\<open>HTTPException\<close> and \<open>RequestValidationError\<close> are the values of \<open>App\<close> here.\<close>

definition auth_status :: "exn \<Rightarrow> nat" where
  "auth_status e = (case e of
     Auth k _ \<Rightarrow> (case k of Kind_Rate_Limit_Exceeded \<Rightarrow> 429 | Kind_Authentication \<Rightarrow> 401
       | Kind_Authorization \<Rightarrow> 401 | Kind_Auth_Validation \<Rightarrow> 400 | Kind_Auth_Service \<Rightarrow> 400)
   | App Kind_Unauthorized _ \<Rightarrow> 401
   | App Kind_Validation _ \<Rightarrow> 422
   | _ \<Rightarrow> 500)"

definition auth_detail :: "exn \<Rightarrow> string" where
  "auth_detail e = (case e of
     Auth _ m \<Rightarrow> m
   | App Kind_Unauthorized m \<Rightarrow> m
   | App Kind_Validation m \<Rightarrow> m
   | _ \<Rightarrow> ''Internal server error'')"

definition auth_endpoint :: "(auth_world, nat \<times> 'a) eff \<Rightarrow> auth_world \<Rightarrow> 'a answer \<times> auth_world" where
  "auth_endpoint m w = (case m w of
     (Inr (status, body), w') \<Rightarrow> (Answer status body, w')
   | (Inl e, w') \<Rightarrow> (Detail (auth_status e) (auth_detail e), w'))"

section \<open>api/auth.py and api/dependencies.py\<close>

definition client_ip :: "string option \<Rightarrow> string option \<Rightarrow> string" where
  "client_ip x_forwarded_for client_host = (case truthy x_forwarded_for of
     Some forwarded \<Rightarrow> py_strip (hd (py_split (CHR '','') forwarded))
   | None \<Rightarrow> (case client_host of Some host \<Rightarrow> host | None \<Rightarrow> ''unknown''))"

text \<open>The endpoints get a service that was just constructed, keys included.\<close>

definition with_service :: "auth_settings \<Rightarrow> (auth_world, 'a) eff \<Rightarrow> (auth_world, 'a) eff" where
  "with_service s m = and_then (lift (jwt_keys s)) (\<lambda>_. m)"

definition api_register ::
  "auth_library \<Rightarrow> auth_settings \<Rightarrow> string option \<Rightarrow> string option \<Rightarrow> string \<Rightarrow> string \<Rightarrow>
   auth_world \<Rightarrow> (string \<times> string) answer \<times> auth_world" where
  "api_register lib s x_forwarded_for client_host email password = auth_endpoint (with_service s
     (case al_email lib email of
        None \<Rightarrow> raise invalid_request
      | Some email' \<Rightarrow>
          if length password < 12 \<or> 128 < length password then raise invalid_request
          else seq (enforce (as_window_seconds s)
              (''rate:register:'' @ client_ip x_forwarded_for client_host @ '':'' @ email') (as_limit_register s))
            (and_then (register lib email' password) (\<lambda>created.
              ret (if created then (201, (''created'', ''Registration accepted''))
                   else (200, (''ok'', ''Registration accepted'')))))))"

definition api_login ::
  "auth_library \<Rightarrow> auth_settings \<Rightarrow> string option \<Rightarrow> string option \<Rightarrow> string option \<Rightarrow> string \<Rightarrow>
   string \<Rightarrow> auth_world \<Rightarrow> token_pair answer \<times> auth_world" where
  "api_login lib s x_forwarded_for client_host user_agent email password = auth_endpoint (with_service s
     (case al_email lib email of
        None \<Rightarrow> raise invalid_request
      | Some email' \<Rightarrow>
          if password = [] \<or> 128 < length password then raise invalid_request
          else let ip = client_ip x_forwarded_for client_host
            in seq (enforce (as_window_seconds s) (''rate:login:'' @ ip @ '':'' @ email') (as_limit_login s))
              (and_then (login lib s email' password user_agent (Some ip)) (\<lambda>tokens. ret (200, tokens)))))"

definition token_length_ok :: "string \<Rightarrow> bool" where
  "token_length_ok t \<longleftrightarrow> 20 \<le> length t \<and> length t \<le> 512"

definition api_refresh ::
  "auth_library \<Rightarrow> auth_settings \<Rightarrow> string option \<Rightarrow> string option \<Rightarrow> string option \<Rightarrow> string \<Rightarrow>
   auth_world \<Rightarrow> token_pair answer \<times> auth_world" where
  "api_refresh lib s x_forwarded_for client_host user_agent refresh_token = auth_endpoint (with_service s
     (if \<not> token_length_ok refresh_token then raise invalid_request
      else and_then (refresh lib s refresh_token user_agent (Some (client_ip x_forwarded_for client_host)))
        (\<lambda>tokens. ret (200, tokens))))"

definition api_logout :: "auth_settings \<Rightarrow> string \<Rightarrow> auth_world \<Rightarrow> unit answer \<times> auth_world" where
  "api_logout s refresh_token = auth_endpoint (with_service s
     (if \<not> token_length_ok refresh_token then raise invalid_request
      else seq (logout s refresh_token) (ret (204, ()))))"

definition current_access_token :: "(string \<times> string) option \<Rightarrow> exn + string" where
  "current_access_token credentials = (case credentials of
     None \<Rightarrow> Inl (App Kind_Unauthorized ''Unauthorized'')
   | Some (scheme, token) \<Rightarrow>
       if py_lower scheme \<noteq> ''bearer'' then Inl (App Kind_Unauthorized ''Unauthorized'') else Inr token)"

definition api_me ::
  "auth_library \<Rightarrow> auth_settings \<Rightarrow> (string \<times> string) option \<Rightarrow> auth_world \<Rightarrow>
   (string \<times> string \<times> bool) answer \<times> auth_world" where
  "api_me lib s credentials = auth_endpoint
     (and_then (lift (current_access_token credentials)) (\<lambda>token. with_service s
      (and_then (get_user_by_access_token lib s token) (\<lambda>(user_id, email, is_active).
        ret (200, (str_uuid user_id, email, is_active))))))"

end
