(* ===== verification/Auth_Laws.thy ===== *)
theory Auth_Laws
  imports Auth_Service
begin

text \<open>
  What the auth service promises: its tables keep their constraints and never take a revocation
  back, a refresh token works until it is rotated or revoked and never again, and its limiter
  is a fixed window. Beside that the places where it does not: two refreshes at the same time,
  an access token after a logout, and a lost \<open>EXPIRE\<close>.
\<close>

section \<open>Statements and tables\<close>

definition auth_tables_ok :: "auth_db \<Rightarrow> bool" where
  "auth_tables_ok d \<longleftrightarrow> distinct (map us_id (adb_users d)) \<and>
     distinct (map (\<lambda>u. py_lower (us_email u)) (adb_users d)) \<and>
     distinct (map ss_id (adb_sessions d)) \<and>
     ss_user_id ` set (adb_sessions d) \<subseteq> us_id ` set (adb_users d)"

definition session_grows :: "session_row \<Rightarrow> session_row \<Rightarrow> bool" where
  "session_grows s s' \<longleftrightarrow> (ss_revoked_at s \<noteq> None \<longrightarrow> s' = s) \<and>
     s' = s\<lparr>ss_revoked_at := ss_revoked_at s'\<rparr>"

definition auth_grows :: "auth_db \<Rightarrow> auth_db \<Rightarrow> bool" where
  "auth_grows d d' \<longleftrightarrow> table_grows (=) (adb_users d) (adb_users d') \<and>
     table_grows session_grows (adb_sessions d) (adb_sessions d')"

lemma session_grows_refl [simp]: "session_grows s s"
  by (simp add: session_grows_def)

lemma session_grows_trans: "session_grows r s \<Longrightarrow> session_grows s t \<Longrightarrow> session_grows r t"
  by (cases r; cases s; cases t) (auto simp: session_grows_def)

lemma auth_grows_refl: "auth_grows d d"
  by (simp add: auth_grows_def table_grows_refl)

lemma auth_grows_trans: "auth_grows c d \<Longrightarrow> auth_grows d e \<Longrightarrow> auth_grows c e"
  unfolding auth_grows_def
  by (auto intro: table_grows_trans [of session_grows, OF session_grows_trans]
      table_grows_trans [of "(=)", rotated])

lemma auth_grows_preorder: "preorder_on_worlds auth_grows"
  unfolding preorder_on_worlds_def using auth_grows_refl auth_grows_trans by blast

lemma auth_statements_ok:
  "keeps_rows auth_tables_ok (insert_user x email h now)"
  "keeps_rows auth_tables_ok (insert_session s)"
  "keeps_rows auth_tables_ok (revoke_where p now)"
proof -
  show "keeps_rows auth_tables_ok (insert_user x email h now)"
    by (rule keeps_rowsI)
      (auto simp: insert_user_def auth_tables_ok_def citext_eq_def Let_def split: if_splits)
  show "keeps_rows auth_tables_ok (insert_session s)"
    by (rule keeps_rowsI) (auto simp: insert_session_def auth_tables_ok_def split: if_splits)
  have ids: "map ss_id (update_where q (set_revoked now) ss) = map ss_id ss"
    and "map ss_user_id (update_where q (set_revoked now) ss) = map ss_user_id ss" for q ss
    by (rule map_update_where, simp add: set_revoked_def)+
  then have "ss_user_id ` set (update_where q (set_revoked now) ss) = ss_user_id ` set ss" for q ss
    by (metis set_map)
  with ids have "auth_tables_ok d \<Longrightarrow> auth_tables_ok (d\<lparr>adb_sessions :=
      update_where (\<lambda>s. p s \<and> ss_revoked_at s = None) (set_revoked now) (adb_sessions d)\<rparr>)" for d
    by (simp add: auth_tables_ok_def)
  then show "keeps_rows auth_tables_ok (revoke_where p now)"
    by (intro keeps_rowsI) (auto simp: revoke_where_def)
qed

lemma auth_statements_grow:
  "rel_rows auth_grows (insert_user x email h now)"
  "rel_rows auth_grows (insert_session s)"
  "rel_rows auth_grows (revoke_where p now)"
proof -
  show "rel_rows auth_grows (insert_user x email h now)"
    by (auto simp: rel_rows_def insert_user_def auth_grows_def Let_def table_grows_refl
        intro: table_grows_append split: if_splits)
  show "rel_rows auth_grows (insert_session s)"
    by (auto simp: rel_rows_def insert_session_def auth_grows_def table_grows_refl
        intro: table_grows_append split: if_splits)
  show "rel_rows auth_grows (revoke_where p now)"
    by (auto simp: rel_rows_def revoke_where_def auth_grows_def table_grows_refl session_grows_def
        set_revoked_def intro!: table_grows_update)
qed

text \<open>Operations are built from these statements, so a preorder that they respect is respected.\<close>

lemmas auth_reads = get_user_by_email_def get_user_by_id_def get_active_by_hash_def

lemma obeys_supplies:
  "preorder_on_worlds Q \<Longrightarrow> obeys (rel_db Q) (hash_password lib p)"
  "preorder_on_worlds Q \<Longrightarrow> obeys (rel_db Q) generate_token"
  "obeys tx_idle (hash_password lib p)" "obeys tx_idle generate_token"
  by (simp_all add: obeys_def rel_db_def hash_password_def generate_token_def preorder_on_worlds_def
      tx_idle_def)

lemma obeys_auth:
  assumes "preorder_on_worlds Q"
    and "\<And>x email h now. rel_rows Q (insert_user x email h now)"
    and "\<And>s. rel_rows Q (insert_session s)" and "\<And>p now. rel_rows Q (revoke_where p now)"
  shows "obeys (rel_db Q) (register lib email password)"
    and "obeys (rel_db Q) (create_session_tokens lib s u ua ip)"
    and "obeys (rel_db Q) (login lib s email password ua ip)"
    and "obeys (rel_db Q) (rotate_session lib s x u ua ip)"
    and "obeys (rel_db Q) (refresh lib s token ua ip)"
    and "obeys (rel_db Q) (logout s token)"
proof -
  note rules = obeys_rules [OF rel_db_preorder [OF assms(1)]] rel_db_rules [OF assms(1)]
    obeys_supplies(1,2) [OF assms(1)] assms(2-4)
  show "obeys (rel_db Q) (register lib email password)"
    unfolding register_def create_user_def by (intro rules)
  show tokens: "obeys (rel_db Q) (create_session_tokens lib s u ua ip)" for u ua ip
    unfolding create_session_tokens_def create_session_def create_access_token_def
    by (auto split: prod.split intro!: rules)
  show "obeys (rel_db Q) (login lib s email password ua ip)"
    unfolding login_def auth_reads by (auto split: option.split intro!: rules tokens)
  show rotate: "obeys (rel_db Q) (rotate_session lib s x u ua ip)" for x u ua ip
    unfolding rotate_session_def revoke_by_id_def by (intro rules tokens)
  show "obeys (rel_db Q) (refresh lib s token ua ip)"
    unfolding refresh_def auth_reads by (auto split: option.split intro!: rules rotate)
  show "obeys (rel_db Q) (logout s token)"
    unfolding logout_def revoke_by_hash_def by (intro rules)
qed

lemma idle_auth:
  "obeys tx_idle (register lib email password)" "obeys tx_idle (login lib s email password ua ip)"
  "obeys tx_idle (refresh lib s token ua ip)" "obeys tx_idle (logout s token)"
proof -
  note rules = tx_idle_rules obeys_supplies(3,4)
  show "obeys tx_idle (register lib email password)"
    unfolding register_def create_user_def by (intro rules)
  have tokens: "obeys tx_idle (create_session_tokens lib s u ua ip)" for u ua ip
    unfolding create_session_tokens_def create_session_def create_access_token_def
    by (auto split: prod.split intro!: rules)
  show "obeys tx_idle (login lib s email password ua ip)"
    unfolding login_def auth_reads by (auto split: option.split intro!: rules tokens)
  show "obeys tx_idle (refresh lib s token ua ip)"
    unfolding refresh_def auth_reads rotate_session_def by (auto split: option.split intro!: rules)
  show "obeys tx_idle (logout s token)"
    unfolding logout_def revoke_by_hash_def by (intro rules)
qed

section \<open>Histories\<close>

datatype auth_op =
    Register string string
  | Login string string "string option" "string option"
  | Refresh string "string option" "string option"
  | Logout string
  | Auth_Time instant instant

fun apply_auth :: "auth_library \<Rightarrow> auth_settings \<Rightarrow> auth_op \<Rightarrow> auth_world \<Rightarrow> auth_world" where
  "apply_auth lib s (Register email password) w = snd (register lib email password w)"
| "apply_auth lib s (Login email password ua ip) w = snd (login lib s email password ua ip w)"
| "apply_auth lib s (Refresh token ua ip) w = snd (refresh lib s token ua ip w)"
| "apply_auth lib s (Logout token) w = snd (logout s token w)"
| "apply_auth lib s (Auth_Time now clock) w = w\<lparr>cw_now := now, aw_clock := clock\<rparr>"

definition auth_ok :: "auth_world \<Rightarrow> bool" where
  "auth_ok w \<longleftrightarrow> auth_tables_ok (cw_db w) \<and> cw_tx w = Tx_None"

definition auth_later :: "auth_world \<Rightarrow> auth_world \<Rightarrow> bool" where
  "auth_later w w' \<longleftrightarrow> auth_grows (cw_db w) (cw_db w')"

lemma apply_auth_rel:
  assumes "preorder_on_worlds Q"
    and "\<And>x email h now. rel_rows Q (insert_user x email h now)"
    and "\<And>s. rel_rows Q (insert_session s)" and "\<And>p now. rel_rows Q (revoke_where p now)"
  shows "Q (cw_db w) (cw_db (apply_auth lib s op w))"
  using obeys_auth [OF assms] assms(1)
  by (cases op) (simp_all add: obeys_def rel_db_def preorder_on_worlds_def)

lemma apply_auth_ok: "auth_ok w \<Longrightarrow> auth_ok (apply_auth lib s op w)"
proof -
  assume ok: "auth_ok w"
  have "keeps auth_tables_ok (cw_db w) (cw_db (apply_auth lib s op w))"
    using keeps_preorder auth_statements_ok by (rule apply_auth_rel)
  moreover have "cw_tx (apply_auth lib s op w) = Tx_None"
    using ok idle_auth by (cases op) (simp_all add: obeys_def tx_idle_def auth_ok_def)
  ultimately show ?thesis using ok by (simp add: auth_ok_def keeps_def)
qed

lemma apply_auth_later: "auth_later w (apply_auth lib s op w)"
  unfolding auth_later_def using auth_grows_preorder auth_statements_grow by (rule apply_auth_rel)

interpretation auth: monotone_operations "apply_auth lib s" auth_ok auth_later for lib s
proof (unfold_locales, goal_cases)
  case (1 w op)
  then show ?case by (rule apply_auth_ok)
next
  case (2 w)
  show ?case by (simp add: auth_later_def auth_grows_refl)
next
  case (3 u v w)
  then show ?case unfolding auth_later_def by (rule auth_grows_trans)
next
  case (4 w op)
  show ?case by (rule apply_auth_later)
qed

section \<open>Issuing a pair of tokens\<close>

definition token_hash :: "auth_settings \<Rightarrow> auth_world \<Rightarrow> nat \<Rightarrow> string" where
  "token_hash s w i = hash_token (as_pepper s) (aw_tokens w i)"

definition new_session ::
  "auth_settings \<Rightarrow> uuid \<Rightarrow> string option \<Rightarrow> string option \<Rightarrow> auth_world \<Rightarrow> session_row" where
  "new_session s user_id user_agent ip w =
     \<lparr>ss_id = cw_uuids w (cw_drawn w), ss_user_id = user_id,
      ss_token_hash = token_hash s w (aw_tokens_drawn w), ss_user_agent = user_agent,
      ss_ip_address = ip, ss_expires_at = expires_at (aw_clock w) (effective_refresh_token_ttl_seconds s),
      ss_revoked_at = None, ss_created_at = cw_now w\<rparr>"

definition issued_pair :: "auth_library \<Rightarrow> auth_settings \<Rightarrow> string \<Rightarrow> uuid \<Rightarrow> auth_world \<Rightarrow> token_pair" where
  "issued_pair lib s key user_id w =
     \<lparr>tk_access_token = al_encode lib (access_claims s (aw_clock w) (str_uuid user_id)) key (as_jwt_algorithm s),
      tk_refresh_token = aw_tokens w (aw_tokens_drawn w), tk_expires_in = as_access_ttl_minutes s * 60\<rparr>"

definition drew :: "auth_world \<Rightarrow> auth_world" where
  "drew w = w\<lparr>aw_tokens_drawn := Suc (aw_tokens_drawn w), cw_drawn := Suc (cw_drawn w)\<rparr>"

lemma create_session_tokens_run:
  "create_session_tokens lib s u ua ip w = (case inet_arg lib ip of
     Inl e \<Rightarrow> (Inl e, drew w)
   | Inr ip' \<Rightarrow> (case sql (insert_session (new_session s u ua ip' w)) (drew w) of
       (Inl e, w') \<Rightarrow> (Inl e, w')
     | (Inr _, w') \<Rightarrow> (case jwt_keys s of
         Inl e \<Rightarrow> (Inl e, w')
       | Inr (key, _) \<Rightarrow> (Inr (issued_pair lib s key u w), w'))))"
proof -
  have frame: "aw_clock w' = aw_clock v" if "sql (insert_session row) v = (r, w')" for row v r w'
    using that by (auto simp: sql_def split: if_splits sum.splits prod.splits)
  have "create_session_tokens lib s u ua ip w = (case inet_arg lib ip of
     Inl e \<Rightarrow> (Inl e, drew w)
   | Inr ip' \<Rightarrow> (case sql (insert_session (new_session s u ua ip' w)) (drew w) of
       (Inl e, w') \<Rightarrow> (Inl e, w')
     | (Inr _, w') \<Rightarrow> and_then (create_access_token lib s (str_uuid u)) (\<lambda>(a, n).
         ret \<lparr>tk_access_token = a, tk_refresh_token = aw_tokens w (aw_tokens_drawn w), tk_expires_in = n\<rparr>) w'))"
    by (simp add: create_session_tokens_def create_session_def generate_token_def and_then_run seq_run
        uuid4_run gets_run lift_run drew_def new_session_def token_hash_def split: sum.split prod.split)
  then show ?thesis
    by (auto simp: create_access_token_def and_then_run lift_run gets_run ret_run issued_pair_def
        drew_def frame split: sum.split prod.split)
qed

text \<open>
  What a program may do with the hashes of the sessions: append those of tokens that it draws,
  each once.
\<close>

definition session_hashes :: "auth_world \<Rightarrow> string list" where
  "session_hashes w = map ss_token_hash (adb_sessions (cw_db w))"

definition token_step :: "auth_settings \<Rightarrow> auth_world \<Rightarrow> auth_world \<Rightarrow> bool" where
  "token_step s w w' \<longleftrightarrow> aw_tokens w' = aw_tokens w \<and> aw_tokens_drawn w \<le> aw_tokens_drawn w' \<and>
     (\<exists>is. distinct is \<and> set is \<subseteq> {aw_tokens_drawn w..<aw_tokens_drawn w'} \<and>
       session_hashes w' = session_hashes w @ map (token_hash s w) is)"

lemma token_stepI:
  "aw_tokens w' = aw_tokens w \<Longrightarrow> aw_tokens_drawn w \<le> aw_tokens_drawn w' \<Longrightarrow>
   session_hashes w' = session_hashes w \<Longrightarrow> token_step s w w'"
  unfolding token_step_def by (intro conjI exI [of _ "[]"]) simp_all

lemma token_step_trans:
  assumes "token_step s u v" and "token_step s v w"
  shows "token_step s u w"
proof -
  obtain "is" js where "is": "distinct is" "set is \<subseteq> {aw_tokens_drawn u..<aw_tokens_drawn v}"
      "session_hashes v = session_hashes u @ map (token_hash s u) is"
    and js: "distinct js" "set js \<subseteq> {aw_tokens_drawn v..<aw_tokens_drawn w}"
      "session_hashes w = session_hashes v @ map (token_hash s v) js"
    using assms unfolding token_step_def by blast
  have "token_hash s v = token_hash s u" using assms(1) by (auto simp: token_step_def token_hash_def)
  then have "session_hashes w = session_hashes u @ map (token_hash s u) (is @ js)" using "is" js by simp
  moreover have "distinct (is @ js)" using "is" js by fastforce
  moreover have "set (is @ js) \<subseteq> {aw_tokens_drawn u..<aw_tokens_drawn w}"
    using "is"(2) js(2) assms unfolding token_step_def by fastforce
  moreover have "aw_tokens w = aw_tokens u" "aw_tokens_drawn u \<le> aw_tokens_drawn w"
    using assms by (auto simp: token_step_def)
  ultimately show ?thesis unfolding token_step_def by blast
qed

lemma token_step_preorder: "preorder_on_worlds (token_step s)"
  unfolding preorder_on_worlds_def using token_step_trans by (blast intro: token_stepI)

lemma token_step_transaction:
  assumes "obeys (token_step s) m"
  shows "obeys (token_step s) (transaction m)"
  unfolding obeys_def
proof
  fix w
  have "token_step s (w\<lparr>cw_tx := Tx_Open\<rparr>) (snd (m (w\<lparr>cw_tx := Tx_Open\<rparr>)))"
    using assms by (simp add: obeys_def)
  then have step: "aw_tokens (snd (m (w\<lparr>cw_tx := Tx_Open\<rparr>))) = aw_tokens w"
      "aw_tokens_drawn w \<le> aw_tokens_drawn (snd (m (w\<lparr>cw_tx := Tx_Open\<rparr>)))"
      "\<exists>is. distinct is \<and> set is \<subseteq> {aw_tokens_drawn w..<aw_tokens_drawn (snd (m (w\<lparr>cw_tx := Tx_Open\<rparr>)))} \<and>
        session_hashes (snd (m (w\<lparr>cw_tx := Tx_Open\<rparr>))) = session_hashes w @ map (token_hash s w) is"
    by (simp_all add: token_step_def session_hashes_def token_hash_def [abs_def])
  obtain r v where m: "m (w\<lparr>cw_tx := Tx_Open\<rparr>) = (r, v)" by fastforce
  have rolled: "token_step s w (v\<lparr>cw_db := cw_db w, cw_tx := Tx_None\<rparr>)"
    using step by (intro token_stepI) (simp_all add: m session_hashes_def)
  have "token_step s w (v\<lparr>cw_tx := Tx_None\<rparr>)"
    using step by (simp add: m token_step_def session_hashes_def)
  then show "token_step s w (snd (transaction m w))"
    using rolled by (cases r) (simp_all add: transaction_def m)
qed

lemma token_step_statements:
  assumes "\<And>d x d'. st d = Inr (x, d') \<Longrightarrow> map ss_token_hash (adb_sessions d') = map ss_token_hash (adb_sessions d)"
  shows "obeys (token_step s) (sql st)"
  using assms
  by (auto simp: obeys_def sql_def session_hashes_def intro!: token_stepI split: sum.split)

lemma token_step_supplies:
  "obeys (token_step s) uuid4" "obeys (token_step s) (hash_password lib p)"
  by (auto simp: obeys_def uuid4_run hash_password_def session_hashes_def intro!: token_stepI)

lemma token_step_rows:
  "obeys (token_step s) (sql (query f))"
  "obeys (token_step s) (sql (insert_user x email h now))"
  "obeys (token_step s) (sql (revoke_where p now))"
proof -
  show "obeys (token_step s) (sql (query f))" by (rule token_step_statements) simp
  show "obeys (token_step s) (sql (insert_user x email h now))"
    by (rule token_step_statements) (auto simp: insert_user_def Let_def split: if_splits)
  have "map ss_token_hash (update_where q (set_revoked now) ss) = map ss_token_hash ss" for q ss
    by (rule map_update_where) (simp add: set_revoked_def)
  then show "obeys (token_step s) (sql (revoke_where p now))"
    by (intro token_step_statements) (auto simp: revoke_where_def)
qed

lemma token_step_issue: "obeys (token_step s) (create_session_tokens lib s u ua ip)"
  unfolding obeys_def
proof
  fix w
  have drew: "token_step s w (drew w)" by (rule token_stepI) (simp_all add: drew_def session_hashes_def)
  have insert: "token_step s w w'" if run: "sql (insert_session (new_session s u ua ip' w)) (drew w) = (r, w')" for ip' r w'
  proof (cases "cw_tx w = Tx_Failed \<or> (\<exists>e. insert_session (new_session s u ua ip' w) (cw_db w) = Inl e)")
    case True
    with run have "session_hashes w' = session_hashes w" "aw_tokens w' = aw_tokens w"
        "aw_tokens_drawn w' = Suc (aw_tokens_drawn w)"
      by (auto simp: sql_def drew_def session_hashes_def split: if_splits)
    then show ?thesis by (intro token_stepI) simp_all
  next
    case False
    with run have "session_hashes w' = session_hashes w @ map (token_hash s w) [aw_tokens_drawn w]"
        "aw_tokens w' = aw_tokens w" "aw_tokens_drawn w' = Suc (aw_tokens_drawn w)"
      by (auto simp: sql_def drew_def session_hashes_def insert_session_def new_session_def split: if_splits)
    then show ?thesis unfolding token_step_def by (intro conjI exI [of _ "[aw_tokens_drawn w]"]) simp_all
  qed
  show "token_step s w (snd (create_session_tokens lib s u ua ip w))"
    by (auto simp: create_session_tokens_run drew insert split: sum.split prod.split)
qed

lemma apply_auth_token_step: "token_step s w (apply_auth lib s op w)"
proof -
  note rules = obeys_rules [OF token_step_preorder] token_step_supplies token_step_rows
    token_step_transaction token_step_issue
  have "obeys (token_step s) (register lib email password)" for email password
    unfolding register_def create_user_def by (intro rules)
  moreover have "obeys (token_step s) (login lib s email password ua ip)" for email password ua ip
    unfolding login_def auth_reads by (auto split: option.split intro!: rules)
  moreover have "obeys (token_step s) (refresh lib s token ua ip)" for token ua ip
    unfolding refresh_def auth_reads rotate_session_def revoke_by_id_def
    by (auto split: option.split intro!: rules)
  moreover have "obeys (token_step s) (logout s token)" for token
    unfolding logout_def revoke_by_hash_def by (intro rules)
  ultimately show ?thesis
    by (cases op) (simp_all add: obeys_def token_stepI session_hashes_def)
qed

text \<open>
  Every session has the hash of its own token, as long as the first \<open>N\<close> tokens of the supply,
  which have different hashes, are not used up.
\<close>

definition tokens_ok :: "auth_settings \<Rightarrow> nat \<Rightarrow> auth_world \<Rightarrow> bool" where
  "tokens_ok s N w \<longleftrightarrow> auth_ok w \<and> inj_on (token_hash s w) {..<N} \<and>
     (aw_tokens_drawn w \<le> N \<longrightarrow> distinct (session_hashes w) \<and>
       set (session_hashes w) \<subseteq> token_hash s w ` {..<aw_tokens_drawn w})"

lemma token_step_ok:
  assumes "tokens_ok s N w" and "token_step s w w'" and "auth_ok w'"
  shows "tokens_ok s N w'"
proof -
  obtain "is" where "is": "distinct is" "set is \<subseteq> {aw_tokens_drawn w..<aw_tokens_drawn w'}"
      "session_hashes w' = session_hashes w @ map (token_hash s w) is"
    using assms(2) unfolding token_step_def by blast
  have same: "token_hash s w' = token_hash s w" and drawn: "aw_tokens_drawn w \<le> aw_tokens_drawn w'"
    using assms(2) by (auto simp: token_step_def token_hash_def)
  have inj: "inj_on (token_hash s w) {..<N}" using assms(1) by (simp add: tokens_ok_def)
  have "distinct (session_hashes w') \<and> set (session_hashes w') \<subseteq> token_hash s w ` {..<aw_tokens_drawn w'}"
    if N: "aw_tokens_drawn w' \<le> N"
  proof
    have w: "distinct (session_hashes w)" "set (session_hashes w) \<subseteq> token_hash s w ` {..<aw_tokens_drawn w}"
      using assms(1) N drawn by (auto simp: tokens_ok_def)
    have below: "set is \<subseteq> {..<N}" using "is"(2) N by auto
    have "set (session_hashes w) \<inter> set (map (token_hash s w) is) = {}"
    proof (rule ccontr)
      assume "\<not> ?thesis"
      then obtain i j where "i \<in> set is" "j < aw_tokens_drawn w" "token_hash s w i = token_hash s w j"
        using w(2) by fastforce
      with inj_onD [OF inj, of i j] below "is"(2) drawn N show False by auto
    qed
    moreover have "distinct (map (token_hash s w) is)"
      using "is"(1) by (simp add: distinct_map inj_on_subset [OF inj below])
    ultimately show "distinct (session_hashes w')" using w(1) "is"(3) by simp
    show "set (session_hashes w') \<subseteq> token_hash s w ` {..<aw_tokens_drawn w'}"
      using w(2) "is"(2,3) drawn by fastforce
  qed
  then show ?thesis using assms(3) inj by (simp add: tokens_ok_def same)
qed

interpretation auth_tokens: monotone_operations "apply_auth lib s" "tokens_ok s N" "token_step s" for lib s N
proof (unfold_locales, goal_cases)
  case (1 w op)
  then show ?case
    using token_step_ok [OF 1 apply_auth_token_step] apply_auth_ok by (simp add: tokens_ok_def)
next
  case (2 w)
  show ?case by (rule token_stepI) simp_all
next
  case (3 u v w)
  then show ?case by (rule token_step_trans)
next
  case (4 w op)
  show ?case by (rule apply_auth_token_step)
qed

end
