(* ===== verification/Auth_Properties.thy ===== *)
theory Auth_Properties
  imports Auth_Laws
begin

text \<open>The properties of the auth service, with concrete worlds as their witnesses.\<close>

section \<open>Dead tokens\<close>

definition dead :: "string \<Rightarrow> auth_world \<Rightarrow> bool" where
  "dead h w \<longleftrightarrow> (\<forall>x \<in> set (adb_sessions (cw_db w)). ss_token_hash x = h \<longrightarrow> ss_revoked_at x \<noteq> None)"

lemma refresh_dead:
  assumes "cw_tx w = Tx_None" and "dead (hash_token (as_pepper s) token) w"
  shows "refresh lib s token ua ip w = (Inl invalid_refresh_token, w)"
proof -
  have "find_row (active_session (cw_now w) (hash_token (as_pepper s) token)) (adb_sessions (cw_db w)) = None"
    using assms(2) by (auto simp: dead_def find_row_None active_session_def)
  with assms(1) show ?thesis
    by (simp add: refresh_def get_active_by_hash_def and_then_run gets_run sql_run raise_run)
qed

lemma dead_forever:
  assumes "tokens_ok s N w" and "dead h w" and "h \<in> token_hash s w ` {..<aw_tokens_drawn w}"
    and "aw_tokens_drawn (fold (apply_auth lib s) ops w) \<le> N"
  shows "dead h (fold (apply_auth lib s) ops w)"
proof -
  let ?v = "fold (apply_auth lib s) ops w"
  have ok: "auth_ok w" and inj: "inj_on (token_hash s w) {..<N}" using assms(1) by (simp_all add: tokens_ok_def)
  have "auth_later w ?v" and "token_step s w ?v"
    by (rule auth.history_grows [OF ok], rule auth_tokens.history_grows [OF assms(1)])
  then obtain old new where rows: "adb_sessions (cw_db ?v) = old @ new"
      "list_all2 session_grows (adb_sessions (cw_db w)) old"
    unfolding auth_later_def auth_grows_def table_grows_def by blast
  from \<open>token_step s w ?v\<close> obtain "is" where "is": "set is \<subseteq> {aw_tokens_drawn w..<aw_tokens_drawn ?v}"
      "session_hashes ?v = session_hashes w @ map (token_hash s w) is"
    unfolding token_step_def by blast
  have grown: "ss_token_hash y = ss_token_hash x" "ss_revoked_at x \<noteq> None \<Longrightarrow> y = x"
    if "session_grows x y" for x y
    using that by (cases x; cases y; simp add: session_grows_def)+
  have "map ss_token_hash old = session_hashes w"
    using rows(2) unfolding session_hashes_def by (induction rule: list_all2_induct) (simp_all add: grown(1))
  then have "map ss_token_hash new = map (token_hash s w) is"
    using "is"(2) by (simp add: session_hashes_def rows(1))
  then have new: "ss_token_hash ` set new = token_hash s w ` set is" by (metis set_map)
  obtain j where j: "j < aw_tokens_drawn w" "h = token_hash s w j" using assms(3) by auto
  have "ss_token_hash y \<noteq> h" if "y \<in> set new" for y
  proof
    assume "ss_token_hash y = h"
    with that new have "h \<in> token_hash s w ` set is" by blast
    then obtain i where "i \<in> set is" "token_hash s w i = token_hash s w j" using j(2) by auto
    with "is"(1) j(1) inj_onD [OF inj, of i j] assms(4) show False by auto
  qed
  moreover have "ss_revoked_at y \<noteq> None" if y: "y \<in> set old" "ss_token_hash y = h" for y
  proof -
    obtain x where x: "x \<in> set (adb_sessions (cw_db w))" "session_grows x y"
      using rows(2) y(1) by (metis in_set_conv_nth list_all2_conv_all_nth)
    then have "ss_revoked_at x \<noteq> None" using assms(2) grown(1) y(2) unfolding dead_def by simp
    with grown(2) [OF x(2)] show ?thesis by simp
  qed
  ultimately show ?thesis by (auto simp: dead_def rows(1))
qed

lemma logout_run:
  "cw_tx w = Tx_None \<Longrightarrow> logout s token w = (Inr (), w\<lparr>cw_db := (cw_db w)\<lparr>adb_sessions := update_where
     (\<lambda>x. ss_token_hash x = hash_token (as_pepper s) token \<and> ss_revoked_at x = None) (set_revoked (cw_now w))
     (adb_sessions (cw_db w))\<rparr>\<rparr>)"
  by (simp add: logout_def revoke_by_hash_def and_then_run gets_run sql_run revoke_where_def)

lemma logout_kills:
  "cw_tx w = Tx_None \<Longrightarrow> dead (hash_token (as_pepper s) token) (snd (logout s token w))"
  by (auto simp: logout_run dead_def set_update_where set_revoked_def)

definition revoked_db :: "uuid \<Rightarrow> instant \<Rightarrow> auth_db \<Rightarrow> auth_db" where
  "revoked_db x now d = d\<lparr>adb_sessions := update_where (\<lambda>r. ss_id r = x \<and> ss_revoked_at r = None)
     (set_revoked now) (adb_sessions d)\<rparr>"

definition rotated_db :: "auth_settings \<Rightarrow> uuid \<Rightarrow> uuid \<Rightarrow> string option \<Rightarrow> string option \<Rightarrow> auth_world \<Rightarrow> auth_db" where
  "rotated_db s x u ua ip w = (let d = revoked_db x (cw_now w) (cw_db w)
     in d\<lparr>adb_sessions := adb_sessions d @ [new_session s u ua ip w]\<rparr>)"

lemma revoked_ids [simp]:
  "adb_users (revoked_db x now d) = adb_users d"
  "map ss_id (adb_sessions (revoked_db x now d)) = map ss_id (adb_sessions d)"
proof -
  have "map ss_id (update_where q (set_revoked now) ss) = map ss_id ss" for q ss
    by (rule map_update_where) (simp add: set_revoked_def)
  then show "map ss_id (adb_sessions (revoked_db x now d)) = map ss_id (adb_sessions d)"
    by (simp add: revoked_db_def)
qed (simp add: revoked_db_def)

lemma revoked_id_set [simp]:
  "ss_id ` set (adb_sessions (revoked_db x now d)) = ss_id ` set (adb_sessions d)"
  by (metis revoked_ids(2) set_map)

lemma rotate_session_run:
  assumes "cw_tx w = Tx_None" and "inet_arg lib ip = Inr ip'" and "jwt_keys s = Inr (key, key')"
    and "u \<in> us_id ` set (adb_users (cw_db w))"
    and "cw_uuids w (cw_drawn w) \<notin> ss_id ` set (adb_sessions (cw_db w))"
  shows "rotate_session lib s x u ua ip w =
    (Inr (issued_pair lib s key u w), (drew w)\<lparr>cw_db := rotated_db s x u ua ip' w\<rparr>)"
proof -
  let ?w = "w\<lparr>cw_tx := Tx_Open, cw_db := revoked_db x (cw_now w) (cw_db w)\<rparr>"
  have "revoke_by_id x (w\<lparr>cw_tx := Tx_Open\<rparr>) = (Inr (), ?w)"
    by (simp add: revoke_by_id_def and_then_run gets_run sql_run revoke_where_def revoked_db_def)
  moreover have "insert_session (new_session s u ua ip' w) (revoked_db x (cw_now w) (cw_db w)) =
      Inr (new_session s u ua ip' w, rotated_db s x u ua ip' w)"
    using assms(4,5) by (auto simp: insert_session_def rotated_db_def Let_def new_session_def)
  moreover have "new_session s u ua ip' ?w = new_session s u ua ip' w" "issued_pair lib s key u ?w = issued_pair lib s key u w"
    by (simp_all add: new_session_def issued_pair_def token_hash_def)
  ultimately show ?thesis
    using assms(1-3) by (simp add: rotate_session_def transaction_def seq_run create_session_tokens_run sql_def drew_def)
qed

lemma rotate_session_success:
  assumes "rotate_session lib s x u ua ip w = (Inr pair, w')" and "cw_tx w = Tx_None"
  shows "\<exists>ip'. cw_db w' = rotated_db s x u ua ip' w \<and> aw_tokens_drawn w' = Suc (aw_tokens_drawn w) \<and>
    tk_refresh_token pair = aw_tokens w (aw_tokens_drawn w)"
proof -
  let ?w = "w\<lparr>cw_tx := Tx_Open, cw_db := revoked_db x (cw_now w) (cw_db w)\<rparr>"
  have "revoke_by_id x (w\<lparr>cw_tx := Tx_Open\<rparr>) = (Inr (), ?w)"
    by (simp add: revoke_by_id_def and_then_run gets_run sql_run revoke_where_def revoked_db_def)
  then have "rotate_session lib s x u ua ip w =
      transaction (\<lambda>_. create_session_tokens lib s u ua ip ?w) w"
    by (simp add: rotate_session_def transaction_def seq_run)
  moreover have "new_session s u ua ip' ?w = new_session s u ua ip' w" for ip'
    by (simp add: new_session_def token_hash_def)
  ultimately show ?thesis
    using assms
    by (auto simp: transaction_def create_session_tokens_run sql_def drew_def insert_session_def
        rotated_db_def Let_def issued_pair_def split: sum.splits prod.splits if_splits)
qed

lemma refresh_success:
  assumes "refresh lib s token ua ip w = (Inr pair, w')" and "cw_tx w = Tx_None"
  obtains x u where "x \<in> set (adb_sessions (cw_db w))" "ss_token_hash x = hash_token (as_pepper s) token"
    "find_row (active_session (cw_now w) (hash_token (as_pepper s) token)) (adb_sessions (cw_db w)) = Some x"
    "u \<in> set (adb_users (cw_db w))" "us_id u = ss_user_id x" "us_is_active u"
    "rotate_session lib s (ss_id x) (us_id u) ua ip w = (Inr pair, w')"
proof -
  let ?f = "find_row (active_session (cw_now w) (hash_token (as_pepper s) token)) (adb_sessions (cw_db w))"
  obtain x where x: "?f = Some x"
    using assms by (cases ?f) (auto simp: refresh_def get_active_by_hash_def and_then_run gets_run sql_run raise_run)
  let ?g = "find_row (\<lambda>u. us_id u = ss_user_id x) (adb_users (cw_db w))"
  obtain u where u: "?g = Some u" "us_is_active u"
    using assms x by (cases ?g)
      (auto simp: refresh_def get_active_by_hash_def get_user_by_id_def and_then_run gets_run sql_run raise_run
        split: if_splits)
  have "rotate_session lib s (ss_id x) (us_id u) ua ip w = (Inr pair, w')"
    using assms x u by (simp add: refresh_def get_active_by_hash_def get_user_by_id_def and_then_run gets_run sql_run)
  then show thesis
    using that x u by (auto dest!: find_row_Some simp: active_session_def)
qed

lemma refresh_kills:
  assumes "tokens_ok s N w" and "refresh lib s token ua ip w = (Inr pair, w')" and "aw_tokens_drawn w' \<le> N"
  shows "dead (hash_token (as_pepper s) token) w'"
    and "hash_token (as_pepper s) token \<in> token_hash s w ` {..<aw_tokens_drawn w}"
proof -
  let ?h = "hash_token (as_pepper s) token"
  have tx: "cw_tx w = Tx_None" using assms(1) by (simp add: tokens_ok_def auth_ok_def)
  obtain x and u :: user_row where x: "x \<in> set (adb_sessions (cw_db w))" "ss_token_hash x = ?h"
      "rotate_session lib s (ss_id x) (us_id u) ua ip w = (Inr pair, w')"
    by (rule refresh_success [OF assms(2) tx], rule that)
  obtain ip' where d: "cw_db w' = rotated_db s (ss_id x) (us_id u) ua ip' w"
      and drawn: "aw_tokens_drawn w' = Suc (aw_tokens_drawn w)"
    using rotate_session_success [OF x(3) tx] by blast
  have inj: "inj_on (token_hash s w) {..<N}" and hashes: "distinct (session_hashes w)"
      "set (session_hashes w) \<subseteq> token_hash s w ` {..<aw_tokens_drawn w}"
    using assms(1,3) drawn by (simp_all add: tokens_ok_def)
  have "ss_token_hash x \<in> set (session_hashes w)" using x(1) by (simp add: session_hashes_def)
  with hashes(2) x(2) show issued: "?h \<in> token_hash s w ` {..<aw_tokens_drawn w}" by auto
  have "distinct (map ss_token_hash (adb_sessions (cw_db w)))"
    using hashes(1) by (simp add: session_hashes_def)
  then have only: "y = x" if "y \<in> set (adb_sessions (cw_db w))" "ss_token_hash y = ?h" for y
    using key_unique [where k = ss_token_hash, OF _ that(1) x(1)] that(2) x(2) by simp
  have "token_hash s w (aw_tokens_drawn w) \<noteq> ?h"
  proof
    assume eq: "token_hash s w (aw_tokens_drawn w) = ?h"
    obtain j where "j < aw_tokens_drawn w" "?h = token_hash s w j" using issued by auto
    with inj_onD [OF inj, of "aw_tokens_drawn w" j] eq drawn assms(3) show False by simp
  qed
  then show "dead ?h w'"
    unfolding d dead_def rotated_db_def revoked_db_def Let_def
    by (auto simp: set_update_where set_revoked_def new_session_def dest: only split: if_splits)
qed

section \<open>A concrete service, for the witnesses\<close>

definition sample_library :: auth_library where
  "sample_library = \<lparr>al_hash = (\<lambda>n p. ''h:'' @ p),
     al_verify = (\<lambda>h p. if h = ''h:'' @ p then Verified else Mismatch),
     al_encode = (\<lambda>claims key alg. ''jwt''),
     al_decode = (\<lambda>now t key alg aud iss. if t = ''jwt'' then
       Some (access_claims default_auth_settings 5000000 (str_uuid 7)) else None),
     al_email = Some, al_inet = Inr\<rparr>"

definition sample_user :: user_row where
  "sample_user = \<lparr>us_id = 7, us_email = ''a@b.c'', us_password_hash = ''h:secret'', us_is_active = True,
     us_created_at = 0\<rparr>"

definition sample_session :: session_row where
  "sample_session = \<lparr>ss_id = 20, ss_user_id = 7,
     ss_token_hash = hash_token (as_pepper default_auth_settings) ''t'', ss_user_agent = None,
     ss_ip_address = None, ss_expires_at = 100000000, ss_revoked_at = None, ss_created_at = 0\<rparr>"

definition sample_auth :: "session_row list \<Rightarrow> auth_world" where
  "sample_auth sessions = \<lparr>cw_db = \<lparr>adb_users = [sample_user], adb_sessions = sessions\<rparr>,
     cw_tx = Tx_None, cw_now = 5000000, cw_uuids = (\<lambda>n. 100 + n), cw_drawn = 0, aw_clock = 5000000,
     aw_redis = (\<lambda>_. None), aw_answered = (\<lambda>_. True), aw_commands = 0, aw_salts = 0,
     aw_tokens = (\<lambda>n. CHR ''t'' # replicate n CHR ''t''), aw_tokens_drawn = length sessions\<rparr>"

lemmas sample_auth_defs = sample_auth_def sample_user_def sample_session_def

lemma sample_auth_ok:
  "auth_ok (sample_auth [])" "auth_ok (sample_auth [sample_session])"
  "tokens_ok default_auth_settings 1 (sample_auth [sample_session])"
proof -
  show "auth_ok (sample_auth [])" and ok: "auth_ok (sample_auth [sample_session])"
    by (simp_all add: auth_ok_def auth_tables_ok_def sample_auth_defs)
  have "inj_on f {..<Suc 0}" for f :: "nat \<Rightarrow> string" by (simp add: inj_on_def)
  then show "tokens_ok default_auth_settings 1 (sample_auth [sample_session])"
    using ok by (simp add: tokens_ok_def session_hashes_def token_hash_def)
      (simp add: sample_auth_defs)
qed

section \<open>Properties\<close>

text \<open>
  C25: over every history of registrations, log-ins, refreshes and log-outs the tables keep their
  keys (identities of users and sessions, one account for an e-mail address whatever its case,
  every session of a user that exists), accounts never change, and a session only ever changes
  by being revoked, once.
\<close>

theorem auth_history_ok:
  assumes "auth_ok w"
  shows "auth_ok (fold (apply_auth lib s) ops w) \<and>
    auth_grows (cw_db w) (cw_db (fold (apply_auth lib s) ops w))"
  using auth.history_keeps [OF assms] auth.history_grows [OF assms] by (simp add: auth_later_def)

theorem auth_history_ok_witness:
  "auth_ok (fold (apply_auth sample_library default_auth_settings)
     [Register ''x@y.z'' ''long password'', Login ''a@b.c'' ''secret'' None (Some ''127.0.0.1''), Logout ''t'']
     (sample_auth []))"
  using auth_history_ok [OF sample_auth_ok(1)] by blast

text \<open>
  C26: a refresh token that was exchanged for a new pair, or that was issued and then logged out,
  is refused in every later state and changes nothing, as long as the tokens that are drawn in
  the meantime have other hashes.
\<close>

theorem used_token_is_dead:
  assumes "tokens_ok s N w"
    and "(\<exists>ua ip pair. refresh lib s token ua ip w = (Inr pair, w')) \<or>
      (logout s token w = (Inr (), w') \<and>
       hash_token (as_pepper s) token \<in> token_hash s w ` {..<aw_tokens_drawn w})"
    and "aw_tokens_drawn (fold (apply_auth lib s) ops w') \<le> N"
  shows "refresh lib s token ua' ip' (fold (apply_auth lib s) ops w') =
    (Inl invalid_refresh_token, fold (apply_auth lib s) ops w')"
proof -
  let ?h = "hash_token (as_pepper s) token" and ?v = "fold (apply_auth lib s) ops w'"
  obtain op where op: "w' = apply_auth lib s op w"
    using assms(2) by (metis apply_auth.simps(3,4) snd_conv)
  have ok': "tokens_ok s N w'" unfolding op by (rule auth_tokens.op_keeps [OF assms(1)])
  have step: "token_step s w w'" unfolding op by (rule apply_auth_token_step)
  then have same: "token_hash s w' = token_hash s w" by (auto simp: token_step_def token_hash_def)
  have "token_step s w' ?v" by (rule auth_tokens.history_grows [OF ok'])
  then have drawn: "aw_tokens_drawn w' \<le> N" using assms(3) by (simp add: token_step_def)
  have tx: "cw_tx w = Tx_None" using assms(1) by (simp add: tokens_ok_def auth_ok_def)
  from assms(2) have dead: "dead ?h w'" and issued: "?h \<in> token_hash s w ` {..<aw_tokens_drawn w}"
    using refresh_kills [OF assms(1) _ drawn] logout_kills [OF tx, of s token] by (auto simp del: image_iff)
  have "?h \<in> token_hash s w' ` {..<aw_tokens_drawn w'}"
    using issued step unfolding same token_step_def by auto
  from dead_forever [OF ok' dead this assms(3)] have "dead ?h ?v" .
  moreover have "cw_tx ?v = Tx_None"
    using auth_tokens.history_keeps [OF ok', of lib ops] by (simp add: tokens_ok_def auth_ok_def)
  ultimately show ?thesis by (simp add: refresh_dead)
qed

theorem used_token_is_dead_witness:
  "\<exists>w'. logout default_auth_settings ''t'' (sample_auth [sample_session]) = (Inr (), w') \<and>
    fst (refresh sample_library default_auth_settings ''t'' None None
      (fold (apply_auth sample_library default_auth_settings) [Auth_Time 6000000 6000000, Logout ''u''] w')) =
      Inl invalid_refresh_token"
proof -
  let ?w = "sample_auth [sample_session]"
  obtain w' where run: "logout default_auth_settings ''t'' ?w = (Inr (), w')" "aw_tokens_drawn w' = 1" "cw_tx w' = Tx_None"
    by (simp add: logout_run sample_auth_def)
  have "hash_token (as_pepper default_auth_settings) ''t'' \<in> token_hash default_auth_settings ?w ` {..<aw_tokens_drawn ?w}"
    by (simp add: token_hash_def sample_auth_def)
  moreover have "aw_tokens_drawn (fold (apply_auth sample_library default_auth_settings)
      [Auth_Time 6000000 6000000, Logout ''u''] w') \<le> 1"
    using run(2,3) by (simp add: logout_run)
  ultimately show ?thesis
    using used_token_is_dead [OF sample_auth_ok(3), where token = "''t''" and w' = w' and lib = sample_library
        and ops = "[Auth_Time 6000000 6000000, Logout ''u'']" and ua' = None and ip' = None] run(1)
    by auto
qed

text \<open>
  C27: two refreshes with the same token at the same time both look the session up before one of
  them revokes it, and then both succeed: the token is exchanged for two pairs with different
  refresh tokens, each of which has an active session.
\<close>

theorem concurrent_refresh_both_succeed:
  assumes "auth_ok w" and "jwt_keys s = Inr keys" and "inet_arg lib ip = Inr a"
    and "find_row (active_session (cw_now w) (hash_token (as_pepper s) token)) (adb_sessions (cw_db w)) = Some x"
    and "find_row (\<lambda>u. us_id u = ss_user_id x) (adb_users (cw_db w)) = Some u"
    and "inj (cw_uuids w)" and "\<forall>i \<ge> cw_drawn w. cw_uuids w i \<notin> ss_id ` set (adb_sessions (cw_db w))"
    and "aw_tokens w (aw_tokens_drawn w) \<noteq> aw_tokens w (Suc (aw_tokens_drawn w))"
  shows "\<exists>p w1 q w2. rotate_session lib s (ss_id x) (us_id u) ua ip w = (Inr p, w1) \<and>
    rotate_session lib s (ss_id x) (us_id u) ua ip w1 = (Inr q, w2) \<and>
    tk_refresh_token p \<noteq> tk_refresh_token q \<and>
    (\<exists>y z. y \<noteq> z \<and> {y, z} \<subseteq> set (adb_sessions (cw_db w2)) \<and>
      ss_token_hash y = hash_token (as_pepper s) (tk_refresh_token p) \<and> ss_revoked_at y = None \<and>
      ss_token_hash z = hash_token (as_pepper s) (tk_refresh_token q) \<and> ss_revoked_at z = None)"
proof -
  obtain key key' where keys: "jwt_keys s = Inr (key, key')" using assms(2) by (cases keys) simp
  have tx: "cw_tx w = Tx_None" using assms(1) by (simp add: auth_ok_def)
  have u: "us_id u \<in> us_id ` set (adb_users (cw_db w))" using assms(5) by (auto dest: find_row_Some)
  have x: "ss_id x \<in> ss_id ` set (adb_sessions (cw_db w))" using assms(4) by (auto dest: find_row_Some)
  let ?n = "new_session s (us_id u) ua a"
  let ?w1 = "(drew w)\<lparr>cw_db := rotated_db s (ss_id x) (us_id u) ua a w\<rparr>"
  let ?w2 = "(drew ?w1)\<lparr>cw_db := rotated_db s (ss_id x) (us_id u) ua a ?w1\<rparr>"
  have r1: "rotate_session lib s (ss_id x) (us_id u) ua ip w = (Inr (issued_pair lib s key (us_id u) w), ?w1)"
    using assms(7) by (intro rotate_session_run [OF tx assms(3) keys u]) simp
  have ids: "ss_id ` set (adb_sessions (cw_db ?w1)) =
      ss_id ` set (adb_sessions (cw_db w)) \<union> {cw_uuids w (cw_drawn w)}"
    by (simp add: rotated_db_def Let_def new_session_def)
  have fresh: "cw_uuids w i \<noteq> cw_uuids w j" if "i \<noteq> j" for i j using assms(6) that by (auto dest: injD)
  have r2: "rotate_session lib s (ss_id x) (us_id u) ua ip ?w1 = (Inr (issued_pair lib s key (us_id u) ?w1), ?w2)"
  proof (rule rotate_session_run [OF _ assms(3) keys])
    show "cw_tx ?w1 = Tx_None" using tx by (simp add: drew_def)
    show "us_id u \<in> us_id ` set (adb_users (cw_db ?w1))" using u by (simp add: rotated_db_def Let_def)
    show "cw_uuids ?w1 (cw_drawn ?w1) \<notin> ss_id ` set (adb_sessions (cw_db ?w1))"
      unfolding ids using assms(7) fresh by (simp add: drew_def)
  qed
  have "ss_id (?n w) \<noteq> ss_id x" using assms(7) x by (auto simp: new_session_def)
  then have y: "?n w \<in> set (adb_sessions (cw_db ?w2))"
    by (auto simp: rotated_db_def revoked_db_def Let_def set_update_where drew_def)
  have z: "?n ?w1 \<in> set (adb_sessions (cw_db ?w2))" by (simp add: rotated_db_def Let_def)
  have "ss_id (?n ?w1) \<noteq> ss_id (?n w)" using fresh by (simp add: new_session_def drew_def)
  then have "?n w \<noteq> ?n ?w1" by metis
  then have pair: "\<exists>y z. y \<noteq> z \<and> {y, z} \<subseteq> set (adb_sessions (cw_db ?w2)) \<and>
      ss_token_hash y = hash_token (as_pepper s) (aw_tokens w (aw_tokens_drawn w)) \<and> ss_revoked_at y = None \<and>
      ss_token_hash z = hash_token (as_pepper s) (aw_tokens w (Suc (aw_tokens_drawn w))) \<and> ss_revoked_at z = None"
    using y z by (intro exI [of _ "?n w"] exI [of _ "?n ?w1"]) (simp add: new_session_def token_hash_def drew_def)
  have "tk_refresh_token (issued_pair lib s key (us_id u) w) = aw_tokens w (aw_tokens_drawn w)"
    and "tk_refresh_token (issued_pair lib s key (us_id u) ?w1) = aw_tokens w (Suc (aw_tokens_drawn w))"
    by (simp_all add: issued_pair_def drew_def)
  with r1 r2 pair assms(8) show ?thesis
    by (intro exI [of _ "issued_pair lib s key (us_id u) w"] exI [of _ ?w1]
        exI [of _ "issued_pair lib s key (us_id u) ?w1"] exI [of _ ?w2]) simp
qed

theorem concurrent_refresh_both_succeed_witness:
  "\<exists>p w1 q w2. rotate_session sample_library default_auth_settings 20 7 None None (sample_auth [sample_session]) = (Inr p, w1) \<and>
    rotate_session sample_library default_auth_settings 20 7 None None w1 = (Inr q, w2) \<and>
    tk_refresh_token p \<noteq> tk_refresh_token q"
proof -
  have "jwt_keys default_auth_settings = Inr (''change-me-super-secret'', ''change-me-super-secret'')"
    by (simp add: jwt_keys_def default_auth_settings_def)
  moreover have "inet_arg sample_library None = Inr None" by (simp add: inet_arg_def)
  moreover have "find_row (active_session (cw_now (sample_auth [sample_session]))
      (hash_token (as_pepper default_auth_settings) ''t'')) (adb_sessions (cw_db (sample_auth [sample_session]))) = Some sample_session"
    by (simp add: active_session_def sample_auth_defs)
  moreover have "find_row (\<lambda>u. us_id u = ss_user_id sample_session) (adb_users (cw_db (sample_auth [sample_session]))) = Some sample_user"
    by (simp add: sample_auth_defs)
  ultimately show ?thesis
    using concurrent_refresh_both_succeed [OF sample_auth_ok(2), of default_auth_settings _ sample_library None None
        "''t''" sample_session sample_user None]
    by (simp add: inj_def) (force simp: sample_auth_defs)
qed

section \<open>Access tokens\<close>

lemma login_run:
  assumes "cw_tx w \<noteq> Tx_Failed"
  shows "login lib s email password ua ip w =
    (case find_row (\<lambda>u. citext_eq (us_email u) email) (adb_users (cw_db w)) of
       None \<Rightarrow> (Inl invalid_credentials, w)
     | Some u \<Rightarrow> if \<not> us_is_active u then (Inl invalid_credentials, w)
         else (case al_verify lib (us_password_hash u) password of
             Verified \<Rightarrow> create_session_tokens lib s (us_id u) ua ip w
           | Mismatch \<Rightarrow> (Inl invalid_credentials, w)
           | Verify_Raises e \<Rightarrow> (Inl e, w)))"
  using assms
  by (auto simp: login_def get_user_by_email_def verify_password_def and_then_run sql_run lift_run raise_run
      split: option.split verification.split)

lemma issued_by:
  assumes "create_session_tokens lib s u ua ip w = (Inr pair, w')"
  shows "\<exists>key key'. jwt_keys s = Inr (key, key') \<and> pair = issued_pair lib s key u w"
  using assms by (auto simp: create_session_tokens_run split: sum.splits prod.splits)

text \<open>
  C28: the access token of a log-in names the user who logged in, in every later state in which
  the JWT library accepts it with the claims that were signed: also after the session was logged
  out, because log-out and refresh do not touch access tokens.
\<close>

theorem access_token_names_user:
  fixes lib :: auth_library and ops :: "auth_op list"
  assumes "auth_ok w" and "\<forall>u \<in> set (adb_users (cw_db w)). is_uuid (us_id u)"
    and "login lib s email password ua ip w = (Inr pair, w')"
  defines "v \<equiv> fold (apply_auth lib s) ops w'"
  assumes accepted: "\<forall>u key key'. find_row (\<lambda>u. citext_eq (us_email u) email) (adb_users (cw_db w)) = Some u \<longrightarrow>
      jwt_keys s = Inr (key, key') \<longrightarrow>
      al_decode lib (aw_clock v) (tk_access_token pair) key' (as_jwt_algorithm s) (as_jwt_audience s)
        (as_jwt_issuer s) = Some (access_claims s (aw_clock w) (str_uuid (us_id u)))"
  shows "\<exists>u. get_user_by_access_token lib s (tk_access_token pair) v = (Inr (us_id u, us_email u, True), v) \<and>
    u \<in> set (adb_users (cw_db w)) \<and> citext_eq (us_email u) email"
proof -
  have tx: "cw_tx w \<noteq> Tx_Failed" using assms(1) by (simp add: auth_ok_def)
  obtain u where u: "find_row (\<lambda>u. citext_eq (us_email u) email) (adb_users (cw_db w)) = Some u"
      "us_is_active u" "create_session_tokens lib s (us_id u) ua ip w = (Inr pair, w')"
    using assms(3) by (auto simp: login_run [OF tx] split: option.splits if_splits verification.splits)
  obtain key key' where keys: "jwt_keys s = Inr (key, key')" using issued_by [OF u(3)] by blast
  have row: "u \<in> set (adb_users (cw_db w))" "citext_eq (us_email u) email"
    using u(1) by (auto dest: find_row_Some)
  have w': "w' = apply_auth lib s (Login email password ua ip) w" using assms(3) by simp
  have ok': "auth_ok w'" unfolding w' by (rule auth.op_keeps [OF assms(1)])
  have ok: "auth_ok v" unfolding v_def by (rule auth.history_keeps [OF ok'])
  have "auth_later w w'" unfolding w' by (rule apply_auth_later)
  moreover have "auth_later w' v" unfolding v_def by (rule auth.history_grows [OF ok'])
  ultimately have "auth_grows (cw_db w) (cw_db v)"
    unfolding auth_later_def by (rule auth_grows_trans)
  then have "table_grows (=) (adb_users (cw_db w)) (adb_users (cw_db v))" by (simp add: auth_grows_def)
  then have "u \<in> set (adb_users (cw_db v))" using row(1) by (auto simp: table_grows_def list.rel_eq)
  moreover have "distinct (map us_id (adb_users (cw_db v)))" using ok by (simp add: auth_ok_def auth_tables_ok_def)
  ultimately have found: "find_row (\<lambda>r. us_id r = us_id u) (adb_users (cw_db v)) = Some u"
    by (intro find_row_unique) simp_all
  have "cw_tx v \<noteq> Tx_Failed" using ok by (simp add: auth_ok_def)
  moreover have "subject_uuid (access_claims s (aw_clock w) (str_uuid (us_id u))) = Inr (us_id u)"
    using assms(2) row(1) by (simp add: subject_uuid_def access_claims_def dict_get_def parse_str_uuid)
  moreover have "dict_get (access_claims s (aw_clock w) (str_uuid (us_id u))) ''type'' = Some (JStr ''access'')"
    by (simp add: access_claims_def dict_get_def)
  ultimately have "get_user_by_access_token lib s (tk_access_token pair) v = (Inr (us_id u, us_email u, True), v)"
    using accepted u(1,2) keys found
    by (simp add: get_user_by_access_token_def decode_access_token_def get_user_by_id_def and_then_run
        lift_run gets_run sql_run ret_run)
  with row show ?thesis by blast
qed

theorem access_token_names_user_witness:
  "\<exists>pair w'. login sample_library default_auth_settings ''A@b.c'' ''secret'' None None (sample_auth []) = (Inr pair, w') \<and>
    fst (get_user_by_access_token sample_library default_auth_settings (tk_access_token pair)
      (fold (apply_auth sample_library default_auth_settings) [Logout (tk_refresh_token pair)] w')) =
    Inr (7, ''a@b.c'', True)"
proof -
  let ?w = "sample_auth []" and ?s = default_auth_settings
  have mail: "citext_eq ''a@b.c'' ''A@b.c''" by code_simp
  have found: "find_row (\<lambda>u. citext_eq (us_email u) ''A@b.c'') (adb_users (cw_db ?w)) = Some sample_user"
    using mail by (simp add: sample_auth_defs)
  have keys: "jwt_keys ?s = Inr (''change-me-super-secret'', ''change-me-super-secret'')"
    by (simp add: jwt_keys_def default_auth_settings_def)
  have tx: "cw_tx ?w \<noteq> Tx_Failed" by (simp add: sample_auth_def)
  have "create_session_tokens sample_library ?s 7 None None ?w =
      (Inr (issued_pair sample_library ?s ''change-me-super-secret'' 7 ?w),
       (drew ?w)\<lparr>cw_db := (cw_db ?w)\<lparr>adb_sessions := [new_session ?s 7 None None ?w]\<rparr>\<rparr>)"
    by (simp add: create_session_tokens_run inet_arg_def keys sql_def drew_def insert_session_def)
      (simp add: sample_auth_defs new_session_def)
  moreover have "us_id sample_user = 7" "us_is_active sample_user" "us_password_hash sample_user = ''h:secret''"
    by (simp_all add: sample_user_def)
  moreover have "al_verify sample_library ''h:secret'' ''secret'' = Verified" by (simp add: sample_library_def)
  ultimately obtain pair w' where run: "login sample_library ?s ''A@b.c'' ''secret'' None None ?w = (Inr pair, w')"
      "tk_access_token pair = ''jwt''"
    by (simp add: login_run [OF tx] found issued_pair_def) (simp add: sample_library_def)
  have "\<forall>u \<in> set (adb_users (cw_db ?w)). is_uuid (us_id u)" by (simp add: sample_auth_defs is_uuid_def)
  moreover have "aw_clock ?w = 5000000" by (simp add: sample_auth_def)
  moreover have "al_decode sample_library t ''jwt'' key' alg aud iss = Some (access_claims ?s 5000000 (str_uuid 7))"
    for t key' alg aud iss by (simp add: sample_library_def)
  ultimately obtain u where "get_user_by_access_token sample_library ?s (tk_access_token pair)
      (fold (apply_auth sample_library ?s) [Logout (tk_refresh_token pair)] w') =
      (Inr (us_id u, us_email u, True), fold (apply_auth sample_library ?s) [Logout (tk_refresh_token pair)] w')"
      "u \<in> set (adb_users (cw_db ?w))"
    using access_token_names_user [OF sample_auth_ok(1) _ run(1), of "[Logout (tk_refresh_token pair)]"]
      run(2) found \<open>us_id sample_user = 7\<close> by auto
  then show ?thesis using run(1) by (auto simp: sample_auth_defs)
qed

section \<open>The rate limiter\<close>

definition auth_hit :: "int \<Rightarrow> int \<Rightarrow> instant \<Rightarrow> string \<Rightarrow> auth_world \<Rightarrow> bool \<times> auth_world" where
  "auth_hit window limit now key w = (let (r, w') = enforce window key limit (w\<lparr>aw_clock := now\<rparr>)
     in (r = Inr (), w'))"

definition limits_ok :: "int \<Rightarrow> auth_world \<Rightarrow> bool" where
  "limits_ok window w \<longleftrightarrow> 0 < window \<and> (\<forall>i. aw_answered w i) \<and> (\<forall>k. used_ok (aw_redis w k))"

lemma enforce_run:
  fixes window :: int and key :: string
  assumes "aw_answered w (aw_commands w)" and "aw_answered w (Suc (aw_commands w))"
  defines "c \<equiv> window_hit (aw_clock w) window (aw_redis w key)"
  shows "\<exists>n. enforce window key limit w =
    (if fst c \<le> limit then Inr () else Inl (Auth Kind_Rate_Limit_Exceeded ''Too many requests''),
     w\<lparr>aw_commands := n, aw_redis := (aw_redis w)(key := snd c)\<rparr>)"
  using assms(1,2)
  by (cases "redis_incr (aw_clock w) (aw_redis w key)")
    (auto simp: enforce_def and_then_run seq_run gets_run redis_command_run ret_run raise_run c_def window_hit_def)

lemma auth_hit_run:
  assumes "limits_ok window w"
  shows "fst (auth_hit window limit now key w) = (fst (window_hit now window (aw_redis w key)) \<le> limit)"
    and "aw_redis (snd (auth_hit window limit now key w)) =
      (aw_redis w)(key := snd (window_hit now window (aw_redis w key)))"
    and "aw_answered (snd (auth_hit window limit now key w)) = aw_answered w"
proof -
  have "aw_answered (w\<lparr>aw_clock := now\<rparr>) i" for i using assms by (simp add: limits_ok_def)
  from enforce_run [OF this this, of window key limit] obtain n where
    "enforce window key limit (w\<lparr>aw_clock := now\<rparr>) =
      (if fst (window_hit now window (aw_redis w key)) \<le> limit then Inr ()
       else Inl (Auth Kind_Rate_Limit_Exceeded ''Too many requests''),
       w\<lparr>aw_clock := now, aw_commands := n, aw_redis := (aw_redis w)(key := snd (window_hit now window (aw_redis w key)))\<rparr>)"
    by auto
  then show "fst (auth_hit window limit now key w) = (fst (window_hit now window (aw_redis w key)) \<le> limit)"
    and "aw_redis (snd (auth_hit window limit now key w)) =
      (aw_redis w)(key := snd (window_hit now window (aw_redis w key)))"
    and "aw_answered (snd (auth_hit window limit now key w)) = aw_answered w"
    by (simp_all add: auth_hit_def)
qed

interpretation auth_limiter: window_limiter "limits_ok window" "\<lambda>k w. aw_redis w k"
  "auth_hit window limit" limit "window * 1000000" for window limit
proof (unfold_locales, goal_cases)
  case (1 w now k)
  then show ?case using auth_hit_run [OF 1] window_hit_used by (simp add: limits_ok_def)
next
  case (2 w now k)
  then show ?case using auth_hit_run [OF 2(1)] window_hit_opens by (simp add: limits_ok_def)
next
  case (3 w now k n e)
  then show ?case using auth_hit_run [OF 3(1)] window_hit_counts by (simp add: limits_ok_def)
next
  case (4 w k' k now)
  then show ?case using auth_hit_run [OF 4(1)] by simp
qed

text \<open>
  C29: while Redis answers, of the requests for a key from the one that opens its window until
  the window closes the first \<open>limit\<close> are allowed and all others refused, whatever requests for
  other keys come between.
\<close>

theorem auth_limit_per_window:
  assumes "limits_ok window w" and "alive now (aw_redis w key) = None"
    and "\<forall>(t, k) \<in> set requests. t < now + window * 1000000"
  shows "for_key key (answers (auth_hit window limit) ((now, key) # requests) w) =
    map (\<lambda>i. int i < limit) [0..<Suc (length (filter (\<lambda>(t, k). k = key) requests))]"
  using assms by (rule auth_limiter.allowed_in_window)

theorem auth_limit_per_window_witness:
  "for_key ''k'' (answers (auth_hit 60 2) [(5, ''k''), (6, ''other''), (7, ''k''), (8, ''k'')] (sample_auth [])) =
     [True, True, False]"
proof -
  have "limits_ok 60 (sample_auth [])" by (simp add: limits_ok_def used_ok_def sample_auth_def)
  moreover have "alive 5 (aw_redis (sample_auth []) ''k'') = None" by (simp add: alive_def sample_auth_def)
  ultimately show ?thesis
    using auth_limit_per_window [of 60 "sample_auth []" 5 "''k''" "[(6, ''other''), (7, ''k''), (8, ''k'')]" 2]
    by (simp add: upt_conv_Cons del: answers.simps)
qed

text \<open>
  \<open>INCR\<close> and \<open>EXPIRE\<close> are two commands. When the answer to the \<open>EXPIRE\<close> of a new key is lost,
  the request fails and the counter stays without an expiry: from then on only \<open>limit - 1\<close> more
  requests for the key are allowed, at whatever time they come.
\<close>

lemma lost_expire_never_closes:
  assumes "alive now (aw_redis w key) = None" and "aw_clock w = now"
    and "aw_answered w (aw_commands w)" and "\<not> aw_answered w (Suc (aw_commands w))"
    and "\<forall>k. used_ok (aw_redis w k)" and "0 < window"
  shows "\<exists>w'. enforce window key limit w = (Inl redis_lost, w') \<and>
    (\<forall>requests. for_key key (answers (auth_hit window limit) requests (w'\<lparr>aw_answered := \<lambda>_. True\<rparr>)) =
      map (\<lambda>i. int i < limit - 1) [0..<length (filter (\<lambda>(t, k). k = key) requests)])"
proof -
  let ?w = "w\<lparr>aw_commands := Suc (Suc (aw_commands w)), aw_redis := (aw_redis w)(key := Some (1, None))\<rparr>"
  have "enforce window key limit w = (Inl redis_lost, ?w)"
    using assms(1-4) by (simp add: enforce_def and_then_run seq_run gets_run redis_command_run redis_incr_def)
  moreover have "for_key key (answers (auth_hit window limit) requests (?w\<lparr>aw_answered := \<lambda>_. True\<rparr>)) =
      map (\<lambda>i. int i < limit - 1) [0..<length (filter (\<lambda>(t, k). k = key) requests)]" for requests
  proof -
    have "limits_ok window (?w\<lparr>aw_answered := \<lambda>_. True\<rparr>)"
      using assms(5,6) by (simp add: limits_ok_def) (simp add: used_ok_def)
    from auth_limiter.answers_in_window [OF this, of key 1 None requests limit]
    have "for_key key (answers (auth_hit window limit) requests (?w\<lparr>aw_answered := \<lambda>_. True\<rparr>)) =
        map (\<lambda>i. 1 + 1 + int i \<le> limit) [0..<length (filter (\<lambda>(t, k). k = key) requests)]"
      by simp
    moreover have "(\<lambda>i. 1 + 1 + int i \<le> limit) = (\<lambda>i. int i < limit - 1)" by auto
    ultimately show ?thesis by simp
  qed
  ultimately show ?thesis by blast
qed

lemma lost_expire_never_closes_witness:
  "\<exists>w'. enforce 60 ''k'' 2 (sample_auth []\<lparr>aw_answered := \<lambda>i. i = 0\<rparr>) = (Inl redis_lost, w') \<and>
    for_key ''k'' (answers (auth_hit 60 2) [(999000000, ''k''), (999000000000, ''k'')] (w'\<lparr>aw_answered := \<lambda>_. True\<rparr>)) =
      [True, False]"
proof -
  let ?w = "sample_auth []\<lparr>aw_answered := \<lambda>i. i = 0\<rparr>"
  have "alive 5000000 (aw_redis ?w ''k'') = None" "aw_clock ?w = 5000000" "aw_answered ?w (aw_commands ?w)"
    "\<not> aw_answered ?w (Suc (aw_commands ?w))" "\<forall>k. used_ok (aw_redis ?w k)"
    by (simp_all add: alive_def used_ok_def sample_auth_def)
  from lost_expire_never_closes [OF this, of 60 2] obtain w' where
    w': "enforce 60 ''k'' 2 ?w = (Inl redis_lost, w')"
      "\<forall>requests. for_key ''k'' (answers (auth_hit 60 2) requests (w'\<lparr>aw_answered := \<lambda>_. True\<rparr>)) =
        map (\<lambda>i. int i < 2 - 1) [0..<length (filter (\<lambda>(t, k). k = ''k'') requests)]"
    by auto
  from w'(2) [rule_format, of "[(999000000, ''k''), (999000000000, ''k'')]"] w'(1)
  show ?thesis by (simp add: upt_conv_Cons del: answers.simps)
qed

end
