(* ===== verification/Event_Bus.thy ===== *)
theory Event_Bus
  imports Delivery_Executor
begin

text \<open>
  The NATS clients of the notifications and of the delivery service, which share one JetStream
  stream. The server behind the library is a parameter: its operations are programs on its
  state. Each process has one client object, which is fresh when the process starts.
\<close>

section \<open>infrastructure/nats\_client.py\<close>

record 's nats_library =
  nl_connect :: "string \<Rightarrow> ('s, unit) eff"
  nl_add_stream :: "string \<Rightarrow> string list \<Rightarrow> ('s, unit) eff"
  nl_update_stream :: "string \<Rightarrow> string list \<Rightarrow> ('s, unit) eff"
  nl_add_consumer :: "string \<Rightarrow> string \<Rightarrow> string \<Rightarrow> ('s, unit) eff"
  nl_pull_subscribe :: "string \<Rightarrow> string \<Rightarrow> string \<Rightarrow> ('s, unit) eff"
  nl_publish :: "string \<Rightarrow> json_dict \<Rightarrow> (string \<times> string) list \<Rightarrow> ('s, unit) eff"

record nats_settings =
  nt_url :: string
  nt_stream_name :: string
  nt_durable_name :: string
  nt_subject_created :: string
  nt_subject_succeeded :: string
  nt_subject_failed :: string

definition default_nats_settings :: nats_settings where
  "default_nats_settings = \<lparr>nt_url = ''nats://nats:4222'', nt_stream_name = ''NOTIFICATIONS'',
     nt_durable_name = ''delivery-service'', nt_subject_created = ''notification.created.v1'',
     nt_subject_succeeded = ''delivery.succeeded.v1'', nt_subject_failed = ''delivery.failed.v1''\<rparr>"

text \<open>\<open>nc_client\<close> is \<open>None\<close> before the connection and then whether the client is connected.\<close>

record nats_client =
  nc_client :: "bool option"
  nc_jetstream :: bool

definition fresh_client :: nats_client where
  "fresh_client = \<lparr>nc_client = None, nc_jetstream = False\<rparr>"

type_synonym 's nats_world = "nats_client \<times> 's"

definition on_server :: "('s, 'a) eff \<Rightarrow> ('s nats_world, 'a) eff" where
  "on_server m = (\<lambda>(c, s). let (r, s') = m s in (r, (c, s')))"

definition open_stream :: "'s nats_library \<Rightarrow> nats_settings \<Rightarrow> string list \<Rightarrow> ('s nats_world, unit) eff" where
  "open_stream lib s subjects = seq (on_server (nl_connect lib (nt_url s)))
     (seq (modify (\<lambda>(c, srv). (\<lparr>nc_client = Some True, nc_jetstream = True\<rparr>, srv)))
       (catch (on_server (nl_add_stream lib (nt_stream_name s) subjects))
         (\<lambda>_. on_server (nl_update_stream lib (nt_stream_name s) subjects))))"

definition notifications_startup :: "'s nats_library \<Rightarrow> nats_settings \<Rightarrow> ('s nats_world, unit) eff" where
  "notifications_startup lib s = open_stream lib s [nt_subject_created s]"

definition delivery_startup :: "'s nats_library \<Rightarrow> nats_settings \<Rightarrow> ('s nats_world, unit) eff" where
  "delivery_startup lib s =
     open_stream lib s [nt_subject_created s, nt_subject_succeeded s, nt_subject_failed s]"

definition nats_shutdown :: "('s nats_world, unit) eff" where
  "nats_shutdown = modify (\<lambda>(c, srv). if nc_client c = Some True then (c\<lparr>nc_client := Some False\<rparr>, srv) else (c, srv))"

definition nats_ping :: "('s nats_world, unit) eff" where
  "nats_ping = and_then (gets fst) (\<lambda>c. if nc_client c = Some True then ret ()
     else raise (Runtime_Error ''NATS is not connected''))"

definition with_jetstream :: "('s, unit) eff \<Rightarrow> ('s nats_world, unit) eff" where
  "with_jetstream m = and_then (gets fst) (\<lambda>c. if nc_jetstream c then on_server m
     else raise (Runtime_Error ''JetStream is not initialized''))"

definition ensure_consumer :: "'s nats_library \<Rightarrow> nats_settings \<Rightarrow> ('s nats_world, unit) eff" where
  "ensure_consumer lib s = with_jetstream (catch
     (nl_add_consumer lib (nt_stream_name s) (nt_durable_name s) (nt_subject_created s)) (\<lambda>_. ret ()))"

definition publish_on_stream ::
  "'s nats_library \<Rightarrow> string \<Rightarrow> json_dict \<Rightarrow> (string \<times> string) list \<Rightarrow> ('s nats_world, unit) eff" where
  "publish_on_stream lib subject payload headers = with_jetstream (nl_publish lib subject payload headers)"

definition pull_subscribe :: "'s nats_library \<Rightarrow> nats_settings \<Rightarrow> string \<Rightarrow> ('s nats_world, unit) eff" where
  "pull_subscribe lib s subject = with_jetstream (nl_pull_subscribe lib subject (nt_durable_name s) (nt_stream_name s))"

section \<open>What JetStream documents\<close>

text \<open>
  The subjects of the streams that a server has. Adding or updating a stream, when it succeeds,
  gives it exactly the subjects asked for; no other stream changes, also not by a connection; a
  message is taken if and only if a stream has its subject.
\<close>

type_synonym 's streams = "'s \<Rightarrow> string \<Rightarrow> string list option"

definition sets_subjects :: "'s streams \<Rightarrow> (string \<Rightarrow> string list \<Rightarrow> ('s, unit) eff) \<Rightarrow> bool" where
  "sets_subjects streams op \<longleftrightarrow> (\<forall>name subjects srv.
     (\<forall>m. m \<noteq> name \<longrightarrow> streams (snd (op name subjects srv)) m = streams srv m) \<and>
     (fst (op name subjects srv) = Inr () \<longrightarrow>
       map_option set (streams (snd (op name subjects srv)) name) = Some (set subjects)))"

definition jetstream_laws :: "'s streams \<Rightarrow> 's nats_library \<Rightarrow> bool" where
  "jetstream_laws streams lib \<longleftrightarrow>
     (\<forall>url srv. streams (snd (nl_connect lib url srv)) = streams srv) \<and>
     sets_subjects streams (nl_add_stream lib) \<and> sets_subjects streams (nl_update_stream lib) \<and>
     (\<forall>subject p h srv. fst (nl_publish lib subject p h srv) = Inr () \<longleftrightarrow>
       (\<exists>name xs. streams srv name = Some xs \<and> subject \<in> set xs))"

definition takes :: "'s nats_library \<Rightarrow> 's nats_world \<Rightarrow> string \<Rightarrow> bool" where
  "takes lib v subject \<longleftrightarrow> fst (publish_on_stream lib subject [] [] v) = Inr ()"

lemma on_server_run: "on_server m (c, s) = (fst (m s), (c, snd (m s)))"
  by (simp add: on_server_def split: prod.split)

text \<open>A start that succeeds leaves the stream with the subjects of the process that started.\<close>

lemma open_stream_subjects:
  fixes lib :: "'s nats_library"
  assumes laws: "jetstream_laws streams lib"
    and others: "\<forall>m. m \<noteq> nt_stream_name s \<longrightarrow> streams srv m = None"
    and run: "open_stream lib s subjects (c, srv) = (Inr (), c', srv')"
  shows "takes lib (c', srv') subject \<longleftrightarrow> subject \<in> set subjects"
proof -
  let ?n = "nt_stream_name s"
  obtain v where v: "nl_connect lib (nt_url s) srv = (Inr (), v)"
    using run by (cases "nl_connect lib (nt_url s) srv")
      (auto simp: open_stream_def seq_run on_server_run split: sum.splits)
  have same: "streams v = streams srv" using laws v unfolding jetstream_laws_def by (metis snd_conv)
  let ?a = "nl_add_stream lib ?n subjects v"
  let ?u = "nl_update_stream lib ?n subjects (snd ?a)"
  have c': "c' = \<lparr>nc_client = Some True, nc_jetstream = True\<rparr>"
    and srv': "srv' = (if fst ?a = Inr () then snd ?a else snd ?u)" and ok: "fst ?a = Inr () \<or> fst ?u = Inr ()"
    using run v by (auto simp: open_stream_def seq_run on_server_run modify_run catch_run split: sum.splits)
  have add: "sets_subjects streams (nl_add_stream lib)" and upd: "sets_subjects streams (nl_update_stream lib)"
    using laws by (simp_all add: jetstream_laws_def)
  have "map_option set (streams srv' ?n) = Some (set subjects)"
    using add upd ok by (auto simp: sets_subjects_def srv')
  then obtain xs where xs: "streams srv' ?n = Some xs" "set xs = set subjects" by auto
  have "streams srv' m = None" if "m \<noteq> ?n" for m
    using that add upd others same by (simp add: sets_subjects_def srv')
  then have "(\<exists>name xs. streams srv' name = Some xs \<and> subject \<in> set xs) \<longleftrightarrow> subject \<in> set subjects"
    using xs by (metis option.distinct(1) option.inject)
  then show ?thesis
    using laws by (simp add: takes_def publish_on_stream_def with_jetstream_def and_then_run gets_run
        on_server_run c' jetstream_laws_def)
qed

section \<open>A concrete server, for the witness\<close>

type_synonym stream_table = "(string \<times> string list) list"

definition sample_add :: "string \<Rightarrow> string list \<Rightarrow> (stream_table, unit) eff" where
  "sample_add name subjects = (\<lambda>srv. case dict_get srv name of
     None \<Rightarrow> (Inr (), dict_set name subjects srv)
   | Some xs \<Rightarrow> if set xs = set subjects then (Inr (), srv)
       else (Inl (Runtime_Error ''stream name already in use''), srv))"

definition sample_update :: "string \<Rightarrow> string list \<Rightarrow> (stream_table, unit) eff" where
  "sample_update name subjects = (\<lambda>srv. case dict_get srv name of
     None \<Rightarrow> (Inl (Runtime_Error ''stream not found''), srv)
   | Some xs \<Rightarrow> (Inr (), dict_set name subjects srv))"

definition sample_nats :: "stream_table nats_library" where
  "sample_nats = \<lparr>nl_connect = (\<lambda>_. ret ()), nl_add_stream = sample_add, nl_update_stream = sample_update,
     nl_add_consumer = (\<lambda>_ _ _. ret ()), nl_pull_subscribe = (\<lambda>_ _ _. ret ()),
     nl_publish = (\<lambda>subject _ _ srv. (if \<exists>(name, xs) \<in> set srv. dict_get srv name = Some xs \<and> subject \<in> set xs
       then Inr () else Inl (Runtime_Error ''no response from stream''), srv))\<rparr>"

lemma sample_nats_laws: "jetstream_laws dict_get sample_nats"
proof -
  have "sets_subjects dict_get sample_add" and "sets_subjects dict_get sample_update"
    by (auto simp: sets_subjects_def sample_add_def sample_update_def split: option.splits)
  moreover have "(\<exists>(name, xs) \<in> set srv. dict_get srv name = Some xs \<and> subject \<in> set xs) \<longleftrightarrow>
      (\<exists>name xs. dict_get srv name = Some xs \<and> subject \<in> set xs)" for srv :: stream_table and subject
    by (auto simp: dict_get_def dest: map_of_SomeD)
  ultimately show ?thesis
    by (simp add: jetstream_laws_def sample_nats_def ret_run)
qed

section \<open>Properties\<close>

definition send_job_of :: "uuid \<Rightarrow> arq_job \<Rightarrow> bool" where
  "send_job_of x job \<longleftrightarrow> job_function job \<in> {''send_push'', ''send_email'', ''send_web''} \<and> job_attempt job = x"

lemma run_send_job: "send_job_of x job \<Longrightarrow> run_job s zi ps job = execute_send s zi ps x"
  by (auto simp: send_job_of_def run_job_def worker_functions_def send_channel_def)

text \<open>
  C4: the services share a stream, and whichever starts last decides its subjects: after the
  delivery service all three subjects are taken, after the notifications service only that of
  the notifications. From then on a job whose send the provider accepts raises, because its
  event is refused, and is rolled back: the provider has delivered, but the attempt stays as it
  was, no event is published and no other job is planned. Nothing marks the delivery as done,
  so if further jobs for the attempt come (\<open>jobs\<close>), each of them delivers it once more and raises.
\<close>

theorem restart_forgets_delivery:
  fixes lib :: "'s nats_library" and zi :: zone_db
  assumes "jetstream_laws streams lib"
    and "\<forall>m. m \<noteq> nt_stream_name n \<longrightarrow> streams srv m = None"
    and "nt_subject_created n \<noteq> nt_subject_succeeded n"
    and "notifications_startup lib n (fresh_client, srv) = (Inr (), v)"
    and "delivery_startup lib n (fresh_client, srv) = (Inr (), v')"
    and "ds_subject_succeeded s = nt_subject_succeeded n" and "dw_nats_accepts w = takes lib v"
    and "selected x w = Some a" and "due a (dw_clock w)"
    and "next_quiet_hours_retry zi (dw_clock w) a = Inr None" and "ps (att_channel a) = Some p"
    and "\<And>draw. res_success (p (att_user_id a) (att_payload a) draw)"
    and "\<forall>job \<in> set jobs. send_job_of x job"
  shows "(\<forall>subject. takes lib v' subject \<longleftrightarrow>
      subject \<in> {nt_subject_created n, nt_subject_succeeded n, nt_subject_failed n}) \<and>
    (\<forall>subject. takes lib v subject \<longleftrightarrow> subject = nt_subject_created n) \<and>
    (let w' = fold (\<lambda>job u. snd (run_job s zi ps job u)) jobs w
     in selected x w' = Some a \<and> cw_db w' = cw_db w \<and>
       dw_sends w' = dw_sends w @ replicate (length jobs) (x, True) \<and>
       dw_jobs w' = dw_jobs w \<and> dw_published w' = dw_published w \<and>
       (\<forall>job. send_job_of x job \<longrightarrow>
         fst (run_job s zi ps job w') = Inl (Publish_Error (ds_subject_succeeded s))))"
proof -
  have v': "takes lib v' subject \<longleftrightarrow> subject \<in> {nt_subject_created n, nt_subject_succeeded n, nt_subject_failed n}"
    for subject
    using open_stream_subjects [OF assms(1,2)] assms(5) by (cases v') (simp add: delivery_startup_def)
  have v: "takes lib v subject \<longleftrightarrow> subject = nt_subject_created n" for subject
    using open_stream_subjects [OF assms(1,2)] assms(4) by (cases v) (simp add: notifications_startup_def)
  have refused: "\<not> dw_nats_accepts w (ds_subject_succeeded s)"
    using v assms(3) by (simp add: assms(6,7))
  have runs: "fold (\<lambda>job u. snd (run_job s zi ps job u)) jobs u =
      ((\<lambda>u. snd (execute_send s zi ps x u)) ^^ length jobs) u" for u
    using assms(13)
  proof (induction jobs arbitrary: u)
    case (Cons job jobs)
    then show ?case using run_send_job [of x job s zi ps]
      by (simp add: funpow_swap1 [of "\<lambda>u. snd (execute_send s zi ps x u)", symmetric])
  qed simp
  have "let w' = ((\<lambda>u. snd (execute_send s zi ps x u)) ^^ length jobs) w
     in cw_db w' = cw_db w \<and> dw_sends w' = dw_sends w @ replicate (length jobs) (x, True) \<and>
       dw_jobs w' = dw_jobs w \<and> dw_published w' = dw_published w \<and>
       fst (execute_send s zi ps x w') = Inl (Publish_Error (ds_subject_succeeded s))"
    by (rule refused_event_repeats_delivery [where zi = zi and ps = ps and p = p, OF assms(8-11) _ refused])
      (rule assms(12))
  with v v' assms(8) show ?thesis
    using run_send_job [of x _ s zi ps] by (auto simp: Let_def runs selected_def)
qed

text \<open>The stream of the delivery service, before the notifications service is started again.\<close>

definition delivery_stream :: stream_table where
  "delivery_stream = [(''NOTIFICATIONS'', [''notification.created.v1'', ''delivery.succeeded.v1'', ''delivery.failed.v1''])]"

definition push_job :: arq_job where
  "push_job = \<lparr>job_function = ''send_push'', job_attempt = 7, job_channel = None, job_defer_by = None\<rparr>"

theorem restart_forgets_delivery_witness:
  "\<exists>v. notifications_startup sample_nats default_nats_settings (fresh_client, delivery_stream) = (Inr (), v) \<and>
    (let s = default_delivery_settings; ps = build_providers 0;
         w = (sample_world [sample_attempt (Some (22 * hour)) (Some (7 * hour))] True)\<lparr>dw_nats_accepts := takes sample_nats v\<rparr>;
         w' = fold (\<lambda>job u. snd (run_job s utc_db ps job u)) [push_job, push_job] w
     in dw_sends w' = [(7, True), (7, True)] \<and> cw_db w' = cw_db w \<and>
       fst (run_job s utc_db ps push_job w') = Inl (Publish_Error ''delivery.succeeded.v1''))"
proof -
  let ?a = "sample_attempt (Some (22 * hour)) (Some (7 * hour))"
  obtain v where v: "notifications_startup sample_nats default_nats_settings (fresh_client, delivery_stream) = (Inr (), v)"
    by (simp add: notifications_startup_def open_stream_def seq_run on_server_run modify_run catch_run sample_nats_def
        ret_run sample_add_def sample_update_def default_nats_settings_def delivery_stream_def dict_get_def)
  obtain v' where v': "delivery_startup sample_nats default_nats_settings (fresh_client, delivery_stream) = (Inr (), v')"
    by (simp add: delivery_startup_def open_stream_def seq_run on_server_run modify_run catch_run sample_nats_def
        ret_run sample_add_def default_nats_settings_def delivery_stream_def dict_get_def)
  let ?w = "(sample_world [?a] True)\<lparr>dw_nats_accepts := takes sample_nats v\<rparr>"
  have others: "\<forall>m. m \<noteq> nt_stream_name default_nats_settings \<longrightarrow> dict_get delivery_stream m = None"
    by (simp add: delivery_stream_def default_nats_settings_def dict_get_def)
  have names: "nt_subject_created default_nats_settings \<noteq> nt_subject_succeeded default_nats_settings"
    and subject: "ds_subject_succeeded default_delivery_settings = nt_subject_succeeded default_nats_settings"
    and accepts: "dw_nats_accepts ?w = takes sample_nats v"
    by (simp_all add: default_nats_settings_def default_delivery_settings_def)
  have sel: "selected 7 ?w = Some ?a" by (simp add: selected_def sample_world_def sample_attempt_def)
  have due: "due ?a (dw_clock ?w)" by (simp add: due_def sample_world_def sample_attempt_def)
  have quiet: "next_quiet_hours_retry utc_db (dw_clock ?w) ?a = Inr None"
    by (simp add: next_quiet_hours_retry_def sample_attempt_def sample_world_def utc_db_def
        resolve_timezone_def compute_next_allowed_time_def next_allowed_def is_in_quiet_hours_def
        to_wall_def fixed_zone_def hour_def day_def Let_def)
  have prov: "build_providers 0 (att_channel ?a) = Some (stub_send 0)"
    by (simp add: build_providers_def sample_attempt_def)
  have ok: "res_success (stub_send 0 (att_user_id ?a) (att_payload ?a) draw)" for draw
    by (simp add: stub_send_def stub_fail_rate_def random_units_def)
  have jobs: "\<forall>job \<in> set [push_job, push_job]. send_job_of 7 job" "send_job_of 7 push_job"
    by (simp_all add: send_job_of_def push_job_def)
  show ?thesis
    using v jobs(2) restart_forgets_delivery [where ps = "build_providers 0" and p = "stub_send 0",
        OF sample_nats_laws others names v v' subject accepts sel due quiet prov ok jobs(1)]
    by (intro exI [of _ v]) (simp add: Let_def sample_world_def numeral_2_eq_2 default_delivery_settings_def
        del: fold_simps)
qed

end
