(* ===== verification/Notifications_Store.thy ===== *)
theory Notifications_Store
  imports Requests Quiet_Hours
begin

text \<open>
  The tables of the notifications service (its migration), its records, its metrics and its two
  repositories. \<open>FOR UPDATE SKIP LOCKED\<close> leaves out the rows that other sessions hold, which
  are part of the world. Rows whose order the SQL text leaves open (equal \<open>created\_at\<close>) are
  taken in the order of insertion.
\<close>

section \<open>Records and tables\<close>

datatype notification_status = Ntf_Created | Ntf_Scheduled | Ntf_Queued | Ntf_Cancelled

record notification_row =
  ntf_id :: uuid
  ntf_topic_id :: uuid
  ntf_payload :: json_dict
  ntf_scheduled_at :: "instant option"
  ntf_status :: notification_status
  ntf_created_by :: uuid
  ntf_idempotency_key :: "string option"
  ntf_created_at :: instant
  ntf_updated_at :: instant

record outbox_event =
  obx_id :: uuid
  obx_aggregate_type :: string
  obx_aggregate_id :: uuid
  obx_event_type :: string
  obx_payload :: json_dict
  obx_headers :: "(string \<times> string) list"
  obx_created_at :: instant
  obx_published_at :: "instant option"
  obx_publish_attempts :: int
  obx_last_error :: "string option"

record notifications_db =
  ndb_notifications :: "notification_row list"
  ndb_outbox :: "outbox_event list"

definition status_text :: "notification_status \<Rightarrow> string" where
  "status_text s = (case s of Ntf_Created \<Rightarrow> ''created'' | Ntf_Scheduled \<Rightarrow> ''scheduled''
     | Ntf_Queued \<Rightarrow> ''queued'' | Ntf_Cancelled \<Rightarrow> ''cancelled'')"

section \<open>Metrics and the world of a process\<close>

text \<open>Durations are microseconds: exact where the code adds floats.\<close>

record notifications_metrics =
  nm_created :: int
  nm_unpublished :: int
  nm_publish_attempts :: int
  nm_publish_failures :: int
  nm_publish_latency_sum :: int
  nm_publish_latency_count :: int
  nm_picked :: int
  nm_tick_duration_sum :: int
  nm_tick_duration_count :: int
  nm_backlog :: int
  nm_due :: int

definition inc_notifications_created :: "notifications_metrics \<Rightarrow> notifications_metrics" where
  "inc_notifications_created m = m\<lparr>nm_created := nm_created m + 1\<rparr>"

definition set_outbox_unpublished_count :: "int \<Rightarrow> notifications_metrics \<Rightarrow> notifications_metrics" where
  "set_outbox_unpublished_count value m = m\<lparr>nm_unpublished := value\<rparr>"

definition observe_outbox_publish_latency ::
  "int \<Rightarrow> bool \<Rightarrow> notifications_metrics \<Rightarrow> notifications_metrics" where
  "observe_outbox_publish_latency duration failed m =
     (let m' = m\<lparr>nm_publish_attempts := nm_publish_attempts m + 1,
            nm_publish_latency_sum := nm_publish_latency_sum m + duration,
            nm_publish_latency_count := nm_publish_latency_count m + 1\<rparr>
      in if failed then m'\<lparr>nm_publish_failures := nm_publish_failures m' + 1\<rparr> else m')"

definition inc_scheduler_picked :: "int \<Rightarrow> notifications_metrics \<Rightarrow> notifications_metrics" where
  "inc_scheduler_picked count m =
     (if count \<le> 0 then m else m\<lparr>nm_picked := nm_picked m + count\<rparr>)"

definition observe_scheduler_tick_duration :: "int \<Rightarrow> notifications_metrics \<Rightarrow> notifications_metrics" where
  "observe_scheduler_tick_duration duration m =
     m\<lparr>nm_tick_duration_sum := nm_tick_duration_sum m + duration,
       nm_tick_duration_count := nm_tick_duration_count m + 1\<rparr>"

definition set_scheduled_counts :: "int \<Rightarrow> int \<Rightarrow> notifications_metrics \<Rightarrow> notifications_metrics" where
  "set_scheduled_counts backlog_count due_count m =
     m\<lparr>nm_backlog := backlog_count, nm_due := due_count\<rparr>"

definition empty_notifications_metrics :: notifications_metrics where
  "empty_notifications_metrics = \<lparr>nm_created = 0, nm_unpublished = 0, nm_publish_attempts = 0,
     nm_publish_failures = 0, nm_publish_latency_sum = 0, nm_publish_latency_count = 0,
     nm_picked = 0, nm_tick_duration_sum = 0, nm_tick_duration_count = 0, nm_backlog = 0, nm_due = 0\<rparr>"

text \<open>
  Beside the session: the wall clock, the stop watch (the durations that the timers will show),
  the metrics, the rows of notifications and of the outbox that other sessions have locked, the
  messages that JetStream took, and for each try to publish whether it takes the message or
  which error text it answers.
\<close>

record notifications_world = "notifications_db conn_world" +
  nw_clock :: instant
  nw_elapsed :: "nat \<Rightarrow> int"
  nw_timers :: nat
  nw_metrics :: notifications_metrics
  nw_locked :: "uuid \<Rightarrow> bool"
  nw_published :: "(string \<times> json_dict \<times> (string \<times> string) list) list"
  nw_refusal :: "nat \<Rightarrow> string option"
  nw_tries :: nat

definition observe :: "(notifications_metrics \<Rightarrow> notifications_metrics) \<Rightarrow> (notifications_world, unit) eff" where
  "observe f = modify (\<lambda>w. w\<lparr>nw_metrics := f (nw_metrics w)\<rparr>)"

definition stop_timer :: "(notifications_world, int) eff" where
  "stop_timer = (\<lambda>w. (Inr (nw_elapsed w (nw_timers w)), w\<lparr>nw_timers := Suc (nw_timers w)\<rparr>))"

definition publish_message ::
  "string \<Rightarrow> json_dict \<Rightarrow> (string \<times> string) list \<Rightarrow> (notifications_world, unit) eff" where
  "publish_message subject payload headers = (\<lambda>w.
     let w' = w\<lparr>nw_tries := Suc (nw_tries w)\<rparr>
     in case nw_refusal w (nw_tries w) of
          None \<Rightarrow> (Inr (), w'\<lparr>nw_published := nw_published w @ [(subject, payload, headers)]\<rparr>)
        | Some e \<Rightarrow> (Inl (Publish_Error e), w'))"

lemma observe_run [eff_simps]: "observe f w = (Inr (), w\<lparr>nw_metrics := f (nw_metrics w)\<rparr>)"
  by (simp add: observe_def modify_def)

lemma stop_timer_run [eff_simps]:
  "stop_timer w = (Inr (nw_elapsed w (nw_timers w)), w\<lparr>nw_timers := Suc (nw_timers w)\<rparr>)"
  by (simp add: stop_timer_def)

section \<open>repositories/notifications.py\<close>

definition insert_notification :: "notification_row \<Rightarrow> (notifications_db, notification_row) stmt" where
  "insert_notification n d =
     (if ntf_id n \<in> set (map ntf_id (ndb_notifications d)) then Inl unique_violation
      else if ntf_idempotency_key n \<noteq> None \<and> (ntf_created_by n, ntf_idempotency_key n) \<in>
          set (map (\<lambda>r. (ntf_created_by r, ntf_idempotency_key r)) (ndb_notifications d))
        then Inl unique_violation
      else Inr (n, d\<lparr>ndb_notifications := ndb_notifications d @ [n]\<rparr>))"

definition create_notification_row ::
  "uuid \<Rightarrow> uuid \<Rightarrow> json_dict \<Rightarrow> instant option \<Rightarrow> uuid \<Rightarrow> string option \<Rightarrow> notification_status \<Rightarrow>
   (notifications_world, notification_row) eff" where
  "create_notification_row notification_id topic_id payload scheduled_at created_by idempotency_key status =
     and_then (gets cw_now) (\<lambda>now. sql (insert_notification
       \<lparr>ntf_id = notification_id, ntf_topic_id = topic_id, ntf_payload = payload,
        ntf_scheduled_at = scheduled_at, ntf_status = status, ntf_created_by = created_by,
        ntf_idempotency_key = idempotency_key, ntf_created_at = now, ntf_updated_at = now\<rparr>))"

definition get_by_id :: "uuid \<Rightarrow> (notifications_world, notification_row option) eff" where
  "get_by_id notification_id =
     sql (query (\<lambda>d. find_row (\<lambda>n. ntf_id n = notification_id) (ndb_notifications d)))"

definition get_by_idempotency_key ::
  "uuid \<Rightarrow> string \<Rightarrow> (notifications_world, notification_row option) eff" where
  "get_by_idempotency_key created_by key = sql (query (\<lambda>d. find_row
     (\<lambda>n. ntf_created_by n = created_by \<and> ntf_idempotency_key n = Some key) (ndb_notifications d)))"

definition newest_key :: "notification_row \<Rightarrow> int \<times> int" where
  "newest_key n = desc_key (ntf_created_at n) (ntf_id n)"

definition list_by_user ::
  "uuid \<Rightarrow> nat \<Rightarrow> (instant \<times> uuid) option \<Rightarrow> string option \<Rightarrow> uuid option \<Rightarrow>
   (notifications_world, notification_row list) eff" where
  "list_by_user created_by limit cursor status topic_id = sql (query (\<lambda>d. select_page
     (\<lambda>n. (ntf_created_by n = created_by \<and>
           (case status of None \<Rightarrow> True | Some s \<Rightarrow> status_text (ntf_status n) = s) \<and>
           (case topic_id of None \<Rightarrow> True | Some t \<Rightarrow> ntf_topic_id n = t)) \<and>
        after_cursor newest_key (map_option (\<lambda>(c, i). desc_key c i) cursor) n)
     newest_key limit (ndb_notifications d)))"

definition due_at :: "instant \<Rightarrow> notification_row \<Rightarrow> bool" where
  "due_at now n \<longleftrightarrow> ntf_status n = Ntf_Scheduled \<and>
     (case ntf_scheduled_at n of None \<Rightarrow> False | Some t \<Rightarrow> t \<le> now)"

definition schedule_key :: "notification_row \<Rightarrow> instant \<times> uuid" where
  "schedule_key n = (case ntf_scheduled_at n of None \<Rightarrow> 0 | Some t \<Rightarrow> t, ntf_id n)"

definition lock_due_scheduled_batch :: "nat \<Rightarrow> (notifications_world, notification_row list) eff" where
  "lock_due_scheduled_batch limit =
     and_then (gets cw_now) (\<lambda>now. and_then (gets nw_locked) (\<lambda>locked.
       sql (query (\<lambda>d. select_page (\<lambda>n. due_at now n \<and> \<not> locked (ntf_id n)) schedule_key limit
         (ndb_notifications d)))))"

definition set_status :: "notification_status \<Rightarrow> instant \<Rightarrow> notification_row \<Rightarrow> notification_row" where
  "set_status status now n = n\<lparr>ntf_status := status, ntf_updated_at := now\<rparr>"

definition queue_rows :: "uuid list \<Rightarrow> instant \<Rightarrow> (notifications_db, notification_row list) stmt" where
  "queue_rows ids now d =
     (let hit = (\<lambda>n. ntf_id n \<in> set ids \<and> ntf_status n = Ntf_Scheduled)
      in Inr (sort_key schedule_key (map (set_status Ntf_Queued now) (filter hit (ndb_notifications d))),
         d\<lparr>ndb_notifications := update_where hit (set_status Ntf_Queued now) (ndb_notifications d)\<rparr>))"

definition mark_queued_by_ids :: "uuid list \<Rightarrow> (notifications_world, notification_row list) eff" where
  "mark_queued_by_ids notification_ids =
     (if notification_ids = [] then ret []
      else and_then (gets cw_now) (\<lambda>now. sql (queue_rows notification_ids now)))"

definition cancel_row :: "uuid \<Rightarrow> instant \<Rightarrow> (notifications_db, notification_row option) stmt" where
  "cancel_row notification_id now d =
     (let hit = (\<lambda>n. ntf_id n = notification_id \<and> ntf_status n = Ntf_Scheduled)
      in Inr (map_option (set_status Ntf_Cancelled now) (find_row hit (ndb_notifications d)),
         d\<lparr>ndb_notifications := update_where hit (set_status Ntf_Cancelled now) (ndb_notifications d)\<rparr>))"

definition cancel_if_scheduled :: "uuid \<Rightarrow> (notifications_world, notification_row option) eff" where
  "cancel_if_scheduled notification_id =
     and_then (gets cw_now) (\<lambda>now. sql (cancel_row notification_id now))"

definition count_scheduled_backlog :: "(notifications_world, int) eff" where
  "count_scheduled_backlog = sql (query (\<lambda>d.
     int (length (filter (\<lambda>n. ntf_status n = Ntf_Scheduled) (ndb_notifications d)))))"

definition count_scheduled_due :: "(notifications_world, int) eff" where
  "count_scheduled_due = and_then (gets cw_now) (\<lambda>now. sql (query (\<lambda>d.
     int (length (filter (due_at now) (ndb_notifications d))))))"

section \<open>repositories/outbox.py\<close>

definition insert_event :: "outbox_event \<Rightarrow> (notifications_db, outbox_event) stmt" where
  "insert_event e d =
     (if obx_id e \<in> set (map obx_id (ndb_outbox d)) then Inl unique_violation
      else Inr (e, d\<lparr>ndb_outbox := ndb_outbox d @ [e]\<rparr>))"

definition create_event ::
  "uuid \<Rightarrow> string \<Rightarrow> uuid \<Rightarrow> string \<Rightarrow> json_dict \<Rightarrow> (string \<times> string) list \<Rightarrow>
   (notifications_world, outbox_event) eff" where
  "create_event event_id aggregate_type aggregate_id event_type payload headers =
     and_then (gets cw_now) (\<lambda>now. sql (insert_event
       \<lparr>obx_id = event_id, obx_aggregate_type = aggregate_type, obx_aggregate_id = aggregate_id,
        obx_event_type = event_type, obx_payload = payload, obx_headers = headers,
        obx_created_at = now, obx_published_at = None, obx_publish_attempts = 0,
        obx_last_error = None\<rparr>))"

definition lock_unpublished_batch :: "nat \<Rightarrow> (notifications_world, outbox_event list) eff" where
  "lock_unpublished_batch batch_size = and_then (gets nw_locked) (\<lambda>locked.
     sql (query (\<lambda>d. select_page (\<lambda>e. obx_published_at e = None \<and> \<not> locked (obx_id e)) obx_created_at
       batch_size (ndb_outbox d))))"

definition set_published :: "instant \<Rightarrow> outbox_event \<Rightarrow> outbox_event" where
  "set_published now e = e\<lparr>obx_published_at := Some now,
     obx_publish_attempts := obx_publish_attempts e + 1, obx_last_error := None\<rparr>"

definition set_publish_failed :: "string \<Rightarrow> outbox_event \<Rightarrow> outbox_event" where
  "set_publish_failed message e = e\<lparr>obx_publish_attempts := obx_publish_attempts e + 1,
     obx_last_error := Some (take 2000 message)\<rparr>"

definition update_event ::
  "uuid \<Rightarrow> (outbox_event \<Rightarrow> outbox_event) \<Rightarrow> (notifications_world, unit) eff" where
  "update_event event_id f = sql (\<lambda>d. Inr ((),
     d\<lparr>ndb_outbox := update_where (\<lambda>e. obx_id e = event_id) f (ndb_outbox d)\<rparr>))"

definition mark_published :: "uuid \<Rightarrow> (notifications_world, unit) eff" where
  "mark_published event_id = and_then (gets cw_now) (\<lambda>now. update_event event_id (set_published now))"

definition mark_publish_failed :: "uuid \<Rightarrow> string \<Rightarrow> (notifications_world, unit) eff" where
  "mark_publish_failed event_id message = update_event event_id (set_publish_failed message)"

definition count_unpublished :: "(notifications_world, int) eff" where
  "count_unpublished = sql (query (\<lambda>d.
     int (length (filter (\<lambda>e. obx_published_at e = None) (ndb_outbox d)))))"

end
