(* ===== verification/Notifications_Service.thy ===== *)
theory Notifications_Service
  imports Notifications_Store Hashing
begin

text \<open>
  \<open>core/payload.py\<close>, \<open>services/notifications.py\<close>, \<open>services/scheduler\_service.py\<close>,
  \<open>services/outbox\_publisher.py\<close>, the bodies of the loops that run the last two, and the
  endpoints of the notifications service.
\<close>

section \<open>core/payload.py\<close>

text \<open>\<open>json.dumps(..., ensure\_ascii=False).encode("utf-8")\<close>, on code points below 256.\<close>

definition escape_utf8 :: "char \<Rightarrow> string" where
  "escape_utf8 c = (let n = of_char c :: nat
     in if c = CHR 0x22 then [CHR 0x5C, CHR 0x22]
        else if c = CHR 0x5C then [CHR 0x5C, CHR 0x5C]
        else if n = 10 then [CHR 0x5C, CHR ''n'']
        else if n = 13 then [CHR 0x5C, CHR ''r'']
        else if n = 9 then [CHR 0x5C, CHR ''t'']
        else if n = 12 then [CHR 0x5C, CHR ''f'']
        else if n = 8 then [CHR 0x5C, CHR ''b'']
        else if n < 32 then [CHR 0x5C, CHR ''u''] @ hex4 n
        else utf8 c)"

definition quoted_utf8 :: "string \<Rightarrow> string" where
  "quoted_utf8 s = [CHR 0x22] @ concat (map escape_utf8 s) @ [CHR 0x22]"

fun json_text :: "json \<Rightarrow> string"
  and json_texts :: "json list \<Rightarrow> string list"
  and json_members :: "(string \<times> json) list \<Rightarrow> string list" where
  "json_text JNull = ''null''"
| "json_text (JBool b) = (if b then ''true'' else ''false'')"
| "json_text (JInt n) = int_text n"
| "json_text (JFloat s) = s"
| "json_text (JStr s) = quoted_utf8 s"
| "json_text (JList vs) = ''['' @ py_join '','' (json_texts vs) @ '']''"
| "json_text (JDict d) = ''{'' @ py_join '','' (json_members d) @ ''}''"
| "json_texts [] = []"
| "json_texts (v # vs) = json_text v # json_texts vs"
| "json_members [] = []"
| "json_members ((k, v) # d) = (quoted_utf8 k @ '':'' @ json_text v) # json_members d"

definition payload_size_bytes :: "json_dict \<Rightarrow> nat" where
  "payload_size_bytes payload = length (json_text (JDict payload))"

text \<open>\<open>max(... for v in ...)\<close> over a list that is not empty.\<close>

fun payload_depth :: "json \<Rightarrow> nat \<Rightarrow> nat"
  and depth_of_values :: "json list \<Rightarrow> nat \<Rightarrow> nat list"
  and depth_of_members :: "(string \<times> json) list \<Rightarrow> nat \<Rightarrow> nat list" where
  "payload_depth (JDict d) current_depth =
     (if d = [] then current_depth + 1 else fold max (depth_of_members d (current_depth + 1)) 0)"
| "payload_depth (JList vs) current_depth =
     (if vs = [] then current_depth + 1 else fold max (depth_of_values vs (current_depth + 1)) 0)"
| "payload_depth JNull current_depth = current_depth + 1"
| "payload_depth (JBool b) current_depth = current_depth + 1"
| "payload_depth (JInt n) current_depth = current_depth + 1"
| "payload_depth (JFloat s) current_depth = current_depth + 1"
| "payload_depth (JStr s) current_depth = current_depth + 1"
| "depth_of_values [] current_depth = []"
| "depth_of_values (v # vs) current_depth = payload_depth v current_depth # depth_of_values vs current_depth"
| "depth_of_members [] current_depth = []"
| "depth_of_members ((k, v) # d) current_depth =
     payload_depth v current_depth # depth_of_members d current_depth"

section \<open>services/notifications.py\<close>

record notifications_settings =
  ns_outbox_batch_size :: nat
  ns_scheduler_batch_size :: nat
  ns_payload_max_bytes :: nat
  ns_payload_max_depth :: nat

definition default_notifications_settings :: notifications_settings where
  "default_notifications_settings = \<lparr>ns_outbox_batch_size = 100, ns_scheduler_batch_size = 200,
     ns_payload_max_bytes = 65536, ns_payload_max_depth = 8\<rparr>"

definition validate_payload :: "notifications_settings \<Rightarrow> json_dict \<Rightarrow> exn + unit" where
  "validate_payload settings payload =
     (if payload_size_bytes payload > ns_payload_max_bytes settings
      then Inl (App Kind_Validation ''Payload is too large'')
      else if payload_depth (JDict payload) 0 > ns_payload_max_depth settings
      then Inl (App Kind_Validation ''Payload is too deep'')
      else Inr ())"

definition normalize_scheduled_at :: "py_datetime option \<Rightarrow> exn + instant option" where
  "normalize_scheduled_at scheduled_at = (case scheduled_at of
     None \<Rightarrow> Inr None
   | Some (Naive _) \<Rightarrow> Inl (App Kind_Validation ''scheduled_at must include timezone'')
   | Some (Aware t) \<Rightarrow> Inr (Some t))"

definition is_immediate :: "instant \<Rightarrow> instant option \<Rightarrow> bool" where
  "is_immediate now scheduled_at = (case scheduled_at of None \<Rightarrow> True | Some t \<Rightarrow> t \<le> now)"

text \<open>The payload of an event, which the service and the scheduler build in the same way.\<close>

definition created_event_type :: string where
  "created_event_type = ''notification.created.v1''"

definition created_event :: "uuid \<Rightarrow> notification_row \<Rightarrow> json_dict" where
  "created_event event_id n =
     [(''event_id'', JStr (str_uuid event_id)),
      (''notification_id'', JStr (str_uuid (ntf_id n))),
      (''topic_id'', JStr (str_uuid (ntf_topic_id n))),
      (''created_by'', JStr (str_uuid (ntf_created_by n))),
      (''payload'', JDict (ntf_payload n)),
      (''scheduled_at'', (case ntf_scheduled_at n of None \<Rightarrow> JNull | Some t \<Rightarrow> JStr (isoformat t))),
      (''created_at'', JStr (isoformat (ntf_created_at n)))]"

text \<open>The part of \<open>create\_notification\<close> after the look-up: the transaction and its handler.\<close>

definition store_notification ::
  "uuid \<Rightarrow> uuid \<Rightarrow> json_dict \<Rightarrow> instant option \<Rightarrow> string option \<Rightarrow> string \<Rightarrow>
   (notifications_world, notification_row \<times> bool) eff" where
  "store_notification user_id topic_id payload scheduled_at idempotency_key request_id =
     and_then uuid4 (\<lambda>notification_id.
     and_then uuid4 (\<lambda>event_id.
     and_then (gets nw_clock) (\<lambda>now.
       let status = (if is_immediate now scheduled_at then Ntf_Created else Ntf_Scheduled)
       in catch
         (and_then (transaction
            (and_then (create_notification_row notification_id topic_id payload scheduled_at
               user_id idempotency_key status) (\<lambda>notification.
             seq (if ntf_status notification = Ntf_Created
                  then seq (create_event event_id ''notification'' (ntf_id notification)
                         created_event_type (created_event event_id notification)
                         [(''request_id'', request_id), (''user_id'', str_uuid user_id)]) (ret ())
                  else ret ())
               (ret notification)))) (\<lambda>notification.
          seq (observe inc_notifications_created) (ret (notification, True))))
         (\<lambda>exc. case truthy idempotency_key of
            Some key \<Rightarrow>
              if exc = unique_violation
              then and_then (get_by_idempotency_key user_id key) (\<lambda>existing.
                case existing of Some n \<Rightarrow> ret (n, False) | None \<Rightarrow> raise exc)
              else raise exc
          | None \<Rightarrow> raise exc))))"

definition create_notification ::
  "notifications_settings \<Rightarrow> uuid \<Rightarrow> uuid \<Rightarrow> json_dict \<Rightarrow> py_datetime option \<Rightarrow> string option \<Rightarrow>
   string \<Rightarrow> (notifications_world, notification_row \<times> bool) eff" where
  "create_notification settings user_id topic_id payload scheduled_at idempotency_key request_id =
     and_then (lift (validate_payload settings payload)) (\<lambda>_.
     and_then (lift (normalize_scheduled_at scheduled_at)) (\<lambda>normalized_scheduled_at.
     and_then (case truthy idempotency_key of
         Some key \<Rightarrow> get_by_idempotency_key user_id key | None \<Rightarrow> ret None) (\<lambda>found.
       case found of
         Some existing \<Rightarrow> ret (existing, False)
       | None \<Rightarrow> store_notification user_id topic_id payload normalized_scheduled_at
           idempotency_key request_id)))"

definition get_notification ::
  "uuid \<Rightarrow> uuid \<Rightarrow> string list \<Rightarrow> (notifications_world, notification_row) eff" where
  "get_notification notification_id user_id roles =
     and_then (get_by_id notification_id) (\<lambda>found.
     case found of
       None \<Rightarrow> raise (App Kind_Not_Found ''Notification not found'')
     | Some n \<Rightarrow> if ntf_created_by n \<noteq> user_id \<and> ''admin'' \<notin> set roles
         then raise (App Kind_Forbidden ''Forbidden'') else ret n)"

definition cancel_notification ::
  "uuid \<Rightarrow> uuid \<Rightarrow> string list \<Rightarrow> (notifications_world, notification_row) eff" where
  "cancel_notification notification_id user_id roles =
     and_then (get_notification notification_id user_id roles) (\<lambda>notification.
     if ntf_status notification \<noteq> Ntf_Scheduled
     then raise (App Kind_Conflict ''Only scheduled notifications can be cancelled'')
     else and_then (cancel_if_scheduled notification_id) (\<lambda>cancelled.
       case cancelled of
         None \<Rightarrow> raise (App Kind_Conflict ''Notification is not scheduled'')
       | Some n \<Rightarrow> ret n))"

definition allowed_status_filters :: "string list" where
  "allowed_status_filters = [''created'', ''scheduled'', ''queued'', ''cancelled'']"

definition notifications_cursor :: "instant \<Rightarrow> uuid \<Rightarrow> string" where
  "notifications_cursor created_at notification_id = row_cursor created_at notification_id"

definition list_my_notifications ::
  "readers \<Rightarrow> uuid \<Rightarrow> nat \<Rightarrow> string option \<Rightarrow> string option \<Rightarrow> uuid option \<Rightarrow>
   (notifications_world, notification_row list \<times> string option) eff" where
  "list_my_notifications readers user_id limit cursor status topic_id =
     (if (case status of None \<Rightarrow> False | Some s \<Rightarrow> s \<notin> set allowed_status_filters)
      then raise (App Kind_Validation ''Invalid status filter'')
      else and_then (lift (decode_cursor (fst readers) cursor)) (\<lambda>cursor_data.
       and_then (lift (instant_cursor_data (snd readers) cursor_data)) (\<lambda>c.
       and_then (list_by_user user_id (limit + 1) c status topic_id) (\<lambda>rows.
         lift (cut_page (\<lambda>last. notifications_cursor (ntf_created_at last) (ntf_id last)) limit rows)))))"

section \<open>services/scheduler\_service.py\<close>

record tick_result =
  tick_picked :: int
  tick_due :: int
  tick_backlog :: int

definition queue_event :: "string \<Rightarrow> notification_row \<Rightarrow> (notifications_world, unit) eff" where
  "queue_event request_id notification =
     and_then uuid4 (\<lambda>event_id.
     seq (create_event event_id ''notification'' (ntf_id notification) created_event_type
            (created_event event_id notification)
            [(''request_id'', request_id), (''user_id'', str_uuid (ntf_created_by notification)),
             (''source'', ''notifications-scheduler'')])
       (ret ()))"

definition tick_transaction ::
  "notifications_settings \<Rightarrow> string \<Rightarrow> (notifications_world, notification_row list) eff" where
  "tick_transaction settings request_id = transaction
     (and_then (lock_due_scheduled_batch (ns_scheduler_batch_size settings)) (\<lambda>due.
      and_then (mark_queued_by_ids (map ntf_id due)) (\<lambda>queued.
      seq (for_each (queue_event request_id) queued) (ret queued))))"

definition run_one_tick ::
  "notifications_settings \<Rightarrow> string \<Rightarrow> (notifications_world, tick_result) eff" where
  "run_one_tick settings request_id =
     and_then (tick_transaction settings request_id) (\<lambda>queued.
     and_then count_scheduled_backlog (\<lambda>backlog_count.
     and_then count_scheduled_due (\<lambda>due_count.
       let picked_count = int (length queued)
       in seq (observe (inc_scheduler_picked picked_count))
         (seq (observe (set_scheduled_counts backlog_count due_count))
         (and_then stop_timer (\<lambda>duration.
          seq (observe (observe_scheduler_tick_duration duration))
          (ret \<lparr>tick_picked = picked_count, tick_due = due_count, tick_backlog = backlog_count\<rparr>)))))))"

text \<open>One pass of the loop of \<open>scheduler/loop.py\<close>: it goes on after every exception.\<close>

definition scheduler_pass :: "notifications_settings \<Rightarrow> (notifications_world, unit) eff" where
  "scheduler_pass settings =
     catch (seq (run_one_tick settings ''scheduler'') (ret ())) (\<lambda>_. ret ())"

section \<open>services/outbox\_publisher.py\<close>

text \<open>\<open>str(exc)\<close> of what \<open>publish\_json\<close> raises; the others have no text of interest here.\<close>

definition exception_text :: "exn \<Rightarrow> string" where
  "exception_text exc = (case exc of Publish_Error e \<Rightarrow> e | App _ m \<Rightarrow> m | Runtime_Error m \<Rightarrow> m | Pg s \<Rightarrow> s | _ \<Rightarrow> [])"

definition publish_event :: "outbox_event \<Rightarrow> (notifications_world, unit) eff" where
  "publish_event event =
     catch
       (seq (publish_message (obx_event_type event) (obx_payload event) (obx_headers event))
       (seq (mark_published (obx_id event))
       (and_then stop_timer (\<lambda>duration. observe (observe_outbox_publish_latency duration False)))))
       (\<lambda>exc.
        seq (mark_publish_failed (obx_id event) (exception_text exc))
        (and_then stop_timer (\<lambda>duration. observe (observe_outbox_publish_latency duration True))))"

definition publish_batch :: "notifications_settings \<Rightarrow> (notifications_world, unit) eff" where
  "publish_batch settings = transaction
     (and_then (lock_unpublished_batch (ns_outbox_batch_size settings)) (\<lambda>events.
      seq (for_each publish_event events)
     (and_then count_unpublished (\<lambda>unpublished_count.
      observe (set_outbox_unpublished_count unpublished_count)))))"

definition publisher_pass :: "notifications_settings \<Rightarrow> (notifications_world, unit) eff" where
  "publisher_pass settings = catch (publish_batch settings) (\<lambda>_. ret ())"

section \<open>api/notifications.py\<close>

record notification_response =
  rn_id :: uuid
  rn_topic_id :: uuid
  rn_payload :: json_dict
  rn_status :: notification_status
  rn_scheduled_at :: "instant option"
  rn_created_at :: instant

definition to_notification_response :: "notification_row \<Rightarrow> notification_response" where
  "to_notification_response n = \<lparr>rn_id = ntf_id n, rn_topic_id = ntf_topic_id n,
     rn_payload = ntf_payload n, rn_status = ntf_status n, rn_scheduled_at = ntf_scheduled_at n,
     rn_created_at = ntf_created_at n\<rparr>"

record create_request =
  cr_topic_id :: uuid
  cr_payload :: json_dict
  cr_scheduled_at :: "py_datetime option"
  cr_idempotency_key :: "string option"

definition create_request_ok :: "create_request \<Rightarrow> bool" where
  "create_request_ok r = (case cr_idempotency_key r of
     None \<Rightarrow> True | Some k \<Rightarrow> 1 \<le> length k \<and> length k \<le> 128)"

definition api_create_notification ::
  "notifications_settings \<Rightarrow> string option \<Rightarrow> string \<Rightarrow> create_request \<Rightarrow> notifications_world \<Rightarrow>
   notification_response reply \<times> notifications_world" where
  "api_create_notification settings x_user_id request_id r = endpoint
     (and_then (lift (current_user_id x_user_id)) (\<lambda>user_id.
      if \<not> create_request_ok r then raise invalid_request
      else and_then (create_notification settings user_id (cr_topic_id r) (cr_payload r)
             (cr_scheduled_at r) (cr_idempotency_key r) request_id) (\<lambda>(notification, created).
        ret (if created then 201 else 200, to_notification_response notification))))"

definition api_list_my_notifications ::
  "readers \<Rightarrow> string option \<Rightarrow> int \<Rightarrow> string option \<Rightarrow> string option \<Rightarrow> uuid option \<Rightarrow>
   notifications_world \<Rightarrow> (notification_response list \<times> string option) reply \<times> notifications_world" where
  "api_list_my_notifications readers x_user_id limit cursor status topic_id = endpoint
     (and_then (lift (current_user_id x_user_id)) (\<lambda>user_id.
      and_then (lift (page_limit 200 limit)) (\<lambda>n.
      and_then (list_my_notifications readers user_id n cursor status topic_id) (\<lambda>(rows, next_cursor).
        ret (200, (map to_notification_response rows, next_cursor))))))"

definition api_get_notification ::
  "string option \<Rightarrow> string \<Rightarrow> string \<Rightarrow> notifications_world \<Rightarrow>
   notification_response reply \<times> notifications_world" where
  "api_get_notification x_user_id x_user_roles notification_id = endpoint
     (and_then (lift (current_user_id x_user_id)) (\<lambda>user_id.
      and_then (lift (path_uuid notification_id)) (\<lambda>x.
      and_then (get_notification x user_id (current_roles x_user_roles)) (\<lambda>notification.
        ret (200, to_notification_response notification)))))"

definition api_cancel_notification ::
  "string option \<Rightarrow> string \<Rightarrow> string \<Rightarrow> notifications_world \<Rightarrow>
   notification_response reply \<times> notifications_world" where
  "api_cancel_notification x_user_id x_user_roles notification_id = endpoint
     (and_then (lift (current_user_id x_user_id)) (\<lambda>user_id.
      and_then (lift (path_uuid notification_id)) (\<lambda>x.
      and_then (cancel_notification x user_id (current_roles x_user_roles)) (\<lambda>notification.
        ret (200, to_notification_response notification)))))"

end
