(* ===== verification/Batches.thy ===== *)
theory Batches
  imports Prelude
begin

text \<open>
  The interface of a queue that a process drains in batches, as the scheduler and the outbox
  publisher do: one step takes the first \<open>size\<close> waiting items, in order, and records what it
  did with them. Enough steps then leave nothing waiting and have handled every item once.
\<close>

locale batch_queue =
  fixes ok :: "'s \<Rightarrow> bool" and waiting :: "'s \<Rightarrow> 'a list" and handled :: "'s \<Rightarrow> 'b list"
    and size :: "'s \<Rightarrow> nat" and step :: "'s \<Rightarrow> 's" and outcome :: "'a \<Rightarrow> 'b"
  assumes step_ok: "ok s \<Longrightarrow> ok (step s)"
    and step_size: "ok s \<Longrightarrow> size (step s) = size s"
    and step_waiting: "ok s \<Longrightarrow> waiting (step s) = drop (size s) (waiting s)"
    and step_handled: "ok s \<Longrightarrow> handled (step s) = handled s @ map outcome (take (size s) (waiting s))"
begin

lemma steps:
  assumes "ok s"
  shows "ok ((step ^^ k) s) \<and> size ((step ^^ k) s) = size s \<and>
    waiting ((step ^^ k) s) = drop (k * size s) (waiting s) \<and>
    handled ((step ^^ k) s) = handled s @ map outcome (take (k * size s) (waiting s))"
proof (induction k)
  case 0
  with assms show ?case by simp
next
  case (Suc k)
  let ?t = "(step ^^ k) s"
  from Suc have t: "ok ?t" "size ?t = size s" "waiting ?t = drop (k * size s) (waiting s)"
      "handled ?t = handled s @ map outcome (take (k * size s) (waiting s))"
    by simp_all
  have "take (k * size s) xs @ take (size s) (drop (k * size s) xs) = take (size s + k * size s) xs"
    for xs :: "'a list"
    by (metis add.commute take_add)
  then have "map outcome (take (k * size s) (waiting s)) @
      map outcome (take (size s) (drop (k * size s) (waiting s))) =
      map outcome (take (size s + k * size s) (waiting s))"
    by (simp only: map_append [symmetric])
  with t show ?case
    by (simp add: step_ok step_size step_waiting step_handled)
qed

lemma drained:
  assumes "ok s" and "length (waiting s) \<le> k * size s"
  shows "waiting ((step ^^ k) s) = [] \<and> handled ((step ^^ k) s) = handled s @ map outcome (waiting s)"
  using steps [OF assms(1), of k] assms(2) by simp

end

section \<open>A batch of a sorted selection\<close>

lemma filter_not_take:
  assumes "distinct ys"
  shows "filter (\<lambda>y. y \<notin> set (take n ys)) ys = drop n ys"
proof -
  have "set (take n ys) \<inter> set (drop n ys) = {}" using assms by (simp add: set_take_disj_set_drop_if_distinct)
  then have "filter (\<lambda>y. y \<notin> set (take n ys)) (take n ys @ drop n ys) = drop n ys"
    by (auto simp: filter_empty_conv filter_id_conv simp del: append_take_drop_id)
  then show ?thesis by simp
qed

lemma sort_key_without_batch:
  assumes "distinct xs"
  shows "sort_key k (filter (\<lambda>x. x \<notin> set (take n (sort_key k xs))) xs) = drop n (sort_key k xs)"
  using filter_not_take [of "sort_key k xs" n] assms by (simp add: filter_sort)

lemma filter_take:
  assumes "distinct ys"
  shows "filter (\<lambda>y. y \<in> set (take n ys)) ys = take n ys"
proof -
  have "set (take n ys) \<inter> set (drop n ys) = {}" using assms by (simp add: set_take_disj_set_drop_if_distinct)
  then have "filter (\<lambda>y. y \<in> set (take n ys)) (take n ys @ drop n ys) = take n ys"
    by (auto simp: filter_empty_conv filter_id_conv simp del: append_take_drop_id)
  then show ?thesis by simp
qed

lemma sort_key_of_batch:
  assumes "distinct xs"
  shows "sort_key k (filter (\<lambda>x. x \<in> set (take n (sort_key k xs))) xs) = take n (sort_key k xs)"
  using filter_take [of "sort_key k xs" n] assms by (simp add: filter_sort)

lemma insort_key_map:
  "(\<And>x. k (f x) = k x) \<Longrightarrow> insort_key k (f x) (map f xs) = map f (insort_key k x xs)"
  by (induction xs) auto

lemma sort_key_map: "(\<And>x. k (f x) = k x) \<Longrightarrow> sort_key k (map f xs) = map f (sort_key k xs)"
  by (induction xs) (simp_all add: insort_key_map)

end
