(* ===== verification/Notifications_Laws.thy ===== *)
theory Notifications_Laws
  imports Notifications_Service Batches
begin

text \<open>
  What the notifications service promises: one notification for an idempotency key, one outbox
  event for every notification that is announced and none for the others, and a scheduler and a
  publisher that work off what is due.
\<close>

section \<open>The publisher\<close>

definition event_message :: "outbox_event \<Rightarrow> string \<times> json_dict \<times> (string \<times> string) list" where
  "event_message e = (obx_event_type e, obx_payload e, obx_headers e)"

definition on_event :: "uuid \<Rightarrow> (outbox_event \<Rightarrow> outbox_event) \<Rightarrow> notifications_db \<Rightarrow> notifications_db" where
  "on_event x f d = d\<lparr>ndb_outbox := update_where (\<lambda>e. obx_id e = x) f (ndb_outbox d)\<rparr>"

definition after_publish :: "notifications_world \<Rightarrow> outbox_event \<Rightarrow> outbox_event" where
  "after_publish w = (case nw_refusal w (nw_tries w) of
     None \<Rightarrow> set_published (cw_now w) | Some m \<Rightarrow> set_publish_failed m)"

definition published_step :: "outbox_event \<Rightarrow> notifications_world \<Rightarrow> notifications_world" where
  "published_step e w = w\<lparr>nw_tries := Suc (nw_tries w), nw_timers := Suc (nw_timers w),
     nw_published := nw_published w @
       (if nw_refusal w (nw_tries w) = None then [event_message e] else []),
     cw_db := on_event (obx_id e) (after_publish w) (cw_db w),
     nw_metrics := observe_outbox_publish_latency (nw_elapsed w (nw_timers w))
       (nw_refusal w (nw_tries w) \<noteq> None) (nw_metrics w)\<rparr>"

lemma publish_event_run:
  "cw_tx w \<noteq> Tx_Failed \<Longrightarrow> publish_event e w = (Inr (), published_step e w)"
  by (cases "nw_refusal w (nw_tries w)")
    (simp_all add: publish_event_def publish_message_def mark_published_def mark_publish_failed_def
      update_event_def eff_simps published_step_def after_publish_def event_message_def
      exception_text_def on_event_def Let_def)

lemma published_step_simps [simp]:
  "cw_tx (published_step e w) = cw_tx w" "cw_now (published_step e w) = cw_now w"
  "nw_refusal (published_step e w) = nw_refusal w" "nw_locked (published_step e w) = nw_locked w"
  "nw_tries (published_step e w) = Suc (nw_tries w)" "cw_uuids (published_step e w) = cw_uuids w"
  "cw_drawn (published_step e w) = cw_drawn w" "nw_clock (published_step e w) = nw_clock w"
  "ndb_notifications (cw_db (published_step e w)) = ndb_notifications (cw_db w)"
  by (simp_all add: published_step_def on_event_def)

lemma for_each_publish:
  "cw_tx w \<noteq> Tx_Failed \<Longrightarrow> for_each publish_event es w = (Inr (), fold published_step es w)"
  by (induction es arbitrary: w) (simp_all add: seq_run ret_run publish_event_run)

lemma fold_published_simps [simp]:
  "cw_tx (fold published_step es w) = cw_tx w" "cw_now (fold published_step es w) = cw_now w"
  "nw_refusal (fold published_step es w) = nw_refusal w"
  "nw_locked (fold published_step es w) = nw_locked w"
  "nw_tries (fold published_step es w) = nw_tries w + length es"
  "cw_uuids (fold published_step es w) = cw_uuids w" "cw_drawn (fold published_step es w) = cw_drawn w"
  "nw_clock (fold published_step es w) = nw_clock w"
  "ndb_notifications (cw_db (fold published_step es w)) = ndb_notifications (cw_db w)"
  by (induction es arbitrary: w) simp_all

definition selected_events :: "nat \<Rightarrow> notifications_world \<Rightarrow> outbox_event list" where
  "selected_events n w = select_page (\<lambda>e. obx_published_at e = None \<and> \<not> nw_locked w (obx_id e))
     obx_created_at n (ndb_outbox (cw_db w))"

definition unpublished_count :: "notifications_db \<Rightarrow> int" where
  "unpublished_count d = int (length (filter (\<lambda>e. obx_published_at e = None) (ndb_outbox d)))"

lemma publish_batch_run:
  assumes "cw_tx w = Tx_None"
  shows "publish_batch s w = (Inr (), (let w' = fold published_step
      (selected_events (ns_outbox_batch_size s) w) (w\<lparr>cw_tx := Tx_Open\<rparr>)
    in w'\<lparr>cw_tx := Tx_None, nw_metrics := set_outbox_unpublished_count (unpublished_count (cw_db w'))
          (nw_metrics w')\<rparr>))"
  using assms
  by (simp add: publish_batch_def transaction_def lock_unpublished_batch_def count_unpublished_def
      eff_simps for_each_publish selected_events_def unpublished_count_def Let_def)

text \<open>The rows and the messages after a run over distinct events.\<close>

definition accepted :: "notifications_world \<Rightarrow> nat \<Rightarrow> bool" where
  "accepted w i \<longleftrightarrow> nw_refusal w (nw_tries w + i) = None"

definition published_row :: "notifications_world \<Rightarrow> nat \<Rightarrow> outbox_event \<Rightarrow> outbox_event" where
  "published_row w i e = (case nw_refusal w (nw_tries w + i) of
     None \<Rightarrow> set_published (cw_now w) e | Some m \<Rightarrow> set_publish_failed m e)"

fun published_rows :: "notifications_world \<Rightarrow> nat \<Rightarrow> outbox_event list \<Rightarrow> outbox_event \<Rightarrow> outbox_event" where
  "published_rows w i [] e = e"
| "published_rows w i (x # xs) e =
     (if obx_id e = obx_id x then published_row w i e else published_rows w (Suc i) xs e)"

fun accepted_messages :: "notifications_world \<Rightarrow> nat \<Rightarrow> outbox_event list \<Rightarrow>
    (string \<times> json_dict \<times> (string \<times> string) list) list" where
  "accepted_messages w i [] = []"
| "accepted_messages w i (x # xs) =
     (if accepted w i then [event_message x] else []) @ accepted_messages w (Suc i) xs"

lemma set_rows_id [simp]:
  "obx_id (set_published t e) = obx_id e" "obx_id (set_publish_failed m e) = obx_id e"
  "obx_id (published_row w i e) = obx_id e"
  by (simp_all add: set_published_def set_publish_failed_def published_row_def split: option.split)

lemma event_content [simp]:
  "event_message (set_published t e) = event_message e"
  "event_message (set_publish_failed m e) = event_message e"
  "obx_aggregate_id (set_published t e) = obx_aggregate_id e"
  "obx_aggregate_id (set_publish_failed m e) = obx_aggregate_id e"
  "obx_created_at (set_published t e) = obx_created_at e"
  "obx_created_at (set_publish_failed m e) = obx_created_at e"
  "obx_event_type (set_published t e) = obx_event_type e"
  "obx_event_type (set_publish_failed m e) = obx_event_type e"
  "obx_payload (set_published t e) = obx_payload e"
  "obx_payload (set_publish_failed m e) = obx_payload e"
  "obx_published_at (set_published t e) = Some t"
  "obx_published_at (set_publish_failed m e) = obx_published_at e"
  by (simp_all add: set_published_def set_publish_failed_def event_message_def)

lemma shift_tries:
  assumes "nw_refusal v = nw_refusal w" and "nw_tries v = Suc (nw_tries w)" and "cw_now v = cw_now w"
  shows "published_rows v i es = published_rows w (Suc i) es"
    and "accepted_messages v i es = accepted_messages w (Suc i) es"
proof -
  have "published_rows v i es e = published_rows w (Suc i) es e" for i e
    using assms by (induction es arbitrary: i) (simp_all add: published_row_def split: option.split)
  then show "published_rows v i es = published_rows w (Suc i) es" by auto
  show "accepted_messages v i es = accepted_messages w (Suc i) es"
    using assms by (induction es arbitrary: i) (simp_all add: accepted_def)
qed

lemma shift_rows:
  assumes "nw_refusal v = nw_refusal w" and "nw_tries v = nw_tries w" and "cw_now v = cw_now w"
  shows "published_rows v i es = published_rows w i es"
    and "accepted_messages v i es = accepted_messages w i es"
proof -
  have "published_rows v i es e = published_rows w i es e" for i e
    using assms by (induction es arbitrary: i) (simp_all add: published_row_def split: option.split)
  then show "published_rows v i es = published_rows w i es" by auto
  show "accepted_messages v i es = accepted_messages w i es"
    using assms by (induction es arbitrary: i) (simp_all add: accepted_def)
qed

lemma published_rows_other:
  "obx_id e \<notin> obx_id ` set es \<Longrightarrow> published_rows w i es e = e"
  by (induction es arbitrary: i) auto

lemma published_step_rows: "ndb_outbox (cw_db (published_step x w)) =
    map (\<lambda>e. if obx_id e = obx_id x then published_row w 0 e else e) (ndb_outbox (cw_db w))"
  by (simp add: published_step_def on_event_def after_publish_def published_row_def update_where_def
      split: option.split)

lemma fold_published_rows:
  assumes "distinct (map obx_id es)"
  shows "ndb_outbox (cw_db (fold published_step es w)) =
    map (published_rows w 0 es) (ndb_outbox (cw_db w))"
  using assms
proof (induction es arbitrary: w)
  case Nil
  show ?case by simp
next
  case (Cons x xs)
  then have fixed: "published_rows w (Suc 0) xs (published_row w 0 e) = published_row w 0 e"
    if "obx_id e = obx_id x" for e
    using that by (intro published_rows_other) auto
  have "published_rows (published_step x w) 0 xs = published_rows w (Suc 0) xs"
    by (rule shift_tries) simp_all
  with Cons show ?case by (simp add: published_step_rows fixed)
qed

lemma fold_published_log:
  "nw_published (fold published_step es w) = nw_published w @ accepted_messages w 0 es"
proof (induction es arbitrary: w)
  case Nil
  show ?case by simp
next
  case (Cons x xs)
  have "accepted_messages (published_step x w) 0 xs = accepted_messages w (Suc 0) xs"
    by (rule shift_tries) simp_all
  with Cons show ?case by (simp add: accepted_def) (simp add: published_step_def)
qed

section \<open>What one pass of the publisher does\<close>

definition unpublished :: "notifications_db \<Rightarrow> outbox_event list" where
  "unpublished d = sort_key obx_created_at (filter (\<lambda>e. obx_published_at e = None) (ndb_outbox d))"

lemma publish_batch_effect:
  fixes s :: notifications_settings
  assumes "cw_tx w = Tx_None" and "distinct (map obx_id (ndb_outbox (cw_db w)))"
  defines "batch \<equiv> selected_events (ns_outbox_batch_size s) w"
  shows "\<exists>w'. publish_batch s w = (Inr (), w') \<and> cw_tx w' = Tx_None \<and>
    ndb_notifications (cw_db w') = ndb_notifications (cw_db w) \<and>
    ndb_outbox (cw_db w') = map (published_rows w 0 batch) (ndb_outbox (cw_db w)) \<and>
    nw_published w' = nw_published w @ accepted_messages w 0 batch \<and>
    nw_tries w' = nw_tries w + length batch \<and> nw_refusal w' = nw_refusal w \<and>
    nw_locked w' = nw_locked w \<and> cw_now w' = cw_now w \<and> cw_uuids w' = cw_uuids w \<and>
    cw_drawn w' = cw_drawn w \<and> nw_clock w' = nw_clock w"
proof -
  have "distinct (map obx_id batch)"
    using assms(2) unfolding batch_def selected_events_def select_page_def
    by (auto simp: take_map [symmetric] distinct_map inj_on_def dest!: in_set_takeD)
  then show ?thesis
    using assms(1) fold_published_rows [of batch "w\<lparr>cw_tx := Tx_Open\<rparr>"]
      fold_published_log [of batch "w\<lparr>cw_tx := Tx_Open\<rparr>"]
      shift_rows [of "w\<lparr>cw_tx := Tx_Open\<rparr>" w]
    by (simp add: publish_batch_run batch_def [symmetric] Let_def)
qed

lemma accepted_all:
  assumes "\<forall>i. nw_refusal w i = None"
  shows "accepted_messages w i es = map event_message es"
    and "published_rows w i es e = (if obx_id e \<in> obx_id ` set es then set_published (cw_now w) e else e)"
  using assms by (induction es arbitrary: i) (auto simp: accepted_def published_row_def)

text \<open>While every message is taken and nothing is locked, the outbox is a queue.\<close>

definition calm_outbox :: "notifications_world \<Rightarrow> bool" where
  "calm_outbox w \<longleftrightarrow> cw_tx w = Tx_None \<and> distinct (map obx_id (ndb_outbox (cw_db w))) \<and>
     (\<forall>i. nw_refusal w i = None) \<and> (\<forall>x. \<not> nw_locked w x)"

lemma distinct_ids: "distinct (map k xs) \<Longrightarrow> distinct xs"
  by (simp add: distinct_map)

lemma calm_batch:
  assumes "calm_outbox w"
  shows "selected_events n w = take n (unpublished (cw_db w))"
  using assms by (simp add: calm_outbox_def selected_events_def select_page_def unpublished_def)

lemma unpublished_after:
  assumes "calm_outbox w"
    and "ndb_outbox d = map (published_rows w 0 (take n (unpublished (cw_db w)))) (ndb_outbox (cw_db w))"
  shows "unpublished d = drop n (unpublished (cw_db w))"
proof -
  let ?rows = "ndb_outbox (cw_db w)" and ?b = "take n (unpublished (cw_db w))"
  let ?open = "\<lambda>e. obx_published_at e = None"
  have ids: "distinct (map obx_id ?rows)" and taken: "\<forall>i. nw_refusal w i = None"
    using assms(1) by (simp_all add: calm_outbox_def)
  have b: "set ?b \<subseteq> set ?rows" by (auto simp: unpublished_def dest: in_set_takeD)
  have hit: "obx_id e \<in> obx_id ` set ?b \<longleftrightarrow> e \<in> set ?b" if "e \<in> set ?rows" for e
    using that b by (auto dest: key_unique [OF ids])
  have "filter ?open (map (\<lambda>e. if obx_id e \<in> obx_id ` set ?b then set_published (cw_now w) e else e) xs) =
      filter (\<lambda>e. e \<notin> set ?b) (filter ?open xs)" if "set xs \<subseteq> set ?rows" for xs
    using that by (induction xs) (auto simp: hit)
  then have "filter ?open (ndb_outbox d) = filter (\<lambda>e. e \<notin> set ?b) (filter ?open ?rows)"
    by (simp add: assms(2) accepted_all(2) [OF taken] cong: map_cong)
  then show ?thesis
    using sort_key_without_batch [of "filter ?open ?rows" obx_created_at n] distinct_ids [OF ids]
    by (simp add: unpublished_def)
qed

lemma published_rows_id [simp]: "obx_id (published_rows w i es e) = obx_id e"
  by (induction es arbitrary: i) auto

lemma published_rows_ids [simp]: "obx_id \<circ> published_rows w i es = obx_id"
  by (rule ext) simp

lemma calm_publish_batch:
  assumes "calm_outbox w"
  shows "\<exists>w'. publish_batch s w = (Inr (), w') \<and> calm_outbox w' \<and>
    unpublished (cw_db w') = drop (ns_outbox_batch_size s) (unpublished (cw_db w)) \<and>
    nw_published w' = nw_published w @
      map event_message (take (ns_outbox_batch_size s) (unpublished (cw_db w)))"
proof -
  let ?n = "ns_outbox_batch_size s"
  have tx: "cw_tx w = Tx_None" and ids: "distinct (map obx_id (ndb_outbox (cw_db w)))"
    and taken: "\<forall>i. nw_refusal w i = None"
    using assms by (simp_all add: calm_outbox_def)
  from publish_batch_effect [OF tx ids, of s, unfolded calm_batch [OF assms]]
  obtain w' where w': "publish_batch s w = (Inr (), w')" "cw_tx w' = Tx_None"
      "ndb_outbox (cw_db w') = map (published_rows w 0 (take ?n (unpublished (cw_db w)))) (ndb_outbox (cw_db w))"
      "nw_published w' = nw_published w @ accepted_messages w 0 (take ?n (unpublished (cw_db w)))"
      "nw_refusal w' = nw_refusal w" "nw_locked w' = nw_locked w" by blast
  then have "calm_outbox w'" using assms by (simp add: calm_outbox_def)
  with w' show ?thesis using unpublished_after [OF assms w'(3)] by (simp add: accepted_all(1) [OF taken])
qed

interpretation publisher: batch_queue
  "\<lambda>(s, w). calm_outbox w" "\<lambda>(s, w). unpublished (cw_db w)" "\<lambda>(s, w). nw_published w"
  "\<lambda>(s, w). ns_outbox_batch_size s" "\<lambda>(s, w). (s, snd (publish_batch s w))" event_message
proof (unfold_locales, goal_cases)
  case (1 s)
  then show ?case using calm_publish_batch [of "snd s" "fst s"] by (cases s) auto
next
  case (2 s)
  then show ?case by (cases s) simp
next
  case (3 s)
  then show ?case using calm_publish_batch [of "snd s" "fst s"] by (cases s) auto
next
  case (4 s)
  then show ?case using calm_publish_batch [of "snd s" "fst s"] by (cases s) auto
qed

section \<open>The scheduler\<close>

definition queued_event :: "string \<Rightarrow> instant \<Rightarrow> uuid \<Rightarrow> notification_row \<Rightarrow> outbox_event" where
  "queued_event request_id now event_id n =
     \<lparr>obx_id = event_id, obx_aggregate_type = ''notification'', obx_aggregate_id = ntf_id n,
      obx_event_type = created_event_type, obx_payload = created_event event_id n,
      obx_headers = [(''request_id'', request_id), (''user_id'', str_uuid (ntf_created_by n)),
        (''source'', ''notifications-scheduler'')],
      obx_created_at = now, obx_published_at = None, obx_publish_attempts = 0, obx_last_error = None\<rparr>"

fun queued_events ::
  "string \<Rightarrow> instant \<Rightarrow> (nat \<Rightarrow> uuid) \<Rightarrow> nat \<Rightarrow> notification_row list \<Rightarrow> outbox_event list" where
  "queued_events rid now ids k [] = []"
| "queued_events rid now ids k (n # ns) =
     queued_event rid now (ids k) n # queued_events rid now ids (Suc k) ns"

definition with_events :: "string \<Rightarrow> notification_row list \<Rightarrow> notifications_world \<Rightarrow> notifications_world" where
  "with_events rid ns w = w\<lparr>cw_drawn := cw_drawn w + length ns,
     cw_db := (cw_db w)\<lparr>ndb_outbox := ndb_outbox (cw_db w) @
       queued_events rid (cw_now w) (cw_uuids w) (cw_drawn w) ns\<rparr>\<rparr>"

lemma queued_event_simps [simp]:
  "obx_id (queued_event rid now x n) = x" "obx_aggregate_id (queued_event rid now x n) = ntf_id n"
  "obx_published_at (queued_event rid now x n) = None"
  "obx_event_type (queued_event rid now x n) = created_event_type"
  "obx_payload (queued_event rid now x n) = created_event x n"
  by (simp_all add: queued_event_def)

lemma length_queued_events [simp]: "length (queued_events rid now ids k ns) = length ns"
  by (induction ns arbitrary: k) auto

lemma aggregates_queued [simp]: "map obx_aggregate_id (queued_events rid now ids k ns) = map ntf_id ns"
  by (induction ns arbitrary: k) auto

lemma ids_queued: "map obx_id (queued_events rid now ids k ns) = map ids [k..<k + length ns]"
proof (induction ns arbitrary: k)
  case Nil
  show ?case by simp
next
  case (Cons n ns)
  have "[k..<k + length (n # ns)] = k # [Suc k..<Suc k + length ns]"
    by (simp add: upt_conv_Cons del: upt_Suc)
  then show ?case by (simp add: Cons del: upt_Suc)
qed

lemma queue_event_run:
  assumes "cw_tx w = Tx_Open"
  shows "queue_event rid n w = (if cw_uuids w (cw_drawn w) \<in> obx_id ` set (ndb_outbox (cw_db w))
    then (Inl unique_violation, w\<lparr>cw_drawn := Suc (cw_drawn w), cw_tx := Tx_Failed\<rparr>)
    else (Inr (), with_events rid [n] w))"
  using assms
  by (simp add: queue_event_def create_event_def insert_event_def eff_simps with_events_def
      queued_event_def)

lemma with_events_simps [simp]:
  "cw_tx (with_events rid ns w) = cw_tx w" "cw_now (with_events rid ns w) = cw_now w"
  "cw_uuids (with_events rid ns w) = cw_uuids w"
  "cw_drawn (with_events rid ns w) = cw_drawn w + length ns"
  "with_events rid [] w = w"
  by (simp_all add: with_events_def)

lemma with_events_Cons: "with_events rid ns (with_events rid [n] w) = with_events rid (n # ns) w"
  by (simp add: with_events_def)

lemma for_each_queue:
  fixes rid :: string
  assumes "cw_tx w = Tx_Open" and "distinct (map obx_id (ndb_outbox (cw_db w)))"
  defines "evs \<equiv> \<lambda>w ns. queued_events rid (cw_now w) (cw_uuids w) (cw_drawn w) ns"
  shows "(distinct (map obx_id (ndb_outbox (cw_db w) @ evs w ns)) \<longrightarrow>
      for_each (queue_event rid) ns w = (Inr (), with_events rid ns w)) \<and>
    (\<not> distinct (map obx_id (ndb_outbox (cw_db w) @ evs w ns)) \<longrightarrow>
      fst (for_each (queue_event rid) ns w) = Inl unique_violation)"
  using assms(1,2)
proof (induction ns arbitrary: w)
  case Nil
  then show ?case by (simp add: ret_run evs_def)
next
  case (Cons n ns)
  let ?x = "cw_uuids w (cw_drawn w)" and ?v = "with_events rid [n] w"
  show ?case
  proof (cases "?x \<in> obx_id ` set (ndb_outbox (cw_db w))")
    case True
    with Cons.prems show ?thesis by (auto simp: seq_run queue_event_run evs_def)
  next
    case False
    have v: "ndb_outbox (cw_db ?v) @ evs ?v ns = ndb_outbox (cw_db w) @ evs w (n # ns)"
      by (simp add: evs_def with_events_def)
    have "distinct (map obx_id (ndb_outbox (cw_db ?v)))"
      using False Cons.prems(2) by (simp add: with_events_def)
    from Cons.IH [OF _ this] Cons.prems(1) show ?thesis
      using False by (simp add: seq_run queue_event_run v with_events_Cons)
  qed
qed

definition due_selection :: "nat \<Rightarrow> notifications_world \<Rightarrow> notification_row list" where
  "due_selection n w = select_page (\<lambda>r. due_at (cw_now w) r \<and> \<not> nw_locked w (ntf_id r)) schedule_key n
     (ndb_notifications (cw_db w))"

definition queued_db :: "notification_row list \<Rightarrow> instant \<Rightarrow> notifications_db \<Rightarrow> notifications_db" where
  "queued_db ns now d = d\<lparr>ndb_notifications :=
     update_where (\<lambda>r. r \<in> set ns) (set_status Ntf_Queued now) (ndb_notifications d)\<rparr>"

lemma set_status_simps [simp]:
  "ntf_id (set_status s now n) = ntf_id n" "ntf_status (set_status s now n) = s"
  "ntf_created_by (set_status s now n) = ntf_created_by n"
  "ntf_idempotency_key (set_status s now n) = ntf_idempotency_key n"
  "ntf_scheduled_at (set_status s now n) = ntf_scheduled_at n"
  "schedule_key (set_status s now n) = schedule_key n"
  "created_event x (set_status s now n) = created_event x n"
  by (simp_all add: set_status_def schedule_key_def created_event_def)

lemma mark_queued_run:
  fixes n :: nat
  assumes "cw_tx w = Tx_Open" and "distinct (map ntf_id (ndb_notifications (cw_db w)))"
  defines "ns \<equiv> due_selection n w"
  shows "mark_queued_by_ids (map ntf_id ns) w = (Inr (map (set_status Ntf_Queued (cw_now w)) ns),
    w\<lparr>cw_db := queued_db ns (cw_now w) (cw_db w)\<rparr>)"
proof -
  let ?rows = "ndb_notifications (cw_db w)"
  let ?p = "\<lambda>r. due_at (cw_now w) r \<and> \<not> nw_locked w (ntf_id r)"
  have ns: "ns = take n (sort_key schedule_key (filter ?p ?rows))"
    by (simp add: ns_def due_selection_def select_page_def)
  have sub: "set ns \<subseteq> set ?rows" "\<forall>r \<in> set ns. ?p r" by (auto simp: ns dest: in_set_takeD)
  have hit: "ntf_id r \<in> set (map ntf_id ns) \<and> ntf_status r = Ntf_Scheduled \<longleftrightarrow> r \<in> set ns"
    if "r \<in> set ?rows" for r
    using that sub key_unique [OF assms(2)] by (auto simp: due_at_def)
  have "filter (\<lambda>r. r \<in> set ns) ?rows = filter (\<lambda>r. r \<in> set ns) (filter ?p ?rows)"
    using sub(2) by (auto intro: filter_cong)
  moreover have "distinct (filter ?p ?rows)" using assms(2) by (simp add: distinct_map)
  ultimately have sorted: "sort_key schedule_key (filter (\<lambda>r. r \<in> set ns) ?rows) = ns"
    using sort_key_of_batch [of "filter ?p ?rows" schedule_key n] ns by simp
  have "filter (\<lambda>r. ntf_id r \<in> set (map ntf_id ns) \<and> ntf_status r = Ntf_Scheduled) ?rows =
      filter (\<lambda>r. r \<in> set ns) ?rows"
    using hit by (intro filter_cong) auto
  moreover have "update_where (\<lambda>r. ntf_id r \<in> set (map ntf_id ns) \<and> ntf_status r = Ntf_Scheduled) f ?rows =
      update_where (\<lambda>r. r \<in> set ns) f ?rows" for f
    unfolding update_where_def using hit by (intro map_cong) auto
  moreover have "w\<lparr>cw_db := queued_db [] (cw_now w) (cw_db w)\<rparr> = w"
    by (simp add: queued_db_def update_where_def)
  ultimately show ?thesis
    using assms(1) sorted
    by (cases "ns = []") (simp_all add: mark_queued_by_ids_def queue_rows_def Let_def eff_simps
        sort_key_map queued_db_def)
qed

definition queued_by :: "nat \<Rightarrow> notifications_world \<Rightarrow> notification_row list" where
  "queued_by n w = map (set_status Ntf_Queued (cw_now w)) (due_selection n w)"

definition tick_events :: "string \<Rightarrow> nat \<Rightarrow> notifications_world \<Rightarrow> outbox_event list" where
  "tick_events rid n w =
     queued_events rid (cw_now w) (cw_uuids w) (cw_drawn w) (due_selection n w)"

definition ticked :: "string \<Rightarrow> nat \<Rightarrow> notifications_world \<Rightarrow> notifications_world" where
  "ticked rid n w = w\<lparr>cw_drawn := cw_drawn w + length (due_selection n w),
     cw_db := (queued_db (due_selection n w) (cw_now w) (cw_db w))\<lparr>ndb_outbox :=
       ndb_outbox (cw_db w) @ tick_events rid n w\<rparr>\<rparr>"

lemma queued_events_set_status:
  "queued_events rid now ids k (map (set_status s t) ns) = queued_events rid now ids k ns"
proof -
  have "queued_event rid now x (set_status s t n) = queued_event rid now x n" for x n
    by (simp add: queued_event_def)
  then show ?thesis by (induction ns arbitrary: k) auto
qed

lemma tick_transaction_run:
  fixes s :: notifications_settings and rid :: string
  assumes "cw_tx w = Tx_None" and "distinct (map ntf_id (ndb_notifications (cw_db w)))"
    and "distinct (map obx_id (ndb_outbox (cw_db w)))"
  defines "n \<equiv> ns_scheduler_batch_size s"
  shows "(distinct (map obx_id (ndb_outbox (cw_db w) @ tick_events rid n w)) \<longrightarrow>
      tick_transaction s rid w = (Inr (queued_by n w), ticked rid n w)) \<and>
    (\<not> distinct (map obx_id (ndb_outbox (cw_db w) @ tick_events rid n w)) \<longrightarrow>
      (\<exists>w'. tick_transaction s rid w = (Inl unique_violation, w') \<and> cw_db w' = cw_db w \<and> cw_tx w' = Tx_None))"
proof -
  let ?w = "w\<lparr>cw_tx := Tx_Open\<rparr>" and ?ns = "due_selection n w"
  have sel: "due_selection n ?w = ?ns" by (simp add: due_selection_def)
  let ?v = "?w\<lparr>cw_db := queued_db ?ns (cw_now w) (cw_db w)\<rparr>"
  have lock: "lock_due_scheduled_batch n ?w = (Inr ?ns, ?w)"
    by (simp add: lock_due_scheduled_batch_def eff_simps due_selection_def)
  have mark: "mark_queued_by_ids (map ntf_id ?ns) ?w = (Inr (queued_by n w), ?v)"
    using mark_queued_run [of ?w n] assms(2) by (simp add: sel queued_by_def)
  have evs: "queued_events rid (cw_now ?v) (cw_uuids ?v) (cw_drawn ?v) (queued_by n w) = tick_events rid n w"
    by (simp add: queued_by_def queued_events_set_status tick_events_def)
  have outbox: "ndb_outbox (cw_db ?v) = ndb_outbox (cw_db w)" by (simp add: queued_db_def)
  have body: "tick_transaction s rid w = transaction (\<lambda>u.
      seq (for_each (queue_event rid) (queued_by n w)) (ret (queued_by n w)) ?v) w"
    by (simp add: tick_transaction_def transaction_def and_then_run lock [unfolded n_def]
        mark [unfolded n_def] n_def)
  have run: "with_events rid (queued_by n w) ?v = (ticked rid n w)\<lparr>cw_tx := Tx_Open\<rparr>"
    using evs by (simp add: with_events_def ticked_def queued_db_def queued_by_def)
  have same: "(ticked rid n w)\<lparr>cw_tx := Tx_None\<rparr> = ticked rid n w"
    using assms(1) by (simp add: ticked_def)
  show ?thesis
    using for_each_queue [of ?v rid "queued_by n w", unfolded evs outbox] assms(3) same
    by (auto simp: body transaction_def seq_run ret_run run split: prod.splits sum.splits)
qed

definition tick_metrics :: "notifications_world \<Rightarrow> int \<Rightarrow> notifications_metrics \<Rightarrow> notifications_metrics" where
  "tick_metrics w picked m = observe_scheduler_tick_duration (nw_elapsed w (nw_timers w))
     (set_scheduled_counts
       (int (length (filter (\<lambda>n. ntf_status n = Ntf_Scheduled) (ndb_notifications (cw_db w)))))
       (int (length (filter (due_at (cw_now w)) (ndb_notifications (cw_db w)))))
       (inc_scheduler_picked picked m))"

lemma run_one_tick_run:
  fixes s :: notifications_settings and rid :: string
  assumes "cw_tx w = Tx_None" and "distinct (map ntf_id (ndb_notifications (cw_db w)))"
    and "distinct (map obx_id (ndb_outbox (cw_db w)))"
  defines "n \<equiv> ns_scheduler_batch_size s"
  assumes fresh: "distinct (map obx_id (ndb_outbox (cw_db w) @ tick_events rid n w))"
  shows "run_one_tick s rid w = (Inr \<lparr>tick_picked = int (length (due_selection n w)),
      tick_due = int (length (filter (due_at (cw_now w)) (ndb_notifications (cw_db (ticked rid n w))))),
      tick_backlog = int (length (filter (\<lambda>r. ntf_status r = Ntf_Scheduled)
        (ndb_notifications (cw_db (ticked rid n w)))))\<rparr>,
    (ticked rid n w)\<lparr>nw_timers := Suc (nw_timers w),
      nw_metrics := tick_metrics (ticked rid n w) (int (length (due_selection n w))) (nw_metrics w)\<rparr>)"
proof -
  have t: "cw_tx (ticked rid n w) = Tx_None" "cw_now (ticked rid n w) = cw_now w"
    "nw_timers (ticked rid n w) = nw_timers w" "nw_metrics (ticked rid n w) = nw_metrics w"
    using assms(1) by (simp_all add: ticked_def)
  have "tick_transaction s rid w = (Inr (queued_by n w), ticked rid n w)"
    using tick_transaction_run [OF assms(1-3), of rid s] fresh by (simp add: n_def)
  then show ?thesis
    by (simp add: run_one_tick_def and_then_run seq_run ret_run t count_scheduled_backlog_def
        count_scheduled_due_def sql_run gets_run observe_run stop_timer_run Let_def tick_metrics_def
        queued_by_def)
qed

text \<open>While nothing is locked and the drawn UUIDs are fresh, the due notifications are a queue.\<close>

definition fresh_uuids :: "notifications_world \<Rightarrow> bool" where
  "fresh_uuids w \<longleftrightarrow> inj (cw_uuids w) \<and>
     (\<forall>i \<ge> cw_drawn w. cw_uuids w i \<notin> obx_id ` set (ndb_outbox (cw_db w)) \<and>
        cw_uuids w i \<notin> ntf_id ` set (ndb_notifications (cw_db w)))"

definition calm_schedule :: "notifications_world \<Rightarrow> bool" where
  "calm_schedule w \<longleftrightarrow> cw_tx w = Tx_None \<and> distinct (map ntf_id (ndb_notifications (cw_db w))) \<and>
     distinct (map obx_id (ndb_outbox (cw_db w))) \<and> (\<forall>x. \<not> nw_locked w x) \<and> fresh_uuids w"

definition due_list :: "notifications_world \<Rightarrow> notification_row list" where
  "due_list w = sort_key schedule_key (filter (due_at (cw_now w)) (ndb_notifications (cw_db w)))"

lemma fresh_draw:
  assumes "fresh_uuids w" and "cw_drawn w \<le> i"
  shows "e \<in> set (ndb_outbox (cw_db w)) \<Longrightarrow> obx_id e \<noteq> cw_uuids w i"
    and "n \<in> set (ndb_notifications (cw_db w)) \<Longrightarrow> ntf_id n \<noteq> cw_uuids w i"
  using assms unfolding fresh_uuids_def by (metis imageI)+

lemma fresh_tick:
  assumes "fresh_uuids w" and "distinct (map obx_id (ndb_outbox (cw_db w)))"
  shows "distinct (map obx_id (ndb_outbox (cw_db w) @ tick_events rid n w))"
proof -
  let ?ids = "map (cw_uuids w) [cw_drawn w..<cw_drawn w + length (due_selection n w)]"
  have "map obx_id (ndb_outbox (cw_db w) @ tick_events rid n w) = map obx_id (ndb_outbox (cw_db w)) @ ?ids"
    by (simp add: tick_events_def ids_queued)
  moreover have "distinct ?ids" using assms(1) by (simp add: fresh_uuids_def distinct_map inj_def inj_on_def)
  moreover have "set (map obx_id (ndb_outbox (cw_db w))) \<inter> set ?ids = {}"
    using fresh_draw [OF assms(1)] by fastforce
  ultimately show ?thesis using assms(2) by simp
qed

lemma calm_selection: "calm_schedule w \<Longrightarrow> due_selection n w = take n (due_list w)"
  by (simp add: calm_schedule_def due_selection_def select_page_def due_list_def)

lemma due_list_after:
  assumes "calm_schedule w"
  shows "due_list (ticked rid n w) = drop n (due_list w)"
proof -
  let ?rows = "ndb_notifications (cw_db w)" and ?ns = "take n (due_list w)" and ?p = "due_at (cw_now w)"
  have "filter ?p (update_where (\<lambda>r. r \<in> set ?ns) (set_status Ntf_Queued (cw_now w)) xs) =
      filter (\<lambda>r. r \<notin> set ?ns) (filter ?p xs)" for xs
    by (induction xs) (auto simp: due_at_def)
  moreover have "distinct (filter ?p ?rows)"
    using assms by (auto simp: calm_schedule_def dest: distinct_ids)
  ultimately show ?thesis
    using sort_key_without_batch [of "filter ?p ?rows" schedule_key n] calm_selection [OF assms, of n]
    by (simp add: due_list_def ticked_def queued_db_def)
qed

lemma calm_scheduler_pass:
  assumes "calm_schedule w"
  shows "\<exists>w'. scheduler_pass s w = (Inr (), w') \<and> calm_schedule w' \<and>
    due_list w' = drop (ns_scheduler_batch_size s) (due_list w) \<and>
    map obx_aggregate_id (ndb_outbox (cw_db w')) = map obx_aggregate_id (ndb_outbox (cw_db w)) @
      map ntf_id (take (ns_scheduler_batch_size s) (due_list w))"
proof -
  let ?n = "ns_scheduler_batch_size s"
  let ?v = "ticked ''scheduler'' ?n w"
  have tx: "cw_tx w = Tx_None" and ids: "distinct (map ntf_id (ndb_notifications (cw_db w)))"
    and eids: "distinct (map obx_id (ndb_outbox (cw_db w)))" and fresh: "fresh_uuids w"
    using assms by (simp_all add: calm_schedule_def)
  have distinct: "distinct (map obx_id (ndb_outbox (cw_db w) @ tick_events ''scheduler'' ?n w))"
    by (rule fresh_tick [OF fresh eids])
  obtain m k where run: "scheduler_pass s w = (Inr (), ?v\<lparr>nw_timers := k, nw_metrics := m\<rparr>)"
    using run_one_tick_run [OF tx ids eids distinct]
    by (simp add: scheduler_pass_def catch_run seq_run ret_run)
  have rows: "map ntf_id (ndb_notifications (cw_db ?v)) = map ntf_id (ndb_notifications (cw_db w))"
    by (simp add: ticked_def queued_db_def map_update_where)
  have evs: "ndb_outbox (cw_db ?v) = ndb_outbox (cw_db w) @ tick_events ''scheduler'' ?n w"
    by (simp add: ticked_def)
  have new: "obx_id ` set (tick_events ''scheduler'' ?n w) =
      cw_uuids w ` {cw_drawn w..<cw_drawn w + length (due_selection ?n w)}"
    using arg_cong [OF ids_queued, of set] by (simp add: tick_events_def)
  have "fresh_uuids ?v"
    unfolding fresh_uuids_def
  proof (intro conjI allI impI)
    show "inj (cw_uuids ?v)" using fresh by (simp add: fresh_uuids_def ticked_def)
    fix i assume i: "i \<ge> cw_drawn ?v"
    then have "i \<ge> cw_drawn w" and "i \<notin> {cw_drawn w..<cw_drawn w + length (due_selection ?n w)}"
      by (simp_all add: ticked_def)
    moreover have "inj (cw_uuids w)" using fresh by (simp add: fresh_uuids_def)
    ultimately show "cw_uuids ?v i \<notin> obx_id ` set (ndb_outbox (cw_db ?v))"
      using fresh unfolding evs set_append image_Un new
      by (auto simp: fresh_uuids_def ticked_def inj_image_mem_iff dest: injD)
    have "ntf_id ` set (ndb_notifications (cw_db ?v)) = ntf_id ` set (ndb_notifications (cw_db w))"
      using rows by (metis set_map)
    with \<open>i \<ge> cw_drawn w\<close> show "cw_uuids ?v i \<notin> ntf_id ` set (ndb_notifications (cw_db ?v))"
      using fresh by (simp add: fresh_uuids_def ticked_def)
  qed
  then have "calm_schedule ?v"
    using assms distinct rows evs by (simp add: calm_schedule_def) (simp add: ticked_def)
  then have "calm_schedule (?v\<lparr>nw_timers := k, nw_metrics := m\<rparr>)"
    by (simp add: calm_schedule_def fresh_uuids_def)
  moreover have "due_list (?v\<lparr>nw_timers := k, nw_metrics := m\<rparr>) = drop ?n (due_list w)"
    using due_list_after [OF assms] by (simp add: due_list_def)
  ultimately show ?thesis
    using calm_selection [OF assms, of ?n] by (simp add: run evs tick_events_def)
qed

interpretation scheduler: batch_queue
  "\<lambda>(s, w). calm_schedule w" "\<lambda>(s, w). due_list w"
  "\<lambda>(s, w). map obx_aggregate_id (ndb_outbox (cw_db w))"
  "\<lambda>(s, w). ns_scheduler_batch_size s" "\<lambda>(s, w). (s, snd (scheduler_pass s w))" ntf_id
proof (unfold_locales, goal_cases)
  case (1 s)
  then show ?case using calm_scheduler_pass [of "snd s" "fst s"] by (cases s) auto
next
  case (2 s)
  then show ?case by (cases s) simp
next
  case (3 s)
  then show ?case using calm_scheduler_pass [of "snd s" "fst s"] by (cases s) auto
next
  case (4 s)
  then show ?case using calm_scheduler_pass [of "snd s" "fst s"] by (cases s) auto
qed

section \<open>What the tables always satisfy\<close>

text \<open>
  Beside the keys: one event for every notification that was created for now or queued, none
  for one that is scheduled or cancelled, and the event tells the notification.
\<close>

definition announced :: "notification_status \<Rightarrow> bool" where
  "announced s \<longleftrightarrow> s = Ntf_Created \<or> s = Ntf_Queued"

definition idempotency_ids :: "notification_row list \<Rightarrow> (uuid \<times> string option) list" where
  "idempotency_ids ns = map (\<lambda>n. (ntf_created_by n, ntf_idempotency_key n))
     (filter (\<lambda>n. ntf_idempotency_key n \<noteq> None) ns)"

definition tells :: "outbox_event \<Rightarrow> notification_row \<Rightarrow> bool" where
  "tells e n \<longleftrightarrow> ntf_id n = obx_aggregate_id e \<and> obx_event_type e = created_event_type \<and>
     obx_payload e = created_event (obx_id e) n"

definition notifications_ok :: "notifications_db \<Rightarrow> bool" where
  "notifications_ok d \<longleftrightarrow> distinct (map ntf_id (ndb_notifications d)) \<and>
     distinct (idempotency_ids (ndb_notifications d)) \<and>
     distinct (map obx_id (ndb_outbox d)) \<and> distinct (map obx_aggregate_id (ndb_outbox d)) \<and>
     (\<forall>n \<in> set (ndb_notifications d). ntf_status n = Ntf_Scheduled \<longrightarrow> ntf_scheduled_at n \<noteq> None) \<and>
     (\<forall>n \<in> set (ndb_notifications d).
        announced (ntf_status n) \<longleftrightarrow> ntf_id n \<in> obx_aggregate_id ` set (ndb_outbox d)) \<and>
     (\<forall>e \<in> set (ndb_outbox d). \<exists>n \<in> set (ndb_notifications d). tells e n)"

section \<open>Storing a notification\<close>

definition new_notification ::
  "uuid \<Rightarrow> uuid \<Rightarrow> json_dict \<Rightarrow> instant option \<Rightarrow> string option \<Rightarrow> notifications_world \<Rightarrow> notification_row" where
  "new_notification user_id topic_id payload scheduled_at idempotency_key w =
     \<lparr>ntf_id = cw_uuids w (cw_drawn w), ntf_topic_id = topic_id, ntf_payload = payload,
      ntf_scheduled_at = scheduled_at,
      ntf_status = (if is_immediate (nw_clock w) scheduled_at then Ntf_Created else Ntf_Scheduled),
      ntf_created_by = user_id, ntf_idempotency_key = idempotency_key,
      ntf_created_at = cw_now w, ntf_updated_at = cw_now w\<rparr>"

definition new_event :: "string \<Rightarrow> notification_row \<Rightarrow> notifications_world \<Rightarrow> outbox_event" where
  "new_event request_id n w = (let event_id = cw_uuids w (Suc (cw_drawn w)) in
     \<lparr>obx_id = event_id, obx_aggregate_type = ''notification'', obx_aggregate_id = ntf_id n,
      obx_event_type = created_event_type, obx_payload = created_event event_id n,
      obx_headers = [(''request_id'', request_id), (''user_id'', str_uuid (ntf_created_by n))],
      obx_created_at = cw_now w, obx_published_at = None, obx_publish_attempts = 0,
      obx_last_error = None\<rparr>)"

definition can_store :: "notification_row \<Rightarrow> outbox_event \<Rightarrow> notifications_db \<Rightarrow> bool" where
  "can_store n e d \<longleftrightarrow> ntf_id n \<notin> ntf_id ` set (ndb_notifications d) \<and>
     (ntf_idempotency_key n \<noteq> None \<longrightarrow> (ntf_created_by n, ntf_idempotency_key n) \<notin>
        (\<lambda>r. (ntf_created_by r, ntf_idempotency_key r)) ` set (ndb_notifications d)) \<and>
     (ntf_status n = Ntf_Created \<longrightarrow> obx_id e \<notin> obx_id ` set (ndb_outbox d))"

definition stored :: "notification_row \<Rightarrow> outbox_event \<Rightarrow> notifications_db \<Rightarrow> notifications_db" where
  "stored n e d = d\<lparr>ndb_notifications := ndb_notifications d @ [n],
     ndb_outbox := ndb_outbox d @ (if ntf_status n = Ntf_Created then [e] else [])\<rparr>"

definition by_key :: "uuid \<Rightarrow> string \<Rightarrow> notifications_db \<Rightarrow> notification_row option" where
  "by_key user_id key d = find_row
     (\<lambda>n. ntf_created_by n = user_id \<and> ntf_idempotency_key n = Some key) (ndb_notifications d)"

lemma by_key_run: "cw_tx w \<noteq> Tx_Failed \<Longrightarrow> get_by_idempotency_key u k w = (Inr (by_key u k (cw_db w)), w)"
  by (simp add: get_by_idempotency_key_def sql_run by_key_def)

lemma store_run:
  fixes u t :: uuid and p :: json_dict and sched :: "instant option" and key :: "string option"
  assumes "cw_tx w = Tx_None"
  defines "n \<equiv> new_notification u t p sched key w"
  shows "store_notification u t p sched key rid w =
    (if can_store n (new_event rid n w) (cw_db w)
     then (Inr (n, True), w\<lparr>cw_drawn := Suc (Suc (cw_drawn w)),
       cw_db := stored n (new_event rid n w) (cw_db w),
       nw_metrics := inc_notifications_created (nw_metrics w)\<rparr>)
     else ((case truthy key of
        None \<Rightarrow> Inl unique_violation
      | Some k \<Rightarrow> (case by_key u k (cw_db w) of None \<Rightarrow> Inl unique_violation | Some m \<Rightarrow> Inr (m, False))),
      w\<lparr>cw_drawn := Suc (Suc (cw_drawn w))\<rparr>))"
proof -
  let ?w = "w\<lparr>cw_drawn := Suc (Suc (cw_drawn w))\<rparr>"
  let ?row = "ntf_id n \<notin> ntf_id ` set (ndb_notifications (cw_db w)) \<and>
     (ntf_idempotency_key n \<noteq> None \<longrightarrow> (ntf_created_by n, ntf_idempotency_key n) \<notin>
        (\<lambda>r. (ntf_created_by r, ntf_idempotency_key r)) ` set (ndb_notifications (cw_db w)))"
  let ?tx = "transaction
      (and_then (create_notification_row (ntf_id n) t p sched u key (ntf_status n)) (\<lambda>notification.
       seq (if ntf_status notification = Ntf_Created
            then seq (create_event (obx_id (new_event rid n w)) ''notification'' (ntf_id notification)
                   created_event_type (created_event (obx_id (new_event rid n w)) notification)
                   [(''request_id'', rid), (''user_id'', str_uuid u)]) (ret ())
            else ret ())
         (ret notification)))"
  have ids: "ntf_id n = cw_uuids w (cw_drawn w)" "obx_id (new_event rid n w) = cw_uuids w (Suc (cw_drawn w))"
    "ntf_status n = (if is_immediate (nw_clock w) sched then Ntf_Created else Ntf_Scheduled)"
    by (simp_all add: n_def new_notification_def new_event_def Let_def)
  have insert: "insert_notification \<lparr>ntf_id = ntf_id n, ntf_topic_id = t, ntf_payload = p,
        ntf_scheduled_at = sched, ntf_status = ntf_status n, ntf_created_by = u,
        ntf_idempotency_key = key, ntf_created_at = cw_now w, ntf_updated_at = cw_now w\<rparr> (cw_db w) =
      (if ?row then Inr (n, (cw_db w)\<lparr>ndb_notifications := ndb_notifications (cw_db w) @ [n]\<rparr>)
       else Inl unique_violation)"
    by (simp add: n_def new_notification_def insert_notification_def)
  have event: "ntf_status n = Ntf_Created \<Longrightarrow> insert_event
      \<lparr>obx_id = obx_id (new_event rid n w), obx_aggregate_type = ''notification'',
       obx_aggregate_id = ntf_id n, obx_event_type = created_event_type,
       obx_payload = created_event (obx_id (new_event rid n w)) n,
       obx_headers = [(''request_id'', rid), (''user_id'', str_uuid u)], obx_created_at = cw_now w,
       obx_published_at = None, obx_publish_attempts = 0, obx_last_error = None\<rparr> d =
      (if obx_id (new_event rid n w) \<in> obx_id ` set (ndb_outbox d) then Inl unique_violation
       else Inr (new_event rid n w, d\<lparr>ndb_outbox := ndb_outbox d @ [new_event rid n w]\<rparr>))" for d
    by (simp add: insert_event_def new_event_def Let_def n_def new_notification_def)
  have create: "create_notification_row (ntf_id n) t p sched u key (ntf_status n) (?w\<lparr>cw_tx := Tx_Open\<rparr>) =
      (if ?row then (Inr n, ?w\<lparr>cw_tx := Tx_Open,
         cw_db := (cw_db w)\<lparr>ndb_notifications := ndb_notifications (cw_db w) @ [n]\<rparr>\<rparr>)
       else (Inl unique_violation, ?w\<lparr>cw_tx := Tx_Failed\<rparr>))"
    by (simp add: create_notification_row_def eff_simps insert)
  have tx: "?tx ?w = (if can_store n (new_event rid n w) (cw_db w)
      then (Inr n, ?w\<lparr>cw_db := stored n (new_event rid n w) (cw_db w)\<rparr>) else (Inl unique_violation, ?w))"
    unfolding transaction_def and_then_run create
    using assms(1)
    by (cases "ntf_status n = Ntf_Created"; cases ?row)
      (simp_all add: create_event_def eff_simps event can_store_def stored_def)
  let ?handler = "\<lambda>exc. case truthy key of
      Some k \<Rightarrow> if exc = unique_violation
        then and_then (get_by_idempotency_key u k) (\<lambda>existing.
          case existing of Some m \<Rightarrow> ret (m, False) | None \<Rightarrow> raise exc)
        else raise exc
    | None \<Rightarrow> raise exc"
  have "store_notification u t p sched key rid w =
      catch (and_then ?tx (\<lambda>m. seq (observe inc_notifications_created) (ret (m, True)))) ?handler ?w"
    by (simp add: store_notification_def and_then_run [of uuid4] and_then_run [of "gets nw_clock"]
        uuid4_run gets_run Let_def ids cong: if_cong)
  then show ?thesis
    using assms(1)
    by (simp add: catch_run and_then_run [of ?tx] tx seq_run ret_run observe_run)
      (simp add: and_then_run by_key_run ret_run raise_run split: option.split)
qed

section \<open>Every operation keeps the tables\<close>

lemma stored_ok:
  assumes "notifications_ok d" and "can_store n e d" and "tells e n"
    and "ntf_status n = Ntf_Created \<or> ntf_status n = Ntf_Scheduled \<and> ntf_scheduled_at n \<noteq> None"
  shows "notifications_ok (stored n e d)"
proof -
  have agg: "ntf_id n = obx_aggregate_id e" using assms(3) by (simp add: tells_def)
  have known: "obx_aggregate_id ` set (ndb_outbox d) \<subseteq> ntf_id ` set (ndb_notifications d)"
    using assms(1) by (force simp: notifications_ok_def tells_def)
  have new: "ntf_id n \<notin> ntf_id ` set (ndb_notifications d)" using assms(2) by (simp add: can_store_def)
  then have unsaid: "ntf_id n \<notin> obx_aggregate_id ` set (ndb_outbox d)" using known by blast
  have keys: "distinct (idempotency_ids (ndb_notifications d @ [n]))"
    using assms(1,2) by (auto simp: notifications_ok_def idempotency_ids_def can_store_def)
  have tells: "\<forall>x \<in> set (ndb_outbox d). \<exists>m \<in> set (ndb_notifications d @ [n]). tells x m"
    using assms(1) by (fastforce simp: notifications_ok_def)
  have others: "m \<in> set (ndb_notifications d) \<Longrightarrow> ntf_id m \<noteq> ntf_id n" for m using new by (metis imageI)
  show ?thesis
  proof (cases "ntf_status n = Ntf_Created")
    case True
    then have "stored n e d = d\<lparr>ndb_notifications := ndb_notifications d @ [n], ndb_outbox := ndb_outbox d @ [e]\<rparr>"
      by (simp add: stored_def)
    moreover have "obx_id e \<notin> obx_id ` set (ndb_outbox d)" using assms(2) True by (simp add: can_store_def)
    moreover have "announced (ntf_status n)" using True by (simp add: announced_def)
    ultimately show ?thesis
      using assms(1,3) keys tells new unsaid others True agg
      unfolding notifications_ok_def by (auto simp: announced_def)
  next
    case False
    then have "stored n e d = d\<lparr>ndb_notifications := ndb_notifications d @ [n]\<rparr>" by (simp add: stored_def)
    moreover have "\<not> announced (ntf_status n)" using False assms(4) by (auto simp: announced_def)
    ultimately show ?thesis
      using assms(1,4) keys tells new unsaid others False
      unfolding notifications_ok_def by auto
  qed
qed

text \<open>A change of status, with the events that it calls for.\<close>

lemma idempotency_ids_update:
  "idempotency_ids (update_where p (set_status s now) ns) = idempotency_ids ns"
proof -
  have "ntf_idempotency_key (if p n then set_status s now n else n) = ntf_idempotency_key n"
    "ntf_created_by (if p n then set_status s now n else n) = ntf_created_by n" for n by simp_all
  then show ?thesis by (simp add: idempotency_ids_def update_where_def filter_map comp_def)
qed

lemma tells_rows_update:
  "(\<exists>n \<in> set (update_where p (set_status s now) ns). tells e n) \<longleftrightarrow> (\<exists>n \<in> set ns. tells e n)"
proof -
  have "tells e (set_status s now n) = tells e n" for n by (simp add: tells_def)
  then show ?thesis by (auto simp: set_update_where)
qed

lemma cancelled_ok:
  assumes "notifications_ok d"
  shows "notifications_ok (d\<lparr>ndb_notifications := update_where
    (\<lambda>n. ntf_id n = x \<and> ntf_status n = Ntf_Scheduled) (set_status Ntf_Cancelled now) (ndb_notifications d)\<rparr>)"
proof -
  let ?p = "\<lambda>n. ntf_id n = x \<and> ntf_status n = Ntf_Scheduled"
  have "map ntf_id (update_where ?p (set_status Ntf_Cancelled now) (ndb_notifications d)) =
      map ntf_id (ndb_notifications d)" by (simp add: map_update_where)
  then show ?thesis
    using assms unfolding notifications_ok_def
    by (simp add: idempotency_ids_update tells_rows_update) (auto simp: set_update_where announced_def)
qed

lemma ticked_ok:
  assumes "notifications_ok (cw_db w)"
    and "distinct (map obx_id (ndb_outbox (cw_db w) @ tick_events rid n w))"
  shows "notifications_ok (cw_db (ticked rid n w))"
proof -
  let ?d = "cw_db w" and ?ns = "due_selection n w"
  let ?rows = "update_where (\<lambda>r. r \<in> set ?ns) (set_status Ntf_Queued (cw_now w)) (ndb_notifications ?d)"
  let ?evs = "tick_events rid n w"
  have sub: "set ?ns \<subseteq> {r \<in> set (ndb_notifications ?d). ntf_status r = Ntf_Scheduled}"
    using set_select_page by (fastforce simp: due_selection_def due_at_def)
  have ids: "distinct (map ntf_id (ndb_notifications ?d))" using assms(1) by (simp add: notifications_ok_def)
  have same: "map ntf_id ?rows = map ntf_id (ndb_notifications ?d)" by (simp add: map_update_where)
  have agg: "map obx_aggregate_id ?evs = map ntf_id ?ns" by (simp add: tick_events_def)
  then have agg_set: "obx_aggregate_id ` set ?evs = ntf_id ` set ?ns" by (metis set_map)
  have unsaid: "ntf_id r \<notin> obx_aggregate_id ` set (ndb_outbox ?d)" if "r \<in> set ?ns" for r
  proof -
    have "r \<in> set (ndb_notifications ?d)" and "\<not> announced (ntf_status r)"
      using that sub by (auto simp: announced_def)
    with assms(1) show ?thesis unfolding notifications_ok_def by blast
  qed
  have "distinct (map ntf_id ?ns)"
    using ids by (auto simp: due_selection_def select_page_def take_map [symmetric] distinct_map inj_on_def
        dest!: in_set_takeD)
  moreover have "distinct (map obx_aggregate_id (ndb_outbox ?d))"
    using assms(1) by (simp add: notifications_ok_def)
  moreover have "obx_aggregate_id ` set (ndb_outbox ?d) \<inter> ntf_id ` set ?ns = {}"
    unfolding disjoint_iff using unsaid by (metis imageE)
  ultimately have aggs: "distinct (map obx_aggregate_id (ndb_outbox ?d @ ?evs))"
    unfolding map_append distinct_append set_map agg agg_set by blast
  have said: "announced (ntf_status r') \<longleftrightarrow> ntf_id r' \<in> obx_aggregate_id ` set (ndb_outbox ?d @ ?evs)"
    if r': "r' \<in> set ?rows" for r'
  proof -
    obtain r where r: "r \<in> set (ndb_notifications ?d)"
        "r' = (if r \<in> set ?ns then set_status Ntf_Queued (cw_now w) r else r)"
      using r' by (auto simp: set_update_where)
    have "announced (ntf_status r) \<longleftrightarrow> ntf_id r \<in> obx_aggregate_id ` set (ndb_outbox ?d)"
      using assms(1) r(1) unfolding notifications_ok_def by blast
    moreover have "ntf_id r \<in> ntf_id ` set ?ns \<longleftrightarrow> r \<in> set ?ns"
      using sub r(1) by (auto dest: key_unique [OF ids])
    ultimately show ?thesis
      unfolding set_append image_Un agg_set r(2) by (auto simp: announced_def)
  qed
  have told: "\<exists>r \<in> set (ndb_notifications ?d). tells e r" if "e \<in> set (ndb_outbox ?d @ ?evs)" for e
  proof -
    have "e \<in> set (queued_events rid now us k ns) \<Longrightarrow> \<exists>r \<in> set ns. tells e r" for now us k ns
      by (induction ns arbitrary: k) (auto simp: tells_def)
    with that sub assms(1) show ?thesis by (fastforce simp: tick_events_def notifications_ok_def)
  qed
  have "ntf_scheduled_at r \<noteq> None" if "r \<in> set ?rows" "ntf_status r = Ntf_Scheduled" for r
    using that assms(1) by (auto simp: set_update_where notifications_ok_def)
  moreover have "distinct (idempotency_ids (ndb_notifications ?d))"
    using assms(1) by (simp add: notifications_ok_def)
  moreover have "cw_db (ticked rid n w) = ?d\<lparr>ndb_notifications := ?rows, ndb_outbox := ndb_outbox ?d @ ?evs\<rparr>"
    by (simp add: ticked_def queued_db_def)
  ultimately show ?thesis
    using ids assms(2) aggs said told unfolding notifications_ok_def
    by (simp add: same idempotency_ids_update tells_rows_update del: map_append set_append)
qed

lemma published_rows_content [simp]:
  "obx_aggregate_id (published_rows w i es e) = obx_aggregate_id e"
  "event_message (published_rows w i es e) = event_message e"
  "tells (published_rows w i es e) n = tells e n"
proof -
  have row: "obx_aggregate_id (published_row w i e) = obx_aggregate_id e"
    "event_message (published_row w i e) = event_message e"
    "obx_payload (published_row w i e) = obx_payload e"
    "obx_event_type (published_row w i e) = obx_event_type e" for i e
    by (simp_all add: published_row_def split: option.split)
  then show "obx_aggregate_id (published_rows w i es e) = obx_aggregate_id e"
    and "event_message (published_rows w i es e) = event_message e"
    by (induction es arbitrary: i) simp_all
  have "obx_payload (published_rows w i es e) = obx_payload e \<and>
      obx_event_type (published_rows w i es e) = obx_event_type e"
    using row by (induction es arbitrary: i) simp_all
  then show "tells (published_rows w i es e) n = tells e n"
    by (simp add: tells_def \<open>obx_aggregate_id (published_rows w i es e) = obx_aggregate_id e\<close>)
qed

lemma published_ok:
  assumes "notifications_ok d" and "ndb_notifications d' = ndb_notifications d"
    and "ndb_outbox d' = map (published_rows w 0 es) (ndb_outbox d)"
  shows "notifications_ok d'"
proof -
  have "obx_aggregate_id \<circ> published_rows w 0 es = obx_aggregate_id" by (rule ext) simp
  then show ?thesis using assms unfolding notifications_ok_def by (simp add: image_image)
qed

end
