(* ===== verification/Notifications_History.thy ===== *)
theory Notifications_History
  imports Notifications_Laws
begin

text \<open>
  Histories of the notifications service: any interleaving of its requests, of the passes of
  the scheduler and of the publisher, of a publisher that dies before its commit, and of what
  the other sessions and JetStream do. \<open>operations\<close> and \<open>monotone\_operations\<close> are interpreted
  on them; then the properties of the service.
\<close>

section \<open>The cases of an operation\<close>

lemma create_cases:
  fixes s :: notifications_settings and p :: json_dict
  assumes "cw_tx w = Tx_None"
  obtains
    (refused) e where "create_notification s u t p sched key rid w = (Inl e, w)"
  | (found) m k where "truthy key = Some k" "by_key u k (cw_db w) = Some m"
      "create_notification s u t p sched key rid w = (Inr (m, False), w)"
  | (new) normal n where "normalize_scheduled_at sched = Inr normal"
      "n = new_notification u t p normal key w" "can_store n (new_event rid n w) (cw_db w)"
      "create_notification s u t p sched key rid w = (Inr (n, True),
        w\<lparr>cw_drawn := Suc (Suc (cw_drawn w)), cw_db := stored n (new_event rid n w) (cw_db w),
          nw_metrics := inc_notifications_created (nw_metrics w)\<rparr>)"
  | (clash) r where
      "create_notification s u t p sched key rid w = (r, w\<lparr>cw_drawn := Suc (Suc (cw_drawn w))\<rparr>)"
      "\<And>m b. r = Inr (m, b) \<Longrightarrow>
        \<not> b \<and> (\<exists>k. truthy key = Some k \<and> by_key u k (cw_db w) = Some m)"
proof (cases "validate_payload s p")
  case (Inl e)
  then show ?thesis by (intro refused [of e]) (simp add: create_notification_def and_then_run lift_run)
next
  case valid: (Inr v)
  show ?thesis
  proof (cases "normalize_scheduled_at sched")
    case (Inl e)
    with valid show ?thesis
      by (intro refused [of e]) (simp add: create_notification_def and_then_run lift_run)
  next
    case normal: (Inr normal)
    let ?found = "Option.bind (truthy key) (\<lambda>k. by_key u k (cw_db w))"
    have look: "create_notification s u t p sched key rid w = (case ?found of
        Some m \<Rightarrow> (Inr (m, False), w)
      | None \<Rightarrow> store_notification u t p normal key rid w)"
      using assms valid normal
      by (cases "truthy key") (auto simp: create_notification_def and_then_run lift_run ret_run
          by_key_run split: option.split)
    show ?thesis
    proof (cases ?found)
      case (Some m)
      then obtain k where "truthy key = Some k" and "by_key u k (cw_db w) = Some m"
        by (cases "truthy key") auto
      with look Some show ?thesis by (intro found [of k m]) simp_all
    next
      case None
      let ?n = "new_notification u t p normal key w"
      show ?thesis
      proof (cases "can_store ?n (new_event rid ?n w) (cw_db w)")
        case True
        with look None assms normal show ?thesis by (intro new [of normal ?n]) (simp_all add: store_run)
      next
        case False
        have "create_notification s u t p sched key rid w = (case truthy key of
            None \<Rightarrow> Inl unique_violation
          | Some k \<Rightarrow> (case by_key u k (cw_db w) of None \<Rightarrow> Inl unique_violation | Some m \<Rightarrow> Inr (m, False)),
          w\<lparr>cw_drawn := Suc (Suc (cw_drawn w))\<rparr>)"
          using look None assms False by (simp add: store_run)
        then show ?thesis by (rule clash) (auto split: option.splits)
      qed
    qed
  qed
qed

definition row_by_id :: "uuid \<Rightarrow> notifications_db \<Rightarrow> notification_row option" where
  "row_by_id x d = find_row (\<lambda>n. ntf_id n = x) (ndb_notifications d)"

definition cancelled_db :: "uuid \<Rightarrow> instant \<Rightarrow> notifications_db \<Rightarrow> notifications_db" where
  "cancelled_db x now d = d\<lparr>ndb_notifications := update_where
     (\<lambda>n. ntf_id n = x \<and> ntf_status n = Ntf_Scheduled) (set_status Ntf_Cancelled now) (ndb_notifications d)\<rparr>"

definition may_see :: "uuid \<Rightarrow> string list \<Rightarrow> notification_row \<Rightarrow> bool" where
  "may_see user_id roles n \<longleftrightarrow> ntf_created_by n = user_id \<or> ''admin'' \<in> set roles"

lemma get_run:
  "cw_tx w = Tx_None \<Longrightarrow> get_notification x u roles w = (case row_by_id x (cw_db w) of
     None \<Rightarrow> (Inl (App Kind_Not_Found ''Notification not found''), w)
   | Some n \<Rightarrow> if may_see u roles n then (Inr n, w) else (Inl (App Kind_Forbidden ''Forbidden''), w))"
  by (auto simp: get_notification_def get_by_id_def eff_simps row_by_id_def may_see_def split: option.split)

lemma cancel_run:
  assumes "cw_tx w = Tx_None"
  shows "cancel_notification x u roles w = (case row_by_id x (cw_db w) of
     None \<Rightarrow> (Inl (App Kind_Not_Found ''Notification not found''), w)
   | Some n \<Rightarrow>
      if \<not> may_see u roles n then (Inl (App Kind_Forbidden ''Forbidden''), w)
      else if ntf_status n \<noteq> Ntf_Scheduled
      then (Inl (App Kind_Conflict ''Only scheduled notifications can be cancelled''), w)
      else (Inr (set_status Ntf_Cancelled (cw_now w) n),
        w\<lparr>cw_db := cancelled_db x (cw_now w) (cw_db w)\<rparr>))"
proof (cases "row_by_id x (cw_db w)")
  case None
  with assms show ?thesis by (simp add: cancel_notification_def and_then_run get_run)
next
  case (Some n)
  let ?open = "\<lambda>n. ntf_id n = x \<and> ntf_status n = Ntf_Scheduled"
  have "find_row (\<lambda>n. ntf_id n = x) rows = Some n \<Longrightarrow> ntf_status n = Ntf_Scheduled \<Longrightarrow>
      find_row ?open rows = Some n" for rows
    by (induction rows) (auto split: if_splits)
  then have hit: "ntf_status n = Ntf_Scheduled \<Longrightarrow> find_row ?open (ndb_notifications (cw_db w)) = Some n"
    using Some by (simp add: row_by_id_def)
  have "cancel_notification x u roles w = (if \<not> may_see u roles n
      then (Inl (App Kind_Forbidden ''Forbidden''), w)
      else if ntf_status n \<noteq> Ntf_Scheduled
      then (Inl (App Kind_Conflict ''Only scheduled notifications can be cancelled''), w)
      else and_then (cancel_if_scheduled x) (\<lambda>cancelled. case cancelled of
        None \<Rightarrow> raise (App Kind_Conflict ''Notification is not scheduled'') | Some n \<Rightarrow> ret n) w)"
    using assms Some by (simp add: cancel_notification_def and_then_run [of "get_notification x u roles"]
        get_run raise_run)
  moreover have "cancel_if_scheduled x w = (Inr (Some (set_status Ntf_Cancelled (cw_now w) n)),
      w\<lparr>cw_db := cancelled_db x (cw_now w) (cw_db w)\<rparr>)" if "ntf_status n = Ntf_Scheduled"
    using assms hit [OF that]
    by (simp add: cancel_if_scheduled_def and_then_run gets_run sql_run cancel_row_def Let_def cancelled_db_def)
  ultimately show ?thesis using Some by (simp add: and_then_run ret_run)
qed

text \<open>A program that sends nothing to JetStream.\<close>

definition silent :: "notifications_world \<Rightarrow> notifications_world \<Rightarrow> bool" where
  "silent w w' \<longleftrightarrow> nw_published w' = nw_published w"

lemma silent_preorder: "preorder_on_worlds silent"
  by (simp add: preorder_on_worlds_def silent_def)

lemma silent_statements:
  "obeys silent (sql st)" "obeys silent uuid4" "obeys silent (observe f)" "obeys silent stop_timer"
  by (auto simp: obeys_def silent_def sql_def uuid4_run observe_run stop_timer_run split: sum.split)

lemma silent_transaction:
  assumes "obeys silent m"
  shows "obeys silent (transaction m)"
  unfolding obeys_def
proof
  fix w
  have "silent (w\<lparr>cw_tx := Tx_Open\<rparr>) (snd (m (w\<lparr>cw_tx := Tx_Open\<rparr>)))"
    using assms by (simp add: obeys_def)
  then show "silent w (snd (transaction m w))"
    by (auto simp: transaction_def silent_def split: prod.split sum.split)
qed

lemmas silent_rules = obeys_rules [OF silent_preorder] silent_statements silent_transaction

lemma idle_observe: "obeys tx_idle (observe f)" "obeys tx_idle stop_timer"
  by (simp_all add: obeys_def tx_idle_def observe_run stop_timer_run)

lemmas scheduler_defs = scheduler_pass_def run_one_tick_def tick_transaction_def queue_event_def
  create_event_def lock_due_scheduled_batch_def mark_queued_by_ids_def count_scheduled_backlog_def
  count_scheduled_due_def Let_def

lemma scheduler_pass_frame:
  "nw_published (snd (scheduler_pass s w)) = nw_published w"
  "cw_tx w = Tx_None \<Longrightarrow> cw_tx (snd (scheduler_pass s w)) = Tx_None"
proof -
  have "obeys silent (scheduler_pass s)"
    unfolding scheduler_defs by (intro silent_rules)
  then show "nw_published (snd (scheduler_pass s w)) = nw_published w"
    by (simp add: obeys_def silent_def)
  have "obeys tx_idle (scheduler_pass s)"
    unfolding scheduler_defs by (intro tx_idle_rules idle_observe)
  then show "cw_tx w = Tx_None \<Longrightarrow> cw_tx (snd (scheduler_pass s w)) = Tx_None"
    by (simp add: obeys_def tx_idle_def)
qed

definition tick_fits :: "nat \<Rightarrow> notifications_world \<Rightarrow> bool" where
  "tick_fits n w \<longleftrightarrow> distinct (map obx_id (ndb_outbox (cw_db w) @ tick_events ''scheduler'' n w))"

lemma scheduler_pass_db:
  fixes s :: notifications_settings
  assumes "cw_tx w = Tx_None" and "distinct (map ntf_id (ndb_notifications (cw_db w)))"
    and "distinct (map obx_id (ndb_outbox (cw_db w)))"
  defines "n \<equiv> ns_scheduler_batch_size s"
  shows "cw_db (snd (scheduler_pass s w)) =
    (if tick_fits n w then cw_db (ticked ''scheduler'' n w) else cw_db w)"
proof (cases "tick_fits n w")
  case True
  with run_one_tick_run [OF assms(1-3), where s = s and rid = "''scheduler''"] show ?thesis
    by (simp add: scheduler_pass_def catch_run seq_run ret_run n_def tick_fits_def)
next
  case False
  with tick_transaction_run [OF assms(1-3), where s = s and rid = "''scheduler''"]
  obtain w' where "tick_transaction s ''scheduler'' w = (Inl unique_violation, w')" "cw_db w' = cw_db w"
    unfolding n_def tick_fits_def by blast
  with False show ?thesis by (simp add: scheduler_pass_def run_one_tick_def catch_run seq_run and_then_run ret_run)
qed

section \<open>Histories\<close>

text \<open>
  \<open>Publisher\_Dies\<close>: the process ends after its messages went out and before its commit, so the
  database keeps the old rows. \<open>Others\<close> changes what the other sessions lock and what JetStream
  answers from now on.
\<close>

datatype notif_op =
    Create uuid uuid json_dict "py_datetime option" "string option" string
  | Cancel uuid uuid "string list"
  | Scheduler_Pass
  | Publisher_Pass
  | Publisher_Dies
  | Others "uuid \<Rightarrow> bool" "nat \<Rightarrow> string option"
  | Notif_Time instant instant

fun apply_notif :: "notifications_settings \<Rightarrow> notif_op \<Rightarrow> notifications_world \<Rightarrow> notifications_world" where
  "apply_notif s (Create u t p sched key rid) w = snd (create_notification s u t p sched key rid w)"
| "apply_notif s (Cancel x u roles) w = snd (cancel_notification x u roles w)"
| "apply_notif s Scheduler_Pass w = snd (scheduler_pass s w)"
| "apply_notif s Publisher_Pass w = snd (publisher_pass s w)"
| "apply_notif s Publisher_Dies w = (snd (publisher_pass s w))\<lparr>cw_db := cw_db w\<rparr>"
| "apply_notif s (Others locked refusal) w = w\<lparr>nw_locked := locked, nw_refusal := refusal\<rparr>"
| "apply_notif s (Notif_Time now clock) w = w\<lparr>cw_now := now, nw_clock := clock\<rparr>"

text \<open>
  What the outbox promises about JetStream: an event that is marked has been sent, and nothing
  is sent that is not the message of a recorded event.
\<close>

definition sent_ok :: "notifications_world \<Rightarrow> bool" where
  "sent_ok w \<longleftrightarrow>
     (\<forall>e \<in> set (ndb_outbox (cw_db w)). obx_published_at e \<noteq> None \<longrightarrow> event_message e \<in> set (nw_published w)) \<and>
     set (nw_published w) \<subseteq> event_message ` set (ndb_outbox (cw_db w))"

definition notif_ok :: "notifications_world \<Rightarrow> bool" where
  "notif_ok w \<longleftrightarrow> notifications_ok (cw_db w) \<and> cw_tx w = Tx_None \<and> sent_ok w"

lemma notif_okD:
  assumes "notif_ok w"
  shows "cw_tx w = Tx_None" "distinct (map ntf_id (ndb_notifications (cw_db w)))"
    "distinct (map obx_id (ndb_outbox (cw_db w)))" "notifications_ok (cw_db w)" "sent_ok w"
  using assms by (simp_all add: notif_ok_def notifications_ok_def)

lemma notif_ok_same:
  assumes "notif_ok w" and "cw_db w' = cw_db w" and "nw_published w' = nw_published w"
    and "cw_tx w' = Tx_None"
  shows "notif_ok w'"
  using assms unfolding notif_ok_def sent_ok_def by metis

lemma sent_ok_more:
  assumes "sent_ok w" and "nw_published w' = nw_published w"
    and "ndb_outbox (cw_db w') = ndb_outbox (cw_db w) @ evs" and "\<forall>e \<in> set evs. obx_published_at e = None"
  shows "sent_ok w'"
  using assms unfolding sent_ok_def by auto

lemma new_tells: "tells (new_event rid n w) n"
  by (simp add: tells_def new_event_def Let_def)

lemma new_scheduled:
  "ntf_status (new_notification u t p normal key w) = Ntf_Created \<or>
   ntf_status (new_notification u t p normal key w) = Ntf_Scheduled \<and>
     ntf_scheduled_at (new_notification u t p normal key w) \<noteq> None"
  by (auto simp: new_notification_def is_immediate_def split: option.splits)

lemma create_ok:
  assumes "notif_ok w"
  shows "notif_ok (snd (create_notification s u t p sched key rid w))"
  using notif_okD(1) [OF assms]
proof (cases rule: create_cases [where s = s and u = u and t = t and p = p and sched = sched
      and key = key and rid = rid])
  case (new normal n)
  let ?e = "new_event rid n w" and ?w' = "snd (create_notification s u t p sched key rid w)"
  have w': "cw_db ?w' = stored n ?e (cw_db w)" "nw_published ?w' = nw_published w" "cw_tx ?w' = Tx_None"
    using new(4) notif_okD(1) [OF assms] by simp_all
  have "notifications_ok (stored n ?e (cw_db w))"
    using notif_okD(4) [OF assms] new(3) new_tells new_scheduled [of u t p normal key w]
    by (intro stored_ok) (simp_all add: new(2))
  moreover have "ndb_outbox (cw_db ?w') = ndb_outbox (cw_db w) @ (if ntf_status n = Ntf_Created then [?e] else [])"
    by (simp add: w' stored_def)
  then have "sent_ok ?w'"
    by (rule sent_ok_more [OF notif_okD(5) [OF assms] w'(2)]) (simp add: new_event_def Let_def)
  ultimately show ?thesis by (simp add: notif_ok_def w')
next
  case (refused e)
  with assms show ?thesis by simp
next
  case (found m k)
  with assms show ?thesis by simp
next
  case (clash r)
  then show ?thesis by (intro notif_ok_same [OF assms]) (simp_all add: notif_okD(1) [OF assms])
qed

lemma cancel_ok:
  assumes "notif_ok w"
  shows "notif_ok (snd (cancel_notification x u roles w))"
  using assms cancelled_ok [of "cw_db w" x "cw_now w"]
  by (auto simp: cancel_run [OF notif_okD(1) [OF assms]] notif_ok_def sent_ok_def cancelled_db_def
      split: option.split)

lemma tick_events_open: "e \<in> set (queued_events rid now us k ns) \<Longrightarrow> obx_published_at e = None"
  by (induction ns arbitrary: k) auto

lemma scheduler_ok:
  assumes "notif_ok w"
  shows "notif_ok (snd (scheduler_pass s w))"
proof -
  let ?w = "snd (scheduler_pass s w)" and ?n = "ns_scheduler_batch_size s"
  note db = scheduler_pass_db [OF notif_okD(1-3) [OF assms], of s]
  note frame = scheduler_pass_frame(1) [of s w] scheduler_pass_frame(2) [OF notif_okD(1) [OF assms], of s]
  show ?thesis
  proof (cases "tick_fits ?n w")
    case True
    then have d: "cw_db ?w = cw_db (ticked ''scheduler'' ?n w)" using db by simp
    then have "ndb_outbox (cw_db ?w) = ndb_outbox (cw_db w) @ tick_events ''scheduler'' ?n w"
      by (simp add: ticked_def)
    moreover have "\<forall>e \<in> set (tick_events ''scheduler'' ?n w). obx_published_at e = None"
      unfolding tick_events_def by (blast dest: tick_events_open)
    ultimately have "sent_ok ?w" using notif_okD(5) [OF assms] frame(1) by (rule sent_ok_more [rotated 2])
    then show ?thesis
      using ticked_ok [OF notif_okD(4) [OF assms] True [unfolded tick_fits_def]] frame d
      by (simp add: notif_ok_def)
  next
    case False
    then have "cw_db ?w = cw_db w" using db by simp
    with frame show ?thesis by (intro notif_ok_same [OF assms])
  qed
qed

lemma published_rows_marked:
  assumes "\<forall>x \<in> set es. obx_id x = obx_id e \<longrightarrow> x = e"
    and "obx_published_at (published_rows w i es e) \<noteq> None"
  shows "obx_published_at e \<noteq> None \<or> event_message e \<in> set (accepted_messages w i es)"
  using assms
proof (induction es arbitrary: i)
  case Nil
  then show ?case by simp
next
  case (Cons x xs)
  show ?case
  proof (cases "obx_id e = obx_id x")
    case True
    then have "x = e" using Cons.prems(1) by simp
    with Cons.prems(2) show ?thesis
      by (cases "nw_refusal w (nw_tries w + i)") (simp_all add: published_row_def accepted_def)
  next
    case False
    with Cons.IH [of "Suc i"] Cons.prems show ?thesis by simp blast
  qed
qed

lemma accepted_subset: "set (accepted_messages w i es) \<subseteq> event_message ` set es"
  by (induction es arbitrary: i) auto

lemma publisher_pass_effect:
  fixes s :: notifications_settings
  assumes "cw_tx w = Tx_None" and "distinct (map obx_id (ndb_outbox (cw_db w)))"
  defines "batch \<equiv> selected_events (ns_outbox_batch_size s) w" and "w' \<equiv> snd (publisher_pass s w)"
  shows "cw_tx w' = Tx_None" "ndb_notifications (cw_db w') = ndb_notifications (cw_db w)"
    "ndb_outbox (cw_db w') = map (published_rows w 0 batch) (ndb_outbox (cw_db w))"
    "nw_published w' = nw_published w @ accepted_messages w 0 batch"
    "cw_now w' = cw_now w" "nw_clock w' = nw_clock w"
proof -
  obtain v where "publish_batch s w = (Inr (), v)" "cw_tx v = Tx_None"
      "ndb_notifications (cw_db v) = ndb_notifications (cw_db w)"
      "ndb_outbox (cw_db v) = map (published_rows w 0 batch) (ndb_outbox (cw_db w))"
      "nw_published v = nw_published w @ accepted_messages w 0 batch"
      "cw_now v = cw_now w" "nw_clock v = nw_clock w"
    using publish_batch_effect [OF assms(1,2), of s] unfolding batch_def by blast
  then show "cw_tx w' = Tx_None" "ndb_notifications (cw_db w') = ndb_notifications (cw_db w)"
    "ndb_outbox (cw_db w') = map (published_rows w 0 batch) (ndb_outbox (cw_db w))"
    "nw_published w' = nw_published w @ accepted_messages w 0 batch"
    "cw_now w' = cw_now w" "nw_clock w' = nw_clock w"
    by (simp_all add: w'_def publisher_pass_def catch_run)
qed

lemma publisher_ok:
  assumes "notif_ok w"
  shows "notif_ok (snd (publisher_pass s w))"
    and "notif_ok ((snd (publisher_pass s w))\<lparr>cw_db := cw_db w\<rparr>)"
proof -
  let ?w = "snd (publisher_pass s w)" and ?b = "selected_events (ns_outbox_batch_size s) w"
  note effect = publisher_pass_effect [OF notif_okD(1,3) [OF assms], of s]
  let ?rows = "ndb_outbox (cw_db w)"
  have sub: "set ?b \<subseteq> set ?rows" using set_select_page by (fastforce simp: selected_events_def)
  have sent: "set (nw_published ?w) \<subseteq> event_message ` set ?rows"
    using notif_okD(5) [OF assms] accepted_subset [of w 0 ?b] sub
    unfolding effect(4) sent_ok_def set_append by blast
  have marked: "event_message e \<in> set (nw_published ?w)"
    if "e \<in> set ?rows" and "obx_published_at (published_rows w 0 ?b e) \<noteq> None" for e
  proof -
    have "\<forall>x \<in> set ?b. obx_id x = obx_id e \<longrightarrow> x = e"
      using sub that(1) by (blast dest: key_unique [OF notif_okD(3) [OF assms]])
    from published_rows_marked [OF this that(2)] show ?thesis
      using notif_okD(5) [OF assms] that(1) unfolding effect(4) sent_ok_def set_append by blast
  qed
  have "event_message ` set (ndb_outbox (cw_db ?w)) = event_message ` set ?rows"
    by (simp add: effect(3) image_image)
  then have "sent_ok ?w"
    using sent marked unfolding sent_ok_def by (auto simp: effect(3))
  moreover have "notifications_ok (cw_db ?w)"
    by (rule published_ok [OF notif_okD(4) [OF assms] effect(2,3)])
  ultimately show "notif_ok ?w" using effect(1) by (simp add: notif_ok_def)
  have "sent_ok (?w\<lparr>cw_db := cw_db w\<rparr>)"
    using notif_okD(5) [OF assms] sent unfolding sent_ok_def by (auto simp: effect(4))
  then show "notif_ok (?w\<lparr>cw_db := cw_db w\<rparr>)" using effect(1) notif_okD(4) [OF assms] by (simp add: notif_ok_def)
qed

lemma apply_notif_ok: "notif_ok w \<Longrightarrow> notif_ok (apply_notif s op w)"
  by (cases op) (simp_all add: create_ok cancel_ok scheduler_ok publisher_ok,
    simp_all add: notif_ok_def sent_ok_def)

interpretation notif: operations "apply_notif s" notif_ok for s
  by unfold_locales (rule apply_notif_ok)

section \<open>Nothing that was said is taken back\<close>

text \<open>The statuses in the order of their life: a scheduled notification may be queued or cancelled.\<close>

instantiation notification_status :: order
begin

definition less_eq_notification_status :: "notification_status \<Rightarrow> notification_status \<Rightarrow> bool" where
  "less_eq_notification_status s s' \<longleftrightarrow> s' = s \<or> s = Ntf_Scheduled \<and> s' \<in> {Ntf_Queued, Ntf_Cancelled}"

definition less_notification_status :: "notification_status \<Rightarrow> notification_status \<Rightarrow> bool" where
  "less_notification_status s s' \<longleftrightarrow> s \<le> s' \<and> \<not> s' \<le> s"

instance
  by intro_classes (auto simp: less_eq_notification_status_def less_notification_status_def)

end

lemma scheduled_le_iff: "Ntf_Scheduled \<le> s \<longleftrightarrow> s \<noteq> Ntf_Created"
  by (cases s) (simp_all add: less_eq_notification_status_def)

lemma settled_status_le [simp]: "Ntf_Created \<le> s \<longleftrightarrow> s = Ntf_Created" "Ntf_Queued \<le> s \<longleftrightarrow> s = Ntf_Queued"
  "Ntf_Cancelled \<le> s \<longleftrightarrow> s = Ntf_Cancelled"
  by (auto simp: less_eq_notification_status_def)

definition row_grows :: "notification_row \<Rightarrow> notification_row \<Rightarrow> bool" where
  "row_grows n n' \<longleftrightarrow> ntf_status n \<le> ntf_status n' \<and>
     n' = n\<lparr>ntf_status := ntf_status n', ntf_updated_at := ntf_updated_at n'\<rparr>"

definition event_grows :: "outbox_event \<Rightarrow> outbox_event \<Rightarrow> bool" where
  "event_grows e e' \<longleftrightarrow> (obx_published_at e \<noteq> None \<longrightarrow> e' = e) \<and>
     obx_publish_attempts e \<le> obx_publish_attempts e' \<and>
     e' = e\<lparr>obx_published_at := obx_published_at e', obx_publish_attempts := obx_publish_attempts e',
       obx_last_error := obx_last_error e'\<rparr>"

definition notif_grows :: "notifications_world \<Rightarrow> notifications_world \<Rightarrow> bool" where
  "notif_grows w w' \<longleftrightarrow>
     table_grows row_grows (ndb_notifications (cw_db w)) (ndb_notifications (cw_db w')) \<and>
     table_grows event_grows (ndb_outbox (cw_db w)) (ndb_outbox (cw_db w')) \<and>
     (\<exists>sent. nw_published w' = nw_published w @ sent)"

lemma row_grows_refl [simp]: "row_grows n n"
  by (simp add: row_grows_def)

lemma row_grows_trans: "row_grows l m \<Longrightarrow> row_grows m n \<Longrightarrow> row_grows l n"
  by (cases l; cases m; cases n) (auto simp: row_grows_def)

lemma event_grows_refl [simp]: "event_grows e e"
  by (simp add: event_grows_def)

lemma event_grows_trans: "event_grows d e \<Longrightarrow> event_grows e f \<Longrightarrow> event_grows d f"
  by (cases d; cases e; cases f) (auto simp: event_grows_def)

lemma notif_grows_refl: "notif_grows w w"
  by (simp add: notif_grows_def table_grows_refl)

lemma notif_grows_trans: "notif_grows u v \<Longrightarrow> notif_grows v w \<Longrightarrow> notif_grows u w"
  unfolding notif_grows_def
  by (auto intro: table_grows_trans [OF row_grows_trans] table_grows_trans [OF event_grows_trans])

lemma notif_grows_same:
  "cw_db w' = cw_db w \<Longrightarrow> nw_published w' = nw_published w @ sent \<Longrightarrow> notif_grows w w'"
  by (simp add: notif_grows_def table_grows_refl)

lemma row_grows_status:
  "ntf_status n = Ntf_Scheduled \<Longrightarrow> s \<in> {Ntf_Queued, Ntf_Cancelled} \<Longrightarrow> row_grows n (set_status s now n)"
  by (auto simp: row_grows_def scheduled_le_iff set_status_def)

lemma create_grows:
  assumes "cw_tx w = Tx_None"
  shows "notif_grows w (snd (create_notification s u t p sched key rid w))"
  using assms
proof (cases rule: create_cases [where s = s and u = u and t = t and p = p and sched = sched
      and key = key and rid = rid])
  case (new normal n)
  then show ?thesis by (simp add: notif_grows_def stored_def table_grows_append)
next
  case (clash r)
  then show ?thesis by (intro notif_grows_same [of _ _ "[]"]) simp_all
qed (simp_all add: notif_grows_refl)

lemma cancel_grows:
  assumes "cw_tx w = Tx_None"
  shows "notif_grows w (snd (cancel_notification x u roles w))"
proof -
  have "table_grows row_grows (ndb_notifications d) (ndb_notifications (cancelled_db x now d))" for d now
    unfolding cancelled_db_def by simp (rule table_grows_update, simp_all add: row_grows_status)
  then have "notif_grows w (w\<lparr>cw_db := cancelled_db x (cw_now w) (cw_db w)\<rparr>)"
    by (simp add: notif_grows_def) (simp add: cancelled_db_def table_grows_refl)
  then show ?thesis by (auto simp: cancel_run [OF assms] notif_grows_refl split: option.split)
qed

lemma scheduler_grows:
  assumes "notif_ok w"
  shows "notif_grows w (snd (scheduler_pass s w))"
proof -
  let ?w = "snd (scheduler_pass s w)" and ?n = "ns_scheduler_batch_size s"
  note db = scheduler_pass_db [OF notif_okD(1-3) [OF assms], of s]
  show ?thesis
  proof (cases "tick_fits ?n w")
    case True
    then have d: "cw_db ?w = cw_db (ticked ''scheduler'' ?n w)" using db by simp
    have "\<forall>r \<in> set (due_selection ?n w). ntf_status r = Ntf_Scheduled"
      using set_select_page by (fastforce simp: due_selection_def due_at_def)
    then have "table_grows row_grows (ndb_notifications (cw_db w)) (ndb_notifications (cw_db ?w))"
      unfolding d ticked_def queued_db_def by simp (rule table_grows_update, simp_all add: row_grows_status)
    moreover have "table_grows event_grows (ndb_outbox (cw_db w)) (ndb_outbox (cw_db ?w))"
      unfolding d ticked_def by (simp add: table_grows_append)
    ultimately show ?thesis by (simp add: notif_grows_def scheduler_pass_frame(1))
  next
    case False
    then show ?thesis using db by (intro notif_grows_same [of _ _ "[]"]) (simp_all add: scheduler_pass_frame(1))
  qed
qed

lemma published_rows_grow:
  assumes "\<forall>x \<in> set es. obx_id x = obx_id e \<longrightarrow> obx_published_at e = None"
  shows "event_grows e (published_rows w i es e)"
  using assms
proof (induction es arbitrary: i)
  case (Cons x xs)
  then show ?case
    by (auto simp: published_row_def event_grows_def set_published_def set_publish_failed_def split: option.split)
qed simp

lemma publisher_grows:
  assumes "notif_ok w"
  shows "notif_grows w (snd (publisher_pass s w))"
    and "notif_grows w ((snd (publisher_pass s w))\<lparr>cw_db := cw_db w\<rparr>)"
proof -
  let ?b = "selected_events (ns_outbox_batch_size s) w"
  note effect = publisher_pass_effect [OF notif_okD(1,3) [OF assms], of s]
  have "event_grows e (published_rows w 0 ?b e)" if "e \<in> set (ndb_outbox (cw_db w))" for e
  proof (rule published_rows_grow, intro ballI impI)
    fix x assume "x \<in> set ?b" and "obx_id x = obx_id e"
    moreover from \<open>x \<in> set ?b\<close> have "x \<in> set (ndb_outbox (cw_db w))" "obx_published_at x = None"
      using set_select_page by (fastforce simp: selected_events_def)+
    ultimately show "obx_published_at e = None"
      using that by (metis key_unique [OF notif_okD(3) [OF assms]])
  qed
  then have "table_grows event_grows (ndb_outbox (cw_db w)) (ndb_outbox (cw_db (snd (publisher_pass s w))))"
    using table_grows_map [of "ndb_outbox (cw_db w)" event_grows "published_rows w 0 ?b" "[]"]
    by (simp add: effect(3))
  then show "notif_grows w (snd (publisher_pass s w))"
    by (simp add: notif_grows_def effect(2,4) table_grows_refl)
  show "notif_grows w ((snd (publisher_pass s w))\<lparr>cw_db := cw_db w\<rparr>)"
    by (rule notif_grows_same [where sent = "accepted_messages w 0 ?b"]) (simp_all add: effect(4))
qed

lemma apply_notif_grows: "notif_ok w \<Longrightarrow> notif_grows w (apply_notif s op w)"
  by (cases op) (simp_all add: create_grows cancel_grows scheduler_grows publisher_grows notif_okD(1),
    simp_all add: notif_grows_same [where sent = "[]"])

interpretation notif_order: monotone_operations "apply_notif s" notif_ok notif_grows for s
  by unfold_locales (auto intro: notif_grows_refl notif_grows_trans apply_notif_grows)

end
