(* ===== verification/Notifications_Properties.thy ===== *)
theory Notifications_Properties
  imports Notifications_History
begin

text \<open>
  The properties of the notifications service, over its histories, its queues and its listing,
  each with a concrete service as its witness.
\<close>

section \<open>Rows that stay\<close>

lemma row_grows_fields:
  assumes "row_grows n n'"
  shows "ntf_id n' = ntf_id n" "ntf_created_by n' = ntf_created_by n"
    "ntf_idempotency_key n' = ntf_idempotency_key n" "ntf_status n \<le> ntf_status n'"
  using assms by (cases n; cases n'; simp add: row_grows_def)+

lemma history_row:
  assumes "notif_ok w" and "row_by_id x (cw_db w) = Some n"
  shows "\<exists>n'. row_by_id x (cw_db (fold (apply_notif s) ops w)) = Some n' \<and> row_grows n n'"
proof -
  have "table_grows row_grows (ndb_notifications (cw_db w))
      (ndb_notifications (cw_db (fold (apply_notif s) ops w)))"
    using notif_order.history_grows [OF assms(1)] by (simp add: notif_grows_def)
  then show ?thesis
    using assms(2) unfolding row_by_id_def by (rule table_grows_find) (simp add: row_grows_fields)
qed

lemma history_key:
  assumes "notif_ok w" and "by_key u k (cw_db w) = Some n"
  shows "\<exists>n'. by_key u k (cw_db (fold (apply_notif s) ops w)) = Some n' \<and> row_grows n n'"
proof -
  have "table_grows row_grows (ndb_notifications (cw_db w))
      (ndb_notifications (cw_db (fold (apply_notif s) ops w)))"
    using notif_order.history_grows [OF assms(1)] by (simp add: notif_grows_def)
  then show ?thesis
    using assms(2) unfolding by_key_def by (rule table_grows_find) (simp add: row_grows_fields)
qed

section \<open>A concrete service, for the witnesses\<close>

definition sample_row :: "uuid \<Rightarrow> notification_status \<Rightarrow> instant option \<Rightarrow> notification_row" where
  "sample_row x s sched = \<lparr>ntf_id = x, ntf_topic_id = 60, ntf_payload = [], ntf_scheduled_at = sched,
     ntf_status = s, ntf_created_by = 9, ntf_idempotency_key = None, ntf_created_at = int x,
     ntf_updated_at = 0\<rparr>"

definition sample_outbox_event :: "uuid \<Rightarrow> notification_row \<Rightarrow> outbox_event" where
  "sample_outbox_event x n = \<lparr>obx_id = x, obx_aggregate_type = ''notification'',
     obx_aggregate_id = ntf_id n, obx_event_type = created_event_type, obx_payload = created_event x n,
     obx_headers = [], obx_created_at = int x, obx_published_at = None, obx_publish_attempts = 0,
     obx_last_error = None\<rparr>"

definition sample_service :: notifications_world where
  "sample_service = \<lparr>cw_db = \<lparr>ndb_notifications =
       [sample_row 1 Ntf_Created None, sample_row 2 Ntf_Scheduled (Some 3), sample_row 3 Ntf_Scheduled (Some 4)],
       ndb_outbox = [sample_outbox_event 50 (sample_row 1 Ntf_Created None)]\<rparr>,
     cw_tx = Tx_None, cw_now = 5, cw_uuids = (\<lambda>n. 100 + n), cw_drawn = 0, nw_clock = 5,
     nw_elapsed = (\<lambda>_. 0), nw_timers = 0, nw_metrics = empty_notifications_metrics,
     nw_locked = (\<lambda>_. False), nw_published = [], nw_refusal = (\<lambda>_. None), nw_tries = 0\<rparr>"

lemmas sample_service_defs = sample_service_def sample_row_def sample_outbox_event_def

lemma sample_service_ok: "notif_ok sample_service"
  by (simp add: notif_ok_def notifications_ok_def sent_ok_def sample_service_defs idempotency_ids_def
      announced_def tells_def created_event_def)

section \<open>Properties\<close>

text \<open>
  C15: over every history of requests, scheduler and publisher passes, publishers that die
  before their commit, locks of other sessions and refusals of JetStream, the tables keep their
  keys; the notifications that were created for now or queued have exactly one event and the
  scheduled and cancelled ones none; an event that is marked as published has been sent; and
  nothing was sent but the messages of recorded events.
\<close>

theorem notifications_history_ok:
  assumes "notif_ok w"
  shows "notif_ok (fold (apply_notif s) ops w)"
  using assms by (rule notif.history_keeps)

theorem notifications_history_ok_witness:
  "notif_ok (fold (apply_notif default_notifications_settings)
     [Create 9 60 [(''a'', JInt 1)] None (Some ''k'') ''r'', Scheduler_Pass, Publisher_Dies,
      Cancel 3 9 [], Publisher_Pass] sample_service)"
  by (rule notifications_history_ok [OF sample_service_ok])

text \<open>
  C16: over every history a notification only ever moves from scheduled to queued or to
  cancelled, its other fields (but the time of the update) never change, no row and no event
  disappears, an event that is marked never changes again, the counter of its tries never
  falls, and what was sent stays sent.
\<close>

theorem notifications_history_grows:
  assumes "notif_ok w"
  shows "notif_grows w (fold (apply_notif s) ops w)"
  using assms by (rule notif_order.history_grows)

theorem notifications_history_grows_witness:
  "notif_grows sample_service (fold (apply_notif default_notifications_settings)
     [Scheduler_Pass, Cancel 2 9 [], Publisher_Pass] sample_service)"
  by (rule notifications_history_grows [OF sample_service_ok])

lemma created_by_key:
  assumes "notif_ok w" and "truthy key = Some k"
    and "create_notification s u t p sched key rid w = (Inr (n, b), w')"
  shows "by_key u k (cw_db w') = Some n"
  using notif_okD(1) [OF assms(1)]
proof (cases rule: create_cases [where s = s and u = u and t = t and p = p and sched = sched
      and key = key and rid = rid])
  case (new normal m)
  have key: "key = Some k" using assms(2) by (auto simp: truthy_def split: option.splits if_splits)
  have m: "n = m" "cw_db w' = stored m (new_event rid m w) (cw_db w)" using new(4) assms(3) by auto
  have "ntf_created_by m = u" "ntf_idempotency_key m = Some k"
    by (simp_all add: new(2) new_notification_def key)
  moreover from this have "\<forall>r \<in> set (ndb_notifications (cw_db w)).
      \<not> (ntf_created_by r = u \<and> ntf_idempotency_key r = Some k)"
    using new(3) by (auto simp: can_store_def image_iff)
  then have "by_key u k (cw_db w) = None" by (simp add: by_key_def find_row_None)
  ultimately show ?thesis by (simp add: m by_key_def stored_def find_row_append)
qed (use assms in auto)

text \<open>
  C17: a request with an idempotency key that was answered with a notification is answered
  with the same notification, unless it is invalid, at any later time and whatever happened
  since: nothing is written and no UUID is drawn.
\<close>

theorem one_notification_per_key:
  assumes "notif_ok w" and "truthy key = Some k"
    and "create_notification s u t p sched key rid w = (Inr (n, b), w')"
    and "validate_payload s p' = Inr ()" and "normalize_scheduled_at sched' = Inr normal"
  shows "\<exists>n'. create_notification s u t' p' sched' key rid' (fold (apply_notif s) ops w') =
      (Inr (n', False), fold (apply_notif s) ops w') \<and> row_grows n n'"
proof -
  let ?v = "fold (apply_notif s) ops w'"
  have ok: "notif_ok w'" using create_ok [OF assms(1), of s u t p sched key rid] assms(3) by simp
  obtain n' where n': "by_key u k (cw_db ?v) = Some n'" "row_grows n n'"
    using history_key [OF ok created_by_key [OF assms(1-3)]] by blast
  have "cw_tx ?v = Tx_None" using notif.history_keeps [OF ok] by (rule notif_okD(1))
  with n' assms(2,4,5) show ?thesis
    by (intro exI [of _ n']) (simp add: create_notification_def and_then_run lift_run by_key_run ret_run)
qed

lemma empty_payload_valid: "validate_payload default_notifications_settings [] = Inr ()"
  by (simp add: validate_payload_def payload_size_bytes_def py_join_def default_notifications_settings_def)

lemma sample_create:
  "\<exists>n w'. create_notification default_notifications_settings 9 60 [] None (Some ''k'') ''r'' sample_service =
    (Inr (n, True), w')"
proof -
  have t: "truthy (Some ''k'') = Some ''k''" by (simp add: truthy_def)
  have k: "by_key 9 ''k'' (cw_db sample_service) = None" by (simp add: by_key_def sample_service_defs)
  have tx: "cw_tx sample_service = Tx_None" by (simp add: sample_service_def)
  show ?thesis
    by (simp add: create_notification_def and_then_run lift_run empty_payload_valid t by_key_run tx k
        normalize_scheduled_at_def store_run)
      (simp add: can_store_def new_notification_def new_event_def sample_service_defs Let_def)
qed

theorem one_notification_per_key_witness:
  "\<exists>n w' n'. create_notification default_notifications_settings 9 60 [] None (Some ''k'') ''r'' sample_service =
      (Inr (n, True), w') \<and>
    create_notification default_notifications_settings 9 61 [] (Some (Aware 9)) (Some ''k'') ''q''
        (fold (apply_notif default_notifications_settings) [Publisher_Dies, Scheduler_Pass] w') =
      (Inr (n', False), fold (apply_notif default_notifications_settings) [Publisher_Dies, Scheduler_Pass] w') \<and>
    ntf_id n' = ntf_id n"
proof -
  obtain n w' where run: "create_notification default_notifications_settings 9 60 [] None (Some ''k'') ''r''
      sample_service = (Inr (n, True), w')" using sample_create by blast
  have t: "truthy (Some ''k'') = Some ''k''" by (simp add: truthy_def)
  have "normalize_scheduled_at (Some (Aware 9)) = Inr (Some 9)" by (simp add: normalize_scheduled_at_def)
  from one_notification_per_key [OF sample_service_ok t run empty_payload_valid this, of 61 "''q''" "[Publisher_Dies, Scheduler_Pass]"]
  show ?thesis using run row_grows_fields(1) by blast
qed

text \<open>
  C18: when another request with the same key commits between the look-up and the insert, the
  insert fails, its transaction is rolled back, and the request is answered with the
  notification of the other one.
\<close>

theorem lost_race_returns_winner:
  assumes "cw_tx w = Tx_None" and "truthy key = Some k" and "by_key u k (cw_db w) = Some n"
  shows "store_notification u t p sched key rid w =
    (Inr (n, False), w\<lparr>cw_drawn := Suc (Suc (cw_drawn w))\<rparr>)"
proof -
  have key: "key = Some k" using assms(2) by (auto simp: truthy_def split: option.splits if_splits)
  have "n \<in> set (ndb_notifications (cw_db w))" "ntf_created_by n = u" "ntf_idempotency_key n = Some k"
    using assms(3) by (auto simp: by_key_def dest: find_row_Some)
  then have "(u, Some k) \<in> (\<lambda>r. (ntf_created_by r, ntf_idempotency_key r)) ` set (ndb_notifications (cw_db w))"
    by (metis (mono_tags, lifting) image_eqI)
  then have "\<not> can_store (new_notification u t p sched key w) e (cw_db w)" for e
    by (simp add: can_store_def new_notification_def key)
  then show ?thesis using assms by (simp add: store_run)
qed

theorem lost_race_returns_winner_witness:
  "store_notification 9 60 [] None (Some ''k'') ''r''
     (sample_service\<lparr>cw_db := (cw_db sample_service)\<lparr>ndb_notifications :=
       [sample_row 1 Ntf_Created None\<lparr>ntf_idempotency_key := Some ''k''\<rparr>]\<rparr>\<rparr>) =
   (Inr (sample_row 1 Ntf_Created None\<lparr>ntf_idempotency_key := Some ''k''\<rparr>, False),
     sample_service\<lparr>cw_drawn := 2, cw_db := (cw_db sample_service)\<lparr>ndb_notifications :=
       [sample_row 1 Ntf_Created None\<lparr>ntf_idempotency_key := Some ''k''\<rparr>]\<rparr>\<rparr>)"
proof -
  have "truthy (Some ''k'') = Some ''k''" by (simp add: truthy_def)
  then show ?thesis
    by (subst lost_race_returns_winner [of _ _ "''k''"])
      (simp_all add: by_key_def sample_row_def, simp_all add: sample_service_def)
qed

text \<open>
  C19: a cancellation is answered 404 for an unknown notification, 403 for a notification of
  another user unless the caller is an administrator, 409 for one that is not scheduled (any
  more); otherwise it cancels exactly this notification. No refusal changes anything.
\<close>

theorem cancel_outcome:
  assumes "notif_ok w"
  shows "cancel_notification x u roles w = (case row_by_id x (cw_db w) of
     None \<Rightarrow> (Inl (App Kind_Not_Found ''Notification not found''), w)
   | Some n \<Rightarrow>
      if ntf_created_by n \<noteq> u \<and> ''admin'' \<notin> set roles then (Inl (App Kind_Forbidden ''Forbidden''), w)
      else if ntf_status n \<noteq> Ntf_Scheduled
      then (Inl (App Kind_Conflict ''Only scheduled notifications can be cancelled''), w)
      else (Inr (set_status Ntf_Cancelled (cw_now w) n),
        w\<lparr>cw_db := (cw_db w)\<lparr>ndb_notifications := update_where (\<lambda>r. ntf_id r = x)
          (set_status Ntf_Cancelled (cw_now w)) (ndb_notifications (cw_db w))\<rparr>\<rparr>))"
proof (cases "row_by_id x (cw_db w)")
  case None
  then show ?thesis by (simp add: cancel_run [OF notif_okD(1) [OF assms]])
next
  case (Some n)
  then have n: "n \<in> set (ndb_notifications (cw_db w))" "ntf_id n = x"
    by (auto simp: row_by_id_def dest: find_row_Some)
  then have only: "ntf_id r = x \<longleftrightarrow> r = n" if "r \<in> set (ndb_notifications (cw_db w))" for r
    using key_unique [OF notif_okD(2) [OF assms] that n(1)] n(2) by auto
  have "update_where (\<lambda>r. ntf_id r = x \<and> ntf_status r = Ntf_Scheduled) f (ndb_notifications (cw_db w)) =
      update_where (\<lambda>r. ntf_id r = x) f (ndb_notifications (cw_db w))" if "ntf_status n = Ntf_Scheduled" for f
    unfolding update_where_def using only that by (intro map_cong) auto
  then show ?thesis
    using Some by (simp add: cancel_run [OF notif_okD(1) [OF assms]] may_see_def cancelled_db_def)
qed

theorem cancel_outcome_witness:
  "fst (cancel_notification 2 9 [] sample_service) =
     Inr (sample_row 2 Ntf_Cancelled (Some 3)\<lparr>ntf_updated_at := 5\<rparr>) \<and>
   cancel_notification 2 8 [''user''] sample_service = (Inl (App Kind_Forbidden ''Forbidden''), sample_service)"
  using cancel_outcome [OF sample_service_ok, of 2 9 "[]"] cancel_outcome [OF sample_service_ok, of 2 8 "[''user'']"]
  by (simp add: row_by_id_def sample_service_defs set_status_def)

text \<open>
  C20: a notification whose cancellation was confirmed stays cancelled and is never announced,
  whatever the scheduler and the publisher do afterwards: no event of it is recorded, and
  everything that was sent is the message of an event of another notification.
\<close>

theorem cancelled_is_never_announced:
  fixes s :: notifications_settings and ops :: "notif_op list"
  assumes "notif_ok w" and "cancel_notification x u roles w = (Inr n, w')"
  defines "v \<equiv> fold (apply_notif s) ops w'"
  shows "\<exists>n'. row_by_id x (cw_db v) = Some n' \<and> ntf_status n' = Ntf_Cancelled \<and>
    (\<forall>m \<in> set (nw_published v). \<exists>e \<in> set (ndb_outbox (cw_db v)). m = event_message e) \<and>
    (\<forall>e \<in> set (ndb_outbox (cw_db v)). obx_aggregate_id e \<noteq> x)"
proof -
  have ok': "notif_ok w'" using cancel_ok [OF assms(1), of x u roles] assms(2) by simp
  obtain m where m: "row_by_id x (cw_db w) = Some m" "ntf_status m = Ntf_Scheduled"
      "w' = w\<lparr>cw_db := cancelled_db x (cw_now w) (cw_db w)\<rparr>"
    using assms(2) by (auto simp: cancel_run [OF notif_okD(1) [OF assms(1)]] split: option.splits if_splits)
  have "row_by_id x (cw_db w') = Some (set_status Ntf_Cancelled (cw_now w) m)"
    using m unfolding row_by_id_def
    by (auto simp: cancelled_db_def find_row_update_where dest: find_row_Some)
  from history_row [OF ok' this, of s ops]
  obtain n' where n': "row_by_id x (cw_db v) = Some n'"
      "row_grows (set_status Ntf_Cancelled (cw_now w) m) n'" unfolding v_def by blast
  have cancelled: "ntf_status n' = Ntf_Cancelled"
    using row_grows_fields(4) [OF n'(2)] by simp
  have ok: "notif_ok v" unfolding v_def by (rule notif.history_keeps [OF ok'])
  have "n' \<in> set (ndb_notifications (cw_db v))" "ntf_id n' = x"
    using n'(1) by (auto simp: row_by_id_def dest: find_row_Some)
  then have "x \<notin> obx_aggregate_id ` set (ndb_outbox (cw_db v))"
    using notif_okD(4) [OF ok] cancelled unfolding notifications_ok_def announced_def by auto
  moreover have "set (nw_published v) \<subseteq> event_message ` set (ndb_outbox (cw_db v))"
    using notif_okD(5) [OF ok] by (simp add: sent_ok_def)
  ultimately show ?thesis using n'(1) cancelled by blast
qed

theorem cancelled_is_never_announced_witness:
  "\<exists>n w' n'. cancel_notification 2 9 [] sample_service = (Inr n, w') \<and>
    row_by_id 2 (cw_db (fold (apply_notif default_notifications_settings)
      [Scheduler_Pass, Publisher_Pass] w')) = Some n' \<and> ntf_status n' = Ntf_Cancelled"
proof -
  have "row_by_id 2 (cw_db sample_service) = Some (sample_row 2 Ntf_Scheduled (Some 3))"
    by (simp add: row_by_id_def sample_service_defs)
  then have "\<exists>n w'. cancel_notification 2 9 [] sample_service = (Inr n, w')"
    by (simp add: cancel_run [OF notif_okD(1) [OF sample_service_ok]] may_see_def sample_row_def)
  then obtain n w' where run: "cancel_notification 2 9 [] sample_service = (Inr n, w')" by blast
  from cancelled_is_never_announced [OF sample_service_ok run, of default_notifications_settings
      "[Scheduler_Pass, Publisher_Pass]"] run
  show ?thesis by blast
qed

section \<open>The two queues are worked off\<close>

lemma iterate_pair:
  fixes f :: "'a \<Rightarrow> 'b \<Rightarrow> 'b"
  shows "((\<lambda>(s, w). (s, f s w)) ^^ k) (s, w) = (s, (f s ^^ k) w)"
  by (induction k) simp_all

text \<open>
  C21: while nothing is locked and the drawn UUIDs are fresh, enough passes of the scheduler
  (the number of due notifications divided by the size of a batch, rounded up) leave no
  notification due, and have recorded one event for each, in the order of their times.
\<close>

theorem scheduler_drains:
  assumes "calm_schedule w" and "length (due_list w) \<le> k * ns_scheduler_batch_size s"
  defines "w' \<equiv> ((\<lambda>w. snd (scheduler_pass s w)) ^^ k) w"
  shows "due_list w' = [] \<and> map obx_aggregate_id (ndb_outbox (cw_db w')) =
    map obx_aggregate_id (ndb_outbox (cw_db w)) @ map ntf_id (due_list w)"
  using scheduler.drained [of "(s, w)" k] assms(1,2)
  by (simp add: iterate_pair [where f = "\<lambda>s w. snd (scheduler_pass s w)"] w'_def)

lemma sample_service_calm: "calm_schedule sample_service" "calm_outbox sample_service"
  by (auto simp: calm_schedule_def calm_outbox_def fresh_uuids_def sample_service_defs inj_def)

lemma sample_due: "due_list sample_service = [sample_row 2 Ntf_Scheduled (Some 3), sample_row 3 Ntf_Scheduled (Some 4)]"
  by (simp add: due_list_def due_at_def sample_service_defs schedule_key_def)

theorem scheduler_drains_witness:
  "due_list (((\<lambda>w. snd (scheduler_pass (default_notifications_settings\<lparr>ns_scheduler_batch_size := 1\<rparr>) w)) ^^ 2)
     sample_service) = []"
  using scheduler_drains [OF sample_service_calm(1), of 2
      "default_notifications_settings\<lparr>ns_scheduler_batch_size := 1\<rparr>"]
  by (simp add: sample_due)

text \<open>
  C22: while nothing is locked and JetStream takes what it is given, enough passes of the
  publisher leave nothing unpublished and have sent every waiting event exactly once, in the
  order of the times of the events.
\<close>

theorem publisher_drains:
  assumes "calm_outbox w" and "length (unpublished (cw_db w)) \<le> k * ns_outbox_batch_size s"
  defines "w' \<equiv> ((\<lambda>w. snd (publish_batch s w)) ^^ k) w"
  shows "unpublished (cw_db w') = [] \<and>
    nw_published w' = nw_published w @ map event_message (unpublished (cw_db w))"
  using publisher.drained [of "(s, w)" k] assms(1,2)
  by (simp add: iterate_pair [where f = "\<lambda>s w. snd (publish_batch s w)"] w'_def)

lemma sample_unpublished:
  "unpublished (cw_db sample_service) = [sample_outbox_event 50 (sample_row 1 Ntf_Created None)]"
  by (simp add: unpublished_def sample_service_defs)

theorem publisher_drains_witness:
  "nw_published (((\<lambda>w. snd (publish_batch default_notifications_settings w)) ^^ 1) sample_service) =
     [event_message (sample_outbox_event 50 (sample_row 1 Ntf_Created None))]"
proof -
  have "ns_outbox_batch_size default_notifications_settings = 100" "nw_published sample_service = []"
    by (simp_all add: default_notifications_settings_def sample_service_def)
  then show ?thesis
    using publisher_drains [OF sample_service_calm(2), of 1 default_notifications_settings]
    by (simp add: sample_unpublished)
qed

section \<open>The listing of a user\<close>

definition user_notifications ::
  "uuid \<Rightarrow> string option \<Rightarrow> uuid option \<Rightarrow> notifications_db \<Rightarrow> notification_row list" where
  "user_notifications u status topic d = sort_key newest_key (filter (\<lambda>n. ntf_created_by n = u \<and>
     (case status of None \<Rightarrow> True | Some s \<Rightarrow> status_text (ntf_status n) = s) \<and>
     (case topic of None \<Rightarrow> True | Some t \<Rightarrow> ntf_topic_id n = t)) (ndb_notifications d))"

definition row_link :: "notification_row \<Rightarrow> string" where
  "row_link n = notifications_cursor (ntf_created_at n) (ntf_id n)"

definition listable :: "notifications_world \<Rightarrow> string option \<Rightarrow> bool" where
  "listable w status \<longleftrightarrow> cw_tx w = Tx_None \<and> distinct (map ntf_id (ndb_notifications (cw_db w))) \<and>
     (\<forall>n \<in> set (ndb_notifications (cw_db w)). is_uuid (ntf_id n) \<and> instant_ok (ntf_created_at n)) \<and>
     (case status of None \<Rightarrow> True | Some s \<Rightarrow> s \<in> set allowed_status_filters)"

lemma list_notifications_run:
  assumes "listable w status"
    and "bind_sum (decode_cursor (fst rd) cursor) (instant_cursor_data (snd rd)) = Inr c"
  shows "list_my_notifications rd u limit cursor status topic w = (cut_page row_link limit
    (filter (after_cursor newest_key (map_option (\<lambda>(t, i). desc_key t i) c))
      (user_notifications u status topic (cw_db w))), w)"
proof -
  have tx: "cw_tx w \<noteq> Tx_Failed" using assms(1) by (simp add: listable_def)
  have "\<not> (case status of None \<Rightarrow> False | Some s \<Rightarrow> s \<notin> set allowed_status_filters)"
    using assms(1) by (auto simp: listable_def split: option.splits)
  then have "list_my_notifications rd u limit cursor status topic w =
      and_then (list_by_user u (limit + 1) c status topic) (\<lambda>rows. lift (cut_page row_link limit rows)) w"
    using assms(2) by (simp add: list_my_notifications_def lift_bind and_then_run lift_run row_link_def [abs_def])
  also have "\<dots> = (cut_page row_link limit
    (filter (after_cursor newest_key (map_option (\<lambda>(t, i). desc_key t i) c))
      (user_notifications u status topic (cw_db w))), w)"
    using tx cut_selected_page [where f = "\<lambda>n. n" and key = newest_key and k = newest_key
        and c = row_link and n = limit and a = "map_option (\<lambda>(t, i). desc_key t i) c"
        and p = "\<lambda>n. ntf_created_by n = u \<and>
          (case status of None \<Rightarrow> True | Some s \<Rightarrow> status_text (ntf_status n) = s) \<and>
          (case topic of None \<Rightarrow> True | Some t \<Rightarrow> ntf_topic_id n = t)"
        and rows = "ndb_notifications (cw_db w)"]
    by (simp add: list_by_user_def and_then_run sql_run lift_run user_notifications_def)
  finally show ?thesis .
qed

lemma notifications_strict:
  assumes "listable w status"
  shows "sorted_wrt (<) (map newest_key (user_notifications u status topic (cw_db w)))"
proof -
  have "distinct (map ntf_id (ndb_notifications (cw_db w)))" using assms by (simp add: listable_def)
  then have "distinct (map newest_key (ndb_notifications (cw_db w)))"
    by (rule distinct_keys) (simp add: newest_key_def desc_key_inj)
  then show ?thesis
    using strict_selection [of newest_key "\<lambda>n. n" newest_key "ndb_notifications (cw_db w)"]
    by (simp add: user_notifications_def)
qed

interpretation notification_listing: paged_listing
  "\<lambda>(rd, w, u, status, topic). listable w status"
  "\<lambda>(rd, w, u, status, topic). user_notifications u status topic (cw_db w)" newest_key
  "\<lambda>(rd, w, u, status, topic) limit cursor. fst (list_my_notifications rd u limit cursor status topic w)"
  row_link
proof (unfold_locales, goal_cases)
  case (1 s)
  then show ?case by (auto intro: notifications_strict)
next
  case (2 s limit)
  then show ?case by (auto simp: list_notifications_run)
next
  case (3 s r limit)
  obtain rd w u status topic where s: "s = (rd, w, u, status, topic)" by (cases s)
  with 3 have ok: "listable w status" and r: "r \<in> set (user_notifications u status topic (cw_db w))" by simp_all
  then have "instant_ok (ntf_created_at r)" "is_uuid (ntf_id r)"
    by (auto simp: listable_def user_notifications_def)
  from list_notifications_run [OF ok instant_cursor_roundtrip [OF this]]
  show ?case
    by (simp only: s prod.case row_link_def notifications_cursor_def fst_conv option.map
        after_cursor_simps newest_key_def [of r])
qed

text \<open>
  C23: following the cursors of a user's notifications ends, and visits exactly the user's
  notifications that pass the filters, each once, the newest first.
\<close>

theorem notification_listing_complete:
  assumes "listable w status" and "0 < limit"
  shows "\<exists>pages. follow_pages (Suc (length (user_notifications u status topic (cw_db w))))
      (\<lambda>cursor. fst (list_my_notifications rd u limit cursor status topic w)) None = Inr pages \<and>
    set (concat pages) = {n \<in> set (ndb_notifications (cw_db w)). ntf_created_by n = u \<and>
      (case status of None \<Rightarrow> True | Some s \<Rightarrow> status_text (ntf_status n) = s) \<and>
      (case topic of None \<Rightarrow> True | Some t \<Rightarrow> ntf_topic_id n = t)} \<and>
    sorted_wrt (\<lambda>a b. newest_key a < newest_key b) (concat pages) \<and>
    (\<forall>p \<in> set pages. length p \<le> limit)"
proof -
  obtain pages where "follow_pages (Suc (length (user_notifications u status topic (cw_db w))))
      (\<lambda>cursor. fst (list_my_notifications rd u limit cursor status topic w)) None = Inr pages"
      "concat pages = user_notifications u status topic (cw_db w)" "\<forall>p \<in> set pages. length p \<le> limit"
    using notification_listing.follow_visits_all [of "(rd, w, u, status, topic)" limit] assms by auto
  moreover have "sorted_wrt (\<lambda>a b. newest_key a < newest_key b) (user_notifications u status topic (cw_db w))"
    using notifications_strict [OF assms(1)] by (simp add: sorted_wrt_map)
  moreover have "set (user_notifications u status topic (cw_db w)) = {n \<in> set (ndb_notifications (cw_db w)).
      ntf_created_by n = u \<and> (case status of None \<Rightarrow> True | Some s \<Rightarrow> status_text (ntf_status n) = s) \<and>
      (case topic of None \<Rightarrow> True | Some t \<Rightarrow> ntf_topic_id n = t)}"
    by (simp add: user_notifications_def)
  ultimately show ?thesis by (intro exI [of _ pages]) (simp del: set_concat follow_pages.simps)
qed

theorem notification_listing_complete_witness:
  "\<exists>pages. follow_pages 3 (\<lambda>cursor. fst (list_my_notifications (\<lambda>_. Load_Error, \<lambda>_. Inl Value_Error) 9 1 cursor
      (Some ''scheduled'') None sample_service)) None = Inr pages \<and>
    set (concat pages) = {sample_row 2 Ntf_Scheduled (Some 3), sample_row 3 Ntf_Scheduled (Some 4)}"
proof -
  have "instant_ok 1 \<and> instant_ok 2 \<and> instant_ok 3" by code_simp
  then have ok: "listable sample_service (Some ''scheduled'')"
    by (simp add: listable_def sample_service_defs allowed_status_filters_def is_uuid_def)
  have l: "length (user_notifications 9 (Some ''scheduled'') None (cw_db sample_service)) = 2"
    by (simp add: user_notifications_def sample_service_defs status_text_def)
  have "{n \<in> set (ndb_notifications (cw_db sample_service)). ntf_created_by n = 9 \<and>
      status_text (ntf_status n) = ''scheduled''} =
      {sample_row 2 Ntf_Scheduled (Some 3), sample_row 3 Ntf_Scheduled (Some 4)}"
    by (auto simp: sample_service_defs status_text_def)
  then show ?thesis
    using notification_listing_complete [OF ok, of 1 9 None "(\<lambda>_. Load_Error, \<lambda>_. Inl Value_Error)"]
    by (auto simp: l numeral_3_eq_3 numeral_2_eq_2 simp del: set_concat follow_pages.simps)
qed

section \<open>The limits of a payload\<close>

text \<open>\<open>inside k v x\<close>: the value \<open>x\<close> lies in \<open>v\<close> on level \<open>k\<close>, where \<open>v\<close> itself is on level 1.\<close>

inductive inside :: "nat \<Rightarrow> json \<Rightarrow> json \<Rightarrow> bool" where
  here: "inside 1 v v"
| in_list: "v \<in> set vs \<Longrightarrow> inside k v x \<Longrightarrow> inside (Suc k) (JList vs) x"
| in_dict: "(key, v) \<in> set d \<Longrightarrow> inside k v x \<Longrightarrow> inside (Suc k) (JDict d) x"

inductive_cases inside_list: "inside k (JList vs) x"
inductive_cases inside_dict: "inside k (JDict d) x"

lemma inside_list_levels:
  "inside k (JList vs) x \<Longrightarrow> k = 1 \<or> (\<exists>k' v. k = Suc k' \<and> v \<in> set vs \<and> inside k' v x)"
  by (auto elim: inside_list)

lemma inside_dict_levels:
  "v \<in> set (map snd d) \<Longrightarrow> inside k v x \<Longrightarrow> inside (Suc k) (JDict d) x"
  "inside k (JDict d) x \<Longrightarrow> k = 1 \<or> (\<exists>k' v. k = Suc k' \<and> v \<in> set (map snd d) \<and> inside k' v x)"
  by (force intro: in_dict) (force elim: inside_dict)

lemma depth_of_lists [simp]:
  "depth_of_values vs c = map (\<lambda>v. payload_depth v c) vs"
  "depth_of_members d c = map (\<lambda>(key, v). payload_depth v c) d"
  by (induction vs, simp_all) (induction d, auto)

lemma fold_max_greatest:
  assumes "(xs :: nat list) \<noteq> []"
  shows "fold max xs 0 \<in> set xs" and "x \<in> set xs \<Longrightarrow> x \<le> fold max xs 0"
proof -
  obtain y ys where xs: "xs = y # ys" using assms by (cases xs) auto
  then have "fold max xs 0 = Max (set xs)" by (simp only: xs fold_simps max_0R Max.set_eq_fold)
  then show "fold max xs 0 \<in> set xs" and "x \<in> set xs \<Longrightarrow> x \<le> fold max xs 0"
    using assms by simp_all
qed

lemma payload_depth_container:
  assumes "vs \<noteq> []" and "\<And>v c. v \<in> set vs \<Longrightarrow>
      (\<exists>k x. inside k v x \<and> payload_depth v c = c + k) \<and> (\<forall>k x. inside k v x \<longrightarrow> c + k \<le> payload_depth v c)"
    and up: "\<And>k v x. v \<in> set vs \<Longrightarrow> inside k v x \<Longrightarrow> inside (Suc k) j x"
    and down: "\<And>k x. inside k j x \<Longrightarrow> k = 1 \<or> (\<exists>k' v. k = Suc k' \<and> v \<in> set vs \<and> inside k' v x)"
  defines "m \<equiv> \<lambda>c. fold max (map (\<lambda>v. payload_depth v (c + 1)) vs) 0"
  shows "(\<exists>k x. inside k j x \<and> m c = c + k) \<and> (\<forall>k x. inside k j x \<longrightarrow> c + k \<le> m c)"
proof
  let ?ds = "map (\<lambda>v. payload_depth v (c + 1)) vs"
  have "m c \<in> set ?ds" unfolding m_def using assms(1) by (intro fold_max_greatest) simp
  then obtain v where v: "v \<in> set vs" "m c = payload_depth v (c + 1)" by auto
  with assms(2) obtain k x where "inside k v x" "m c = c + 1 + k" by metis
  with up [OF v(1)] show "\<exists>k x. inside k j x \<and> m c = c + k" by fastforce
  have below: "payload_depth v (c + 1) \<le> m c" if "v \<in> set vs" for v
    unfolding m_def using that by (intro fold_max_greatest) auto
  show "\<forall>k x. inside k j x \<longrightarrow> c + k \<le> m c"
  proof (intro allI impI)
    fix k x assume "inside k j x"
    from down [OF this] show "c + k \<le> m c"
    proof
      assume "k = 1"
      moreover have "inside 1 v v" by (rule here)
      with assms(2) [OF v(1)] have "c + 1 + 1 \<le> payload_depth v (c + 1)" by blast
      ultimately show ?thesis using v(2) by simp
    next
      assume "\<exists>k' v. k = Suc k' \<and> v \<in> set vs \<and> inside k' v x"
      then obtain k' v' where "k = Suc k'" "v' \<in> set vs" "inside k' v' x" by blast
      moreover from this assms(2) have "c + 1 + k' \<le> payload_depth v' (c + 1)" by blast
      ultimately show ?thesis using below [of v'] by simp
    qed
  qed
qed

lemma payload_depth_levels:
  "(\<exists>k x. inside k j x \<and> payload_depth j c = c + k) \<and> (\<forall>k x. inside k j x \<longrightarrow> c + k \<le> payload_depth j c)"
proof (induction j arbitrary: c)
  case (JList vs)
  show ?case
  proof (cases "vs = []")
    case True
    then show ?thesis using here [of "JList []"] by (auto elim: inside_list)
  next
    case False
    from payload_depth_container [OF False JList.IH in_list inside_list_levels, where c = c] False
    show ?thesis by simp
  qed
next
  case (JDict d)
  show ?case
  proof (cases "d = []")
    case True
    then show ?thesis using here [of "JDict []"] by (auto elim: inside_dict)
  next
    case False
    have "(\<exists>k x. inside k v x \<and> payload_depth v c = c + k) \<and>
        (\<forall>k x. inside k v x \<longrightarrow> c + k \<le> payload_depth v c)" if "v \<in> set (map snd d)" for v c
      using that JDict.IH by fastforce
    moreover have "map snd d \<noteq> []" using False by simp
    ultimately show ?thesis
      using payload_depth_container [of "map snd d" "JDict d" c] inside_dict_levels [where d = d] False
      by (simp add: case_prod_beta' comp_def del: set_map)
  qed
qed (auto intro: here [unfolded One_nat_def] elim: inside.cases)

text \<open>
  C24: a payload is refused as too large exactly when its JSON text in UTF-8 has more bytes than
  the limit, and otherwise as too deep exactly when some value in it lies on a level beyond the
  limit, where the payload itself is on level 1; every other payload is accepted.
\<close>

theorem validate_payload_limits:
  "validate_payload s p =
    (if ns_payload_max_bytes s < length (json_text (JDict p))
     then Inl (App Kind_Validation ''Payload is too large'')
     else if \<exists>k x. inside k (JDict p) x \<and> ns_payload_max_depth s < k
     then Inl (App Kind_Validation ''Payload is too deep'')
     else Inr ())"
proof -
  from payload_depth_levels [of "JDict p" 0]
  have "ns_payload_max_depth s < payload_depth (JDict p) 0 \<longleftrightarrow>
      (\<exists>k x. inside k (JDict p) x \<and> ns_payload_max_depth s < k)"
    by (metis add_0 order_less_le_trans)
  then show ?thesis by (simp add: validate_payload_def payload_size_bytes_def)
qed

end
