(* ===== verification/Processes.thy ===== *)
theory Processes
  imports Notifications_Properties
begin

text \<open>
  The processes of the notifications service that run the outbox publisher and the scheduler
  (\<open>core/entrypoints.py\<close>, the loops of \<open>services/outbox\_publisher.py\<close> and \<open>scheduler/loop.py\<close>,
  \<open>workers/outbox\_worker.py\<close>): a main coroutine that opens the resources, starts the loop, waits
  for a signal, stops the loop and closes the resources, and the task with the loop. The steps of
  the two interleave at the points where the code awaits something; one pass of a loop is one step
  on the world of the service, or it waits for an answer that never comes.
\<close>

section \<open>State\<close>

datatype resource = Database | Nats

datatype main_at = Opening "resource list" | Awaiting | Stopping | Joining | Closing "resource list"
  | Ended | Failed | Close_Failed "resource list"

datatype task_at = No_Task | Testing | Working | Hung | Waiting | Finished

record 'w process =
  pr_main :: main_at
  pr_task :: task_at
  pr_signal :: bool
  pr_stop :: bool
  pr_open :: "resource list"
  pr_passes :: nat
  pr_world :: 'w

definition new_process :: "resource list \<Rightarrow> 'w \<Rightarrow> 'w process" where
  "new_process rs w = \<lparr>pr_main = Opening rs, pr_task = No_Task, pr_signal = False, pr_stop = False,
     pr_open = [], pr_passes = 0, pr_world = w\<rparr>"

section \<open>Steps\<close>

text \<open>
  \<open>stop\_event.set\<close> of the entry point is the signal, the stop event of the loop is \<open>pr\_stop\<close>. A
  start-up that raises ends the process without closing what was opened before it, and a shutdown
  that raises ends it without closing what comes after it in the \<open>finally\<close> block: the list of
  \<open>Close_Failed\<close> starts with the resource whose shutdown raised. A pass catches its exceptions
  (\<open>works\<close>); while it awaits the database or the NATS server it may also never return (\<open>hangs\<close>),
  and of the tables then nothing is known. The wait of a loop ends by its time-out or by the
  stop event; both lead to the next test.
\<close>

inductive process_step :: "resource list \<Rightarrow> ('w \<Rightarrow> 'w) \<Rightarrow> 'w process \<Rightarrow> 'w process \<Rightarrow> bool"
  for rs :: "resource list" and pass :: "'w \<Rightarrow> 'w" where
  opens: "pr_main p = Opening (r # rest) \<Longrightarrow>
    process_step rs pass p (p\<lparr>pr_main := Opening rest, pr_open := pr_open p @ [r]\<rparr>)"
| fails: "pr_main p = Opening (r # rest) \<Longrightarrow> process_step rs pass p (p\<lparr>pr_main := Failed\<rparr>)"
| starts: "pr_main p = Opening [] \<Longrightarrow>
    process_step rs pass p (p\<lparr>pr_main := Awaiting, pr_task := Testing\<rparr>)"
| signals: "pr_main p \<in> {Awaiting, Stopping, Joining} \<Longrightarrow> \<not> pr_signal p \<Longrightarrow>
    process_step rs pass p (p\<lparr>pr_signal := True\<rparr>)"
| wakes: "pr_main p = Awaiting \<Longrightarrow> pr_signal p \<Longrightarrow> process_step rs pass p (p\<lparr>pr_main := Stopping\<rparr>)"
| stops: "pr_main p = Stopping \<Longrightarrow> process_step rs pass p (p\<lparr>pr_main := Joining, pr_stop := True\<rparr>)"
| joins: "pr_main p = Joining \<Longrightarrow> pr_task p = Finished \<Longrightarrow>
    process_step rs pass p (p\<lparr>pr_main := Closing (rev rs)\<rparr>)"
| closes: "pr_main p = Closing (r # rest) \<Longrightarrow>
    process_step rs pass p (p\<lparr>pr_main := Closing rest, pr_open := remove1 r (pr_open p)\<rparr>)"
| close_fails: "pr_main p = Closing (r # rest) \<Longrightarrow>
    process_step rs pass p (p\<lparr>pr_main := Close_Failed (r # rest)\<rparr>)"
| ends: "pr_main p = Closing [] \<Longrightarrow> process_step rs pass p (p\<lparr>pr_main := Ended\<rparr>)"
| tests: "pr_task p = Testing \<Longrightarrow>
    process_step rs pass p (p\<lparr>pr_task := (if pr_stop p then Finished else Working)\<rparr>)"
| works: "pr_task p = Working \<Longrightarrow> process_step rs pass p
    (p\<lparr>pr_task := Waiting, pr_passes := Suc (pr_passes p), pr_world := pass (pr_world p)\<rparr>)"
| hangs: "pr_task p = Working \<Longrightarrow> process_step rs pass p (p\<lparr>pr_task := Hung, pr_world := w'\<rparr>)"
| waits: "pr_task p = Waiting \<Longrightarrow> process_step rs pass p (p\<lparr>pr_task := Testing\<rparr>)"

inductive_cases process_stepE: "process_step rs pass p q"

abbreviation process_run :: "resource list \<Rightarrow> ('w \<Rightarrow> 'w) \<Rightarrow> 'w process \<Rightarrow> 'w process \<Rightarrow> bool" where
  "process_run rs pass \<equiv> (process_step rs pass)\<^sup>*\<^sup>*"

text \<open>The two processes.\<close>

definition publisher_process :: "notifications_settings \<Rightarrow> notifications_world process \<Rightarrow> notifications_world process \<Rightarrow> bool" where
  "publisher_process s = process_step [Database, Nats] (\<lambda>w. snd (publisher_pass s w))"

definition scheduler_process :: "notifications_settings \<Rightarrow> notifications_world process \<Rightarrow> notifications_world process \<Rightarrow> bool" where
  "scheduler_process s = process_step [Database] (\<lambda>w. snd (scheduler_pass s w))"

text \<open>The worker inside the application: a new task only when there is none or the last one is done.\<close>

definition worker_start :: "'w process \<Rightarrow> 'w process" where
  "worker_start p = (if pr_task p \<in> {No_Task, Finished} then p\<lparr>pr_task := Testing\<rparr> else p)"

section \<open>The invariant\<close>

text \<open>
  While there is a task all resources are open; the loop is stopped only when the signal came,
  and the resources are only closed, the last one first, after the task has finished.
\<close>

definition process_ok :: "resource list \<Rightarrow> 'w process \<Rightarrow> bool" where
  "process_ok rs p \<longleftrightarrow> (case pr_main p of
     Opening rest \<Rightarrow> pr_task p = No_Task \<and> \<not> pr_stop p \<and> pr_open p @ rest = rs
   | Awaiting \<Rightarrow> pr_task p \<in> {Testing, Working, Hung, Waiting} \<and> \<not> pr_stop p \<and> pr_open p = rs
   | Stopping \<Rightarrow> pr_task p \<in> {Testing, Working, Hung, Waiting} \<and> \<not> pr_stop p \<and> pr_open p = rs \<and> pr_signal p
   | Joining \<Rightarrow> pr_task p \<noteq> No_Task \<and> pr_stop p \<and> pr_open p = rs \<and> pr_signal p
   | Closing rest \<Rightarrow> pr_task p = Finished \<and> pr_stop p \<and> pr_open p = rev rest \<and>
       (\<exists>closed. rs = pr_open p @ closed) \<and> pr_signal p
   | Ended \<Rightarrow> pr_task p = Finished \<and> pr_stop p \<and> pr_open p = [] \<and> pr_signal p
   | Failed \<Rightarrow> pr_task p = No_Task \<and> \<not> pr_stop p
   | Close_Failed rest \<Rightarrow> pr_task p = Finished \<and> pr_stop p \<and> rest \<noteq> [] \<and> pr_open p = rev rest \<and>
       (\<exists>closed. rs = pr_open p @ closed) \<and> pr_signal p)"

lemma new_process_ok: "process_ok rs (new_process rs w)"
  by (simp add: process_ok_def new_process_def)

lemma remove1_last: "distinct (xs @ [x]) \<Longrightarrow> remove1 x (xs @ [x]) = xs"
  by (simp add: remove1_append)

lemma process_step_ok:
  assumes "process_step rs pass p q" and "process_ok rs p" and "distinct rs"
  shows "process_ok rs q"
  using assms
  by (induction rule: process_step.induct) (auto simp: process_ok_def remove1_last split: main_at.splits)

text \<open>As long as no pass hangs, the state of the service is what the passes made of it.\<close>

definition world_ok :: "('w \<Rightarrow> 'w) \<Rightarrow> 'w \<Rightarrow> 'w process \<Rightarrow> bool" where
  "world_ok pass w p \<longleftrightarrow> pr_task p \<noteq> Hung \<longrightarrow> pr_world p = (pass ^^ pr_passes p) w"

lemma process_step_world:
  "process_step rs pass p q \<Longrightarrow> process_ok rs p \<Longrightarrow> world_ok pass w p \<Longrightarrow> world_ok pass w q"
  by (induction rule: process_step.induct) (auto simp: world_ok_def process_ok_def)

lemma process_run_ok:
  assumes "process_run rs pass p q" and "process_ok rs p" and "distinct rs" and "world_ok pass w p"
  shows "process_ok rs q \<and> world_ok pass w q"
  using assms(1)
proof (induction rule: rtranclp_induct)
  case base
  show ?case using assms(2,4) by simp
next
  case (step p q)
  then show ?case
    using process_step_ok [OF step.hyps(2) _ assms(3)] process_step_world [OF step.hyps(2)] by simp
qed

section \<open>The end of a process\<close>

definition task_left :: "task_at \<Rightarrow> nat" where
  "task_left t = (case t of Working \<Rightarrow> 3 | Waiting \<Rightarrow> 2 | Testing \<Rightarrow> 1 | _ \<Rightarrow> 0)"

definition steps_left :: "resource list \<Rightarrow> 'w process \<Rightarrow> nat" where
  "steps_left rs p = task_left (pr_task p) + (case pr_main p of
     Joining \<Rightarrow> length rs + 2 | Closing rest \<Rightarrow> length rest + 1 | _ \<Rightarrow> 0)"

text \<open>After the stop a pass can only be the one that is about to run.\<close>

definition passes_left :: "'w process \<Rightarrow> nat" where
  "passes_left p = (if pr_task p = Working then 1 else 0)"

lemma step_after_stop:
  assumes "process_step rs pass p q" and "process_ok rs p" and "pr_stop p"
  shows "pr_stop q \<and> Suc (steps_left rs q) \<le> steps_left rs p \<and>
    pr_passes q + passes_left q \<le> pr_passes p + passes_left p"
  using assms
  by (induction rule: process_step.induct)
    (auto simp: process_ok_def steps_left_def task_left_def passes_left_def split: main_at.splits)

lemma steps_after_stop:
  assumes "(process_step rs pass ^^ n) p q" and "process_ok rs p" and "pr_stop p" and "distinct rs"
  shows "process_ok rs q \<and> pr_stop q \<and> n + steps_left rs q \<le> steps_left rs p \<and>
    pr_passes q + passes_left q \<le> pr_passes p + passes_left p"
  using assms(1)
proof (induction n arbitrary: q)
  case 0
  then show ?case using assms by auto
next
  case (Suc n)
  then obtain r where "(process_step rs pass ^^ n) p r" and last: "process_step rs pass r q" by auto
  with Suc.IH have "process_ok rs r" "pr_stop r" "n + steps_left rs r \<le> steps_left rs p"
      "pr_passes r + passes_left r \<le> pr_passes p + passes_left p" by auto
  then show ?case using step_after_stop [OF last] process_step_ok [OF last _ assms(4)] by auto
qed

text \<open>How a process that was told to stop can end.\<close>

definition over :: "'w process \<Rightarrow> bool" where
  "over p \<longleftrightarrow> (case pr_main p of Ended \<Rightarrow> True | Close_Failed rest \<Rightarrow> True
     | Joining \<Rightarrow> pr_task p = Hung | _ \<Rightarrow> False)"

lemma over_cases:
  "over p \<longleftrightarrow> pr_main p = Ended \<or> (\<exists>rest. pr_main p = Close_Failed rest) \<or> pr_main p = Joining \<and> pr_task p = Hung"
  by (cases "pr_main p") (simp_all add: over_def)

lemma not_stuck:
  assumes "process_ok rs q" and "pr_stop q" and "\<not> over q"
  shows "\<exists>q'. process_step rs pass q q'"
proof (cases "pr_main q")
  case Joining
  then have "pr_task q \<noteq> No_Task" "pr_task q \<noteq> Hung" using assms(1,3) by (simp_all add: process_ok_def over_def)
  then show ?thesis
    using Joining joins tests works waits by (cases "pr_task q") blast+
next
  case (Closing rest)
  then show ?thesis using closes ends by (cases rest) blast+
qed (use assms in \<open>auto simp: process_ok_def over_def\<close>)

section \<open>Properties\<close>

text \<open>
  C30: once the loop of a process was told to stop, every run from there has at most five steps
  more than there are resources, and none is stuck before its end. There are three ends: the
  process has closed every resource; or a shutdown raised, and then exactly that resource and
  those opened before it are still open; or the pass that was running never returns, and then
  all are open. At most the pass that was about to run still runs, always with all resources
  open, and unless it hangs the state of the service is what the passes made of it.
\<close>

theorem process_shuts_down:
  assumes "distinct rs" and "process_run rs pass (new_process rs w) p" and "pr_stop p"
    and "(process_step rs pass ^^ n) p q"
  shows "n \<le> length rs + 5 \<and>
    (pr_main q = Ended \<or> (\<exists>rest. pr_main q = Close_Failed rest) \<or> pr_main q = Joining \<and> pr_task q = Hung \<or>
      (\<exists>q'. process_step rs pass q q')) \<and>
    (pr_main q = Ended \<longrightarrow> pr_open q = []) \<and>
    (\<forall>rest. pr_main q = Close_Failed rest \<longrightarrow>
      rest \<noteq> [] \<and> pr_open q = rev rest \<and> (\<exists>closed. rs = pr_open q @ closed)) \<and>
    (pr_task q \<in> {Working, Hung} \<longrightarrow> pr_open q = rs) \<and>
    pr_passes q \<le> pr_passes p + 1 \<and> (pr_task q \<noteq> Hung \<longrightarrow> pr_world q = (pass ^^ pr_passes q) w)"
proof -
  have world: "world_ok pass w (new_process rs w)" by (simp add: world_ok_def new_process_def)
  then have ok: "process_ok rs p" using process_run_ok [OF assms(2) new_process_ok assms(1)] by blast
  note after = steps_after_stop [OF assms(4) ok assms(3,1)]
  have "steps_left rs p \<le> length rs + 5"
    using ok assms(3) by (auto simp: process_ok_def steps_left_def task_left_def split: main_at.splits task_at.splits)
  moreover have "process_run rs pass (new_process rs w) q"
    using assms(2,4) by (meson relpowp_imp_rtranclp rtranclp_trans)
  then have "world_ok pass w q" using process_run_ok [OF _ new_process_ok assms(1) world] by blast
  moreover have "passes_left p \<le> 1" by (simp add: passes_left_def)
  moreover have "pr_main q = Ended \<or> (\<exists>rest. pr_main q = Close_Failed rest) \<or>
      pr_main q = Joining \<and> pr_task q = Hung \<or> (\<exists>q'. process_step rs pass q q')"
    using not_stuck [of rs q pass] after by (auto simp: over_cases)
  moreover have "(pr_main q = Ended \<longrightarrow> pr_open q = []) \<and> (pr_task q \<in> {Working, Hung} \<longrightarrow> pr_open q = rs) \<and>
      (\<forall>rest. pr_main q = Close_Failed rest \<longrightarrow>
        rest \<noteq> [] \<and> pr_open q = rev rest \<and> (\<exists>closed. rs = pr_open q @ closed))"
    using after by (auto simp: process_ok_def split: main_at.splits)
  ultimately show ?thesis using after by (simp add: world_ok_def) metis
qed

text \<open>A publisher that is stopped while a pass is about to run: the longest end.\<close>

definition stopped_publisher :: "notifications_world \<Rightarrow> notifications_world process" where
  "stopped_publisher w = \<lparr>pr_main = Joining, pr_task = Working, pr_signal = True, pr_stop = True,
     pr_open = [Database, Nats], pr_passes = 0, pr_world = w\<rparr>"

lemma stopped_publisher_run:
  "(publisher_process s)\<^sup>*\<^sup>* (new_process [Database, Nats] w) (stopped_publisher w)"
proof -
  let ?st = "publisher_process s"
  define p where "p m t g b os = \<lparr>pr_main = m, pr_task = t, pr_signal = g, pr_stop = b, pr_open = os,
    pr_passes = 0, pr_world = w\<rparr>" for m t g b os
  have "?st (new_process [Database, Nats] w) (p (Opening [Nats]) No_Task False False [Database])"
    using opens [of "new_process [Database, Nats] w"] by (simp add: publisher_process_def new_process_def p_def)
  moreover have "?st \<dots> (p (Opening []) No_Task False False [Database, Nats])"
    using opens [of "p (Opening [Nats]) No_Task False False [Database]"] by (simp add: publisher_process_def p_def)
  moreover have "?st \<dots> (p Awaiting Testing False False [Database, Nats])"
    using starts [of "p (Opening []) No_Task False False [Database, Nats]"] by (simp add: publisher_process_def p_def)
  moreover have "?st \<dots> (p Awaiting Working False False [Database, Nats])"
    using tests [of "p Awaiting Testing False False [Database, Nats]"] by (simp add: publisher_process_def p_def)
  moreover have "?st \<dots> (p Awaiting Working True False [Database, Nats])"
    using signals [of "p Awaiting Working False False [Database, Nats]"] by (simp add: publisher_process_def p_def)
  moreover have "?st \<dots> (p Stopping Working True False [Database, Nats])"
    using wakes [of "p Awaiting Working True False [Database, Nats]"] by (simp add: publisher_process_def p_def)
  moreover have "?st \<dots> (stopped_publisher w)"
    using stops [of "p Stopping Working True False [Database, Nats]"]
    by (simp add: publisher_process_def p_def stopped_publisher_def)
  ultimately show ?thesis by (meson converse_rtranclp_into_rtranclp rtranclp.rtrancl_refl)
qed

definition ended_publisher :: "notifications_settings \<Rightarrow> notifications_world \<Rightarrow> notifications_world process" where
  "ended_publisher s w = \<lparr>pr_main = Ended, pr_task = Finished, pr_signal = True, pr_stop = True,
     pr_open = [], pr_passes = 1, pr_world = snd (publisher_pass s w)\<rparr>"

text \<open>The shutdown of the NATS client raises: nothing is closed.\<close>

definition open_publisher :: "notifications_settings \<Rightarrow> notifications_world \<Rightarrow> notifications_world process" where
  "open_publisher s w = (ended_publisher s w)\<lparr>pr_main := Close_Failed [Nats, Database], pr_open := [Database, Nats]\<rparr>"

lemma stopped_publisher_ends:
  "((publisher_process s) ^^ 7) (stopped_publisher w) (ended_publisher s w)"
  "((publisher_process s) ^^ 5) (stopped_publisher w) (open_publisher s w)"
proof -
  let ?st = "publisher_process s"
  define p where "p m t os = \<lparr>pr_main = m, pr_task = t, pr_signal = True, pr_stop = True, pr_open = os,
    pr_passes = 1, pr_world = snd (publisher_pass s w)\<rparr>" for m t os
  note defs = publisher_process_def p_def stopped_publisher_def ended_publisher_def open_publisher_def
  have works: "?st (stopped_publisher w) (p Joining Waiting [Database, Nats])"
    using works [of "stopped_publisher w" _ "\<lambda>w. snd (publisher_pass s w)"] by (simp add: defs)
  have waits: "?st (p Joining Waiting [Database, Nats]) (p Joining Testing [Database, Nats])"
    using waits [of "p Joining Waiting [Database, Nats]"] by (simp add: defs)
  have tests: "?st (p Joining Testing [Database, Nats]) (p Joining Finished [Database, Nats])"
    using tests [of "p Joining Testing [Database, Nats]"] by (simp add: defs)
  have joins: "?st (p Joining Finished [Database, Nats]) (p (Closing [Nats, Database]) Finished [Database, Nats])"
    using joins [of "p Joining Finished [Database, Nats]" "[Database, Nats]"] by (simp add: defs)
  have fails: "?st (p (Closing [Nats, Database]) Finished [Database, Nats]) (open_publisher s w)"
    using close_fails [of "p (Closing [Nats, Database]) Finished [Database, Nats]"] by (simp add: defs)
  have nats: "?st (p (Closing [Nats, Database]) Finished [Database, Nats]) (p (Closing [Database]) Finished [Database])"
    using closes [of "p (Closing [Nats, Database]) Finished [Database, Nats]"] by (simp add: defs)
  have database: "?st (p (Closing [Database]) Finished [Database]) (p (Closing []) Finished [])"
    using closes [of "p (Closing [Database]) Finished [Database]"] by (simp add: defs)
  have ends: "?st (p (Closing []) Finished []) (ended_publisher s w)"
    using ends [of "p (Closing []) Finished []"] by (simp add: defs)
  have joined: "(?st ^^ 4) (stopped_publisher w) (p (Closing [Nats, Database]) Finished [Database, Nats])"
    using works waits tests joins by (simp add: eval_nat_numeral relcompp_apply) blast
  show "(?st ^^ 5) (stopped_publisher w) (open_publisher s w)"
    using relpowp_Suc_I [OF joined fails] by simp
  have "(?st ^^ Suc (Suc (Suc 4))) (stopped_publisher w) (ended_publisher s w)"
    by (rule relpowp_Suc_I [OF relpowp_Suc_I [OF relpowp_Suc_I [OF joined nats] database] ends])
  then show "(?st ^^ 7) (stopped_publisher w) (ended_publisher s w)" by simp
qed

theorem process_shuts_down_witness:
  "let s = default_notifications_settings; w = sample_service; q = ended_publisher s w; q' = open_publisher s w
   in (publisher_process s)\<^sup>*\<^sup>* (new_process [Database, Nats] w) (stopped_publisher w) \<and>
     ((publisher_process s) ^^ 7) (stopped_publisher w) q \<and> pr_main q = Ended \<and> pr_open q = [] \<and>
     pr_world q = ((\<lambda>w. snd (publisher_pass s w)) ^^ pr_passes q) w \<and>
     ((publisher_process s) ^^ 5) (stopped_publisher w) q' \<and> pr_main q' = Close_Failed [Nats, Database] \<and>
     pr_open q' = rev [Nats, Database]"
proof -
  let ?s = default_notifications_settings
  have d: "distinct [Database, Nats]" by simp
  have stop: "pr_stop (stopped_publisher sample_service)" by (simp add: stopped_publisher_def)
  have ended: "pr_main (ended_publisher ?s sample_service) = Ended"
      "pr_task (ended_publisher ?s sample_service) = Finished"
      "pr_main (open_publisher ?s sample_service) = Close_Failed [Nats, Database]"
    by (simp_all add: ended_publisher_def open_publisher_def)
  note run = stopped_publisher_run [of ?s sample_service] and rest = stopped_publisher_ends [of ?s sample_service]
  note ends = process_shuts_down [OF d run [unfolded publisher_process_def] stop]
  show ?thesis
    using ends [OF rest(1) [unfolded publisher_process_def]] ends [OF rest(2) [unfolded publisher_process_def]]
      run rest ended by (simp add: Let_def)
qed

end
