(* ===== verification/Subscriptions_Store.thy ===== *)
theory Subscriptions_Store
  imports Requests Channels Quiet_Hours
begin

text \<open>
  The tables of the subscriptions service (its two migrations), its records and its two
  repositories. A join of a subscription with its preferences is the look-up of the
  preferences row; \<open>ORDER BY a DESC, b DESC\<close> is the ascending order of the negated key.
\<close>

section \<open>Records and tables\<close>

record topic_row =
  tp_id :: uuid
  tp_key :: string
  tp_name :: string
  tp_description :: "string option"
  tp_created_at :: instant

record subscription_row =
  sr_id :: uuid
  sr_user_id :: uuid
  sr_topic_id :: uuid
  sr_is_active :: bool
  sr_created_at :: instant
  sr_updated_at :: instant

record preferences_row =
  pr_subscription_id :: uuid
  pr_channels :: "string list"
  pr_quiet_hours_start :: "int option"
  pr_quiet_hours_end :: "int option"
  pr_timezone :: string
  pr_updated_at :: instant

record subs_db =
  sdb_topics :: "topic_row list"
  sdb_subscriptions :: "subscription_row list"
  sdb_preferences :: "preferences_row list"

type_synonym subs_world = "subs_db conn_world"

record preferences_record =
  pf_channels :: "string list"
  pf_quiet_hours_start :: "int option"
  pf_quiet_hours_end :: "int option"
  pf_timezone :: string
  pf_updated_at :: instant

record subscription_record =
  sub_id :: uuid
  sub_user_id :: uuid
  sub_topic_id :: uuid
  sub_is_active :: bool
  sub_preferences :: preferences_record
  sub_created_at :: instant
  sub_updated_at :: instant

record subscriber_record =
  sb_user_id :: uuid
  sb_subscription_id :: uuid
  sb_channels :: "string list"
  sb_quiet_hours_start :: "int option"
  sb_quiet_hours_end :: "int option"
  sb_timezone :: string

definition subs_channels :: "string list" where
  "subs_channels = [''push'', ''email'', ''web'']"

section \<open>repositories/subscriptions.py\<close>

definition preferences_of :: "subs_db \<Rightarrow> uuid \<Rightarrow> preferences_row option" where
  "preferences_of d subscription_id =
     find_row (\<lambda>p. pr_subscription_id p = subscription_id) (sdb_preferences d)"

text \<open>The columns of \<open>_subscription_select\<close>, with its \<open>COALESCE\<close>s, and \<open>_to_subscription\<close>.\<close>

definition to_subscription :: "subs_db \<Rightarrow> subscription_row \<Rightarrow> subscription_record" where
  "to_subscription d s = (let p = preferences_of d (sr_id s) in
     \<lparr>sub_id = sr_id s, sub_user_id = sr_user_id s, sub_topic_id = sr_topic_id s,
      sub_is_active = sr_is_active s,
      sub_preferences =
        \<lparr>pf_channels = (case p of None \<Rightarrow> [''push''] | Some r \<Rightarrow> pr_channels r),
         pf_quiet_hours_start = (case p of None \<Rightarrow> None | Some r \<Rightarrow> pr_quiet_hours_start r),
         pf_quiet_hours_end = (case p of None \<Rightarrow> None | Some r \<Rightarrow> pr_quiet_hours_end r),
         pf_timezone = (case p of None \<Rightarrow> ''UTC'' | Some r \<Rightarrow> pr_timezone r),
         pf_updated_at = (case p of None \<Rightarrow> sr_updated_at s | Some r \<Rightarrow> pr_updated_at r)\<rparr>,
      sub_created_at = sr_created_at s, sub_updated_at = sr_updated_at s\<rparr>)"

definition select_subscription ::
  "(subscription_row \<Rightarrow> bool) \<Rightarrow> (subs_world, subscription_record option) eff" where
  "select_subscription p = sql (query (\<lambda>d.
     map_option (to_subscription d) (find_row p (sdb_subscriptions d))))"

definition get_by_user_topic :: "uuid \<Rightarrow> uuid \<Rightarrow> (subs_world, subscription_record option) eff" where
  "get_by_user_topic user_id topic_id =
     select_subscription (\<lambda>s. sr_user_id s = user_id \<and> sr_topic_id s = topic_id)"

definition get_by_id_for_user :: "uuid \<Rightarrow> uuid \<Rightarrow> (subs_world, subscription_record option) eff" where
  "get_by_id_for_user subscription_id user_id =
     select_subscription (\<lambda>s. sr_id s = subscription_id \<and> sr_user_id s = user_id)"

definition insert_subscription ::
  "uuid \<Rightarrow> uuid \<Rightarrow> uuid \<Rightarrow> instant \<Rightarrow> (subs_db, unit) stmt" where
  "insert_subscription subscription_id user_id topic_id now d =
     (if subscription_id \<in> set (map sr_id (sdb_subscriptions d)) then Inl unique_violation
      else if (user_id, topic_id) \<in> set (map (\<lambda>s. (sr_user_id s, sr_topic_id s)) (sdb_subscriptions d))
        then Inl unique_violation
      else if topic_id \<notin> set (map tp_id (sdb_topics d)) then Inl foreign_key_violation
      else Inr ((), d\<lparr>sdb_subscriptions := sdb_subscriptions d @
        [\<lparr>sr_id = subscription_id, sr_user_id = user_id, sr_topic_id = topic_id,
          sr_is_active = True, sr_created_at = now, sr_updated_at = now\<rparr>]\<rparr>))"

definition upsert_row ::
  "uuid \<Rightarrow> string list \<Rightarrow> int option \<Rightarrow> int option \<Rightarrow> string \<Rightarrow> instant \<Rightarrow> (subs_db, unit) stmt" where
  "upsert_row subscription_id channels quiet_hours_start quiet_hours_end timezone now d =
     (let row = \<lparr>pr_subscription_id = subscription_id, pr_channels = channels,
            pr_quiet_hours_start = quiet_hours_start, pr_quiet_hours_end = quiet_hours_end,
            pr_timezone = timezone, pr_updated_at = now\<rparr>
      in if channels = [] \<or> \<not> set channels \<subseteq> set subs_channels then Inl check_violation
         else if subscription_id \<in> set (map pr_subscription_id (sdb_preferences d))
           then Inr ((), d\<lparr>sdb_preferences :=
             update_where (\<lambda>p. pr_subscription_id p = subscription_id) (\<lambda>_. row) (sdb_preferences d)\<rparr>)
         else if subscription_id \<notin> set (map sr_id (sdb_subscriptions d))
           then Inl foreign_key_violation
         else Inr ((), d\<lparr>sdb_preferences := sdb_preferences d @ [row]\<rparr>))"

definition upsert_preferences ::
  "uuid \<Rightarrow> string list \<Rightarrow> int option \<Rightarrow> int option \<Rightarrow> string \<Rightarrow> (subs_world, unit) eff" where
  "upsert_preferences subscription_id channels quiet_hours_start quiet_hours_end timezone =
     and_then (gets cw_now) (\<lambda>now. sql (upsert_row subscription_id channels quiet_hours_start
       quiet_hours_end timezone now))"

definition create_subscription ::
  "uuid \<Rightarrow> uuid \<Rightarrow> uuid \<Rightarrow> (subs_world, subscription_record) eff" where
  "create_subscription subscription_id user_id topic_id =
     seq (and_then (gets cw_now) (\<lambda>now. sql (insert_subscription subscription_id user_id topic_id now)))
    (seq (upsert_preferences subscription_id [''push''] None None ''UTC'')
    (and_then (get_by_id_for_user subscription_id user_id) (\<lambda>created.
       case created of
         None \<Rightarrow> raise (Runtime_Error ''Failed to fetch created subscription'')
       | Some s \<Rightarrow> ret s)))"

definition set_active :: "bool \<Rightarrow> instant \<Rightarrow> subscription_row \<Rightarrow> subscription_row" where
  "set_active is_active now s = s\<lparr>sr_is_active := is_active, sr_updated_at := now\<rparr>"

definition update_active_rows ::
  "uuid \<Rightarrow> uuid \<Rightarrow> bool \<Rightarrow> instant \<Rightarrow> (subs_db, uuid option) stmt" where
  "update_active_rows subscription_id user_id is_active now d =
     (let hit = (\<lambda>s. sr_id s = subscription_id \<and> sr_user_id s = user_id)
      in Inr (map_option sr_id (find_row hit (sdb_subscriptions d)),
         d\<lparr>sdb_subscriptions := update_where hit (set_active is_active now) (sdb_subscriptions d)\<rparr>))"

definition update_active ::
  "uuid \<Rightarrow> uuid \<Rightarrow> bool \<Rightarrow> (subs_world, subscription_record option) eff" where
  "update_active subscription_id user_id is_active =
     and_then (gets cw_now) (\<lambda>now.
     and_then (sql (update_active_rows subscription_id user_id is_active now)) (\<lambda>updated_id.
       case updated_id of
         None \<Rightarrow> ret None
       | Some _ \<Rightarrow> get_by_id_for_user subscription_id user_id))"

definition list_for_user ::
  "uuid \<Rightarrow> nat \<Rightarrow> (instant \<times> uuid) option \<Rightarrow> (subs_world, subscription_record list) eff" where
  "list_for_user user_id limit cursor = sql (query (\<lambda>d. map (to_subscription d)
     (select_page
       (\<lambda>s. sr_user_id s = user_id \<and> after_cursor (\<lambda>s. desc_key (sr_created_at s) (sr_id s))
          (map_option (\<lambda>(c, i). desc_key c i) cursor) s)
       (\<lambda>s. desc_key (sr_created_at s) (sr_id s)) limit (sdb_subscriptions d))))"

definition to_subscriber :: "subs_db \<Rightarrow> subscription_row \<Rightarrow> subscriber_record" where
  "to_subscriber d s = (let p = preferences_of d (sr_id s) in
     \<lparr>sb_user_id = sr_user_id s, sb_subscription_id = sr_id s,
      sb_channels = (case p of None \<Rightarrow> [''push''] | Some r \<Rightarrow> pr_channels r),
      sb_quiet_hours_start = (case p of None \<Rightarrow> None | Some r \<Rightarrow> pr_quiet_hours_start r),
      sb_quiet_hours_end = (case p of None \<Rightarrow> None | Some r \<Rightarrow> pr_quiet_hours_end r),
      sb_timezone = (case p of None \<Rightarrow> ''UTC'' | Some r \<Rightarrow> pr_timezone r)\<rparr>)"

definition list_active_subscribers ::
  "uuid \<Rightarrow> nat \<Rightarrow> (uuid \<times> uuid) option \<Rightarrow> (subs_world, subscriber_record list) eff" where
  "list_active_subscribers topic_id limit cursor = sql (query (\<lambda>d. map (to_subscriber d)
     (select_page
       (\<lambda>s. sr_topic_id s = topic_id \<and> sr_is_active s \<and>
          after_cursor (\<lambda>s. (sr_user_id s, sr_id s)) cursor s)
       (\<lambda>s. (sr_user_id s, sr_id s)) limit (sdb_subscriptions d))))"

section \<open>repositories/topics.py\<close>

text \<open>\<open>x ILIKE pattern\<close>: \<open>%\<close>, \<open>_\<close> and the escape character, on texts in lower case.\<close>

function like :: "string \<Rightarrow> string \<Rightarrow> bool" where
  "like [] t = (t = [])"
| "like (c # p) [] = (c = CHR ''%'' \<and> like p [])"
| "like (c # p) (x # t) =
     (if c = CHR ''%'' then like p (x # t) \<or> like (c # p) t
      else if c = CHR ''_'' then like p t
      else if c = CHR 0x5C \<and> p \<noteq> [] then x = hd p \<and> like (tl p) t
      else x = c \<and> like p t)"
  by pat_completeness auto
termination
  by (relation "measure (\<lambda>(p, t). length p + length t)") auto

definition ilike_search :: "string option \<Rightarrow> string \<Rightarrow> bool" where
  "ilike_search q field = (case q of
     None \<Rightarrow> True | Some s \<Rightarrow> like (py_lower (''%'' @ s @ ''%'')) (py_lower field))"

definition insert_topic :: "topic_row \<Rightarrow> (subs_db, topic_row) stmt" where
  "insert_topic row d =
     (if tp_id row \<in> set (map tp_id (sdb_topics d)) then Inl unique_violation
      else if tp_key row \<in> set (map tp_key (sdb_topics d)) then Inl unique_violation
      else Inr (row, d\<lparr>sdb_topics := sdb_topics d @ [row]\<rparr>))"

definition create_topic_row ::
  "uuid \<Rightarrow> string \<Rightarrow> string \<Rightarrow> string option \<Rightarrow> (subs_world, topic_row) eff" where
  "create_topic_row topic_id key name description =
     catch (and_then (gets cw_now) (\<lambda>now. sql (insert_topic
         \<lparr>tp_id = topic_id, tp_key = key, tp_name = name, tp_description = description,
          tp_created_at = now\<rparr>)))
       (\<lambda>exc. if exc = unique_violation then raise (App Kind_Conflict ''Topic key already exists'')
         else raise exc)"

definition get_topic_by_id :: "uuid \<Rightarrow> (subs_world, topic_row option) eff" where
  "get_topic_by_id topic_id = sql (query (\<lambda>d. find_row (\<lambda>t. tp_id t = topic_id) (sdb_topics d)))"

definition list_topic_rows ::
  "string option \<Rightarrow> nat \<Rightarrow> (instant \<times> uuid) option \<Rightarrow> (subs_world, topic_row list) eff" where
  "list_topic_rows q limit cursor = sql (query (\<lambda>d. select_page
     (\<lambda>t. (ilike_search q (tp_key t) \<or> ilike_search q (tp_name t)) \<and>
        after_cursor (\<lambda>t. desc_key (tp_created_at t) (tp_id t))
          (map_option (\<lambda>(c, i). desc_key c i) cursor) t)
     (\<lambda>t. desc_key (tp_created_at t) (tp_id t)) limit (sdb_topics d)))"

section \<open>What the tables always satisfy\<close>

definition preferences_ok :: "preferences_row \<Rightarrow> bool" where
  "preferences_ok p \<longleftrightarrow> pr_channels p \<noteq> [] \<and> set (pr_channels p) \<subseteq> set subs_channels \<and>
     (pr_quiet_hours_start p = None) = (pr_quiet_hours_end p = None) \<and>
     (pr_quiet_hours_start p \<noteq> None \<longrightarrow> pr_quiet_hours_start p \<noteq> pr_quiet_hours_end p) \<and>
     pr_timezone p \<noteq> [] \<and> py_strip (pr_timezone p) = pr_timezone p"

definition subs_tables_ok :: "subs_db \<Rightarrow> bool" where
  "subs_tables_ok d \<longleftrightarrow> distinct (map tp_id (sdb_topics d)) \<and> distinct (map tp_key (sdb_topics d)) \<and>
     distinct (map sr_id (sdb_subscriptions d)) \<and>
     distinct (map (\<lambda>s. (sr_user_id s, sr_topic_id s)) (sdb_subscriptions d)) \<and>
     (\<forall>t \<in> set (map sr_topic_id (sdb_subscriptions d)). t \<in> set (map tp_id (sdb_topics d))) \<and>
     distinct (map pr_subscription_id (sdb_preferences d)) \<and>
     (\<forall>x \<in> set (map pr_subscription_id (sdb_preferences d)). x \<in> set (map sr_id (sdb_subscriptions d))) \<and>
     (\<forall>p \<in> set (sdb_preferences d). preferences_ok p)"

end
