(* ===== verification/Subscriptions_Service.thy ===== *)
theory Subscriptions_Service
  imports Subscriptions_Store
begin

text \<open>
  \<open>services/subscriptions.py\<close>, \<open>services/topics.py\<close>, the request schemas, the header
  dependencies and the endpoints of the subscriptions service. A request runs on one
  connection; \<open>endpoint\<close> is the exception handler of \<open>api/errors.py\<close>.
\<close>

section \<open>Requests and responses\<close>

record preferences_patch =
  pp_channels :: "string list option"
  pp_quiet_hours :: "(int \<times> int) option"
  pp_timezone :: "string option"

text \<open>The validators of \<open>SubscriptionPreferencesPatchRequest\<close> and \<open>UpdateSubscriptionRequest\<close>.\<close>

definition validate_patch_rest :: "preferences_patch \<Rightarrow> preferences_patch option" where
  "validate_patch_rest p = Option.bind (case pp_timezone p of
        None \<Rightarrow> Some None
      | Some tz \<Rightarrow> if py_strip tz = [] then None else Some (Some (py_strip tz))) (\<lambda>timezone.
     if pp_channels p = None \<and> pp_quiet_hours p = None \<and> timezone = None then None
     else Some (p\<lparr>pp_timezone := timezone\<rparr>))"

definition validate_patch :: "preferences_patch \<Rightarrow> preferences_patch option" where
  "validate_patch p =
     (case pp_channels p of
        Some cs \<Rightarrow> if cs = [] \<or> \<not> set cs \<subseteq> set subs_channels then None else validate_patch_rest p
      | None \<Rightarrow> validate_patch_rest p)"

definition validate_update ::
  "bool option \<Rightarrow> preferences_patch option \<Rightarrow> (bool option \<times> preferences_patch option) option" where
  "validate_update is_active preferences =
     (case preferences of
        None \<Rightarrow> if is_active = None then None else Some (is_active, None)
      | Some p \<Rightarrow> map_option (\<lambda>p'. (is_active, Some p')) (validate_patch p))"

section \<open>The cursor of a subscriber\<close>

definition subscriber_cursor_data ::
  "(string \<times> string) list option \<Rightarrow> exn + (uuid \<times> uuid) option" where
  "subscriber_cursor_data cursor_data = (case cursor_data of
     None \<Rightarrow> Inr None
   | Some d \<Rightarrow> if d = [] then Inr None else invalid_cursor
       (bind_sum (bind_sum (item d ''user_id'') uuid_arg) (\<lambda>user_id.
        bind_sum (bind_sum (item d ''id'') uuid_arg) (\<lambda>row_id.
          Inr (Some (user_id, row_id))))))"

definition subscribers_cursor :: "uuid \<Rightarrow> uuid \<Rightarrow> string" where
  "subscribers_cursor user_id subscription_id =
     encode_cursor [(''user_id'', str_uuid user_id), (''id'', str_uuid subscription_id)]"

section \<open>services/subscriptions.py\<close>

definition list_my ::
  "readers \<Rightarrow> uuid \<Rightarrow> nat \<Rightarrow> string option \<Rightarrow>
   (subs_world, subscription_record list \<times> string option) eff" where
  "list_my readers user_id limit cursor =
     and_then (lift (decode_cursor (fst readers) cursor)) (\<lambda>cursor_data.
     and_then (lift (instant_cursor_data (snd readers) cursor_data)) (\<lambda>c.
     and_then (list_for_user user_id (limit + 1) c) (\<lambda>rows.
       lift (cut_page (\<lambda>last. row_cursor (sub_created_at last) (sub_id last)) limit rows))))"

definition subscribe_new :: "uuid \<Rightarrow> uuid \<Rightarrow> (subs_world, subscription_record \<times> bool) eff" where
  "subscribe_new user_id topic_id =
     and_then (transaction (and_then uuid4 (\<lambda>subscription_id.
        create_subscription subscription_id user_id topic_id))) (\<lambda>created.
     ret (created, True))"

definition subscribe :: "uuid \<Rightarrow> uuid \<Rightarrow> (subs_world, subscription_record \<times> bool) eff" where
  "subscribe user_id topic_id =
     and_then (get_topic_by_id topic_id) (\<lambda>topic.
     case topic of
       None \<Rightarrow> raise (App Kind_Not_Found ''Topic not found'')
     | Some _ \<Rightarrow>
         and_then (get_by_user_topic user_id topic_id) (\<lambda>found.
         case found of
           None \<Rightarrow> subscribe_new user_id topic_id
         | Some existing \<Rightarrow>
             if sub_is_active existing then ret (existing, False)
             else and_then (update_active (sub_id existing) user_id True) (\<lambda>updated.
               case updated of
                 None \<Rightarrow> raise (App Kind_Not_Found ''Subscription not found'')
               | Some s \<Rightarrow> ret (s, False))))"

definition unsubscribe :: "uuid \<Rightarrow> uuid \<Rightarrow> (subs_world, unit) eff" where
  "unsubscribe user_id subscription_id =
     and_then (get_by_id_for_user subscription_id user_id) (\<lambda>found.
     case found of
       None \<Rightarrow> raise (App Kind_Not_Found ''Subscription not found'')
     | Some existing \<Rightarrow>
         if sub_is_active existing
         then and_then (update_active subscription_id user_id False) (\<lambda>_. ret ())
         else ret ())"

definition validate_timezone :: "zone_db \<Rightarrow> string \<Rightarrow> exn + string" where
  "validate_timezone zi timezone_name =
     (let name = py_strip timezone_name
      in if name = [] then Inl (App Kind_Validation ''timezone must not be empty'')
         else case zi name of
           Zone_Found _ \<Rightarrow> Inr name
         | Zone_Not_Found \<Rightarrow> Inl (App Kind_Validation ''Invalid timezone'')
         | Zone_Bad_Key \<Rightarrow> Inl Value_Error)"

text \<open>The preferences that a patch leads to: the part of \<open>update_subscription\<close> before its writes.\<close>

definition patched_preferences ::
  "zone_db \<Rightarrow> preferences_record \<Rightarrow> preferences_patch option \<Rightarrow>
   exn + string list \<times> int option \<times> int option \<times> string" where
  "patched_preferences zi existing patch =
     bind_sum (case patch of
        None \<Rightarrow> Inr (pf_channels existing, pf_quiet_hours_start existing,
                  pf_quiet_hours_end existing, pf_timezone existing)
      | Some p \<Rightarrow>
          bind_sum (case pp_channels p of None \<Rightarrow> Inr (pf_channels existing)
              | Some cs \<Rightarrow> normalize_channels_non_empty cs) (\<lambda>channels.
          bind_sum (case pp_timezone p of None \<Rightarrow> Inr (pf_timezone existing)
              | Some tz \<Rightarrow> validate_timezone zi tz) (\<lambda>timezone.
          Inr (case pp_quiet_hours p of
              None \<Rightarrow> (channels, pf_quiet_hours_start existing, pf_quiet_hours_end existing, timezone)
            | Some (start, end') \<Rightarrow>
                if start = end' then (channels, None, None, timezone)
                else (channels, Some start, Some end', timezone)))))
       (\<lambda>(channels, quiet_start, quiet_end, timezone).
        if (quiet_start = None) \<noteq> (quiet_end = None)
        then Inl (App Kind_Validation ''quiet hours must include both start and end'')
        else Inr (channels, quiet_start, quiet_end, timezone))"

definition update_subscription ::
  "zone_db \<Rightarrow> uuid \<Rightarrow> uuid \<Rightarrow> bool option \<Rightarrow> preferences_patch option \<Rightarrow>
   (subs_world, subscription_record) eff" where
  "update_subscription zi user_id subscription_id is_active patch =
     and_then (get_by_id_for_user subscription_id user_id) (\<lambda>found.
     case found of
       None \<Rightarrow> raise (App Kind_Not_Found ''Subscription not found'')
     | Some existing \<Rightarrow>
         let target_is_active = (case is_active of None \<Rightarrow> sub_is_active existing | Some b \<Rightarrow> b)
         in and_then (lift (patched_preferences zi (sub_preferences existing) patch))
              (\<lambda>(channels, quiet_start, quiet_end, timezone).
            and_then (transaction (
              seq (if target_is_active \<noteq> sub_is_active existing
                   then and_then (update_active subscription_id user_id target_is_active) (\<lambda>updated.
                     if updated = None then raise (App Kind_Not_Found ''Subscription not found'')
                     else ret ())
                   else ret ())
             (seq (if patch \<noteq> None
                   then upsert_preferences subscription_id channels quiet_start quiet_end timezone
                   else ret ())
             (get_by_id_for_user subscription_id user_id)))) (\<lambda>current.
            case current of
              None \<Rightarrow> raise (App Kind_Not_Found ''Subscription not found'')
            | Some s \<Rightarrow> ret s)))"

definition list_internal_subscribers ::
  "other_json \<Rightarrow> uuid \<Rightarrow> nat \<Rightarrow> string option \<Rightarrow>
   (subs_world, subscriber_record list \<times> string option) eff" where
  "list_internal_subscribers json topic_id limit cursor =
     and_then (get_topic_by_id topic_id) (\<lambda>topic.
     case topic of
       None \<Rightarrow> raise (App Kind_Not_Found ''Topic not found'')
     | Some _ \<Rightarrow>
         and_then (lift (decode_cursor json cursor)) (\<lambda>cursor_data.
         and_then (lift (subscriber_cursor_data cursor_data)) (\<lambda>c.
         and_then (list_active_subscribers topic_id (limit + 1) c) (\<lambda>rows.
           lift (cut_page (\<lambda>last. subscribers_cursor (sb_user_id last) (sb_subscription_id last))
             limit rows)))))"

section \<open>services/topics.py\<close>

definition create_topic ::
  "string list \<Rightarrow> string \<Rightarrow> string \<Rightarrow> string option \<Rightarrow> (subs_world, topic_row) eff" where
  "create_topic roles key name description =
     (if ''admin'' \<notin> set roles then raise (App Kind_Forbidden ''Forbidden'')
      else and_then uuid4 (\<lambda>topic_id. create_topic_row topic_id key name description))"

definition get_topic :: "uuid \<Rightarrow> (subs_world, topic_row) eff" where
  "get_topic topic_id = and_then (get_topic_by_id topic_id) (\<lambda>topic.
     case topic of None \<Rightarrow> raise (App Kind_Not_Found ''Topic not found'') | Some t \<Rightarrow> ret t)"

definition list_topics ::
  "readers \<Rightarrow> string option \<Rightarrow> nat \<Rightarrow> string option \<Rightarrow>
   (subs_world, topic_row list \<times> string option) eff" where
  "list_topics readers q limit cursor =
     and_then (lift (decode_cursor (fst readers) cursor)) (\<lambda>cursor_data.
     and_then (lift (instant_cursor_data (snd readers) cursor_data)) (\<lambda>c.
     and_then (list_topic_rows q (limit + 1) c) (\<lambda>rows.
       lift (cut_page (\<lambda>last. row_cursor (tp_created_at last) (tp_id last)) limit rows))))"

section \<open>api\<close>

record subscription_response =
  rs_id :: string
  rs_topic_id :: string
  rs_is_active :: bool
  rs_channels :: "string list"
  rs_quiet_hours :: "(int \<times> int) option"
  rs_timezone :: string

definition to_subscription_response :: "subscription_record \<Rightarrow> subscription_response" where
  "to_subscription_response s = (let p = sub_preferences s in
     \<lparr>rs_id = str_uuid (sub_id s), rs_topic_id = str_uuid (sub_topic_id s),
      rs_is_active = sub_is_active s, rs_channels = pf_channels p,
      rs_quiet_hours = (case (pf_quiet_hours_start p, pf_quiet_hours_end p) of
        (Some a, Some b) \<Rightarrow> Some (a, b) | _ \<Rightarrow> None),
      rs_timezone = pf_timezone p\<rparr>)"

definition api_my_subscriptions ::
  "readers \<Rightarrow> string option \<Rightarrow> int \<Rightarrow> string option \<Rightarrow> subs_world \<Rightarrow>
   (subscription_response list \<times> string option) reply \<times> subs_world" where
  "api_my_subscriptions readers x_user_id limit cursor = endpoint
     (and_then (lift (current_user_id x_user_id)) (\<lambda>user_id.
      and_then (lift (page_limit 500 limit)) (\<lambda>n.
      and_then (list_my readers user_id n cursor) (\<lambda>(subscriptions, next).
        ret (200, (map to_subscription_response subscriptions, next))))))"

definition api_subscribe ::
  "string option \<Rightarrow> uuid \<Rightarrow> subs_world \<Rightarrow> subscription_response reply \<times> subs_world" where
  "api_subscribe x_user_id topic_id = endpoint
     (and_then (lift (current_user_id x_user_id)) (\<lambda>user_id.
      and_then (subscribe user_id topic_id) (\<lambda>(subscription, created).
        ret (if created then 201 else 200, to_subscription_response subscription))))"

definition api_unsubscribe ::
  "string option \<Rightarrow> uuid \<Rightarrow> subs_world \<Rightarrow> unit reply \<times> subs_world" where
  "api_unsubscribe x_user_id subscription_id = endpoint
     (and_then (lift (current_user_id x_user_id)) (\<lambda>user_id.
      seq (unsubscribe user_id subscription_id) (ret (204, ()))))"

definition api_update_subscription ::
  "zone_db \<Rightarrow> string option \<Rightarrow> uuid \<Rightarrow> bool option \<Rightarrow> preferences_patch option \<Rightarrow> subs_world \<Rightarrow>
   subscription_response reply \<times> subs_world" where
  "api_update_subscription zi x_user_id subscription_id is_active patch = endpoint
     (and_then (lift (current_user_id x_user_id)) (\<lambda>user_id.
      case validate_update is_active patch of
        None \<Rightarrow> raise invalid_request
      | Some (active, preferences) \<Rightarrow>
          and_then (update_subscription zi user_id subscription_id active preferences) (\<lambda>s.
            ret (200, to_subscription_response s))))"

record internal_subscriber =
  is_user_id :: string
  is_subscription_id :: string
  is_channels :: "string list"
  is_quiet_hours_start :: "int option"
  is_quiet_hours_end :: "int option"
  is_timezone :: string

definition to_internal_subscriber :: "subscriber_record \<Rightarrow> internal_subscriber" where
  "to_internal_subscriber row = \<lparr>is_user_id = str_uuid (sb_user_id row),
     is_subscription_id = str_uuid (sb_subscription_id row), is_channels = sb_channels row,
     is_quiet_hours_start = sb_quiet_hours_start row, is_quiet_hours_end = sb_quiet_hours_end row,
     is_timezone = sb_timezone row\<rparr>"

definition api_list_topic_subscribers ::
  "other_json \<Rightarrow> uuid \<Rightarrow> int \<Rightarrow> string option \<Rightarrow> subs_world \<Rightarrow>
   (internal_subscriber list \<times> string option) reply \<times> subs_world" where
  "api_list_topic_subscribers json topic_id limit cursor = endpoint
     (and_then (lift (page_limit 500 limit)) (\<lambda>n.
      and_then (list_internal_subscribers json topic_id n cursor) (\<lambda>(subscribers, next).
        ret (200, (map to_internal_subscriber subscribers, next)))))"

section \<open>api/topics.py\<close>

text \<open>\<open>key\<close> matches \<open>^[a-z0-9][a-z0-9.\_-]*$\<close> (pydantic's \<open>$\<close> is the end of the text).\<close>

definition lower_or_digit :: "char \<Rightarrow> bool" where
  "lower_or_digit c \<longleftrightarrow> (let n = of_char c :: nat in (97 \<le> n \<and> n \<le> 122) \<or> (48 \<le> n \<and> n \<le> 57))"

definition topic_key_ok :: "string \<Rightarrow> bool" where
  "topic_key_ok key \<longleftrightarrow> 2 \<le> length key \<and> length key \<le> 128 \<and> lower_or_digit (hd key) \<and>
     list_all (\<lambda>c. lower_or_digit c \<or> c \<in> set ''._-'') key"

definition topic_create_ok :: "string \<Rightarrow> string \<Rightarrow> string option \<Rightarrow> bool" where
  "topic_create_ok key name description \<longleftrightarrow> topic_key_ok key \<and>
     1 \<le> length name \<and> length name \<le> 256 \<and>
     (case description of None \<Rightarrow> True | Some d \<Rightarrow> length d \<le> 2000)"

record topic_response =
  rt_id :: string
  rt_key :: string
  rt_name :: string
  rt_description :: "string option"

definition to_topic_response :: "topic_row \<Rightarrow> topic_response" where
  "to_topic_response t = \<lparr>rt_id = str_uuid (tp_id t), rt_key = tp_key t, rt_name = tp_name t,
     rt_description = tp_description t\<rparr>"

definition api_list_topics ::
  "readers \<Rightarrow> string option \<Rightarrow> int \<Rightarrow> string option \<Rightarrow> subs_world \<Rightarrow>
   (topic_response list \<times> string option) reply \<times> subs_world" where
  "api_list_topics readers q limit cursor = endpoint
     (and_then (lift (page_limit 500 limit)) (\<lambda>n.
      if (case q of None \<Rightarrow> False | Some s \<Rightarrow> 128 < length s) then raise invalid_request
      else and_then (list_topics readers q n cursor) (\<lambda>(topics, next_cursor).
        ret (200, (map to_topic_response topics, next_cursor)))))"

definition api_get_topic :: "string \<Rightarrow> subs_world \<Rightarrow> topic_response reply \<times> subs_world" where
  "api_get_topic topic_id = endpoint
     (and_then (lift (path_uuid topic_id)) (\<lambda>t.
      and_then (get_topic t) (\<lambda>topic. ret (200, to_topic_response topic))))"

definition api_create_topic ::
  "string \<Rightarrow> string \<Rightarrow> string \<Rightarrow> string option \<Rightarrow> subs_world \<Rightarrow>
   topic_response reply \<times> subs_world" where
  "api_create_topic x_user_roles key name description = endpoint
     (if \<not> topic_create_ok key name description then raise invalid_request
      else and_then (create_topic (current_roles x_user_roles) key name description) (\<lambda>topic.
        ret (201, to_topic_response topic)))"

end
