(* ===== verification/Subscriptions_Laws.thy ===== *)
theory Subscriptions_Laws
  imports Subscriptions_Service
begin

text \<open>
  What the subscriptions service promises: its operations keep the constraints of the tables,
  a user has at most one subscription to a topic, subscribing again gives the same one back,
  a patch changes what it names and nothing else, and the listings visit every row once.
\<close>

section \<open>Statements keep the tables\<close>

lemma keeps_insert_subscription: "keeps_rows subs_tables_ok (insert_subscription x u t now)"
  by (rule keeps_rowsI) (auto simp: insert_subscription_def subs_tables_ok_def split: if_splits)

lemma keeps_insert_topic: "keeps_rows subs_tables_ok (insert_topic row)"
  by (rule keeps_rowsI) (auto simp: insert_topic_def subs_tables_ok_def split: if_splits)

lemma keeps_update_active: "keeps_rows subs_tables_ok (update_active_rows x u b now)"
proof (rule keeps_rowsI)
  fix d r d' assume ok: "subs_tables_ok d" and run: "update_active_rows x u b now d = Inr (r, d')"
  let ?rows = "update_where (\<lambda>s. sr_id s = x \<and> sr_user_id s = u) (set_active b now) (sdb_subscriptions d)"
  have same: "map k ?rows = map k (sdb_subscriptions d)" if "\<And>s. k (set_active b now s) = k s" for k :: "subscription_row \<Rightarrow> 'z"
    using that by (intro map_update_where)
  have d': "d' = d\<lparr>sdb_subscriptions := ?rows\<rparr>" using run by (auto simp: update_active_rows_def Let_def)
  have "map sr_id ?rows = map sr_id (sdb_subscriptions d)"
    and "map (\<lambda>s. (sr_user_id s, sr_topic_id s)) ?rows =
      map (\<lambda>s. (sr_user_id s, sr_topic_id s)) (sdb_subscriptions d)"
    and "map sr_topic_id ?rows = map sr_topic_id (sdb_subscriptions d)"
    by (rule same, simp add: set_active_def)+
  then show "subs_tables_ok d'" using ok unfolding subs_tables_ok_def d' by simp
qed

definition quiet_pair :: "int option \<Rightarrow> int option \<Rightarrow> bool" where
  "quiet_pair s e \<longleftrightarrow> (s = None) = (e = None) \<and> (s \<noteq> None \<longrightarrow> s \<noteq> e)"

definition timezone_ok :: "string \<Rightarrow> bool" where
  "timezone_ok tz \<longleftrightarrow> tz \<noteq> [] \<and> py_strip tz = tz"

lemma preferences_ok_alt: "preferences_ok p \<longleftrightarrow> pr_channels p \<noteq> [] \<and>
    set (pr_channels p) \<subseteq> set subs_channels \<and>
    quiet_pair (pr_quiet_hours_start p) (pr_quiet_hours_end p) \<and> timezone_ok (pr_timezone p)"
  by (auto simp: preferences_ok_def quiet_pair_def timezone_ok_def)

lemma keeps_upsert:
  assumes "quiet_pair qs qe" and "timezone_ok tz"
  shows "keeps_rows subs_tables_ok (upsert_row x cs qs qe tz now)"
proof (rule keeps_rowsI)
  fix d r d' assume ok: "subs_tables_ok d" and run: "upsert_row x cs qs qe tz now d = Inr (r, d')"
  let ?row = "\<lparr>pr_subscription_id = x, pr_channels = cs, pr_quiet_hours_start = qs,
    pr_quiet_hours_end = qe, pr_timezone = tz, pr_updated_at = now\<rparr>"
  have cs: "preferences_ok ?row"
    using run assms by (auto simp: upsert_row_def preferences_ok_alt Let_def split: if_splits)
  show "subs_tables_ok d'"
  proof (cases "x \<in> set (map pr_subscription_id (sdb_preferences d))")
    case True
    let ?rows = "update_where (\<lambda>p. pr_subscription_id p = x) (\<lambda>_. ?row) (sdb_preferences d)"
    have d': "d' = d\<lparr>sdb_preferences := ?rows\<rparr>"
      using run True by (auto simp: upsert_row_def Let_def split: if_splits)
    have ids: "map pr_subscription_id ?rows = map pr_subscription_id (sdb_preferences d)"
      by (rule map_update_where) simp
    have "\<forall>p \<in> set ?rows. preferences_ok p"
      using ok cs by (auto simp: set_update_where subs_tables_ok_def)
    then show ?thesis using ok unfolding subs_tables_ok_def d' by (simp add: ids del: set_map)
  next
    case False
    then have "d' = d\<lparr>sdb_preferences := sdb_preferences d @ [?row]\<rparr>"
      and "x \<in> set (map sr_id (sdb_subscriptions d))"
      using run by (auto simp: upsert_row_def Let_def split: if_splits)
    then show ?thesis using ok cs False by (simp add: subs_tables_ok_def)
  qed
qed

lemma default_preferences_ok: "quiet_pair None None" "timezone_ok ''UTC''"
  by (simp add: quiet_pair_def, code_simp)

section \<open>Operations keep the tables\<close>

lemmas subs_read_defs = get_topic_by_id_def get_by_user_topic_def get_by_id_for_user_def
  select_subscription_def list_for_user_def list_active_subscribers_def list_topic_rows_def

lemma keeps_update_active_op: "obeys (keeps_db subs_tables_ok) (update_active x u b)"
  unfolding update_active_def subs_read_defs
  by (auto split: option.split intro!: keeps_db_rules keeps_update_active)

lemma keeps_create_subscription: "obeys (keeps_db subs_tables_ok) (create_subscription x u t)"
  unfolding create_subscription_def upsert_preferences_def subs_read_defs
  by (auto split: option.split intro!: keeps_db_rules keeps_insert_subscription keeps_upsert
      default_preferences_ok)

lemma keeps_subscribe: "obeys (keeps_db subs_tables_ok) (subscribe u t)"
  unfolding subscribe_def subscribe_new_def subs_read_defs
  by (auto split: option.split intro!: keeps_db_rules keeps_create_subscription keeps_update_active_op)

lemma keeps_unsubscribe: "obeys (keeps_db subs_tables_ok) (unsubscribe u x)"
  unfolding unsubscribe_def subs_read_defs
  by (auto split: option.split intro!: keeps_db_rules keeps_update_active_op)

lemma keeps_create_topic: "obeys (keeps_db subs_tables_ok) (create_topic roles k n desc)"
  unfolding create_topic_def create_topic_row_def
  by (auto intro!: keeps_db_rules keeps_insert_topic)

lemma preferences_of_ok:
  "subs_tables_ok d \<Longrightarrow> preferences_of d x = Some p \<Longrightarrow> preferences_ok p"
  by (auto simp: preferences_of_def subs_tables_ok_def dest: find_row_Some)

lemma to_subscription_preferences:
  assumes "subs_tables_ok d"
  shows "quiet_pair (pf_quiet_hours_start (sub_preferences (to_subscription d s)))
      (pf_quiet_hours_end (sub_preferences (to_subscription d s))) \<and>
    timezone_ok (pf_timezone (sub_preferences (to_subscription d s)))"
  using preferences_of_ok [OF assms] default_preferences_ok
  by (auto simp: to_subscription_def Let_def preferences_ok_alt split: option.split)

lemma patched_preferences_ok:
  assumes "patched_preferences zi pf patch = Inr (cs, qs, qe, tz)"
    and "quiet_pair (pf_quiet_hours_start pf) (pf_quiet_hours_end pf)" and "timezone_ok (pf_timezone pf)"
  shows "quiet_pair qs qe \<and> timezone_ok tz"
proof -
  have tz: "timezone_ok tz'" if "validate_timezone zi name = Inr tz'" for name tz'
    using that by (auto simp: validate_timezone_def timezone_ok_def Let_def
        split: if_splits zone_lookup.splits)
  show ?thesis
  proof (cases patch)
    case None
    with assms show ?thesis by (auto simp: patched_preferences_def split: if_splits)
  next
    case (Some p)
    show ?thesis
    proof (cases "pp_quiet_hours p")
      case None
      with assms Some tz show ?thesis
        by (auto simp: patched_preferences_def bind_sum_Inr split: if_splits option.splits)
    next
      case quiet: (Some se)
      with assms Some tz show ?thesis
        by (cases se) (auto simp: patched_preferences_def bind_sum_Inr quiet_pair_def
            split: if_splits option.splits)
    qed
  qed
qed
definition update_writes ::
  "bool \<Rightarrow> bool \<Rightarrow> uuid \<Rightarrow> uuid \<Rightarrow> preferences_patch option \<Rightarrow>
   string list \<times> int option \<times> int option \<times> string \<Rightarrow> (subs_world, subscription_record option) eff" where
  "update_writes was target x u patch prefs = (case prefs of (cs, qs, qe, tz) \<Rightarrow> transaction (
     seq (if target \<noteq> was
          then and_then (update_active x u target) (\<lambda>updated.
            if updated = None then raise (App Kind_Not_Found ''Subscription not found'') else ret ())
          else ret ())
    (seq (if patch \<noteq> None then upsert_preferences x cs qs qe tz else ret ())
    (get_by_id_for_user x u))))"

lemma update_subscription_run:
  assumes "cw_tx w \<noteq> Tx_Failed"
  shows "update_subscription zi u x active patch w =
    (case find_row (\<lambda>s. sr_id s = x \<and> sr_user_id s = u) (sdb_subscriptions (cw_db w)) of
       None \<Rightarrow> (Inl (App Kind_Not_Found ''Subscription not found''), w)
     | Some row \<Rightarrow> (let existing = to_subscription (cw_db w) row in
         case patched_preferences zi (sub_preferences existing) patch of
           Inl e \<Rightarrow> (Inl e, w)
         | Inr prefs \<Rightarrow> and_then (update_writes (sub_is_active existing)
               (case active of None \<Rightarrow> sub_is_active existing | Some b \<Rightarrow> b) x u patch prefs)
             (\<lambda>current. case current of
                None \<Rightarrow> raise (App Kind_Not_Found ''Subscription not found'')
              | Some s \<Rightarrow> ret s) w))"
  using assms
  by (simp add: update_subscription_def subs_read_defs eff_simps update_writes_def Let_def
      split: option.split sum.split prod.split)

lemma keeps_update_writes:
  "quiet_pair qs qe \<Longrightarrow> timezone_ok tz \<Longrightarrow>
   obeys (keeps_db subs_tables_ok) (update_writes was target x u patch (cs, qs, qe, tz))"
  unfolding update_writes_def prod.case upsert_preferences_def subs_read_defs
  by (auto split: option.split intro!: keeps_db_rules keeps_upsert keeps_update_active_op)

lemma keeps_update_subscription:
  "obeys (keeps_db subs_tables_ok) (update_subscription zi u x active patch)"
  unfolding obeys_def
proof
  fix w :: subs_world
  show "keeps_db subs_tables_ok w (snd (update_subscription zi u x active patch w))"
  proof (cases "cw_tx w = Tx_Failed")
    case True
    then show ?thesis
      by (simp add: update_subscription_def subs_read_defs eff_simps rel_db_def keeps_def)
  next
    case False
    show ?thesis
    proof (cases "find_row (\<lambda>s. sr_id s = x \<and> sr_user_id s = u) (sdb_subscriptions (cw_db w))")
      case None
      with False show ?thesis by (simp add: update_subscription_run rel_db_def keeps_def)
    next
      case (Some row)
      let ?e = "to_subscription (cw_db w) row"
      show ?thesis
      proof (cases "patched_preferences zi (sub_preferences ?e) patch")
        case (Inl e)
        with Some False show ?thesis by (simp add: update_subscription_run rel_db_def keeps_def Let_def)
      next
        case (Inr prefs)
        obtain cs qs qe tz where prefs: "prefs = (cs, qs, qe, tz)" by (metis prod_cases4)
        let ?m = "and_then (update_writes (sub_is_active ?e)
            (case active of None \<Rightarrow> sub_is_active ?e | Some b \<Rightarrow> b) x u patch prefs)
          (\<lambda>current. case current of None \<Rightarrow> raise (App Kind_Not_Found ''Subscription not found'')
             | Some s \<Rightarrow> ret s)"
        have run: "update_subscription zi u x active patch w = ?m w"
          using Some False Inr by (simp add: update_subscription_run Let_def)
        show ?thesis
        proof (cases "subs_tables_ok (cw_db w)")
          case True
          then have "quiet_pair qs qe" and "timezone_ok tz"
            using patched_preferences_ok [OF Inr [unfolded prefs]] to_subscription_preferences
            by blast+
          then have "obeys (keeps_db subs_tables_ok) ?m"
            unfolding prefs by (auto split: option.split intro!: keeps_db_rules keeps_update_writes)
          then show ?thesis unfolding run by (simp add: obeys_def)
        next
          case False
          then show ?thesis by (simp add: rel_db_def keeps_def)
        qed
      qed
    qed
  qed
qed

section \<open>The runs of subscribe\<close>

definition subscription_of :: "uuid \<Rightarrow> uuid \<Rightarrow> subs_db \<Rightarrow> subscription_row option" where
  "subscription_of u t d = find_row (\<lambda>s. sr_user_id s = u \<and> sr_topic_id s = t) (sdb_subscriptions d)"

definition topic_exists :: "uuid \<Rightarrow> subs_db \<Rightarrow> bool" where
  "topic_exists t d \<longleftrightarrow> t \<in> set (map tp_id (sdb_topics d))"

lemma find_topic: "(find_row (\<lambda>r. tp_id r = t) rows = None) = (t \<notin> tp_id ` set rows)"
  by (auto simp: find_row_None)

lemma find_row_update:
  assumes "\<And>r. p (f r) = p r"
  shows "find_row p (update_where q f rows) =
    map_option (\<lambda>r. if q r then f r else r) (find_row p rows)"
  using assms by (induction rows) auto

lemma filter_update_where:
  assumes "\<And>r. p r \<Longrightarrow> q r \<and> q (f r)"
  shows "filter (\<lambda>r. \<not> q r) (update_where p f rows) = filter (\<lambda>r. \<not> q r) rows"
  using assms by (induction rows) auto

lemma select_run [eff_simps]: "cw_tx w \<noteq> Tx_Failed \<Longrightarrow> select_subscription p w =
    (Inr (map_option (to_subscription (cw_db w)) (find_row p (sdb_subscriptions (cw_db w)))), w)"
  by (simp add: select_subscription_def sql_run)

lemma get_topic_run [eff_simps]: "cw_tx w \<noteq> Tx_Failed \<Longrightarrow> get_topic_by_id t w =
    (Inr (find_row (\<lambda>r. tp_id r = t) (sdb_topics (cw_db w))), w)"
  by (simp add: get_topic_by_id_def sql_run)

lemma to_subscription_simps [simp]:
  "sub_id (to_subscription d s) = sr_id s" "sub_user_id (to_subscription d s) = sr_user_id s"
  "sub_topic_id (to_subscription d s) = sr_topic_id s"
  "sub_is_active (to_subscription d s) = sr_is_active s"
  "sub_created_at (to_subscription d s) = sr_created_at s"
  by (simp_all add: to_subscription_def Let_def)

definition activated ::
  "uuid \<Rightarrow> uuid \<Rightarrow> bool \<Rightarrow> instant \<Rightarrow> subs_db \<Rightarrow> subs_db" where
  "activated x u b now d = d\<lparr>sdb_subscriptions :=
     update_where (\<lambda>s. sr_id s = x \<and> sr_user_id s = u) (set_active b now) (sdb_subscriptions d)\<rparr>"

lemma set_active_simps [simp]:
  "sr_id (set_active b now s) = sr_id s" "sr_user_id (set_active b now s) = sr_user_id s"
  "sr_topic_id (set_active b now s) = sr_topic_id s" "sr_is_active (set_active b now s) = b"
  "sr_created_at (set_active b now s) = sr_created_at s"
  by (simp_all add: set_active_def)

lemma preferences_of_activated [simp]: "preferences_of (activated x u b now d) y = preferences_of d y"
  by (simp add: preferences_of_def activated_def)

lemma update_active_run:
  assumes "cw_tx w \<noteq> Tx_Failed"
    and "find_row (\<lambda>s. sr_id s = x \<and> sr_user_id s = u) (sdb_subscriptions (cw_db w)) = Some s"
  shows "update_active x u b w =
    (let w' = w\<lparr>cw_db := activated x u b (cw_now w) (cw_db w)\<rparr>
     in (Inr (Some (to_subscription (cw_db w') (set_active b (cw_now w) s))), w'))"
  using assms find_row_Some [OF assms(2)]
  by (simp add: update_active_def update_active_rows_def get_by_id_for_user_def eff_simps
      activated_def find_row_update Let_def)

lemma row_by_id:
  assumes "subs_tables_ok d" and "subscription_of u t d = Some s"
  shows "find_row (\<lambda>r. sr_id r = sr_id s \<and> sr_user_id r = u) (sdb_subscriptions d) = Some s"
proof -
  have s: "s \<in> set (sdb_subscriptions d)" "sr_user_id s = u"
    using assms(2) by (auto simp: subscription_of_def dest: find_row_Some)
  then obtain r where r: "find_row (\<lambda>r. sr_id r = sr_id s \<and> sr_user_id r = u) (sdb_subscriptions d) = Some r"
    by (cases "find_row (\<lambda>r. sr_id r = sr_id s \<and> sr_user_id r = u) (sdb_subscriptions d)")
      (auto simp: find_row_None)
  then have "r \<in> set (sdb_subscriptions d)" and "sr_id r = sr_id s" by (auto dest: find_row_Some)
  moreover have "distinct (map sr_id (sdb_subscriptions d))" using assms(1) by (simp add: subs_tables_ok_def)
  ultimately have "r = s" using s(1) by (blast intro: key_unique)
  with r show ?thesis by simp
qed

lemma subscribe_unknown_topic:
  "cw_tx w \<noteq> Tx_Failed \<Longrightarrow> \<not> topic_exists t (cw_db w) \<Longrightarrow>
   subscribe u t w = (Inl (App Kind_Not_Found ''Topic not found''), w)"
  by (auto simp: subscribe_def eff_simps topic_exists_def find_topic split: option.split)
    (metis find_topic image_eqI option.distinct(1))

lemma subscribe_known_topic:
  assumes "cw_tx w \<noteq> Tx_Failed" and "topic_exists t (cw_db w)"
  shows "subscribe u t w = (case subscription_of u t (cw_db w) of
      None \<Rightarrow> subscribe_new u t w
    | Some s \<Rightarrow> if sr_is_active s then (Inr (to_subscription (cw_db w) s, False), w)
        else and_then (update_active (sr_id s) u True) (\<lambda>updated.
               case updated of
                 None \<Rightarrow> raise (App Kind_Not_Found ''Subscription not found'')
               | Some r \<Rightarrow> ret (r, False)) w)"
proof -
  obtain topic where "find_row (\<lambda>r. tp_id r = t) (sdb_topics (cw_db w)) = Some topic"
    using assms(2) find_topic [of t "sdb_topics (cw_db w)"] by (auto simp: topic_exists_def)
  then show ?thesis using assms(1)
    by (cases "subscription_of u t (cw_db w)")
      (simp_all add: subscribe_def eff_simps get_by_user_topic_def
        subscription_of_def [symmetric])
qed

definition with_subscription :: "uuid \<Rightarrow> uuid \<Rightarrow> uuid \<Rightarrow> instant \<Rightarrow> subs_db \<Rightarrow> subs_db" where
  "with_subscription x u t now d = d\<lparr>
     sdb_subscriptions := sdb_subscriptions d @ [\<lparr>sr_id = x, sr_user_id = u, sr_topic_id = t,
       sr_is_active = True, sr_created_at = now, sr_updated_at = now\<rparr>],
     sdb_preferences := sdb_preferences d @ [\<lparr>pr_subscription_id = x, pr_channels = [''push''],
       pr_quiet_hours_start = None, pr_quiet_hours_end = None, pr_timezone = ''UTC'',
       pr_updated_at = now\<rparr>]\<rparr>"

lemma subscribe_new_run:
  assumes "cw_tx w = Tx_None" and "subs_tables_ok (cw_db w)" and "topic_exists t (cw_db w)"
    and "subscription_of u t (cw_db w) = None"
    and "cw_uuids w (cw_drawn w) \<notin> set (map sr_id (sdb_subscriptions (cw_db w)))"
  shows "subscribe_new u t w = (let x = cw_uuids w (cw_drawn w);
      w' = w\<lparr>cw_drawn := Suc (cw_drawn w), cw_db := with_subscription x u t (cw_now w) (cw_db w)\<rparr>
    in (Inr (to_subscription (cw_db w') (last (sdb_subscriptions (cw_db w'))), True), w'))"
proof -
  let ?x = "cw_uuids w (cw_drawn w)" and ?d = "cw_db w"
  have "(u, t) \<notin> set (map (\<lambda>s. (sr_user_id s, sr_topic_id s)) (sdb_subscriptions ?d))"
    using assms(4) by (auto simp: subscription_of_def find_row_None)
  moreover have "?x \<notin> set (map pr_subscription_id (sdb_preferences ?d))"
    using assms(2,5) unfolding subs_tables_ok_def by blast
  moreover have "find_row (\<lambda>s. sr_id s = ?x \<and> sr_user_id s = u) (sdb_subscriptions ?d) = None"
    using assms(5) unfolding find_row_None set_map by (metis imageI)
  moreover have "t \<in> tp_id ` set (sdb_topics ?d)" using assms(3) by (simp add: topic_exists_def)
  ultimately show ?thesis using assms(1,5)
    by (simp add: subscribe_new_def transaction_def create_subscription_def insert_subscription_def
        upsert_preferences_def upsert_row_def get_by_id_for_user_def eff_simps subs_channels_def
        find_row_append with_subscription_def Let_def)
qed

text \<open>What another session committed in between makes the insertion fail.\<close>

lemma subscribe_new_race:
  assumes "cw_tx w = Tx_None" and "subscription_of u t (cw_db w) = Some s"
  shows "\<exists>w'. subscribe_new u t w = (Inl unique_violation, w') \<and> cw_db w' = cw_db w \<and> cw_tx w' = Tx_None"
proof -
  have "s \<in> set (sdb_subscriptions (cw_db w)) \<and> sr_user_id s = u \<and> sr_topic_id s = t"
    using find_row_Some [OF assms(2) [unfolded subscription_of_def]] .
  then have "(u, t) \<in> set (map (\<lambda>s. (sr_user_id s, sr_topic_id s)) (sdb_subscriptions (cw_db w)))"
    by force
  then show ?thesis using assms(1)
    by (simp add: subscribe_new_def transaction_def create_subscription_def insert_subscription_def
        eff_simps)
qed

section \<open>The runs of an update\<close>

lemma unsubscribe_run:
  assumes "cw_tx w \<noteq> Tx_Failed"
    and "find_row (\<lambda>s. sr_id s = x \<and> sr_user_id s = u) (sdb_subscriptions (cw_db w)) = Some s"
  shows "unsubscribe u x w = (Inr (), if sr_is_active s
    then w\<lparr>cw_db := activated x u False (cw_now w) (cw_db w)\<rparr> else w)"
  using assms
  by (simp add: unsubscribe_def get_by_id_for_user_def eff_simps update_active_run [OF assms] Let_def)

definition prefs_row ::
  "uuid \<Rightarrow> instant \<Rightarrow> string list \<times> int option \<times> int option \<times> string \<Rightarrow> preferences_row" where
  "prefs_row x now prefs = (case prefs of (cs, qs, qe, tz) \<Rightarrow>
     \<lparr>pr_subscription_id = x, pr_channels = cs, pr_quiet_hours_start = qs, pr_quiet_hours_end = qe,
      pr_timezone = tz, pr_updated_at = now\<rparr>)"

lemma find_row_set_row:
  assumes "\<And>p. k (row p) = x"
  shows "find_row (\<lambda>p. k p = y) (update_where (\<lambda>p. k p = x) row rows) =
    map_option (\<lambda>p. if y = x then row p else p) (find_row (\<lambda>p. k p = y) rows)"
  using assms by (induction rows) auto

text \<open>An upsert sets the preferences of one subscription, or fails.\<close>

lemma upsert_effect:
  assumes "upsert_row x cs qs qe tz now d = Inr (r, d')"
  shows "preferences_of d' y = (if y = x then Some (prefs_row x now (cs, qs, qe, tz)) else preferences_of d y)"
    and "sdb_subscriptions d' = sdb_subscriptions d" and "sdb_topics d' = sdb_topics d"
proof -
  let ?row = "prefs_row x now (cs, qs, qe, tz)"
  have row: "\<lparr>pr_subscription_id = x, pr_channels = cs, pr_quiet_hours_start = qs,
      pr_quiet_hours_end = qe, pr_timezone = tz, pr_updated_at = now\<rparr> = ?row"
    by (simp add: prefs_row_def)
  have id: "pr_subscription_id ?row = x" by (simp add: prefs_row_def)
  have "preferences_of d' y = (if y = x then Some ?row else preferences_of d y) \<and>
      sdb_subscriptions d' = sdb_subscriptions d \<and> sdb_topics d' = sdb_topics d"
  proof (cases "x \<in> set (map pr_subscription_id (sdb_preferences d))")
    case True
    then have d': "d' = d\<lparr>sdb_preferences := update_where (\<lambda>p. pr_subscription_id p = x) (\<lambda>_. ?row) (sdb_preferences d)\<rparr>"
      using assms by (auto simp: upsert_row_def Let_def row split: if_splits)
    obtain p where p: "find_row (\<lambda>p. pr_subscription_id p = x) (sdb_preferences d) = Some p"
      using True by (cases "find_row (\<lambda>p. pr_subscription_id p = x) (sdb_preferences d)")
        (auto simp: find_row_None)
    have "preferences_of d' y = map_option (\<lambda>p. if y = x then ?row else p) (preferences_of d y)"
      unfolding preferences_of_def d' by (simp add: find_row_set_row id)
    then show ?thesis using p
      by (cases "find_row (\<lambda>p. pr_subscription_id p = y) (sdb_preferences d)"; cases "y = x")
        (simp_all add: d' preferences_of_def)
  next
    case False
    then have d': "d' = d\<lparr>sdb_preferences := sdb_preferences d @ [?row]\<rparr>"
      using assms by (auto simp: upsert_row_def Let_def row split: if_splits)
    have "find_row (\<lambda>p. pr_subscription_id p = x) (sdb_preferences d) = None"
      using False unfolding find_row_None set_map by (metis imageI)
    then show ?thesis
      by (auto simp: d' preferences_of_def find_row_append id split: option.split)
  qed
  then show "preferences_of d' y = (if y = x then Some ?row else preferences_of d y)"
    and "sdb_subscriptions d' = sdb_subscriptions d" and "sdb_topics d' = sdb_topics d" by blast+
qed

definition prefs_tuple :: "preferences_record \<Rightarrow> string list \<times> int option \<times> int option \<times> string" where
  "prefs_tuple p = (pf_channels p, pf_quiet_hours_start p, pf_quiet_hours_end p, pf_timezone p)"

lemma prefs_tuple_row: "preferences_of d (sr_id s) = Some (prefs_row x now prefs) \<Longrightarrow>
    prefs_tuple (sub_preferences (to_subscription d s)) = prefs"
  by (cases prefs) (simp add: prefs_tuple_def to_subscription_def prefs_row_def Let_def)

lemma prefs_tuple_same: "preferences_of d' (sr_id s') = preferences_of d (sr_id s) \<Longrightarrow>
    prefs_tuple (sub_preferences (to_subscription d' s')) = prefs_tuple (sub_preferences (to_subscription d s))"
  by (simp add: prefs_tuple_def to_subscription_def Let_def)

text \<open>The writes of an update, when the row is there: all or nothing.\<close>

lemma update_writes_effect:
  fixes w :: subs_world
  assumes "cw_tx w = Tx_None"
    and "find_row (\<lambda>s. sr_id s = x \<and> sr_user_id s = u) (sdb_subscriptions (cw_db w)) = Some s"
    and "update_writes (sr_is_active s) target x u patch prefs w = (r, w')"
  shows "cw_tx w' = Tx_None \<and> ((\<exists>e. r = Inl e) \<and> cw_db w' = cw_db w \<or>
    (\<exists>s'. r = Inr (Some (to_subscription (cw_db w') s')) \<and>
      find_row (\<lambda>s. sr_id s = x \<and> sr_user_id s = u) (sdb_subscriptions (cw_db w')) = Some s' \<and>
      sr_id s' = x \<and> sr_user_id s' = u \<and> sr_topic_id s' = sr_topic_id s \<and> sr_is_active s' = target \<and>
      (\<forall>y. preferences_of (cw_db w') y =
        (if patch \<noteq> None \<and> y = x then Some (prefs_row x (cw_now w) prefs) else preferences_of (cw_db w) y)) \<and>
      filter (\<lambda>r. sr_id r \<noteq> x) (sdb_subscriptions (cw_db w')) = filter (\<lambda>r. sr_id r \<noteq> x) (sdb_subscriptions (cw_db w))))"
proof -
  obtain cs qs qe tz where prefs: "prefs = (cs, qs, qe, tz)" by (metis prod_cases4)
  have s: "sr_id s = x" "sr_user_id s = u" using find_row_Some [OF assms(2)] by auto
  define d1 where "d1 = (if target \<noteq> sr_is_active s then activated x u target (cw_now w) (cw_db w) else cw_db w)"
  define s1 where "s1 = (if target \<noteq> sr_is_active s then set_active target (cw_now w) s else s)"
  have s1: "find_row (\<lambda>s. sr_id s = x \<and> sr_user_id s = u) (sdb_subscriptions d1) = Some s1"
    "sr_id s1 = x" "sr_user_id s1 = u" "sr_topic_id s1 = sr_topic_id s" "sr_is_active s1 = target"
    using assms(2) s by (auto simp: d1_def s1_def activated_def find_row_update)
  have others: "filter (\<lambda>r. sr_id r \<noteq> x) (sdb_subscriptions d1) = filter (\<lambda>r. sr_id r \<noteq> x) (sdb_subscriptions (cw_db w))"
  proof -
    have "filter (\<lambda>r. \<not> sr_id r = x) (update_where (\<lambda>s. sr_id s = x \<and> sr_user_id s = u)
        (set_active b (cw_now w)) rows) = filter (\<lambda>r. \<not> sr_id r = x) rows" for b rows
      by (rule filter_update_where) simp
    then show ?thesis by (simp add: d1_def activated_def)
  qed
  have p1: "preferences_of d1 y = preferences_of (cw_db w) y" for y by (simp add: d1_def)
  let ?w1 = "w\<lparr>cw_tx := Tx_Open, cw_db := d1\<rparr>"
  have first: "(if target \<noteq> sr_is_active s then and_then (update_active x u target) (\<lambda>updated.
      if updated = None then raise (App Kind_Not_Found ''Subscription not found'') else ret ())
      else ret ()) (w\<lparr>cw_tx := Tx_Open\<rparr>) = (Inr (), ?w1)"
    using assms(2) by (simp add: d1_def and_then_run ret_run update_active_run Let_def)
  show ?thesis
  proof (cases patch)
    case None
    then have "r = Inr (Some (to_subscription d1 s1))" and "w' = w\<lparr>cw_db := d1, cw_tx := Tx_None\<rparr>"
      using assms(3) s1(1) unfolding prefs update_writes_def prod.case transaction_def seq_run first
      by (auto simp: get_by_id_for_user_def eff_simps)
    then show ?thesis using s1 p1 others None by auto
  next
    case (Some p)
    show ?thesis
    proof (cases "upsert_row x cs qs qe tz (cw_now w) d1")
      case (Inl e)
      then have "r = Inl e" and "w' = w\<lparr>cw_tx := Tx_None\<rparr>"
        using assms(3) Some unfolding prefs update_writes_def prod.case transaction_def seq_run first
        by (auto simp: upsert_preferences_def eff_simps)
      then show ?thesis by simp
    next
      case (Inr res)
      obtain d2 where res: "res = ((), d2)" by (cases res) simp
      note effect = upsert_effect [OF Inr [unfolded res]]
      have "r = Inr (Some (to_subscription d2 s1))" and "w' = w\<lparr>cw_db := d2, cw_tx := Tx_None\<rparr>"
        using assms(3) Some Inr res s1(1) effect(2)
        unfolding prefs update_writes_def prod.case transaction_def seq_run first
        by (auto simp: upsert_preferences_def get_by_id_for_user_def eff_simps)
      then show ?thesis using s1 p1 others Some effect by (auto simp: prefs)
    qed
  qed
qed

section \<open>Histories\<close>

datatype subs_op =
    Subscribe uuid uuid
  | Unsubscribe uuid uuid
  | Update uuid uuid "bool option" "preferences_patch option"
  | Create_Topic "string list" string string "string option"
  | At_Time instant

fun apply_subs :: "zone_db \<Rightarrow> subs_op \<Rightarrow> subs_world \<Rightarrow> subs_world" where
  "apply_subs zi (Subscribe u t) w = snd (subscribe u t w)"
| "apply_subs zi (Unsubscribe u x) w = snd (unsubscribe u x w)"
| "apply_subs zi (Update u x active patch) w = snd (update_subscription zi u x active patch w)"
| "apply_subs zi (Create_Topic roles key name description) w =
     snd (create_topic roles key name description w)"
| "apply_subs zi (At_Time t) w = w\<lparr>cw_now := t\<rparr>"

definition subs_ok :: "subs_world \<Rightarrow> bool" where
  "subs_ok w \<longleftrightarrow> subs_tables_ok (cw_db w) \<and> cw_tx w = Tx_None"

lemma keeps_dbD: "obeys (keeps_db P) m \<Longrightarrow> P (cw_db w) \<Longrightarrow> P (cw_db (snd (m w)))"
  by (simp add: obeys_def rel_db_def keeps_def)

lemma idle_subs:
  "obeys tx_idle (subscribe u t)" "obeys tx_idle (unsubscribe u x)"
  "obeys tx_idle (update_subscription zi u x active patch)" "obeys tx_idle (create_topic roles k n d)"
  unfolding subscribe_def subscribe_new_def unsubscribe_def update_subscription_def create_topic_def
    create_topic_row_def update_active_def subs_read_defs Let_def
  by (auto split: option.split prod.split intro!: tx_idle_rules)

lemma tx_idleD: "obeys tx_idle m \<Longrightarrow> cw_tx w = Tx_None \<Longrightarrow> cw_tx (snd (m w)) = Tx_None"
  by (simp add: obeys_def tx_idle_def)

lemma subs_ok_step:
  "obeys (keeps_db subs_tables_ok) m \<Longrightarrow> obeys tx_idle m \<Longrightarrow> subs_ok w \<Longrightarrow> subs_ok (snd (m w))"
  unfolding subs_ok_def by (blast intro: keeps_dbD tx_idleD)

lemma apply_subs_ok: "subs_ok w \<Longrightarrow> subs_ok (apply_subs zi op w)"
  by (cases op)
    (simp_all add: subs_ok_step [OF keeps_subscribe idle_subs(1)]
      subs_ok_step [OF keeps_unsubscribe idle_subs(2)]
      subs_ok_step [OF keeps_update_subscription idle_subs(3)]
      subs_ok_step [OF keeps_create_topic idle_subs(4)], simp add: subs_ok_def)

interpretation subs: operations "apply_subs zi" subs_ok for zi
  by unfold_locales (rule apply_subs_ok)

section \<open>A concrete service, for the witnesses\<close>

definition sample_topic :: topic_row where
  "sample_topic = \<lparr>tp_id = 60, tp_key = ''news'', tp_name = ''News'', tp_description = None,
     tp_created_at = 0\<rparr>"

definition sample_subscription :: "uuid \<Rightarrow> uuid \<Rightarrow> bool \<Rightarrow> subscription_row" where
  "sample_subscription x u active = \<lparr>sr_id = x, sr_user_id = u, sr_topic_id = 60,
     sr_is_active = active, sr_created_at = 0, sr_updated_at = 0\<rparr>"

definition sample_preferences :: "uuid \<Rightarrow> preferences_row" where
  "sample_preferences x = \<lparr>pr_subscription_id = x, pr_channels = [''email''],
     pr_quiet_hours_start = Some 1, pr_quiet_hours_end = Some 2, pr_timezone = ''UTC'',
     pr_updated_at = 0\<rparr>"

definition sample_subs :: "(uuid \<times> uuid \<times> bool) list \<Rightarrow> subs_world" where
  "sample_subs rows = \<lparr>cw_db = \<lparr>sdb_topics = [sample_topic],
       sdb_subscriptions = map (\<lambda>(x, u, a). sample_subscription x u a) rows,
       sdb_preferences = map (\<lambda>(x, u, a). sample_preferences x) rows\<rparr>,
     cw_tx = Tx_None, cw_now = 5, cw_uuids = (\<lambda>n. 100 + n), cw_drawn = 0\<rparr>"

lemma sample_subs_ok: "subs_ok (sample_subs [])" "subs_ok (sample_subs [(1, 9, True), (2, 10, False)])"
proof -
  have "py_strip ''UTC'' = ''UTC''" by code_simp
  then show "subs_ok (sample_subs [])" "subs_ok (sample_subs [(1, 9, True), (2, 10, False)])"
    by (simp_all add: subs_ok_def subs_tables_ok_def sample_subs_def sample_topic_def
        sample_subscription_def sample_preferences_def preferences_ok_def subs_channels_def)
qed

section \<open>Properties\<close>

text \<open>
  C10: over every history of subscriptions, cancellations, patches and new topics, the tables
  of the subscriptions service keep their constraints: identities and topic keys unique, at
  most one subscription of a user to a topic, and preferences with admitted channels, quiet
  hours both set and different or both absent, and a trimmed, non-empty zone name.
\<close>

theorem subs_history_ok:
  assumes "subs_ok w"
  shows "subs_ok (fold (apply_subs zi) ops w)"
  using assms by (rule subs.history_keeps)

theorem subs_history_ok_witness:
  "subs_ok (fold (apply_subs (\<lambda>_. Zone_Not_Found)) [Subscribe 9 60, Subscribe 9 60,
     Unsubscribe 9 100, Update 9 100 None (Some \<lparr>pp_channels = Some [''web''],
       pp_quiet_hours = Some (1, 1), pp_timezone = None\<rparr>)] (sample_subs []))"
  by (rule subs_history_ok [OF sample_subs_ok(1)])

lemma subscribe_active_again:
  assumes "cw_tx w = Tx_None" and "topic_exists t (cw_db w)"
    and "subscription_of u t (cw_db w) = Some row" and "sr_is_active row"
  shows "subscribe u t w = (Inr (to_subscription (cw_db w) row, False), w)"
  using assms by (simp add: subscribe_known_topic)

text \<open>What subscribing to an existing topic leads to: an active row, with its record as the answer.\<close>

definition subscribed :: "uuid \<Rightarrow> uuid \<Rightarrow> subs_world \<Rightarrow> subscription_row \<Rightarrow> subs_world \<Rightarrow> bool" where
  "subscribed u t w row w' \<longleftrightarrow>
     subscribe u t w = (Inr (to_subscription (cw_db w') row, subscription_of u t (cw_db w) = None), w') \<and>
     subscription_of u t (cw_db w') = Some row \<and> sr_is_active row \<and> cw_tx w' = Tx_None \<and>
     topic_exists t (cw_db w')"

lemma subscribe_creates:
  assumes "cw_tx w = Tx_None" and "subs_tables_ok (cw_db w)" and "topic_exists t (cw_db w)"
    and none: "subscription_of u t (cw_db w) = None"
    and "cw_uuids w (cw_drawn w) \<notin> set (map sr_id (sdb_subscriptions (cw_db w)))"
  shows "\<exists>row w'. subscribed u t w row w'"
proof -
  let ?x = "cw_uuids w (cw_drawn w)"
  let ?w' = "w\<lparr>cw_drawn := Suc (cw_drawn w), cw_db := with_subscription ?x u t (cw_now w) (cw_db w)\<rparr>"
  let ?row = "last (sdb_subscriptions (cw_db ?w'))"
  have "find_row (\<lambda>s. sr_user_id s = u \<and> sr_topic_id s = t) (sdb_subscriptions (cw_db w)) = None"
    using none by (simp add: subscription_of_def)
  then have "subscription_of u t (cw_db ?w') = Some ?row"
    by (simp add: subscription_of_def with_subscription_def find_row_append)
  then have "subscribed u t w ?row ?w'"
    using subscribe_new_run [OF assms(1,2,3) none assms(5)] assms(1,3) none
    by (simp_all add: subscribed_def subscribe_known_topic Let_def with_subscription_def topic_exists_def)
  then show ?thesis by blast
qed

lemma subscribe_activates:
  assumes "cw_tx w = Tx_None" and "subs_tables_ok (cw_db w)" and "topic_exists t (cw_db w)"
    and found: "subscription_of u t (cw_db w) = Some s" and "\<not> sr_is_active s"
  shows "\<exists>row w'. subscribed u t w row w'"
proof -
  let ?w' = "w\<lparr>cw_db := activated (sr_id s) u True (cw_now w) (cw_db w)\<rparr>"
  have upd: "update_active (sr_id s) u True w =
      (Inr (Some (to_subscription (cw_db ?w') (set_active True (cw_now w) s))), ?w')"
    using update_active_run [OF _ row_by_id [OF assms(2) found], of True] assms(1) by (simp add: Let_def)
  have "sr_user_id s = u" using found by (auto simp: subscription_of_def dest: find_row_Some)
  then have "subscription_of u t (cw_db ?w') = Some (set_active True (cw_now w) s)"
    using found by (simp add: subscription_of_def activated_def find_row_update)
  then have "subscribed u t w (set_active True (cw_now w) s) ?w'"
    using assms upd
    by (simp_all add: subscribed_def subscribe_known_topic and_then_run ret_run topic_exists_def activated_def)
  then show ?thesis by blast
qed

text \<open>
  C11: subscribing to an existing topic gives the user one active subscription to it, created
  only if there was none, and subscribing again gives the same record back and changes nothing;
  for an unknown topic the request is refused and nothing changes.
\<close>

theorem subscribe_is_idempotent:
  assumes "subs_ok w" and "cw_uuids w (cw_drawn w) \<notin> set (map sr_id (sdb_subscriptions (cw_db w)))"
  shows "if topic_exists t (cw_db w)
    then \<exists>row w'. subscribe u t w =
        (Inr (to_subscription (cw_db w') row, subscription_of u t (cw_db w) = None), w') \<and>
      subscription_of u t (cw_db w') = Some row \<and> sr_is_active row \<and>
      subscribe u t w' = (Inr (to_subscription (cw_db w') row, False), w')
    else subscribe u t w = (Inl (App Kind_Not_Found ''Topic not found''), w)"
proof (cases "topic_exists t (cw_db w)")
  case False
  with assms show ?thesis by (simp add: subscribe_unknown_topic subs_ok_def)
next
  case topic: True
  have tx: "cw_tx w = Tx_None" and ok: "subs_tables_ok (cw_db w)" using assms(1) by (simp_all add: subs_ok_def)
  have "\<exists>row w'. subscribed u t w row w'"
  proof (cases "subscription_of u t (cw_db w)")
    case None
    then show ?thesis by (rule subscribe_creates [OF tx ok topic _ assms(2)])
  next
    case (Some s)
    then show ?thesis
      using subscribe_activates [OF tx ok topic Some] tx topic
      by (cases "sr_is_active s") (auto simp: subscribed_def subscribe_known_topic)
  qed
  then show ?thesis
    using topic by (auto simp: subscribed_def intro: subscribe_active_again)
qed

theorem subscribe_is_idempotent_witness:
  "\<exists>row w'. subscribe 10 60 (sample_subs [(1, 9, True), (2, 10, False)]) =
     (Inr (to_subscription (cw_db w') row, False), w') \<and> sr_id row = 2 \<and> sr_is_active row"
proof -
  let ?w = "sample_subs [(1, 9, True), (2, 10, False)]"
  have "topic_exists 60 (cw_db ?w)" by (simp add: topic_exists_def sample_subs_def sample_topic_def)
  moreover have "cw_uuids ?w (cw_drawn ?w) \<notin> set (map sr_id (sdb_subscriptions (cw_db ?w)))"
    by (simp add: sample_subs_def sample_subscription_def)
  moreover have found: "subscription_of 10 60 (cw_db ?w) = Some (sample_subscription 2 10 False)"
    by (simp add: subscription_of_def sample_subs_def sample_subscription_def)
  ultimately obtain row w' where run: "subscribe 10 60 ?w = (Inr (to_subscription (cw_db w') row, False), w')"
      and row: "sr_is_active row"
    using subscribe_is_idempotent [OF sample_subs_ok(2), of 60 10] by auto
  have "sub_id (fst (projr (fst (subscribe 10 60 ?w)))) = 2"
    using \<open>topic_exists 60 (cw_db ?w)\<close> found
    by (simp add: subscribe_known_topic and_then_run ret_run update_active_run sample_subs_def
        sample_subscription_def Let_def)
  with run row show ?thesis by auto
qed

text \<open>What a patch asks for, part by part.\<close>

lemma patched_parts:
  assumes "patched_preferences zi old (Some p) = Inr (cs, qs, qe, tz)"
  shows "cs = (case pp_channels p of None \<Rightarrow> pf_channels old | Some names \<Rightarrow> first_occurrences (channel_names names))"
    and "qs = (case pp_quiet_hours p of None \<Rightarrow> pf_quiet_hours_start old
      | Some (st, en) \<Rightarrow> if st = en then None else Some st)"
    and "qe = (case pp_quiet_hours p of None \<Rightarrow> pf_quiet_hours_end old
      | Some (st, en) \<Rightarrow> if st = en then None else Some en)"
    and "tz = (case pp_timezone p of None \<Rightarrow> pf_timezone old | Some name \<Rightarrow> py_strip name)"
  using assms
  by (auto simp: patched_preferences_def bind_sum_def normalize_channels_non_empty_def validate_timezone_def
      normalize_from_eq Let_def split: option.splits sum.splits if_splits prod.splits zone_lookup.splits)

lemma update_outcome:
  assumes tx: "cw_tx w = Tx_None" and run: "update_subscription zi u x active patch w = (r, w')"
    and row: "find_row (\<lambda>s. sr_id s = x \<and> sr_user_id s = u) (sdb_subscriptions (cw_db w)) = Some row"
    and prefs: "patched_preferences zi (sub_preferences (to_subscription (cw_db w) row)) patch = Inr prefs"
  obtains r1 where "update_writes (sr_is_active row) (case active of None \<Rightarrow> sr_is_active row | Some b \<Rightarrow> b) x u patch prefs w = (r1, w')"
    and "r = (case r1 of Inl e \<Rightarrow> Inl e | Inr None \<Rightarrow> Inl (App Kind_Not_Found ''Subscription not found'')
      | Inr (Some s) \<Rightarrow> Inr s)"
proof -
  let ?target = "case active of None \<Rightarrow> sr_is_active row | Some b \<Rightarrow> b"
  obtain r1 w1 where writes: "update_writes (sr_is_active row) ?target x u patch prefs w = (r1, w1)" by fastforce
  then have "(r, w') = (case r1 of Inl e \<Rightarrow> (Inl e, w1)
      | Inr None \<Rightarrow> (Inl (App Kind_Not_Found ''Subscription not found''), w1) | Inr (Some s) \<Rightarrow> (Inr s, w1))"
    using run row prefs update_subscription_run [of w zi u x active patch, simplified tx, simplified]
    by (simp add: Let_def and_then_run eff_simps split: sum.splits option.splits)
  then have "w1 = w'" and "r = (case r1 of Inl e \<Rightarrow> Inl e
      | Inr None \<Rightarrow> Inl (App Kind_Not_Found ''Subscription not found'') | Inr (Some s) \<Rightarrow> Inr s)"
    by (auto split: sum.splits option.splits)
  with writes show ?thesis by (intro that) simp_all
qed

text \<open>
  C12: a patch is all or nothing. When the request fails the tables are as before. When it
  succeeds, the answer is what is stored now: the row of the user's subscription with the
  requested activity, and its preferences, each part that the patch names as it asks for (the
  channels in lower case, each once; the start and the end of the quiet hours, none of them
  when they are equal; the name of the zone), each other part as before; without a patch the
  preferences are not touched. Every other subscription and its preferences are as before.
\<close>

theorem update_changes_what_it_names:
  assumes "subs_ok w" and "update_subscription zi u x active patch w = (r, w')"
  shows "(\<forall>e. r = Inl e \<longrightarrow> cw_db w' = cw_db w) \<and>
    (\<forall>s. r = Inr s \<longrightarrow> (\<exists>row row'.
       find_row (\<lambda>s. sr_id s = x \<and> sr_user_id s = u) (sdb_subscriptions (cw_db w)) = Some row \<and>
       find_row (\<lambda>s. sr_id s = x \<and> sr_user_id s = u) (sdb_subscriptions (cw_db w')) = Some row' \<and>
       s = to_subscription (cw_db w') row' \<and> sr_topic_id row' = sr_topic_id row \<and>
       sr_is_active row' = (case active of None \<Rightarrow> sr_is_active row | Some b \<Rightarrow> b) \<and>
       (patch = None \<longrightarrow> preferences_of (cw_db w') x = preferences_of (cw_db w) x) \<and>
       (\<forall>p. patch = Some p \<longrightarrow> (let old = sub_preferences (to_subscription (cw_db w) row)
         in preferences_of (cw_db w') x = Some \<lparr>pr_subscription_id = x,
           pr_channels = (case pp_channels p of None \<Rightarrow> pf_channels old
             | Some names \<Rightarrow> first_occurrences (channel_names names)),
           pr_quiet_hours_start = (case pp_quiet_hours p of None \<Rightarrow> pf_quiet_hours_start old
             | Some (st, en) \<Rightarrow> if st = en then None else Some st),
           pr_quiet_hours_end = (case pp_quiet_hours p of None \<Rightarrow> pf_quiet_hours_end old
             | Some (st, en) \<Rightarrow> if st = en then None else Some en),
           pr_timezone = (case pp_timezone p of None \<Rightarrow> pf_timezone old | Some name \<Rightarrow> py_strip name),
           pr_updated_at = cw_now w\<rparr>)) \<and>
       (\<forall>y. y \<noteq> x \<longrightarrow> preferences_of (cw_db w') y = preferences_of (cw_db w) y) \<and>
       filter (\<lambda>r. sr_id r \<noteq> x) (sdb_subscriptions (cw_db w')) =
         filter (\<lambda>r. sr_id r \<noteq> x) (sdb_subscriptions (cw_db w))))"
proof -
  have tx: "cw_tx w = Tx_None" using assms(1) by (simp add: subs_ok_def)
  note run = update_subscription_run [of w zi u x active patch, simplified tx, simplified]
  show ?thesis
  proof (cases "find_row (\<lambda>s. sr_id s = x \<and> sr_user_id s = u) (sdb_subscriptions (cw_db w))")
    case None
    with assms(2) run show ?thesis by auto
  next
    case (Some row)
    show ?thesis
    proof (cases "patched_preferences zi (sub_preferences (to_subscription (cw_db w) row)) patch")
      case (Inl e)
      with assms(2) run Some show ?thesis by (auto simp: Let_def)
    next
      case (Inr prefs)
      from update_outcome [OF tx assms(2) Some Inr] obtain r1 where
        writes: "update_writes (sr_is_active row) (case active of None \<Rightarrow> sr_is_active row | Some b \<Rightarrow> b) x u patch prefs w = (r1, w')"
        and r: "r = (case r1 of Inl e \<Rightarrow> Inl e | Inr None \<Rightarrow> Inl (App Kind_Not_Found ''Subscription not found'')
          | Inr (Some s) \<Rightarrow> Inr s)" .
      from update_writes_effect [OF tx Some writes]
      consider (fail) e where "r1 = Inl e" "cw_db w' = cw_db w"
        | (stored) s' where "r1 = Inr (Some (to_subscription (cw_db w') s'))"
            "find_row (\<lambda>s. sr_id s = x \<and> sr_user_id s = u) (sdb_subscriptions (cw_db w')) = Some s'"
            "sr_topic_id s' = sr_topic_id row"
            "sr_is_active s' = (case active of None \<Rightarrow> sr_is_active row | Some b \<Rightarrow> b)"
            "\<forall>y. preferences_of (cw_db w') y = (if patch \<noteq> None \<and> y = x
               then Some (prefs_row x (cw_now w) prefs) else preferences_of (cw_db w) y)"
            "filter (\<lambda>r. sr_id r \<noteq> x) (sdb_subscriptions (cw_db w')) =
             filter (\<lambda>r. sr_id r \<noteq> x) (sdb_subscriptions (cw_db w))"
        by blast
      then show ?thesis
      proof cases
        case stored
        obtain cs qs qe tz where prefs: "prefs = (cs, qs, qe, tz)" by (metis prod_cases4)
        note parts = patched_parts [where old = "sub_preferences (to_subscription (cw_db w) row)" and zi = zi]
        show ?thesis
        proof (cases patch)
          case None
          with stored Some show ?thesis by (simp add: r)
        next
          case (Some p)
          from parts [OF Inr [unfolded Some prefs]] have "preferences_of (cw_db w') x = Some (prefs_row x (cw_now w) prefs)"
            using stored(5) Some by simp
          with parts [OF Inr [unfolded Some prefs]] stored Some
            \<open>find_row (\<lambda>s. sr_id s = x \<and> sr_user_id s = u) (sdb_subscriptions (cw_db w)) = Some row\<close>
          show ?thesis by (simp add: r prefs prefs_row_def Let_def)
        qed
      qed (simp add: r)
    qed
  qed
qed

theorem update_changes_what_it_names_witness:
  "\<exists>w' s. update_subscription (\<lambda>_. Zone_Not_Found) 9 1 (Some False) (Some \<lparr>pp_channels = Some ['' WEB ''],
      pp_quiet_hours = Some (22, 7), pp_timezone = None\<rparr>) (sample_subs [(1, 9, True), (2, 10, False)]) =
      (Inr s, w') \<and> \<not> sub_is_active s \<and>
    map_option pr_channels (preferences_of (cw_db w') 1) = Some [''web''] \<and>
    map_option pr_quiet_hours_start (preferences_of (cw_db w') 1) = Some (Some 22) \<and>
    map_option pr_quiet_hours_end (preferences_of (cw_db w') 1) = Some (Some 7) \<and>
    preferences_of (cw_db w') 2 = Some (sample_preferences 2)"
proof -
  let ?w = "sample_subs [(1, 9, True), (2, 10, False)]"
  let ?p = "\<lparr>pp_channels = Some ['' WEB ''], pp_quiet_hours = Some (22, 7), pp_timezone = None\<rparr>"
  have norm: "normalize_channels_non_empty ['' WEB ''] = Inr [''web'']" by code_simp
  have names: "first_occurrences (channel_names ['' WEB '']) = [''web'']" by code_simp
  obtain r w' where run: "update_subscription (\<lambda>_. Zone_Not_Found) 9 1 (Some False) (Some ?p) ?w = (r, w')"
    by fastforce
  have "\<exists>s. r = Inr s"
    using run norm
    by (auto simp: update_subscription_run sample_subs_def sample_subscription_def sample_topic_def
        patched_preferences_def to_subscription_def preferences_of_def sample_preferences_def
        update_writes_def transaction_def upsert_preferences_def upsert_row_def subs_channels_def
        update_active_run set_active_def activated_def get_by_id_for_user_def eff_simps Let_def)
  then obtain s where r: "r = Inr s" ..
  obtain row row' where facts: "s = to_subscription (cw_db w') row'" "\<not> sr_is_active row'"
      "map_option pr_channels (preferences_of (cw_db w') 1) = Some [''web'']"
      "map_option pr_quiet_hours_start (preferences_of (cw_db w') 1) = Some (Some 22)"
      "map_option pr_quiet_hours_end (preferences_of (cw_db w') 1) = Some (Some 7)"
      "preferences_of (cw_db w') 2 = preferences_of (cw_db ?w) 2"
    using update_changes_what_it_names [OF sample_subs_ok(2) run] names
    by (auto simp: r Let_def)
  have "preferences_of (cw_db ?w) 2 = Some (sample_preferences 2)"
    by (simp add: preferences_of_def sample_subs_def sample_preferences_def)
  then show ?thesis using run r facts
    by (intro exI [of _ w'] exI [of _ s]) (simp add: to_subscription_def Let_def)
qed

text \<open>
  Cancelling keeps the row: subscribing again after a cancellation gives back the same
  subscription with the preferences it had, and in between no listing of active subscribers
  contains it.
\<close>

theorem resubscribe_restores:
  assumes "subs_ok w" and "topic_exists t (cw_db w)" and "subscription_of u t (cw_db w) = Some s"
  shows "\<exists>w1 r w2. unsubscribe u (sr_id s) w = (Inr (), w1) \<and>
    (\<forall>json limit cursor rows nxt.
       fst (list_internal_subscribers json t limit cursor w1) = Inr (rows, nxt) \<longrightarrow>
       sr_id s \<notin> sb_subscription_id ` set rows) \<and>
    subscribe u t w1 = (Inr (r, False), w2) \<and> sub_id r = sr_id s \<and> sub_is_active r \<and>
    prefs_tuple (sub_preferences r) = prefs_tuple (sub_preferences (to_subscription (cw_db w) s))"
proof -
  have tx: "cw_tx w = Tx_None" and ok: "subs_tables_ok (cw_db w)" using assms(1) by (simp_all add: subs_ok_def)
  have user: "sr_user_id s = u" "sr_topic_id s = t"
    using assms(3) by (auto simp: subscription_of_def dest: find_row_Some)
  define w1 where "w1 = (if sr_is_active s
    then w\<lparr>cw_db := activated (sr_id s) u False (cw_now w) (cw_db w)\<rparr> else w)"
  define s1 where "s1 = (if sr_is_active s then set_active False (cw_now w) s else s)"
  have cancel: "unsubscribe u (sr_id s) w = (Inr (), w1)"
    using unsubscribe_run [OF _ row_by_id [OF ok assms(3)]] tx by (simp add: w1_def)
  have w1_ok: "subs_ok w1"
    using subs_ok_step [OF keeps_unsubscribe idle_subs(2) assms(1)] cancel by (metis snd_conv)
  have tx1: "cw_tx w1 = Tx_None" and topic1: "topic_exists t (cw_db w1)"
    using tx assms(2) by (simp_all add: w1_def topic_exists_def activated_def)
  have found1: "subscription_of u t (cw_db w1) = Some s1" and s1: "sr_id s1 = sr_id s" "\<not> sr_is_active s1"
    using assms(3) user by (auto simp: w1_def s1_def subscription_of_def activated_def find_row_update)
  have inactive: "\<not> sr_is_active r" if "r \<in> set (sdb_subscriptions (cw_db w1))" "sr_id r = sr_id s" for r
  proof -
    have "s1 \<in> set (sdb_subscriptions (cw_db w1))"
      using found1 by (auto simp: subscription_of_def dest: find_row_Some)
    moreover have "distinct (map sr_id (sdb_subscriptions (cw_db w1)))"
      using w1_ok by (simp add: subs_ok_def subs_tables_ok_def)
    ultimately have "r = s1" using that s1 by (metis key_unique)
    with s1 show ?thesis by simp
  qed
  have hidden: "sr_id s \<notin> sb_subscription_id ` set rows"
    if list: "fst (list_internal_subscribers json t limit cursor w1) = Inr (rows, nxt)" for json limit cursor rows nxt
  proof -
    have sub: "rows' = rows \<or> rows' = take limit rows" if "cut_page c limit rows = Inr (rows', n)" for c rows rows' n
      using that by (auto simp: cut_page_def split: if_splits)
    obtain c where "fst (list_active_subscribers t (limit + 1) c w1) = Inr rows \<or>
        (\<exists>all. fst (list_active_subscribers t (limit + 1) c w1) = Inr all \<and> rows = take limit all)"
      using list tx1
      by (auto simp: list_internal_subscribers_def eff_simps list_active_subscribers_def
          split: option.splits sum.splits dest!: sub)
    then have "set rows \<subseteq> to_subscriber (cw_db w1) ` {r \<in> set (sdb_subscriptions (cw_db w1)). sr_is_active r}"
      using tx1 set_select_page set_take_subset
      by (fastforce simp: list_active_subscribers_def eff_simps dest: in_set_takeD)
    then show ?thesis using inactive by (fastforce simp: to_subscriber_def Let_def)
  qed
  have upd: "update_active (sr_id s1) u True w1 =
      (let w' = w1\<lparr>cw_db := activated (sr_id s1) u True (cw_now w1) (cw_db w1)\<rparr>
       in (Inr (Some (to_subscription (cw_db w') (set_active True (cw_now w1) s1))), w'))"
    using w1_ok by (intro update_active_run row_by_id [OF _ found1]) (simp_all add: subs_ok_def)
  let ?w2 = "w1\<lparr>cw_db := activated (sr_id s1) u True (cw_now w1) (cw_db w1)\<rparr>"
  let ?r = "to_subscription (cw_db ?w2) (set_active True (cw_now w1) s1)"
  have "prefs_tuple (sub_preferences ?r) = prefs_tuple (sub_preferences (to_subscription (cw_db w) s))"
    by (rule prefs_tuple_same) (simp add: s1_def w1_def)
  moreover have "subscribe u t w1 = (Inr (?r, False), ?w2)"
    using upd s1 found1 tx1 topic1
    by (simp add: subscribe_known_topic and_then_run ret_run Let_def)
  moreover have "sub_id ?r = sr_id s" "sub_is_active ?r" using s1 by simp_all
  ultimately show ?thesis using cancel hidden by blast
qed

theorem resubscribe_restores_witness:
  "\<exists>w1 r w2. unsubscribe 9 1 (sample_subs [(1, 9, True), (2, 10, False)]) = (Inr (), w1) \<and>
     subscribe 9 60 w1 = (Inr (r, False), w2) \<and> sub_id r = 1 \<and>
     prefs_tuple (sub_preferences r) = ([''email''], Some 1, Some 2, ''UTC'')"
proof -
  let ?w = "sample_subs [(1, 9, True), (2, 10, False)]"
  have "topic_exists 60 (cw_db ?w)" by (simp add: topic_exists_def sample_subs_def sample_topic_def)
  moreover have "subscription_of 9 60 (cw_db ?w) = Some (sample_subscription 1 9 True)"
    by (simp add: subscription_of_def sample_subs_def sample_subscription_def)
  moreover have "prefs_tuple (sub_preferences (to_subscription (cw_db ?w) (sample_subscription 1 9 True))) =
      ([''email''], Some 1, Some 2, ''UTC'')"
    by (simp add: prefs_tuple_def to_subscription_def preferences_of_def sample_subs_def
        sample_subscription_def sample_preferences_def Let_def)
  moreover have "sr_id (sample_subscription 1 9 True) = 1" by (simp add: sample_subscription_def)
  ultimately show ?thesis
    using resubscribe_restores [OF sample_subs_ok(2), of 60 9 "sample_subscription 1 9 True"] by auto
qed

lemma upsert_succeeds:
  assumes "cs \<noteq> []" and "set cs \<subseteq> set subs_channels" and "x \<in> set (map sr_id (sdb_subscriptions d))"
  shows "\<exists>d'. upsert_row x cs qs qe tz now d = Inr ((), d')"
  using assms by (cases "x \<in> set (map pr_subscription_id (sdb_preferences d))")
    (simp_all add: upsert_row_def Let_def)

text \<open>
  A zone name that the time zone database does not know is refused with 422, but one that
  it rejects as malformed (\<open>ZoneInfo\<close> raises \<open>ValueError\<close>) is answered with 500; both leave the
  tables as they were, and a known name is stored trimmed.
\<close>

theorem timezone_answers:
  fixes zi :: zone_db
  assumes "subs_ok w" and "current_user_id hdr = Inr u"
    and "find_row (\<lambda>s. sr_id s = x \<and> sr_user_id s = u) (sdb_subscriptions (cw_db w)) = Some row"
    and "py_strip name \<noteq> []"
  defines "answer \<equiv> api_update_subscription zi hdr x None
    (Some \<lparr>pp_channels = None, pp_quiet_hours = None, pp_timezone = Some name\<rparr>) w"
  shows "(zi (py_strip name) = Zone_Not_Found \<longrightarrow>
      fst answer = Refusal 422 ''validation_error'' ''Invalid timezone'' \<and> cw_db (snd answer) = cw_db w) \<and>
    (zi (py_strip name) = Zone_Bad_Key \<longrightarrow>
      fst answer = Refusal 500 ''internal_error'' ''Internal server error'' \<and> cw_db (snd answer) = cw_db w) \<and>
    (\<forall>z. zi (py_strip name) = Zone_Found z \<longrightarrow>
      (\<exists>s. fst answer = Reply 200 (to_subscription_response s) \<and> pf_timezone (sub_preferences s) = py_strip name))"
proof -
  let ?p = "Some \<lparr>pp_channels = None, pp_quiet_hours = None, pp_timezone = Some (py_strip name)\<rparr>"
  let ?e = "to_subscription (cw_db w) row"
  have tx: "cw_tx w \<noteq> Tx_Failed" and idle: "cw_tx w = Tx_None" using assms(1) by (simp_all add: subs_ok_def)
  have ok: "subs_tables_ok (cw_db w)" using assms(1) by (simp add: subs_ok_def)
  have valid: "validate_update None (Some \<lparr>pp_channels = None, pp_quiet_hours = None, pp_timezone = Some name\<rparr>) =
      Some (None, ?p)"
    using assms(4) by (simp add: validate_update_def validate_patch_def validate_patch_rest_def)
  have answer: "answer = endpoint (and_then (update_subscription zi u x None ?p)
      (\<lambda>s. ret (200, to_subscription_response s))) w"
    by (simp add: answer_def api_update_subscription_def endpoint_def and_then_run lift_run assms(2) valid)
  note run = update_subscription_run [OF tx, of zi u x None ?p, unfolded assms(3)]
  have patched: "patched_preferences zi (sub_preferences ?e) ?p =
      bind_sum (validate_timezone zi (py_strip name)) (\<lambda>tz. Inr (pf_channels (sub_preferences ?e),
        pf_quiet_hours_start (sub_preferences ?e), pf_quiet_hours_end (sub_preferences ?e), tz))"
    using to_subscription_preferences [OF ok, of row]
    by (auto simp: patched_preferences_def bind_sum_def quiet_pair_def split: sum.split)
  have found: "\<exists>s. fst answer = Reply 200 (to_subscription_response s) \<and>
      pf_timezone (sub_preferences s) = py_strip name" if z: "zi (py_strip name) = Zone_Found z" for z
  proof -
    let ?prefs = "(pf_channels (sub_preferences ?e), pf_quiet_hours_start (sub_preferences ?e),
      pf_quiet_hours_end (sub_preferences ?e), py_strip name)"
    have inr: "patched_preferences zi (sub_preferences ?e) ?p = Inr ?prefs"
      using z assms(4) by (simp add: patched validate_timezone_def)
    have "pf_channels (sub_preferences ?e) \<noteq> []" "set (pf_channels (sub_preferences ?e)) \<subseteq> set subs_channels"
      using preferences_of_ok [OF ok]
      by (auto simp: to_subscription_def Let_def preferences_ok_def subs_channels_def split: option.splits)
    moreover have "sr_id row = x" "row \<in> set (sdb_subscriptions (cw_db w))"
      using find_row_Some [OF assms(3)] by simp_all
    moreover from this have "x \<in> set (map sr_id (sdb_subscriptions (cw_db w)))" by force
    ultimately obtain d' where up: "upsert_row x (pf_channels (sub_preferences ?e))
        (pf_quiet_hours_start (sub_preferences ?e)) (pf_quiet_hours_end (sub_preferences ?e))
        (py_strip name) (cw_now w) (cw_db w) = Inr ((), d')"
      using upsert_succeeds by metis
    let ?s = "to_subscription d' row"
    have subs: "sdb_subscriptions d' = sdb_subscriptions (cw_db w)"
      and prefs: "preferences_of d' x = Some (prefs_row x (cw_now w) ?prefs)"
      using upsert_effect(1) [OF up, of x] upsert_effect(2) [OF up] by simp_all
    have "fst (update_subscription zi u x None ?p w) = Inr ?s"
      using idle inr up assms(3)
      by (simp add: run Let_def and_then_run update_writes_def transaction_def seq_run ret_run
          upsert_preferences_def gets_run sql_run get_by_id_for_user_def select_run subs)
    moreover have "pf_timezone (sub_preferences ?s) = py_strip name"
      using prefs \<open>sr_id row = x\<close> by (simp add: to_subscription_def Let_def prefs_row_def)
    ultimately show ?thesis
      by (intro exI [of _ ?s]) (auto simp: answer endpoint_def and_then_run ret_run split: prod.splits)
  qed
  have refused: "fst answer = Refusal (error_status e) (error_code e) (error_message e) \<and> cw_db (snd answer) = cw_db w"
    if "validate_timezone zi (py_strip name) = Inl e" for e
    using that by (simp add: answer endpoint_def and_then_run run Let_def patched)
  show ?thesis
    using found refused assms(4)
    by (auto simp: validate_timezone_def error_status_def error_code_def error_message_def)
qed

theorem timezone_answers_witness:
  "fst (api_update_subscription (\<lambda>_. Zone_Bad_Key) (Some (str_uuid 9)) 1 None
     (Some \<lparr>pp_channels = None, pp_quiet_hours = None, pp_timezone = Some ''../x''\<rparr>)
     (sample_subs [(1, 9, True), (2, 10, False)])) =
   Refusal 500 ''internal_error'' ''Internal server error''"
proof -
  let ?w = "sample_subs [(1, 9, True), (2, 10, False)]"
  have user: "current_user_id (Some (str_uuid 9)) = Inr 9" by code_simp
  have found: "find_row (\<lambda>s. sr_id s = 1 \<and> sr_user_id s = 9) (sdb_subscriptions (cw_db ?w)) =
      Some (sample_subscription 1 9 True)"
    by (simp add: sample_subs_def sample_subscription_def)
  have "py_strip ''../x'' \<noteq> []" by code_simp
  from timezone_answers [OF sample_subs_ok(2) user found this, of "\<lambda>_. Zone_Bad_Key"]
  show ?thesis by simp
qed

text \<open>
  Two requests of a user to subscribe to a topic can both see that there is no subscription;
  the one that inserts second violates the unique constraint, and its request is answered with
  500 instead of the existing subscription. The tables stay as the first one left them.
\<close>

lemma concurrent_subscribe_fails:
  assumes "cw_tx w = Tx_None" and "topic_exists t (cw_db w)" and "subscription_of u t (cw_db w) = None"
    and "cw_tx v = Tx_None" and "subscription_of u t (cw_db v) = Some s"
  shows "subscribe u t w = subscribe_new u t w \<and>
    (\<exists>v'. endpoint (and_then (subscribe_new u t) (\<lambda>(r, created).
        ret (if created then 201 else 200, to_subscription_response r))) v =
        (Refusal 500 ''internal_error'' ''Internal server error'', v') \<and> cw_db v' = cw_db v)"
proof -
  obtain v' where "subscribe_new u t v = (Inl unique_violation, v')" "cw_db v' = cw_db v"
    using subscribe_new_race [OF assms(4,5)] by blast
  then show ?thesis
    using assms(1-3)
    by (simp add: subscribe_known_topic endpoint_def and_then_run error_status_def error_code_def
        error_message_def)
qed

lemma concurrent_subscribe_fails_witness:
  "fst (endpoint (and_then (subscribe_new 9 60) (\<lambda>(r, created).
      ret (if created then 201 else 200, to_subscription_response r)))
      (sample_subs [(1, 9, True), (2, 10, False)])) =
    Refusal 500 ''internal_error'' ''Internal server error''"
proof -
  let ?v = "sample_subs [(1, 9, True), (2, 10, False)]" and ?w = "sample_subs []"
  have idle: "cw_tx ?w = Tx_None" "cw_tx ?v = Tx_None" by (simp_all add: sample_subs_def)
  have topic: "topic_exists 60 (cw_db ?w)" by (simp add: topic_exists_def sample_subs_def sample_topic_def)
  have none: "subscription_of 9 60 (cw_db ?w) = None" by (simp add: subscription_of_def sample_subs_def)
  have some: "subscription_of 9 60 (cw_db ?v) = Some (sample_subscription 1 9 True)"
    by (simp add: subscription_of_def sample_subs_def sample_subscription_def)
  from concurrent_subscribe_fails [OF idle(1) topic none idle(2) some] show ?thesis by auto
qed

end
