(* ===== verification/Subscriptions_Listing.thy ===== *)
theory Subscriptions_Listing
  imports Subscriptions_Laws
begin

text \<open>
  The three listings of the subscriptions service provide the interface of a paged listing:
  what a cursor names is read back from its text, so the page after a row holds the rows after
  it. A client that follows the cursors sees every row once.
\<close>

section \<open>Cursors are read back\<close>

lemma subscriber_cursor_roundtrip:
  assumes "is_uuid u" and "is_uuid i"
  shows "bind_sum (decode_cursor json (Some (subscribers_cursor u i))) subscriber_cursor_data =
    Inr (Some (u, i))"
proof -
  have "decode_cursor json (Some (subscribers_cursor u i)) =
      Inr (Some [(''user_id'', str_uuid u), (''id'', str_uuid i)])"
    unfolding subscribers_cursor_def
    by (rule decode_encode_cursor) (simp_all add: plain_names plain_str_uuid)
  with assms show ?thesis
    by (simp add: subscriber_cursor_data_def item_def dict_get_def uuid_arg_def parse_str_uuid)
qed

lemma no_subscriber_cursor [simp]: "subscriber_cursor_data None = Inr None"
  by (simp add: subscriber_cursor_data_def)

section \<open>The three listings on a world\<close>

definition rows_ok :: "subs_world \<Rightarrow> bool" where
  "rows_ok w \<longleftrightarrow> cw_tx w \<noteq> Tx_Failed \<and> subs_tables_ok (cw_db w) \<and>
     (\<forall>s \<in> set (sdb_subscriptions (cw_db w)). is_uuid (sr_id s) \<and> is_uuid (sr_user_id s) \<and>
        instant_ok (sr_created_at s)) \<and>
     (\<forall>t \<in> set (sdb_topics (cw_db w)). is_uuid (tp_id t) \<and> instant_ok (tp_created_at t))"

definition subscribers_of :: "uuid \<Rightarrow> subs_db \<Rightarrow> subscriber_record list" where
  "subscribers_of t d = map (to_subscriber d) (sort_key (\<lambda>s. (sr_user_id s, sr_id s))
     (filter (\<lambda>s. sr_topic_id s = t \<and> sr_is_active s) (sdb_subscriptions d)))"

definition subscriber_key :: "subscriber_record \<Rightarrow> uuid \<times> uuid" where
  "subscriber_key r = (sb_user_id r, sb_subscription_id r)"

definition subscriber_link :: "subscriber_record \<Rightarrow> string" where
  "subscriber_link r = subscribers_cursor (sb_user_id r) (sb_subscription_id r)"

definition subscriptions_of_user :: "uuid \<Rightarrow> subs_db \<Rightarrow> subscription_record list" where
  "subscriptions_of_user u d = map (to_subscription d)
     (sort_key (\<lambda>s. desc_key (sr_created_at s) (sr_id s))
       (filter (\<lambda>s. sr_user_id s = u) (sdb_subscriptions d)))"

definition subscription_key :: "subscription_record \<Rightarrow> int \<times> int" where
  "subscription_key r = desc_key (sub_created_at r) (sub_id r)"

definition subscription_link :: "subscription_record \<Rightarrow> string" where
  "subscription_link r = row_cursor (sub_created_at r) (sub_id r)"

definition topic_matches :: "string option \<Rightarrow> topic_row \<Rightarrow> bool" where
  "topic_matches q t \<longleftrightarrow> ilike_search q (tp_key t) \<or> ilike_search q (tp_name t)"

definition topic_sort :: "topic_row \<Rightarrow> int \<times> int" where
  "topic_sort t = desc_key (tp_created_at t) (tp_id t)"

definition matching_topics :: "string option \<Rightarrow> subs_db \<Rightarrow> topic_row list" where
  "matching_topics q d = sort_key topic_sort (filter (topic_matches q) (sdb_topics d))"

definition topic_link :: "topic_row \<Rightarrow> string" where
  "topic_link t = row_cursor (tp_created_at t) (tp_id t)"

lemma to_subscriber_simps [simp]:
  "sb_user_id (to_subscriber d s) = sr_user_id s"
  "sb_subscription_id (to_subscriber d s) = sr_id s"
  by (simp_all add: to_subscriber_def Let_def)

text \<open>One request, with the cursor already read.\<close>

lemma list_internal_run:
  assumes "cw_tx w \<noteq> Tx_Failed" and "topic_exists t (cw_db w)"
    and "bind_sum (decode_cursor json cursor) subscriber_cursor_data = Inr c"
  shows "list_internal_subscribers json t limit cursor w =
    (cut_page subscriber_link limit (filter (after_cursor subscriber_key c) (subscribers_of t (cw_db w))), w)"
proof -
  obtain topic where "find_row (\<lambda>r. tp_id r = t) (sdb_topics (cw_db w)) = Some topic"
    using assms(2) find_topic [of t "sdb_topics (cw_db w)"] by (auto simp: topic_exists_def)
  then have "list_internal_subscribers json t limit cursor w =
      and_then (list_active_subscribers t (limit + 1) c) (\<lambda>rows. lift (cut_page subscriber_link limit rows)) w"
    using assms(1,3)
    by (simp add: list_internal_subscribers_def get_topic_run and_then_run lift_run lift_bind
        subscriber_link_def [abs_def])
  also have "\<dots> = (cut_page subscriber_link limit
      (filter (after_cursor subscriber_key c) (subscribers_of t (cw_db w))), w)"
    using assms(1) cut_selected_page [where f = "to_subscriber (cw_db w)" and key = subscriber_key
        and k = "\<lambda>s. (sr_user_id s, sr_id s)" and c = subscriber_link and n = limit and a = c
        and p = "\<lambda>s. sr_topic_id s = t \<and> sr_is_active s" and rows = "sdb_subscriptions (cw_db w)"]
    by (simp add: list_active_subscribers_def and_then_run sql_run lift_run subscribers_of_def
        subscriber_key_def conj_assoc)
  finally show ?thesis .
qed

lemma list_my_run:
  assumes "cw_tx w \<noteq> Tx_Failed"
    and "bind_sum (decode_cursor (fst rd) cursor) (instant_cursor_data (snd rd)) = Inr c"
  shows "list_my rd u limit cursor w = (cut_page subscription_link limit
    (filter (after_cursor subscription_key (map_option (\<lambda>(t, i). desc_key t i) c))
      (subscriptions_of_user u (cw_db w))), w)"
proof -
  have "list_my rd u limit cursor w =
      and_then (list_for_user u (limit + 1) c) (\<lambda>rows. lift (cut_page subscription_link limit rows)) w"
    using assms(2)
    by (simp add: list_my_def lift_bind and_then_run lift_run subscription_link_def [abs_def])
  also have "\<dots> = (cut_page subscription_link limit
    (filter (after_cursor subscription_key (map_option (\<lambda>(t, i). desc_key t i) c))
      (subscriptions_of_user u (cw_db w))), w)"
    using assms(1) cut_selected_page [where f = "to_subscription (cw_db w)" and key = subscription_key
        and k = "\<lambda>s. desc_key (sr_created_at s) (sr_id s)" and c = subscription_link and n = limit
        and a = "map_option (\<lambda>(t, i). desc_key t i) c"
        and p = "\<lambda>s. sr_user_id s = u" and rows = "sdb_subscriptions (cw_db w)"]
    by (simp add: list_for_user_def and_then_run sql_run lift_run subscriptions_of_user_def
        subscription_key_def)
  finally show ?thesis .
qed

lemma list_topics_run:
  assumes "cw_tx w \<noteq> Tx_Failed"
    and "bind_sum (decode_cursor (fst rd) cursor) (instant_cursor_data (snd rd)) = Inr c"
  shows "list_topics rd q limit cursor w = (cut_page topic_link limit
    (filter (after_cursor topic_sort (map_option (\<lambda>(t, i). desc_key t i) c))
      (matching_topics q (cw_db w))), w)"
proof -
  have "list_topics rd q limit cursor w =
      and_then (list_topic_rows q (limit + 1) c) (\<lambda>rows. lift (cut_page topic_link limit rows)) w"
    using assms(2) by (simp add: list_topics_def lift_bind and_then_run lift_run topic_link_def [abs_def])
  also have "\<dots> = (cut_page topic_link limit
    (filter (after_cursor topic_sort (map_option (\<lambda>(t, i). desc_key t i) c))
      (matching_topics q (cw_db w))), w)"
    using assms(1) cut_selected_page [where f = "\<lambda>t. t" and key = topic_sort
        and k = topic_sort and c = topic_link and n = limit
        and a = "map_option (\<lambda>(t, i). desc_key t i) c"
        and p = "topic_matches q" and rows = "sdb_topics (cw_db w)"]
    by (simp add: list_topic_rows_def and_then_run sql_run lift_run matching_topics_def
        topic_sort_def [abs_def] topic_matches_def [abs_def])
  finally show ?thesis .
qed

section \<open>The interface holds\<close>

lemma subscribers_strict:
  assumes "subs_tables_ok d"
  shows "sorted_wrt (<) (map subscriber_key (subscribers_of t d))"
  unfolding subscribers_of_def
proof (rule strict_selection)
  have "distinct (map sr_id (sdb_subscriptions d))" using assms by (simp add: subs_tables_ok_def)
  then show "distinct (map (\<lambda>s. (sr_user_id s, sr_id s)) (sdb_subscriptions d))"
    by (rule distinct_keys) simp
qed (simp add: subscriber_key_def)

lemma subscriptions_strict:
  assumes "subs_tables_ok d"
  shows "sorted_wrt (<) (map subscription_key (subscriptions_of_user u d))"
  unfolding subscriptions_of_user_def
proof (rule strict_selection)
  have "distinct (map sr_id (sdb_subscriptions d))" using assms by (simp add: subs_tables_ok_def)
  then show "distinct (map (\<lambda>s. desc_key (sr_created_at s) (sr_id s)) (sdb_subscriptions d))"
    by (rule distinct_keys) (simp add: desc_key_inj)
qed (simp add: subscription_key_def)

lemma topics_strict:
  assumes "subs_tables_ok d"
  shows "sorted_wrt (<) (map topic_sort (matching_topics q d))"
proof -
  have "distinct (map tp_id (sdb_topics d))" using assms by (simp add: subs_tables_ok_def)
  then have "distinct (map topic_sort (sdb_topics d))"
    by (rule distinct_keys) (simp add: topic_sort_def desc_key_inj)
  then show ?thesis
    using strict_selection [of topic_sort "\<lambda>t. t" topic_sort "sdb_topics d" "topic_matches q"]
    by (simp add: matching_topics_def)
qed

lemma subscriber_rows:
  assumes "rows_ok w" and "r \<in> set (subscribers_of t (cw_db w))"
  shows "is_uuid (sb_user_id r)" "is_uuid (sb_subscription_id r)"
  using assms by (auto simp: rows_ok_def subscribers_of_def)

lemma subscription_rows:
  assumes "rows_ok w" and "r \<in> set (subscriptions_of_user u (cw_db w))"
  shows "instant_ok (sub_created_at r)" "is_uuid (sub_id r)"
  using assms by (auto simp: rows_ok_def subscriptions_of_user_def)

lemma topic_rows:
  assumes "rows_ok w" and "t \<in> set (matching_topics q (cw_db w))"
  shows "instant_ok (tp_created_at t)" "is_uuid (tp_id t)"
  using assms by (auto simp: rows_ok_def matching_topics_def)

interpretation internal_listing: paged_listing
  "\<lambda>(json, w, t). rows_ok w \<and> topic_exists t (cw_db w)"
  "\<lambda>(json, w, t). subscribers_of t (cw_db w)" subscriber_key
  "\<lambda>(json, w, t) limit cursor. fst (list_internal_subscribers json t limit cursor w)" subscriber_link
proof (unfold_locales, goal_cases)
  case (1 s)
  then show ?case by (auto simp: rows_ok_def intro: subscribers_strict)
next
  case (2 s limit)
  then show ?case by (auto simp: rows_ok_def list_internal_run)
next
  case (3 s r limit)
  then show ?case
    by (auto simp: list_internal_run [OF _ _ subscriber_cursor_roundtrip] subscriber_rows
        rows_ok_def subscriber_link_def subscriber_key_def [abs_def])
qed

interpretation my_listing: paged_listing
  "\<lambda>(rd, w, u). rows_ok w" "\<lambda>(rd, w, u). subscriptions_of_user u (cw_db w)" subscription_key
  "\<lambda>(rd, w, u) limit cursor. fst (list_my rd u limit cursor w)" subscription_link
proof (unfold_locales, goal_cases)
  case (1 s)
  then show ?case by (auto simp: rows_ok_def intro: subscriptions_strict)
next
  case (2 s limit)
  then show ?case by (auto simp: rows_ok_def list_my_run)
next
  case (3 s r limit)
  then show ?case
    by (auto simp: list_my_run [OF _ instant_cursor_roundtrip] subscription_rows
        rows_ok_def subscription_link_def subscription_key_def [abs_def])
qed

interpretation topic_listing: paged_listing
  "\<lambda>(rd, w, q). rows_ok w" "\<lambda>(rd, w, q). matching_topics q (cw_db w)" topic_sort
  "\<lambda>(rd, w, q) limit cursor. fst (list_topics rd q limit cursor w)" topic_link
proof (unfold_locales, goal_cases)
  case (1 s)
  then show ?case by (auto simp: rows_ok_def intro: topics_strict)
next
  case (2 s limit)
  then show ?case by (auto simp: rows_ok_def list_topics_run)
next
  case (3 s r limit)
  obtain rd w q where s: "s = (rd, w, q)" by (cases s)
  with 3 have ok: "rows_ok w" and r: "r \<in> set (matching_topics q (cw_db w))" by simp_all
  from ok have tx: "cw_tx w \<noteq> Tx_Failed" by (simp add: rows_ok_def)
  show ?case
    using list_topics_run [OF tx instant_cursor_roundtrip [OF topic_rows [OF ok r]]]
    by (simp only: s prod.case topic_link_def fst_conv option.map after_cursor_simps
        topic_sort_def [of r])
qed

section \<open>Properties\<close>

lemma active_ids: "sb_subscription_id ` set (subscribers_of t d) =
    sr_id ` {s \<in> set (sdb_subscriptions d). sr_topic_id s = t \<and> sr_is_active s}"
  by (auto simp: subscribers_of_def image_image)

lemma strict_distinct:
  fixes key :: "'r \<Rightarrow> 'k::linorder"
  assumes "sorted_wrt (<) (map key xs)"
  shows "distinct xs"
  using strict_sorted_iff [of "map key xs"] assms by (simp add: distinct_map)

text \<open>
  The cursor of a row is read back as the row's place: \<open>encode_cursor\<close>, base64, JSON,
  \<open>isoformat\<close> and \<open>str(uuid)\<close> undo \<open>decode_cursor\<close>, \<open>fromisoformat\<close> and \<open>UUID\<close>, whatever the
  library does with other texts.
\<close>

lemma cursor_roundtrip:
  assumes "instant_ok t" and "is_uuid u" and "is_uuid i"
  shows "bind_sum (decode_cursor json (Some (row_cursor t i))) (instant_cursor_data dates) =
      Inr (Some (t, i)) \<and>
    bind_sum (decode_cursor json (Some (subscribers_cursor u i))) subscriber_cursor_data =
      Inr (Some (u, i))"
  using instant_cursor_roundtrip subscriber_cursor_roundtrip assms by blast

text \<open>
  C13: the internal listing of a topic's subscribers, followed from page to page, ends and
  gives every active subscription of the topic exactly once, by user, in pages of at most the
  limit. The pages are read from one state of the tables.
\<close>

theorem subscriber_listing_complete:
  assumes "rows_ok w" and "topic_exists t (cw_db w)" and "0 < limit"
  shows "\<exists>pages. follow_pages (Suc (length (subscribers_of t (cw_db w))))
      (\<lambda>cursor. fst (list_internal_subscribers json t limit cursor w)) None = Inr pages \<and>
    concat pages = subscribers_of t (cw_db w) \<and> distinct (concat pages) \<and>
    sb_subscription_id ` set (concat pages) =
      sr_id ` {s \<in> set (sdb_subscriptions (cw_db w)). sr_topic_id s = t \<and> sr_is_active s} \<and>
    (\<forall>p \<in> set pages. length p \<le> limit)"
proof -
  have "distinct (subscribers_of t (cw_db w))"
    using subscribers_strict assms(1) by (auto simp: rows_ok_def intro: strict_distinct)
  moreover obtain pages where "follow_pages (Suc (length (subscribers_of t (cw_db w))))
      (\<lambda>cursor. fst (list_internal_subscribers json t limit cursor w)) None = Inr pages"
      and "concat pages = subscribers_of t (cw_db w)" and "\<forall>p \<in> set pages. length p \<le> limit"
    using internal_listing.follow_visits_all [of "(json, w, t)" limit] assms by auto
  ultimately show ?thesis
    by (intro exI [of _ pages]) (simp add: active_ids del: set_concat follow_pages.simps)
qed

lemma sample_rows_ok: "rows_ok (sample_subs [(1, 9, True), (2, 10, True), (3, 11, False)])"
proof -
  have "py_strip ''UTC'' = ''UTC''" and "instant_ok 0" by code_simp+
  then show ?thesis
    by (simp add: rows_ok_def subs_tables_ok_def sample_subs_def sample_topic_def
        sample_subscription_def sample_preferences_def preferences_ok_def subs_channels_def
        is_uuid_def)
qed

theorem subscriber_listing_complete_witness:
  "\<exists>pages. follow_pages 3 (\<lambda>cursor. fst (list_internal_subscribers (\<lambda>_. Load_Error) 60 1 cursor
      (sample_subs [(1, 9, True), (2, 10, True), (3, 11, False)]))) None = Inr pages \<and>
    map sb_subscription_id (concat pages) = [1, 2]"
proof -
  let ?w = "sample_subs [(1, 9, True), (2, 10, True), (3, 11, False)]"
  have "topic_exists 60 (cw_db ?w)" by (simp add: topic_exists_def sample_subs_def sample_topic_def)
  moreover have "map sb_subscription_id (subscribers_of 60 (cw_db ?w)) = [1, 2]"
    by (simp add: subscribers_of_def sample_subs_def sample_subscription_def)
  moreover have "length (subscribers_of 60 (cw_db ?w)) = 2"
    by (simp add: subscribers_of_def sample_subs_def sample_subscription_def)
  ultimately show ?thesis
    using subscriber_listing_complete [OF sample_rows_ok, of 60 1 "\<lambda>_. Load_Error"]
    by (auto simp: numeral_3_eq_3 numeral_2_eq_2 simp del: set_concat follow_pages.simps)
qed

text \<open>
  A user's own listing, followed from page to page, gives each of the user's
  subscriptions exactly once, active or not, the newest first (ties by the larger id).
\<close>

theorem my_listing_complete:
  assumes "rows_ok w" and "0 < limit"
  shows "\<exists>pages. follow_pages (Suc (length (subscriptions_of_user u (cw_db w))))
      (\<lambda>cursor. fst (list_my rd u limit cursor w)) None = Inr pages \<and>
    sub_id ` set (concat pages) = sr_id ` {s \<in> set (sdb_subscriptions (cw_db w)). sr_user_id s = u} \<and>
    sorted_wrt (\<lambda>a b. sub_created_at a > sub_created_at b \<or>
      (sub_created_at a = sub_created_at b \<and> sub_id a > sub_id b)) (concat pages) \<and>
    (\<forall>p \<in> set pages. length p \<le> limit)"
proof -
  have "sorted_wrt (<) (map subscription_key (subscriptions_of_user u (cw_db w)))"
    using subscriptions_strict assms(1) by (simp add: rows_ok_def)
  then have "sorted_wrt (\<lambda>a b. sub_created_at a > sub_created_at b \<or>
      (sub_created_at a = sub_created_at b \<and> sub_id a > sub_id b)) (subscriptions_of_user u (cw_db w))"
    unfolding sorted_wrt_map
    by (rule sorted_wrt_mono_rel [rotated]) (auto simp: subscription_key_def desc_key_def)
  moreover have "sub_id ` set (subscriptions_of_user u (cw_db w)) =
      sr_id ` {s \<in> set (sdb_subscriptions (cw_db w)). sr_user_id s = u}"
    by (auto simp: subscriptions_of_user_def image_image)
  moreover obtain pages where "follow_pages (Suc (length (subscriptions_of_user u (cw_db w))))
      (\<lambda>cursor. fst (list_my rd u limit cursor w)) None = Inr pages"
      and "concat pages = subscriptions_of_user u (cw_db w)" and "\<forall>p \<in> set pages. length p \<le> limit"
    using my_listing.follow_visits_all [of "(rd, w, u)" limit] assms by auto
  ultimately show ?thesis
    by (intro exI [of _ pages]) (simp del: set_concat follow_pages.simps)
qed

lemma selected_ids: "k ` {s \<in> set xs. p s} = set (map k (filter p xs))"
  by auto

theorem my_listing_complete_witness:
  "\<exists>pages. follow_pages 2 (\<lambda>cursor. fst (list_my (\<lambda>_. Load_Error, \<lambda>_. Inl Value_Error) 9 1 cursor
      (sample_subs [(1, 9, True), (2, 10, True), (3, 11, False)]))) None = Inr pages \<and>
    sub_id ` set (concat pages) = {1}"
proof -
  let ?w = "sample_subs [(1, 9, True), (2, 10, True), (3, 11, False)]"
  have "sr_id ` {s \<in> set (sdb_subscriptions (cw_db ?w)). sr_user_id s = 9} = {1}"
    unfolding selected_ids by (simp add: sample_subs_def sample_subscription_def)
  moreover have "length (subscriptions_of_user 9 (cw_db ?w)) = 1"
    by (simp add: subscriptions_of_user_def sample_subs_def sample_subscription_def)
  ultimately show ?thesis
    using my_listing_complete [OF sample_rows_ok, of 1 9 "(\<lambda>_. Load_Error, \<lambda>_. Inl Value_Error)"]
    by (auto simp: numeral_2_eq_2 simp del: set_concat follow_pages.simps)
qed

end
