(* ===== verification/Fanout_Composition.thy ===== *)
theory Fanout_Composition
  imports Delivery_Fanout Subscriptions_Listing
begin

text \<open>
  The delivery service and the subscriptions service together: the fan-out of an event, with
  the pages that the internal endpoint of the subscriptions service answers from one state of
  its tables. The answers stand for the JSON texts that carry them.
\<close>

section \<open>The subscriptions service as the upstream of the fan-out\<close>

definition to_item :: "internal_subscriber \<Rightarrow> subscriber_item" where
  "to_item i = \<lparr>si_user_id = is_user_id i, si_subscription_id = is_subscription_id i,
     si_channels = is_channels i, si_quiet_hours_start = is_quiet_hours_start i,
     si_quiet_hours_end = is_quiet_hours_end i, si_timezone = is_timezone i\<rparr>"

definition page_of_reply ::
  "(internal_subscriber list \<times> string option) Requests.reply \<Rightarrow> exn + subscribers_page" where
  "page_of_reply r = (case r of
     Reply _ (items, cursor) \<Rightarrow> Inr \<lparr>sp_items = map to_item items, sp_next_cursor = cursor\<rparr>
   | Refusal _ _ _ \<Rightarrow> Inl Http_Error)"

definition subscribers_service ::
  "other_json \<Rightarrow> subs_world \<Rightarrow> int \<Rightarrow> (nat \<Rightarrow> int) \<Rightarrow> upstream" where
  "subscribers_service json v limit latency n topic_id cursor = Inr (latency n,
     page_of_reply (fst (api_list_topic_subscribers json topic_id limit cursor v)))"

definition item_of :: "subscriber_record \<Rightarrow> subscriber_item" where
  "item_of r = to_item (to_internal_subscriber r)"

lemma service_answer:
  assumes "1 \<le> limit" and "limit \<le> 500"
    and "fst (list_internal_subscribers json t (nat limit) c v) = Inr (rows, nxt)"
  shows "subscribers_service json v limit lat n t c =
    Inr (lat n, Inr \<lparr>sp_items = map item_of rows, sp_next_cursor = nxt\<rparr>)"
proof -
  obtain v' where "list_internal_subscribers json t (nat limit) c v = (Inr (rows, nxt), v')"
    using assms(3) by (metis prod.collapse)
  then show ?thesis using assms(1,2)
    by (simp add: subscribers_service_def api_list_topic_subscribers_def endpoint_def page_limit_def
        and_then_run lift_run ret_run page_of_reply_def item_of_def)
qed

section \<open>Following the cursors serves a chain of pages\<close>

lemma follow_pages_length: "follow_pages fuel fetch c = Inr pages \<Longrightarrow> length pages \<le> fuel"
  by (induction fuel arbitrary: c pages) (auto simp: bind_sum_Inr split: option.splits)

lemma follow_serves:
  assumes "\<And>c n rows nxt. fetch c = Inr (rows, nxt) \<Longrightarrow>
      up n topic c = Inr (lat n, Inr \<lparr>sp_items = map f rows, sp_next_cursor = nxt\<rparr>)"
    and "\<And>c rows nxt. fetch c = Inr (rows, Some nxt) \<Longrightarrow> nxt \<noteq> []"
    and "follow_pages fuel fetch c = Inr pages"
  shows "\<exists>chain. serves up topic n c chain \<and> length chain = length pages \<and>
    map (\<lambda>lp. sp_items (snd lp)) chain = map (map f) pages"
  using assms(3)
proof (induction fuel arbitrary: c n pages)
  case 0
  then show ?case by simp
next
  case (Suc fuel)
  then obtain rows nxt where fetch: "fetch c = Inr (rows, nxt)" by (auto simp: bind_sum_Inr)
  let ?p = "(lat n, \<lparr>sp_items = map f rows, sp_next_cursor = nxt\<rparr>)"
  show ?case
  proof (cases nxt)
    case None
    with Suc.prems fetch assms(1) [OF fetch] show ?thesis
      by (intro exI [of _ "[?p]"]) (auto simp: next_cursor_def)
  next
    case (Some c')
    with Suc.prems fetch obtain ps where ps: "follow_pages fuel fetch (Some c') = Inr ps" "pages = rows # ps"
      by (auto simp: bind_sum_Inr)
    with Suc.IH obtain chain where "serves up topic (Suc n) (Some c') chain" "length chain = length ps"
        "map (\<lambda>lp. sp_items (snd lp)) chain = map (map f) ps" by blast
    with ps assms(1) [OF fetch] assms(2) [OF fetch [unfolded Some]] Some show ?thesis
      by (intro exI [of _ "?p # chain"]) (simp add: next_cursor_def)
  qed
qed

lemma page_targets_items:
  "page_targets s chain = concat (map (targets_of s) (concat (map (\<lambda>lp. sp_items (snd lp)) chain)))"
  by (induction chain) (auto simp: page_targets_def)

lemma subscriber_link_nonempty: "subscriber_link r \<noteq> []"
  using base64_roundtrip [of "dumps_strings [(''user_id'', str_uuid (sb_user_id r)),
      (''id'', str_uuid (sb_subscription_id r))]"]
  by (auto simp: subscriber_link_def subscribers_cursor_def encode_cursor_def
      urlsafe_b64decode_def dumps_strings_def)

lemma cut_page_link: "cut_page link n rows = Inr (out, Some c) \<Longrightarrow> \<exists>r. c = link r"
  by (auto simp: cut_page_def split: if_splits)

lemma internal_link:
  assumes "fst (list_internal_subscribers json t n c v) = Inr (rows, Some nxt)"
  shows "nxt \<noteq> []"
proof -
  have "\<exists>r. nxt = subscriber_link r"
    using assms
    by (auto simp: list_internal_subscribers_def get_topic_by_id_def list_active_subscribers_def
        and_then_run lift_run raise_run subscriber_link_def [abs_def, symmetric]
        split: prod.splits sum.splits option.splits dest: cut_page_link)
  then show ?thesis by (auto simp: subscriber_link_nonempty)
qed

section \<open>The targets of a topic\<close>

definition wanted_keys ::
  "delivery_settings \<Rightarrow> uuid \<Rightarrow> subscriber_record \<Rightarrow> (uuid \<times> uuid \<times> string) list" where
  "wanted_keys s notification_id r = map (\<lambda>c. (notification_id, sb_user_id r, c))
     (filter (\<lambda>c. c \<in> set (settings_channels s)) (normalize_channels (sb_channels r)))"

lemma targets_of_item:
  assumes "is_uuid (sb_user_id r)"
  shows "targets_of s (item_of r) = map (\<lambda>c. (item_of r, sb_user_id r, c))
    (filter (\<lambda>c. c \<in> set (settings_channels s)) (normalize_channels (sb_channels r)))"
  using assms
  by (simp add: targets_of_def item_of_def to_item_def to_internal_subscriber_def parse_str_uuid)

lemma keys_of_targets:
  assumes "\<forall>r \<in> set rs. is_uuid (sb_user_id r)"
  shows "map (target_key ev) (concat (map (targets_of s) (map item_of rs))) =
    concat (map (wanted_keys s (ev_notification_id ev)) rs)"
  using assms by (induction rs) (auto simp: targets_of_item wanted_keys_def target_key_def)

lemma distinct_wanted:
  assumes "distinct (map sb_user_id rs)"
  shows "distinct (concat (map (wanted_keys s n) rs))"
  using assms
proof (induction rs)
  case Nil
  show ?case by simp
next
  case (Cons r rs)
  have "distinct (wanted_keys s n r)"
    by (simp add: wanted_keys_def distinct_map inj_on_def normalize_channels_def distinct_normalize_from)
  moreover have "set (wanted_keys s n r) \<inter> set (concat (map (wanted_keys s n) rs)) = {}"
    using Cons.prems by (auto simp: wanted_keys_def)
  ultimately show ?case using Cons by simp
qed

lemma distinct_users:
  assumes "subs_tables_ok d"
  shows "distinct (map sb_user_id (subscribers_of t d))"
proof -
  have "distinct (map (\<lambda>s. (sr_user_id s, sr_topic_id s)) (sdb_subscriptions d))"
    using assms by (simp add: subs_tables_ok_def)
  then have "inj_on sr_user_id {s \<in> set (sdb_subscriptions d). sr_topic_id s = t \<and> sr_is_active s}"
    and "distinct (sdb_subscriptions d)"
    by (auto simp: distinct_map inj_on_def)
  then show ?thesis by (simp add: subscribers_of_def distinct_map comp_def inj_on_def)
qed

lemma subscriber_timezone_item:
  assumes "subs_tables_ok d" and "r \<in> set (subscribers_of t d)"
  shows "subscriber_timezone (item_of r) = sb_timezone r"
proof -
  obtain row where r: "r = to_subscriber d row" using assms(2) by (auto simp: subscribers_of_def)
  have "timezone_ok (sb_timezone r)"
    using preferences_of_ok [OF assms(1)] default_preferences_ok(2)
    by (auto simp: r to_subscriber_def Let_def preferences_ok_alt split: option.split)
  then show ?thesis
    by (simp add: subscriber_timezone_def item_of_def to_item_def to_internal_subscriber_def timezone_ok_def)
qed

section \<open>Properties\<close>

lemma map_attempt_key_planned: "map attempt_key (planned_attempts ev now ids k ts) = map (target_key ev) ts"
  by (induction ts arbitrary: k) auto

lemma planned_from_target:
  "a \<in> set (planned_attempts ev now ids k ts) \<Longrightarrow> \<exists>t \<in> set ts. \<exists>x. a = new_attempt ev now x t"
  by (induction ts arbitrary: k) auto

lemma targets_from_subscriber:
  assumes "t \<in> set (concat (map (targets_of s) (map item_of rs)))" and "\<forall>r \<in> set rs. is_uuid (sb_user_id r)"
  shows "\<exists>r \<in> set rs. fst t = item_of r \<and> fst (snd t) = sb_user_id r"
  using assms by (auto simp: targets_of_item)

lemma service_serves:
  assumes "rows_ok v" and "topic_exists t (cw_db v)" and "1 \<le> limit" and "limit \<le> 500"
  shows "\<exists>chain. serves (subscribers_service json v limit lat) t 0 None chain \<and>
    length chain \<le> Suc (length (subscribers_of t (cw_db v))) \<and>
    page_targets s chain = concat (map (targets_of s) (map item_of (subscribers_of t (cw_db v))))"
proof -
  let ?up = "subscribers_service json v limit lat"
  let ?fetch = "\<lambda>c. fst (list_internal_subscribers json t (nat limit) c v)"
  obtain pages where pages: "follow_pages (Suc (length (subscribers_of t (cw_db v)))) ?fetch None = Inr pages"
      "concat pages = subscribers_of t (cw_db v)"
    using internal_listing.follow_visits_all [of "(json, v, t)" "nat limit"] assms(1-3) by auto
  have "\<exists>chain. serves ?up t 0 None chain \<and> length chain = length pages \<and>
      map (\<lambda>lp. sp_items (snd lp)) chain = map (map item_of) pages"
  proof (rule follow_serves [where fetch = ?fetch and lat = lat])
    show "?up n t c = Inr (lat n, Inr \<lparr>sp_items = map item_of rows, sp_next_cursor = nxt\<rparr>)"
      if "?fetch c = Inr (rows, nxt)" for c n rows nxt
      using that by (rule service_answer [OF assms(3,4)])
    show "nxt \<noteq> []" if "?fetch c = Inr (rows, Some nxt)" for c rows nxt
      using that by (rule internal_link)
  qed (rule pages(1))
  then obtain chain where chain: "serves ?up t 0 None chain" "length chain = length pages"
      "map (\<lambda>lp. sp_items (snd lp)) chain = map (map item_of) pages" by blast
  have "page_targets s chain = concat (map (targets_of s) (map item_of (subscribers_of t (cw_db v))))"
    by (simp only: page_targets_items chain(3) pages(2) [symmetric] map_concat)
  then show ?thesis using chain(1,2) follow_pages_length [OF pages(1)] by auto
qed

lemma attempt_of_subscriber:
  assumes "subs_tables_ok d" and "\<forall>r \<in> set rs. is_uuid (sb_user_id r)" and "rs = subscribers_of t d"
    and "ts = concat (map (targets_of s) (map item_of rs))" and "a \<in> set (planned_attempts ev now ids k ts)"
  shows "att_status a = Att_Pending \<and> (\<exists>r \<in> set rs. att_user_id a = sb_user_id r \<and>
    att_quiet_hours_start a = sb_quiet_hours_start r \<and> att_quiet_hours_end a = sb_quiet_hours_end r \<and>
    att_timezone a = sb_timezone r)"
proof -
  obtain u x where u: "u \<in> set ts" and a: "a = new_attempt ev now x u"
    using planned_from_target [OF assms(5)] by blast
  obtain r where "r \<in> set rs" and "fst u = item_of r" and "fst (snd u) = sb_user_id r"
    using targets_from_subscriber [OF u [unfolded assms(4)] assms(2)] by blast
  then show ?thesis
    using subscriber_timezone_item [OF assms(1)] assms(3)
    by (auto simp: a new_attempt_def item_of_def to_item_def to_internal_subscriber_def intro!: bexI [of _ r]
        split: prod.split)
qed

text \<open>
  Fan-out over the answers of the subscriptions service reaches exactly the active
  subscribers of the topic: for every one of them, by user, and each of its channels in
  service there is one new pending attempt with its quiet hours and its zone, and one job for
  each attempt in the same order. No key can clash, because a user has at most one
  subscription to a topic; the fuel is the number of subscribers plus one.
\<close>

lemma fanout_reaches_every_subscriber:
  assumes "rows_ok v" and "topic_exists (ev_topic_id ev) (cw_db v)" and "1 \<le> limit" and "limit \<le> 500"
    and "set (settings_channels s) \<subseteq> set allowed_channels"
    and "\<not> event_seen ev (cw_db w)"
    and "\<forall>a \<in> set (db_attempts (cw_db w)). att_notification_id a \<noteq> ev_notification_id ev"
    and "dw_redis_up w" and "inj (cw_uuids w)"
    and "\<forall>i \<ge> cw_drawn w. cw_uuids w i \<notin> att_id ` set (db_attempts (cw_db w))"
    and "length (subscribers_of (ev_topic_id ev) (cw_db v)) < fuel"
  shows "\<exists>w' new. process_notification_created fuel s (subscribers_service json v limit lat) ev sub w =
      (Inr True, w') \<and>
    db_attempts (cw_db w') = db_attempts (cw_db w) @ new \<and>
    map attempt_key new = concat (map (wanted_keys s (ev_notification_id ev))
      (subscribers_of (ev_topic_id ev) (cw_db v))) \<and>
    dw_jobs w' = dw_jobs w @ map job_for new \<and>
    (\<forall>a \<in> set new. att_status a = Att_Pending \<and> (\<exists>r \<in> set (subscribers_of (ev_topic_id ev) (cw_db v)).
       att_user_id a = sb_user_id r \<and> att_quiet_hours_start a = sb_quiet_hours_start r \<and>
       att_quiet_hours_end a = sb_quiet_hours_end r \<and> att_timezone a = sb_timezone r))"
proof -
  let ?t = "ev_topic_id ev" and ?up = "subscribers_service json v limit lat"
  let ?rs = "subscribers_of ?t (cw_db v)"
  have tables: "subs_tables_ok (cw_db v)" using assms(1) by (simp add: rows_ok_def)
  have users: "\<forall>r \<in> set ?rs. is_uuid (sb_user_id r)" using subscriber_rows(1) [OF assms(1)] by blast
  obtain chain where chain: "serves ?up ?t 0 None chain" "length chain \<le> Suc (length ?rs)"
      and ts: "page_targets s chain = concat (map (targets_of s) (map item_of ?rs))"
    using service_serves [OF assms(1-4)] by blast
  have keys: "map (target_key ev) (page_targets s chain) = concat (map (wanted_keys s (ev_notification_id ev)) ?rs)"
    unfolding ts by (rule keys_of_targets [OF users])
  have "length chain \<le> fuel" using chain(2) assms(11) by simp
  moreover have "ready (length (page_targets s chain)) (w\<lparr>cw_tx := Tx_Open\<rparr>)"
    using assms(8,10) inj_onD [OF assms(9)]
    by (auto simp: ready_def intro!: inj_onI) (metis UNIV_I add_left_cancel)
  moreover have "deliverable (page_targets s chain)"
    using assms(5) users unfolding ts deliverable_def by (auto simp: targets_of_item)
  moreover have "no_clash ev (cw_db w) (page_targets s chain)"
    using assms(7) distinct_wanted [OF distinct_users [OF tables]]
    unfolding no_clash_def keys by (auto simp: wanted_keys_def attempt_key_def)
  ultimately obtain w' where run: "process_notification_created fuel s ?up ev sub w = (Inr True, w')"
      and new: "let new = planned_attempts ev (cw_now w) (cw_uuids w) (cw_drawn w) (page_targets s chain)
        in db_attempts (cw_db w') = db_attempts (cw_db w) @ new \<and> dw_jobs w' = dw_jobs w @ map job_for new"
    using fanout_run [OF assms(6) chain(1)] by blast
  let ?new = "planned_attempts ev (cw_now w) (cw_uuids w) (cw_drawn w) (page_targets s chain)"
  show ?thesis using run new keys attempt_of_subscriber [OF tables users refl ts]
    by (intro exI [of _ w'] exI [of _ ?new]) (simp add: Let_def map_attempt_key_planned)
qed

lemma fanout_sample:
  "\<exists>w' new. process_notification_created 4 default_delivery_settings
      (subscribers_service (\<lambda>_. Load_Error) (sample_subs [(1, 9, True), (2, 10, True), (3, 11, False)])
        1 (\<lambda>_. 7)) sample_event ''created'' (sample_world [] True) = (Inr True, w') \<and>
    db_attempts (cw_db w') = new \<and> map attempt_key new = [(8, 9, ''email''), (8, 10, ''email'')]"
proof -
  let ?v = "sample_subs [(1, 9, True), (2, 10, True), (3, 11, False)]" and ?w = "sample_world [] True"
  have topic: "topic_exists (ev_topic_id sample_event) (cw_db ?v)"
    by (simp add: topic_exists_def sample_subs_def sample_topic_def sample_event_def)
  have norm: "normalize_channels [''email''] = [''email'']" by code_simp
  have rs: "subscribers_of 60 (cw_db ?v) = map (\<lambda>(u, x). \<lparr>sb_user_id = u, sb_subscription_id = x,
      sb_channels = [''email''], sb_quiet_hours_start = Some 1, sb_quiet_hours_end = Some 2,
      sb_timezone = ''UTC''\<rparr>) [(9, 1), (10, 2)]"
    by (simp add: subscribers_of_def sample_subs_def sample_subscription_def to_subscriber_def
        preferences_of_def sample_preferences_def Let_def)
  have topic_id: "ev_topic_id sample_event = 60" by (simp add: sample_event_def)
  have keys: "concat (map (wanted_keys default_delivery_settings (ev_notification_id sample_event))
      (subscribers_of 60 (cw_db ?v))) = [(8, 9, ''email''), (8, 10, ''email'')]"
    by (simp add: rs wanted_keys_def norm sample_channels sample_event_def del: One_nat_def)
  have "set (settings_channels default_delivery_settings) \<subseteq> set allowed_channels"
    by (simp add: sample_channels allowed_channels_def)
  moreover have "\<not> event_seen sample_event (cw_db ?w)" by (simp add: event_seen_def sample_world_def)
  moreover have "inj (cw_uuids ?w)" by (simp add: sample_world_def inj_on_def)
  moreover have "db_attempts (cw_db ?w) = []" and "dw_redis_up ?w" by (simp_all add: sample_world_def)
  moreover have "length (subscribers_of (ev_topic_id sample_event) (cw_db ?v)) < 4"
    by (simp add: rs topic_id del: One_nat_def)
  ultimately show ?thesis
    using fanout_reaches_every_subscriber [OF sample_rows_ok topic, of 1 default_delivery_settings ?w 4
        "\<lambda>_. Load_Error" "\<lambda>_. 7" "''created''"]
    by (simp add: topic_id keys del: One_nat_def) (elim exE conjE, intro exI conjI, assumption+)
qed

end
