(* ===== verification/Pipeline.thy ===== *)
theory Pipeline
  imports Fanout_Composition Notifications_Properties
begin

text \<open>
  From a request for a notification to the attempts of its delivery: the event that the
  notifications service writes into its outbox is the message that the delivery service reads
  (\<open>schemas/events.py\<close>), and the fan-out of that message over the subscriptions service.
\<close>

section \<open>Reading an event\<close>

text \<open>
  How pydantic reads a value as a UUID or as a date is a parameter. Of it the services rely on
  the texts of \<open>str(uuid)\<close> and \<open>isoformat()\<close> being read back.
\<close>

record event_reader =
  er_uuid :: "json \<Rightarrow> uuid option"
  er_datetime :: "json \<Rightarrow> instant option"

definition reads_written :: "event_reader \<Rightarrow> bool" where
  "reads_written rd \<longleftrightarrow> (\<forall>u. is_uuid u \<longrightarrow> er_uuid rd (JStr (str_uuid u)) = Some u) \<and>
     (\<forall>t. instant_ok t \<longrightarrow> er_datetime rd (JStr (isoformat t)) = Some t)"

definition field :: "json_dict \<Rightarrow> string \<Rightarrow> (json \<Rightarrow> 'a option) \<Rightarrow> exn + 'a" where
  "field d k f = (case Option.bind (dict_get d k) f of None \<Rightarrow> Inl Value_Error | Some x \<Rightarrow> Inr x)"

definition nullable :: "(json \<Rightarrow> 'a option) \<Rightarrow> json \<Rightarrow> 'a option option" where
  "nullable f v = (if v = JNull then Some None else map_option Some (f v))"

definition dict_value :: "json \<Rightarrow> json_dict option" where
  "dict_value v = (case v of JDict d \<Rightarrow> Some d | _ \<Rightarrow> None)"

text \<open>\<open>NotificationCreatedEvent.model\_validate(payload)\<close>: every field is required.\<close>

definition read_event :: "event_reader \<Rightarrow> json \<Rightarrow> exn + notification_event" where
  "read_event rd v = (case v of
     JDict d \<Rightarrow>
       bind_sum (field d ''event_id'' (er_uuid rd)) (\<lambda>event_id.
       bind_sum (field d ''notification_id'' (er_uuid rd)) (\<lambda>notification_id.
       bind_sum (field d ''topic_id'' (er_uuid rd)) (\<lambda>topic_id.
       bind_sum (field d ''created_by'' (er_uuid rd)) (\<lambda>created_by.
       bind_sum (field d ''payload'' dict_value) (\<lambda>payload.
       bind_sum (field d ''scheduled_at'' (nullable (er_datetime rd))) (\<lambda>scheduled_at.
       bind_sum (field d ''created_at'' (er_datetime rd)) (\<lambda>created_at.
         Inr \<lparr>ev_event_id = event_id, ev_notification_id = notification_id, ev_topic_id = topic_id,
           ev_created_by = created_by, ev_payload = payload, ev_scheduled_at = scheduled_at,
           ev_created_at = created_at\<rparr>)))))))
   | _ \<Rightarrow> Inl Value_Error)"

definition event_of :: "uuid \<Rightarrow> notification_row \<Rightarrow> notification_event" where
  "event_of event_id n = \<lparr>ev_event_id = event_id, ev_notification_id = ntf_id n,
     ev_topic_id = ntf_topic_id n, ev_created_by = ntf_created_by n, ev_payload = ntf_payload n,
     ev_scheduled_at = ntf_scheduled_at n, ev_created_at = ntf_created_at n\<rparr>"

definition row_readable :: "notification_row \<Rightarrow> bool" where
  "row_readable n \<longleftrightarrow> is_uuid (ntf_id n) \<and> is_uuid (ntf_topic_id n) \<and> is_uuid (ntf_created_by n) \<and>
     instant_ok (ntf_created_at n) \<and> (case ntf_scheduled_at n of None \<Rightarrow> True | Some t \<Rightarrow> instant_ok t)"

text \<open>What the notifications service writes the delivery service reads.\<close>

lemma event_roundtrip:
  assumes "reads_written rd" and "is_uuid x" and "row_readable n"
  shows "read_event rd (JDict (created_event x n)) = Inr (event_of x n)"
proof -
  have u: "er_uuid rd (JStr (str_uuid u)) = Some u" if "is_uuid u" for u
    using assms(1) that by (simp add: reads_written_def)
  have t: "er_datetime rd (JStr (isoformat t)) = Some t" if "instant_ok t" for t
    using assms(1) that by (simp add: reads_written_def)
  show ?thesis
    using assms(2,3) by (cases "ntf_scheduled_at n")
      (simp_all add: read_event_def created_event_def field_def dict_get_def u t row_readable_def nullable_def
        dict_value_def event_of_def)
qed

section \<open>A request that is accepted as new\<close>

lemma created_outbox:
  assumes "cw_tx v = Tx_None" and "cr_scheduled_at r = None"
    and "api_create_notification ns x_user_id rid r v = (Reply 201 n, v')"
  shows "\<exists>user. current_user_id x_user_id = Inr user \<and>
    (let row = new_notification user (cr_topic_id r) (cr_payload r) None (cr_idempotency_key r) v
     in n = to_notification_response row \<and>
        ndb_outbox (cw_db v') = ndb_outbox (cw_db v) @ [new_event rid row v])"
proof -
  obtain user row where user: "current_user_id x_user_id = Inr user"
      and created: "create_notification ns user (cr_topic_id r) (cr_payload r) None (cr_idempotency_key r) rid v =
        (Inr (row, True), v')" and n: "n = to_notification_response row"
    using assms(2,3)
    by (auto simp: api_create_notification_def endpoint_def and_then_run lift_run raise_run ret_run
        split: prod.splits sum.splits if_splits)
  have "get_by_idempotency_key user k v = (Inr (by_key user k (cw_db v)), v)" for k
    using assms(1) by (simp add: by_key_run)
  then have "store_notification user (cr_topic_id r) (cr_payload r) None (cr_idempotency_key r) rid v =
      (Inr (row, True), v')"
    using created
    by (auto simp: create_notification_def and_then_run lift_run normalize_scheduled_at_def ret_run
        split: sum.splits option.splits)
  then show ?thesis
    using user n
    by (auto simp: store_run [OF assms(1)] stored_def new_notification_def is_immediate_def Let_def
        split: if_splits option.splits)
qed

section \<open>The event and its fan-out\<close>

text \<open>
  A request that is accepted as new puts one event into the outbox, which the delivery service
  reads as an event for the same topic and with the same payload; its fan-out stores one pending
  attempt and enqueues one job for every active subscriber and every channel in service that the
  subscriber chose, in the order of the listing.
\<close>

lemma created_notification_reaches_subscribers:
  fixes lat :: "nat \<Rightarrow> int"
  assumes created: "cw_tx v = Tx_None" "cr_scheduled_at r = None"
      "api_create_notification ns x_user_id rid r v = (Reply 201 n, v')"
    and user: "current_user_id x_user_id = Inr user"
    and ids: "is_uuid (cw_uuids v (cw_drawn v))" "is_uuid (cw_uuids v (Suc (cw_drawn v)))"
      "is_uuid (cr_topic_id r)" "is_uuid user" "instant_ok (cw_now v)"
    and reader: "reads_written rd"
    and subs: "rows_ok sv" "topic_exists (cr_topic_id r) (cw_db sv)" "1 \<le> limit" "limit \<le> 500"
    and delivery: "set (settings_channels s) \<subseteq> set allowed_channels"
      "cw_uuids v (Suc (cw_drawn v)) \<notin> set (map pev_event_id (db_processed (cw_db w)))"
      "\<forall>a \<in> set (db_attempts (cw_db w)). att_notification_id a \<noteq> cw_uuids v (cw_drawn v)"
      "dw_redis_up w" "inj (cw_uuids w)"
      "\<forall>i \<ge> cw_drawn w. cw_uuids w i \<notin> att_id ` set (db_attempts (cw_db w))"
      "length (subscribers_of (cr_topic_id r) (cw_db sv)) < fuel"
  shows "\<exists>e ev w' new. ndb_outbox (cw_db v') = ndb_outbox (cw_db v) @ [e] \<and>
    read_event rd (JDict (obx_payload e)) = Inr ev \<and> ev_topic_id ev = cr_topic_id r \<and> ev_payload ev = cr_payload r \<and>
    process_notification_created fuel s (subscribers_service json sv limit lat) ev (obx_event_type e) w = (Inr True, w') \<and>
    db_attempts (cw_db w') = db_attempts (cw_db w) @ new \<and>
    map attempt_key new = concat (map (wanted_keys s (rn_id n)) (subscribers_of (cr_topic_id r) (cw_db sv))) \<and>
    dw_jobs w' = dw_jobs w @ map job_for new \<and> (\<forall>a \<in> set new. att_status a = Att_Pending)"
proof -
  let ?row = "new_notification user (cr_topic_id r) (cr_payload r) None (cr_idempotency_key r) v"
  let ?x = "cw_uuids v (Suc (cw_drawn v))"
  let ?ev = "event_of ?x ?row"
  from created_outbox [OF created] user have n: "n = to_notification_response ?row"
      and outbox: "ndb_outbox (cw_db v') = ndb_outbox (cw_db v) @ [new_event rid ?row v]"
    by (auto simp: Let_def)
  have payload: "obx_payload (new_event rid ?row v) = created_event ?x ?row" by (simp add: new_event_def Let_def)
  have "row_readable ?row" using ids by (simp add: row_readable_def new_notification_def)
  then have read: "read_event rd (JDict (obx_payload (new_event rid ?row v))) = Inr ?ev"
    using event_roundtrip [OF reader] ids(2) by (simp add: payload)
  have ev: "ev_topic_id ?ev = cr_topic_id r" "ev_payload ?ev = cr_payload r"
    "ev_notification_id ?ev = cw_uuids v (cw_drawn v)" "ev_event_id ?ev = ?x"
    by (simp_all add: event_of_def new_notification_def)
  have "rn_id n = cw_uuids v (cw_drawn v)" by (simp add: n to_notification_response_def new_notification_def)
  then obtain w' new where "process_notification_created fuel s (subscribers_service json sv limit lat) ?ev
        (obx_event_type (new_event rid ?row v)) w = (Inr True, w')"
      "db_attempts (cw_db w') = db_attempts (cw_db w) @ new" "dw_jobs w' = dw_jobs w @ map job_for new"
      "map attempt_key new = concat (map (wanted_keys s (rn_id n)) (subscribers_of (cr_topic_id r) (cw_db sv)))"
      "\<forall>a \<in> set new. att_status a = Att_Pending"
    using fanout_reaches_every_subscriber [of sv ?ev limit s w fuel json lat "obx_event_type (new_event rid ?row v)"]
      subs delivery by (auto simp: ev event_seen_def)
  with outbox read ev show ?thesis by blast
qed

text \<open>A reader that takes the texts and nothing else, and a service of notifications with fresh names.\<close>

definition sample_reader :: event_reader where
  "sample_reader = \<lparr>
     er_uuid = (\<lambda>v. case v of JStr t \<Rightarrow> parse_uuid t | _ \<Rightarrow> None),
     er_datetime = (\<lambda>v. case v of
       JStr t \<Rightarrow> (case fromisoformat (\<lambda>_. Inl Value_Error) t of Inr d \<Rightarrow> Some d | Inl _ \<Rightarrow> None)
     | _ \<Rightarrow> None)\<rparr>"

lemma sample_reads: "reads_written sample_reader"
  by (simp add: reads_written_def sample_reader_def parse_str_uuid fromisoformat_isoformat)

definition sample_request_60 :: create_request where
  "sample_request_60 =
    \<lparr>cr_topic_id = 60, cr_payload = [], cr_scheduled_at = None, cr_idempotency_key = None\<rparr>"

lemma sample_accepted:
  assumes "current_user_id x_user_id = Inr user"
  shows "\<exists>n v'. api_create_notification default_notifications_settings x_user_id rid sample_request_60 sample_service =
    (Reply 201 n, v') \<and> rn_id n = 100"
proof -
  have tx: "cw_tx sample_service = Tx_None" by (simp add: sample_service_def)
  have free: "can_store (new_notification user 60 [] None None sample_service)
      (new_event rid (new_notification user 60 [] None None sample_service) sample_service) (cw_db sample_service)"
    by (auto simp: can_store_def new_notification_def new_event_def sample_service_defs Let_def)
  have "rn_id (to_notification_response (new_notification user 60 [] None None sample_service)) = 100"
    by (simp add: to_notification_response_def new_notification_def sample_service_def)
  then show ?thesis
    by (simp add: api_create_notification_def endpoint_def and_then_run lift_run create_notification_def
        normalize_scheduled_at_def tx ret_run store_run free assms empty_payload_valid create_request_ok_def
        truthy_def sample_request_60_def)
qed

text \<open>The subscribers of a concrete topic and the attempts they are to get.\<close>

lemma sample_wanted:
  "length (subscribers_of 60 (cw_db (sample_subs [(1, 9, True), (2, 10, True), (3, 11, False)]))) < 4"
  "concat (map (wanted_keys default_delivery_settings 100)
     (subscribers_of 60 (cw_db (sample_subs [(1, 9, True), (2, 10, True), (3, 11, False)])))) =
   [(100, 9, ''email''), (100, 10, ''email'')]"
proof -
  have norm: "normalize_channels [''email''] = [''email'']" by code_simp
  have rs: "subscribers_of 60 (cw_db (sample_subs [(1, 9, True), (2, 10, True), (3, 11, False)])) =
      map (\<lambda>(u, x). \<lparr>sb_user_id = u, sb_subscription_id = x, sb_channels = [''email''],
        sb_quiet_hours_start = Some 1, sb_quiet_hours_end = Some 2, sb_timezone = ''UTC''\<rparr>) [(9, 1), (10, 2)]"
    by (simp add: subscribers_of_def sample_subs_def sample_subscription_def to_subscriber_def
        preferences_of_def sample_preferences_def Let_def)
  show "length (subscribers_of 60 (cw_db (sample_subs [(1, 9, True), (2, 10, True), (3, 11, False)]))) < 4"
    by (simp add: rs del: One_nat_def)
  show "concat (map (wanted_keys default_delivery_settings 100)
     (subscribers_of 60 (cw_db (sample_subs [(1, 9, True), (2, 10, True), (3, 11, False)])))) =
   [(100, 9, ''email''), (100, 10, ''email'')]"
    by (simp add: rs wanted_keys_def norm sample_channels del: One_nat_def)
qed

end
