(* ===== verification/Gateway_Http.thy ===== *)
theory Gateway_Http
  imports Requests Limits Json "HOL-Library.Char_ord" "HOL-Library.List_Lexorder"
begin

text \<open>
  The parts of the gateway that all its endpoints share: requests and responses, the filter of
  the headers, the calls to the services with their retries, the identity in the access token,
  the two rate limits, the exception handlers and the middlewares. The services, the JWT
  library, \<open>json.loads\<close> and \<open>unquote\<close> of texts with a percent sign are parameters.
\<close>

section \<open>Requests and responses\<close>

type_synonym pairs = "(string \<times> string) list"

text \<open>
  The names of the headers of a request are lower case: ASGI servers deliver them so. The query
  and the cookies are what the \<open>items()\<close> of \<open>query_params\<close> and \<open>cookies\<close> list, every name once.
\<close>

record http_request =
  rq_method :: string
  rq_path :: string
  rq_query :: pairs
  rq_headers :: pairs
  rq_cookies :: pairs
  rq_client_host :: "string option"
  rq_body :: string
  rq_cached_body :: "string option"
  rq_request_id :: string

text \<open>A body is a text, or the text that \<open>json.dumps\<close> gives for a value.\<close>

datatype content = Bytes string | Json json

record set_cookie =
  ck_name :: string
  ck_value :: string
  ck_max_age :: int
  ck_http_only :: bool
  ck_secure :: bool
  ck_same_site :: string
  ck_domain :: "string option"
  ck_path :: string

text \<open>
  A response, with the names of its headers in lower case; of one of the services they are what \<open>upstream.headers.items()\<close> lists. The
  headers \<open>content-type\<close> and \<open>content-length\<close> that Starlette adds to a response that has none are
  left out.
\<close>

record http_response =
  rs_status :: nat
  rs_headers :: pairs
  rs_body :: content
  rs_cookies :: "set_cookie list"

text \<open>\<open>headers.get(name)\<close>: the first one of that name, whatever its case.\<close>

definition header :: "string \<Rightarrow> pairs \<Rightarrow> string option" where
  "header name hs = map_option snd (find_row (\<lambda>(k, v). py_lower k = py_lower name) hs)"

text \<open>\<open>dict(headers)\<close>: every name once, with its first value.\<close>

fun headers_dict :: "pairs \<Rightarrow> pairs" where
  "headers_dict [] = []"
| "headers_dict ((k, v) # hs) = (k, v) # headers_dict (filter (\<lambda>(k', _). k' \<noteq> k) hs)"

section \<open>core/settings.py\<close>

record gateway_settings =
  gs_retries_get :: int
  gs_jwt_algorithm :: string
  gs_jwt_audience :: string
  gs_jwt_issuer :: string
  gs_jwt_secret :: string
  gs_jwt_public_key :: string
  gs_limit_auth :: int
  gs_limit_user :: int
  gs_cookie_name :: string
  gs_cookie_domain :: "string option"
  gs_cookie_path :: string
  gs_cookie_secure :: bool
  gs_cookie_same_site :: string
  gs_cookie_max_age :: int
  gs_max_body_bytes :: int

definition default_gateway_settings :: gateway_settings where
  "default_gateway_settings = \<lparr>gs_retries_get = 2, gs_jwt_algorithm = ''HS256'',
     gs_jwt_audience = ''substy'', gs_jwt_issuer = ''auth-service'',
     gs_jwt_secret = ''change-me-super-secret-at-least-32-bytes'', gs_jwt_public_key = [],
     gs_limit_auth = 5, gs_limit_user = 60, gs_cookie_name = ''refresh_token'',
     gs_cookie_domain = None, gs_cookie_path = ''/'', gs_cookie_secure = False,
     gs_cookie_same_site = ''lax'', gs_cookie_max_age = 2592000, gs_max_body_bytes = 1048576\<rparr>"

definition parsed_refresh_cookie_domain :: "gateway_settings \<Rightarrow> string option" where
  "parsed_refresh_cookie_domain s = (let value = py_strip (case gs_cookie_domain s of None \<Rightarrow> [] | Some d \<Rightarrow> d)
     in if value = [] then None else Some value)"

section \<open>The world of the gateway\<close>

text \<open>
  What a client of httpx does with a request to one of the services: it returns the response or
  raises \<open>ConnectError\<close>, \<open>ReadTimeout\<close> or another exception. The state of the services is a
  parameter of the world.
\<close>

datatype service = Auth_Api | Subscriptions_Api | Notifications_Api

record call =
  cl_service :: service
  cl_method :: string
  cl_path :: string
  cl_query :: pairs
  cl_headers :: pairs
  cl_content :: content

datatype transport = Response http_response | Connect_Error | Read_Timeout | Other_Transport exn

datatype json_load = Json_Value json | Not_Json | Load_Raises exn

datatype jwt_result = Claims json_dict | Invalid_Token | Jwt_Raises exn

text \<open>
  \<open>gl_decode\<close> is \<open>jwt.decode\<close> at an instant, for the token, the key, the algorithm, the audience
  and the issuer: it returns the claims, raises \<open>InvalidTokenError\<close>, or raises another exception,
  as for a key it cannot use; \<open>gl_inject\<close> adds the headers of the current trace to those of a call.
\<close>

record gateway_library =
  gl_decode :: "instant \<Rightarrow> string \<Rightarrow> string \<Rightarrow> string \<Rightarrow> string \<Rightarrow> string \<Rightarrow> jwt_result"
  gl_loads :: "string \<Rightarrow> json_load"
  gl_unquote :: "string \<Rightarrow> string"
  gl_repr :: "json \<Rightarrow> string"
  gl_inject :: "pairs \<Rightarrow> pairs"

text \<open>Durations are microseconds and their sums exact.\<close>

record gateway_metrics =
  gm_http_total :: "((string \<times> nat) \<times> int) list"
  gm_duration_sum :: "(string \<times> int) list"
  gm_duration_count :: "(string \<times> int) list"
  gm_rate_limited :: int
  gm_downstream_errors :: "(string \<times> int) list"

text \<open>
  The clock, the counters in Redis and which of its commands it answers, the metrics, the calls
  made so far, the services, the supplies of UUIDs and of readings of the performance counter,
  and the identifier that the current request has got.
\<close>

record 'u gateway_world =
  gw_clock :: instant
  gw_redis :: "string \<Rightarrow> counter"
  gw_answered :: "nat \<Rightarrow> bool"
  gw_commands :: nat
  gw_metrics :: gateway_metrics
  gw_calls :: "call list"
  gw_services :: 'u
  gw_uuids :: "nat \<Rightarrow> uuid"
  gw_drawn :: nat
  gw_perf :: "nat \<Rightarrow> int"
  gw_readings :: nat
  gw_request_id :: string

type_synonym 'u services = "call \<Rightarrow> 'u \<Rightarrow> transport \<times> 'u"

section \<open>observability/metrics.py\<close>

text \<open>\<open>d[k] = d.get(k, 0) + n\<close>.\<close>

definition count_by :: "'v \<Rightarrow> ('k \<times> 'v::{plus,zero}) list \<Rightarrow> 'k \<Rightarrow> ('k \<times> 'v) list" where
  "count_by n d k = (case map_of d k of None \<Rightarrow> d @ [(k, 0 + n)]
     | Some v \<Rightarrow> map (\<lambda>(k', v'). (k', if k' = k then v + n else v')) d)"

definition metric :: "(gateway_metrics \<Rightarrow> gateway_metrics) \<Rightarrow> ('u gateway_world, unit) eff" where
  "metric f = modify (\<lambda>w. w\<lparr>gw_metrics := f (gw_metrics w)\<rparr>)"

definition observe_http :: "string \<Rightarrow> nat \<Rightarrow> int \<Rightarrow> gateway_metrics \<Rightarrow> gateway_metrics" where
  "observe_http route status duration m = m\<lparr>
     gm_http_total := count_by 1 (gm_http_total m) (route, status),
     gm_duration_sum := count_by duration (gm_duration_sum m) route,
     gm_duration_count := count_by 1 (gm_duration_count m) route\<rparr>"

definition inc_rate_limited :: "gateway_metrics \<Rightarrow> gateway_metrics" where
  "inc_rate_limited m = m\<lparr>gm_rate_limited := gm_rate_limited m + 1\<rparr>"

definition inc_downstream_error :: "string \<Rightarrow> gateway_metrics \<Rightarrow> gateway_metrics" where
  "inc_downstream_error service m =
     m\<lparr>gm_downstream_errors := count_by 1 (gm_downstream_errors m) service\<rparr>"

definition service_name :: "service \<Rightarrow> string" where
  "service_name s = (case s of Auth_Api \<Rightarrow> ''auth'' | Subscriptions_Api \<Rightarrow> ''subscriptions''
     | Notifications_Api \<Rightarrow> ''notifications'')"

definition record_upstream_error :: "service \<Rightarrow> nat \<Rightarrow> ('u gateway_world, unit) eff" where
  "record_upstream_error service status_code =
     (if 500 \<le> status_code then metric (inc_downstream_error (service_name service)) else ret ())"

section \<open>proxy/headers.py and proxy/service.py\<close>

definition hop_by_hop_headers :: "string list" where
  "hop_by_hop_headers = [''host'', ''connection'', ''keep-alive'', ''proxy-authenticate'',
     ''proxy-authorization'', ''te'', ''trailer'', ''transfer-encoding'', ''upgrade'',
     ''content-length'', ''content-encoding'']"

definition filter_request_headers :: "pairs \<Rightarrow> pairs" where
  "filter_request_headers hs = filter (\<lambda>(k, v). py_lower k \<notin> set hop_by_hop_headers) hs"

definition gateway_client_ip :: "http_request \<Rightarrow> string" where
  "gateway_client_ip rq = (case truthy (header ''x-forwarded-for'' (rq_headers rq)) of
     Some forwarded \<Rightarrow> py_strip (hd (py_split (CHR '','') forwarded))
   | None \<Rightarrow> (case rq_client_host rq of Some host \<Rightarrow> host | None \<Rightarrow> ''unknown''))"

definition base_headers :: "http_request \<Rightarrow> pairs" where
  "base_headers rq = dict_set ''X-Client-Ip'' (gateway_client_ip rq)
     (dict_set ''X-Request-Id'' (rq_request_id rq) (filter_request_headers (headers_dict (rq_headers rq))))"

definition joined_roles :: "string list \<Rightarrow> string" where
  "joined_roles roles = py_join '','' (sort (remdups roles))"

definition identity_headers :: "http_request \<Rightarrow> string \<Rightarrow> string list \<Rightarrow> pairs" where
  "identity_headers rq user_id user_roles = dict_set ''X-User-Roles'' (joined_roles user_roles)
     (dict_set ''X-User-Id'' user_id (base_headers rq))"

section \<open>clients/downstream.py\<close>

definition send_once :: "'u services \<Rightarrow> call \<Rightarrow> ('u gateway_world, transport) eff" where
  "send_once up c = (\<lambda>w. let (t, u) = up c (gw_services w)
     in (Inr t, w\<lparr>gw_services := u, gw_calls := gw_calls w @ [c]\<rparr>))"

text \<open>The loop: \<open>attempts\<close> tries are left; \<open>ConnectError\<close> and \<open>ReadTimeout\<close> lead to the next.\<close>

fun try_to_send :: "nat \<Rightarrow> 'u services \<Rightarrow> call \<Rightarrow> ('u gateway_world, http_response) eff" where
  "try_to_send 0 up c = raise (Gateway Kind_Upstream (service_name (cl_service c) @ '' is unavailable''))"
| "try_to_send (Suc attempts) up c = and_then (send_once up c) (\<lambda>t. case t of
     Response r \<Rightarrow> ret r
   | Other_Transport e \<Rightarrow> raise e
   | _ \<Rightarrow> try_to_send attempts up c)"

definition py_upper_char :: "char \<Rightarrow> char" where
  "py_upper_char c = (let n = of_char c :: nat in if 97 \<le> n \<and> n \<le> 122 then char_of (n - 32) else c)"

definition attempts_of :: "gateway_settings \<Rightarrow> call \<Rightarrow> nat" where
  "attempts_of s c = nat (if map py_upper_char (cl_method c) = ''GET'' then gs_retries_get s + 1 else 1)"

definition send_with_retries ::
  "gateway_library \<Rightarrow> 'u services \<Rightarrow> gateway_settings \<Rightarrow> call \<Rightarrow> ('u gateway_world, http_response) eff" where
  "send_with_retries lib up s c =
     try_to_send (attempts_of s c) up (c\<lparr>cl_headers := gl_inject lib (cl_headers c)\<rparr>)"

section \<open>security/jwt.py and security/deps.py\<close>

record identity =
  id_user_id :: uuid
  id_roles :: "string list"

text \<open>\<open>str(value)\<close> of a JSON value; of containers it is a parameter.\<close>

definition py_str :: "gateway_library \<Rightarrow> json \<Rightarrow> string" where
  "py_str lib v = (case v of JStr t \<Rightarrow> t | JInt n \<Rightarrow> int_text n | JFloat t \<Rightarrow> t | JNull \<Rightarrow> ''None''
     | JBool b \<Rightarrow> if b then ''True'' else ''False'' | _ \<Rightarrow> gl_repr lib v)"

definition falsy :: "json \<Rightarrow> bool" where
  "falsy v = (case v of JNull \<Rightarrow> True | JBool b \<Rightarrow> \<not> b | JInt n \<Rightarrow> n = 0 | JFloat t \<Rightarrow> t \<in> {''0.0'', ''-0.0''}
     | JStr t \<Rightarrow> t = [] | JList vs \<Rightarrow> vs = [] | JDict d \<Rightarrow> d = [])"

fun unescape_key :: "string \<Rightarrow> string" where
  "unescape_key (c # d # cs) =
     (if c = CHR 0x5C \<and> d = CHR ''n'' then CHR 0x0A # unescape_key cs else c # unescape_key (d # cs))"
| "unescape_key s = s"

definition verifier_key :: "gateway_settings \<Rightarrow> exn + string" where
  "verifier_key s =
     (if take 2 (gs_jwt_algorithm s) = ''RS''
      then (if gs_jwt_public_key s = [] then Inl Value_Error else Inr (unescape_key (gs_jwt_public_key s)))
      else Inr (gs_jwt_secret s))"

definition invalid_access_token :: exn where
  "invalid_access_token = App Kind_Unauthorized ''Invalid access token''"

definition clean_roles :: "string list \<Rightarrow> string list" where
  "clean_roles roles = map (\<lambda>role. py_lower (py_strip role)) (filter (\<lambda>role. py_strip role \<noteq> []) roles)"

definition roles_of :: "gateway_library \<Rightarrow> json_dict \<Rightarrow> string list" where
  "roles_of lib payload = (case dict_get payload ''roles'' of
     None \<Rightarrow> []
   | Some (JStr t) \<Rightarrow> clean_roles (py_split (CHR '','') t)
   | Some (JList vs) \<Rightarrow> clean_roles (map (py_str lib) vs)
   | Some _ \<Rightarrow> [])"

definition verify_token :: "gateway_library \<Rightarrow> gateway_settings \<Rightarrow> instant \<Rightarrow> string \<Rightarrow> exn + identity" where
  "verify_token lib s now token = bind_sum (verifier_key s) (\<lambda>key.
     case gl_decode lib now token key (gs_jwt_algorithm s) (gs_jwt_audience s) (gs_jwt_issuer s) of
       Jwt_Raises e \<Rightarrow> Inl e
     | Invalid_Token \<Rightarrow> Inl invalid_access_token
     | Claims payload \<Rightarrow> (case dict_get payload ''sub'' of
         None \<Rightarrow> Inl invalid_access_token
       | Some sub \<Rightarrow>
           if falsy sub then Inl invalid_access_token
           else (case parse_uuid (py_str lib sub) of
             None \<Rightarrow> Inl invalid_access_token
           | Some user_id \<Rightarrow> Inr \<lparr>id_user_id = user_id, id_roles = roles_of lib payload\<rparr>)))"

definition bearer :: string where
  "bearer = ''Bearer ''"

definition get_current_identity ::
  "gateway_library \<Rightarrow> gateway_settings \<Rightarrow> http_request \<Rightarrow> ('u gateway_world, identity) eff" where
  "get_current_identity lib s rq = and_then (gets gw_clock) (\<lambda>now.
     case header ''authorization'' (rq_headers rq) of
       None \<Rightarrow> raise (App Kind_Unauthorized ''Unauthorized'')
     | Some authorization \<Rightarrow>
         if take (length bearer) authorization \<noteq> bearer then raise (App Kind_Unauthorized ''Unauthorized'')
         else lift (verify_token lib s now (py_strip (drop (length bearer) authorization))))"

section \<open>rate_limit/limiter.py and api/dependencies.py\<close>

text \<open>The script runs as one command.\<close>

definition is_allowed :: "string \<Rightarrow> int \<Rightarrow> ('u gateway_world, bool) eff" where
  "is_allowed key limit = (\<lambda>w.
     let w' = w\<lparr>gw_commands := Suc (gw_commands w)\<rparr>;
         (current, c) = window_hit (gw_clock w) 60 (gw_redis w key)
     in if gw_answered w (gw_commands w)
        then (Inr (current \<le> limit), w'\<lparr>gw_redis := (gw_redis w)(key := c)\<rparr>)
        else (Inl (Runtime_Error ''redis''), w'))"

definition rate_limit_auth :: "gateway_settings \<Rightarrow> http_request \<Rightarrow> ('u gateway_world, unit) eff" where
  "rate_limit_auth s rq =
     (let forwarded = (case header ''x-forwarded-for'' (rq_headers rq) of None \<Rightarrow> [] | Some f \<Rightarrow> f);
          client_ip = (if forwarded \<noteq> [] then forwarded
            else case rq_client_host rq of Some host \<Rightarrow> host | None \<Rightarrow> ''unknown'')
      in and_then (catch (is_allowed (''bff:rate:auth:'' @ rq_path rq @ '':'' @ client_ip) (gs_limit_auth s))
             (\<lambda>_. seq (metric inc_rate_limited)
                (raise (Gateway Kind_Service_Unavailable ''Rate limiter unavailable''))))
           (\<lambda>allowed. if \<not> allowed
              then seq (metric inc_rate_limited) (raise (Gateway Kind_Rate_Limit ''Too many requests''))
              else ret ()))"

definition rate_limit_user ::
  "gateway_library \<Rightarrow> gateway_settings \<Rightarrow> http_request \<Rightarrow> ('u gateway_world, identity) eff" where
  "rate_limit_user lib s rq = and_then (get_current_identity lib s rq) (\<lambda>identity.
     and_then (catch (is_allowed (''bff:rate:user:'' @ str_uuid (id_user_id identity)) (gs_limit_user s))
         (\<lambda>_. ret True))
       (\<lambda>allowed. if \<not> allowed
          then seq (metric inc_rate_limited) (raise (Gateway Kind_Rate_Limit ''Too many requests''))
          else ret identity))"

section \<open>core/errors.py and core/exceptions_handler.py\<close>

definition gateway_status :: "exn \<Rightarrow> nat" where
  "gateway_status e = (case e of
     Gateway k _ \<Rightarrow> (case k of Kind_Upstream \<Rightarrow> 502 | Kind_Rate_Limit \<Rightarrow> 429 | Kind_Service_Unavailable \<Rightarrow> 503)
   | _ \<Rightarrow> error_status e)"

definition gateway_code :: "exn \<Rightarrow> string" where
  "gateway_code e = (case e of
     Gateway k _ \<Rightarrow> (case k of Kind_Upstream \<Rightarrow> ''upstream_error'' | Kind_Rate_Limit \<Rightarrow> ''rate_limited''
       | Kind_Service_Unavailable \<Rightarrow> ''service_unavailable'')
   | _ \<Rightarrow> error_code e)"

definition gateway_message :: "exn \<Rightarrow> string" where
  "gateway_message e = (case e of Gateway _ m \<Rightarrow> m | _ \<Rightarrow> error_message e)"

definition error_response :: "nat \<Rightarrow> string \<Rightarrow> string \<Rightarrow> string \<Rightarrow> http_response" where
  "error_response status code message request_id = \<lparr>rs_status = status, rs_headers = [],
     rs_body = Json (JDict [(''code'', JStr code), (''message'', JStr message), (''request_id'', JStr request_id)]),
     rs_cookies = []\<rparr>"

text \<open>The handler of \<open>AppError\<close> stands inside the middlewares, the one of all other exceptions outside.\<close>

definition app_error_handler ::
  "string \<Rightarrow> ('u gateway_world, http_response) eff \<Rightarrow> ('u gateway_world, http_response) eff" where
  "app_error_handler request_id m = catch m (\<lambda>e. case e of
     App _ _ \<Rightarrow> ret (error_response (gateway_status e) (gateway_code e) (gateway_message e) request_id)
   | Gateway _ _ \<Rightarrow> ret (error_response (gateway_status e) (gateway_code e) (gateway_message e) request_id)
   | _ \<Rightarrow> raise e)"

definition server_error_handler ::
  "('u gateway_world, http_response) eff \<Rightarrow> ('u gateway_world, http_response) eff" where
  "server_error_handler m = catch m (\<lambda>e. and_then (gets gw_request_id) (\<lambda>request_id.
     ret (error_response 500 ''internal_error'' ''Internal server error'' request_id)))"

section \<open>The middlewares\<close>

text \<open>
  \<open>AccessLogMiddleware\<close> is the outermost, then \<open>BodySizeLimitMiddleware\<close>, then
  \<open>RequestContextMiddleware\<close>. The CORS middleware of Starlette between the first two, which adds
  headers and answers preflight requests, is left out.
\<close>

type_synonym 'u handler = "http_request \<Rightarrow> ('u gateway_world, http_response) eff"

definition new_request_id :: "('u gateway_world, string) eff" where
  "new_request_id = (\<lambda>w. (Inr (str_uuid (gw_uuids w (gw_drawn w))), w\<lparr>gw_drawn := Suc (gw_drawn w)\<rparr>))"

definition request_context :: "'u handler \<Rightarrow> 'u handler" where
  "request_context app rq = and_then (case truthy (header ''x-request-id'' (rq_headers rq)) of
       Some request_id \<Rightarrow> ret request_id | None \<Rightarrow> new_request_id) (\<lambda>request_id.
     seq (modify (\<lambda>w. w\<lparr>gw_request_id := request_id\<rparr>))
      (and_then (app (rq\<lparr>rq_request_id := request_id\<rparr>)) (\<lambda>response.
        ret (response\<lparr>rs_headers := dict_set ''x-request-id'' request_id (rs_headers response)\<rparr>))))"

definition payload_too_large :: "http_request \<Rightarrow> http_response" where
  "payload_too_large rq =
     error_response 413 ''payload_too_large'' ''Request body is too large'' (rq_request_id rq)"

definition body_limit :: "gateway_settings \<Rightarrow> 'u handler \<Rightarrow> 'u handler" where
  "body_limit s app rq = and_then (case truthy (header ''content-length'' (rq_headers rq)) of
       None \<Rightarrow> ret False
     | Some content_length \<Rightarrow> and_then (lift (py_int content_length)) (\<lambda>n. ret (gs_max_body_bytes s < n)))
     (\<lambda>announced.
        if announced then ret (payload_too_large rq)
        else if gs_max_body_bytes s < int (length (rq_body rq)) then ret (payload_too_large rq)
        else app (rq\<lparr>rq_cached_body := Some (rq_body rq)\<rparr>))"

definition perf_counter :: "('u gateway_world, int) eff" where
  "perf_counter = (\<lambda>w. (Inr (gw_perf w (gw_readings w)), w\<lparr>gw_readings := Suc (gw_readings w)\<rparr>))"

definition access_log :: "'u handler \<Rightarrow> 'u handler" where
  "access_log app rq = and_then perf_counter (\<lambda>started. and_then (app rq) (\<lambda>response.
     and_then perf_counter (\<lambda>stopped.
       seq (metric (observe_http (rq_path rq) (rs_status response) (stopped - started)))
         (ret response))))"

text \<open>A request through the application; \<open>run\<close> is the endpoint that the routes choose.\<close>

definition gateway_app :: "gateway_settings \<Rightarrow> 'u handler \<Rightarrow> 'u handler" where
  "gateway_app s run rq = seq (modify (\<lambda>w. w\<lparr>gw_request_id := []\<rparr>)) (server_error_handler
     (access_log (body_limit s (request_context (\<lambda>rq. app_error_handler (rq_request_id rq) (run rq))))
       (rq\<lparr>rq_request_id := [], rq_cached_body := None\<rparr>)))"

end
