(* ===== verification/Gateway_Service.thy ===== *)
theory Gateway_Service
  imports Gateway_Http
begin

text \<open>
  The endpoints of the gateway: the proxy of a request, the log-in endpoints that keep the
  refresh token in a cookie, the endpoints of topics and subscriptions with the notification that
  follows a subscription, those of notifications, and the system endpoints. An endpoint takes the
  libraries, the services and the settings and is a handler of requests.
\<close>

section \<open>proxy/service.py\<close>

definition cached_body :: "http_request \<Rightarrow> string" where
  "cached_body rq = (case rq_cached_body rq of Some body \<Rightarrow> body | None \<Rightarrow> rq_body rq)"

definition without_headers :: "string list \<Rightarrow> pairs \<Rightarrow> pairs" where
  "without_headers blocked hs = filter (\<lambda>(k, v). py_lower k \<notin> set blocked) hs"

definition forwarded_response :: "string list \<Rightarrow> http_response \<Rightarrow> http_response" where
  "forwarded_response blocked upstream = \<lparr>rs_status = rs_status upstream,
     rs_headers = without_headers blocked (rs_headers upstream), rs_body = rs_body upstream,
     rs_cookies = []\<rparr>"

definition proxy_headers :: "http_request \<Rightarrow> string option \<Rightarrow> string list option \<Rightarrow> pairs" where
  "proxy_headers rq user_id user_roles =
     (let hs = (case truthy user_id of None \<Rightarrow> base_headers rq
          | Some user \<Rightarrow> dict_set ''X-User-Id'' user (base_headers rq))
      in case user_roles of None \<Rightarrow> hs
       | Some roles \<Rightarrow> dict_set ''X-User-Roles'' (joined_roles roles) hs)"

definition proxy_request ::
  "gateway_library \<Rightarrow> 'u services \<Rightarrow> gateway_settings \<Rightarrow> service \<Rightarrow> string \<Rightarrow> string option \<Rightarrow>
   string list option \<Rightarrow> 'u handler" where
  "proxy_request lib up s service base_path user_id user_roles rq =
     and_then (send_with_retries lib up s
         \<lparr>cl_service = service, cl_method = rq_method rq, cl_path = base_path, cl_query = rq_query rq,
          cl_headers = proxy_headers rq user_id user_roles, cl_content = Bytes (cached_body rq)\<rparr>)
       (\<lambda>upstream. seq (record_upstream_error service (rs_status upstream))
         (ret (forwarded_response [''transfer-encoding'', ''connection'', ''content-length''] upstream)))"

text \<open>The proxy for a user: the endpoints behind \<open>rate_limit_user\<close> that only forward.\<close>

definition user_proxy ::
  "gateway_library \<Rightarrow> 'u services \<Rightarrow> gateway_settings \<Rightarrow> service \<Rightarrow> string \<Rightarrow> 'u handler" where
  "user_proxy lib up s service base_path rq = and_then (rate_limit_user lib s rq) (\<lambda>identity.
     proxy_request lib up s service base_path (Some (str_uuid (id_user_id identity)))
       (Some (id_roles identity)) rq)"

section \<open>Bodies\<close>

definition load_json :: "gateway_library \<Rightarrow> content \<Rightarrow> json_load" where
  "load_json lib raw = (case raw of Bytes text \<Rightarrow> gl_loads lib text | Json v \<Rightarrow> Json_Value v)"

definition as_json_dict :: "gateway_library \<Rightarrow> content \<Rightarrow> exn + json_dict option" where
  "as_json_dict lib raw =
     (if raw = Bytes [] then Inr None
      else case load_json lib raw of
        Json_Value (JDict d) \<Rightarrow> Inr (Some d)
      | Json_Value _ \<Rightarrow> Inr None
      | Not_Json \<Rightarrow> Inr None
      | Load_Raises e \<Rightarrow> Inl e)"

text \<open>\<open>isinstance(value, str) and value\<close>.\<close>

definition nonempty_text :: "json option \<Rightarrow> string option" where
  "nonempty_text v = (case v of Some (JStr t) \<Rightarrow> truthy (Some t) | _ \<Rightarrow> None)"

text \<open>\<open>JSONResponse\<close> refuses the floats that JSON has no text for.\<close>

fun finite_json :: "json \<Rightarrow> bool" where
  "finite_json (JFloat t) = (t \<notin> {''nan'', ''inf'', ''-inf''})"
| "finite_json (JList vs) = list_all finite_json vs"
| "finite_json (JDict d) = list_all (\<lambda>(k, v). finite_json v) d"
| "finite_json v = True"

definition json_response :: "nat \<Rightarrow> pairs \<Rightarrow> json_dict \<Rightarrow> exn + http_response" where
  "json_response status hs body =
     (if finite_json (JDict body)
      then Inr \<lparr>rs_status = status, rs_headers = hs, rs_body = Json (JDict body), rs_cookies = []\<rparr>
      else Inl Value_Error)"

section \<open>api/auth.py: helpers\<close>

definition auth_blocked_headers :: "string list" where
  "auth_blocked_headers =
     [''transfer-encoding'', ''connection'', ''content-length'', ''set-cookie'', ''content-encoding'']"

definition unquote :: "gateway_library \<Rightarrow> string \<Rightarrow> string" where
  "unquote lib s = (if CHR ''%'' \<in> set s then gl_unquote lib s else s)"

definition normalize_refresh_token :: "gateway_library \<Rightarrow> string option \<Rightarrow> string option" where
  "normalize_refresh_token lib value = (case value of None \<Rightarrow> None
     | Some v \<Rightarrow> truthy (Some (py_strip (strip_by (\<lambda>c. c = CHR 0x22) (py_strip (unquote lib v))))))"

definition refresh_from_body :: "gateway_library \<Rightarrow> string \<Rightarrow> exn + string option" where
  "refresh_from_body lib raw = bind_sum (as_json_dict lib (Bytes raw)) (\<lambda>payload. case payload of
     None \<Rightarrow> Inr None
   | Some d \<Rightarrow> Inr (case dict_get d ''refresh_token'' of
         Some (JStr t) \<Rightarrow> normalize_refresh_token lib (Some t) | _ \<Rightarrow> None))"

definition presented_token :: "gateway_library \<Rightarrow> gateway_settings \<Rightarrow> http_request \<Rightarrow> exn + string option" where
  "presented_token lib s rq =
     (case normalize_refresh_token lib (dict_get (rq_cookies rq) (gs_cookie_name s)) of
        Some t \<Rightarrow> Inr (Some t)
      | None \<Rightarrow> refresh_from_body lib (cached_body rq))"

definition set_refresh_cookie :: "gateway_settings \<Rightarrow> string \<Rightarrow> http_response \<Rightarrow> http_response" where
  "set_refresh_cookie s token response = response\<lparr>rs_cookies := rs_cookies response @
     [\<lparr>ck_name = gs_cookie_name s, ck_value = token, ck_max_age = gs_cookie_max_age s,
       ck_http_only = True, ck_secure = gs_cookie_secure s, ck_same_site = gs_cookie_same_site s,
       ck_domain = parsed_refresh_cookie_domain s, ck_path = gs_cookie_path s\<rparr>]\<rparr>"

text \<open>\<open>delete_cookie\<close> sets an empty cookie that has expired.\<close>

definition clear_refresh_cookie :: "gateway_settings \<Rightarrow> http_response \<Rightarrow> http_response" where
  "clear_refresh_cookie s response = response\<lparr>rs_cookies := rs_cookies response @
     [\<lparr>ck_name = gs_cookie_name s, ck_value = [], ck_max_age = 0, ck_http_only = False,
       ck_secure = False, ck_same_site = ''lax'', ck_domain = parsed_refresh_cookie_domain s,
       ck_path = gs_cookie_path s\<rparr>]\<rparr>"

definition is_invalid_refresh_token_status :: "nat \<Rightarrow> bool" where
  "is_invalid_refresh_token_status status_code \<longleftrightarrow> status_code \<in> set [400, 401, 404, 409, 410, 422]"

definition unauthorized_response ::
  "gateway_settings \<Rightarrow> http_request \<Rightarrow> string \<Rightarrow> bool \<Rightarrow> http_response" where
  "unauthorized_response s rq message clear =
     (let response = error_response 401 ''unauthorized'' message (rq_request_id rq)
      in if clear then clear_refresh_cookie s response else response)"

definition auth_headers :: "http_request \<Rightarrow> content \<Rightarrow> pairs" where
  "auth_headers rq body = (let hs = base_headers rq
     in if body \<noteq> Bytes [] \<and> \<not> list_ex (\<lambda>(k, v). py_lower k = ''content-type'') hs
        then dict_set ''Content-Type'' ''application/json'' hs else hs)"

definition send_auth_request ::
  "gateway_library \<Rightarrow> 'u services \<Rightarrow> gateway_settings \<Rightarrow> http_request \<Rightarrow> string \<Rightarrow> content \<Rightarrow>
   ('u gateway_world, http_response) eff" where
  "send_auth_request lib up s rq path body = send_with_retries lib up s
     \<lparr>cl_service = Auth_Api, cl_method = rq_method rq, cl_path = path, cl_query = rq_query rq,
      cl_headers = auth_headers rq body, cl_content = body\<rparr>"

text \<open>The answer with tokens: the refresh token moves from the body into the cookie.\<close>

definition with_token_in_cookie ::
  "gateway_library \<Rightarrow> gateway_settings \<Rightarrow> http_response \<Rightarrow> exn + http_response" where
  "with_token_in_cookie lib s upstream = bind_sum (as_json_dict lib (rs_body upstream)) (\<lambda>payload.
     case payload of
       None \<Rightarrow> Inr (forwarded_response auth_blocked_headers upstream)
     | Some d \<Rightarrow> (case nonempty_text (dict_get d ''refresh_token'') of
         None \<Rightarrow> Inr (forwarded_response auth_blocked_headers upstream)
       | Some token \<Rightarrow> bind_sum (json_response (rs_status upstream)
             (without_headers auth_blocked_headers (rs_headers upstream)) (dict_pop ''refresh_token'' d))
           (\<lambda>response. Inr (set_refresh_cookie s token response))))"

section \<open>api/auth.py: endpoints\<close>

definition register :: "gateway_library \<Rightarrow> 'u services \<Rightarrow> gateway_settings \<Rightarrow> 'u handler" where
  "register lib up s rq = seq (rate_limit_auth s rq)
     (proxy_request lib up s Auth_Api ''/auth/register'' None None rq)"

definition login :: "gateway_library \<Rightarrow> 'u services \<Rightarrow> gateway_settings \<Rightarrow> 'u handler" where
  "login lib up s rq = seq (rate_limit_auth s rq)
     (and_then (send_auth_request lib up s rq ''/auth/login'' (Bytes (cached_body rq))) (\<lambda>upstream.
       seq (record_upstream_error Auth_Api (rs_status upstream))
         (lift (with_token_in_cookie lib s upstream))))"

definition token_body :: "string \<Rightarrow> content" where
  "token_body token = Json (JDict [(''refresh_token'', JStr token)])"

definition refresh :: "gateway_library \<Rightarrow> 'u services \<Rightarrow> gateway_settings \<Rightarrow> 'u handler" where
  "refresh lib up s rq = and_then (lift (presented_token lib s rq)) (\<lambda>presented. case presented of
     None \<Rightarrow> ret (unauthorized_response s rq ''Missing refresh token'' False)
   | Some token \<Rightarrow> and_then (send_auth_request lib up s rq ''/auth/refresh'' (token_body token)) (\<lambda>upstream.
       seq (record_upstream_error Auth_Api (rs_status upstream))
         (if is_invalid_refresh_token_status (rs_status upstream)
          then ret (unauthorized_response s rq ''Invalid refresh token'' False)
          else lift (with_token_in_cookie lib s upstream))))"

definition no_content :: http_response where
  "no_content = \<lparr>rs_status = 204, rs_headers = [], rs_body = Bytes [], rs_cookies = []\<rparr>"

definition logout :: "gateway_library \<Rightarrow> 'u services \<Rightarrow> gateway_settings \<Rightarrow> 'u handler" where
  "logout lib up s rq = and_then (lift (presented_token lib s rq)) (\<lambda>presented. case presented of
     None \<Rightarrow> ret (clear_refresh_cookie s no_content)
   | Some token \<Rightarrow> and_then (send_auth_request lib up s rq ''/auth/logout'' (token_body token)) (\<lambda>upstream.
       seq (record_upstream_error Auth_Api (rs_status upstream))
         (ret (clear_refresh_cookie s
           (if is_invalid_refresh_token_status (rs_status upstream) then no_content
            else forwarded_response auth_blocked_headers upstream)))))"

definition me :: "gateway_library \<Rightarrow> 'u services \<Rightarrow> gateway_settings \<Rightarrow> 'u handler" where
  "me lib up s = user_proxy lib up s Auth_Api ''/auth/me''"

section \<open>api/subscriptions.py: helpers\<close>

definition blocked_headers :: "string list" where
  "blocked_headers = [''transfer-encoding'', ''connection'', ''content-length'', ''content-encoding'']"

definition send_subscriptions_request ::
  "gateway_library \<Rightarrow> 'u services \<Rightarrow> gateway_settings \<Rightarrow> http_request \<Rightarrow> identity \<Rightarrow> string \<Rightarrow> string \<Rightarrow>
   content \<Rightarrow> pairs \<Rightarrow> ('u gateway_world, http_response) eff" where
  "send_subscriptions_request lib up s rq user path verb body params = send_with_retries lib up s
     \<lparr>cl_service = Subscriptions_Api, cl_method = verb, cl_path = path, cl_query = params,
      cl_headers = identity_headers rq (str_uuid (id_user_id user)) (id_roles user), cl_content = body\<rparr>"

definition event_body :: "http_request \<Rightarrow> string \<Rightarrow> string \<Rightarrow> string \<Rightarrow> string option \<Rightarrow> content" where
  "event_body rq topic_id event_type message subscription_id =
     (let suffix = (case truthy subscription_id of Some t \<Rightarrow> t | None \<Rightarrow> topic_id)
      in Json (JDict
        [(''topic_id'', JStr topic_id),
         (''payload'', JDict
           [(''event_type'', JStr event_type), (''message'', JStr message), (''topic_id'', JStr topic_id),
            (''subscription_id'', case subscription_id of None \<Rightarrow> JNull | Some t \<Rightarrow> JStr t)]),
         (''idempotency_key'',
           JStr (''bff:'' @ event_type @ '':'' @ suffix @ '':'' @ rq_request_id rq))]))"

definition event_call ::
  "http_request \<Rightarrow> identity \<Rightarrow> string \<Rightarrow> string \<Rightarrow> string \<Rightarrow> string option \<Rightarrow> call" where
  "event_call rq user topic_id event_type message subscription_id =
     \<lparr>cl_service = Notifications_Api, cl_method = ''POST'', cl_path = ''/notifications'', cl_query = [],
      cl_headers = dict_set ''Content-Type'' ''application/json''
        (identity_headers rq (str_uuid (id_user_id user)) (id_roles user)),
      cl_content = event_body rq topic_id event_type message subscription_id\<rparr>"

text \<open>Whatever happens, the failure is only logged.\<close>

definition notify_subscription_event ::
  "gateway_library \<Rightarrow> 'u services \<Rightarrow> gateway_settings \<Rightarrow> http_request \<Rightarrow> identity \<Rightarrow> string \<Rightarrow> string \<Rightarrow>
   string \<Rightarrow> string option \<Rightarrow> ('u gateway_world, unit) eff" where
  "notify_subscription_event lib up s rq user topic_id event_type message subscription_id =
     catch (and_then (send_with_retries lib up s
           (event_call rq user topic_id event_type message subscription_id))
         (\<lambda>upstream. record_upstream_error Notifications_Api (rs_status upstream)))
       (\<lambda>_. ret ())"

text \<open>The search in a page: \<open>None\<close> goes on, \<open>Some r\<close> returns \<open>r\<close>.\<close>

fun find_item :: "gateway_library \<Rightarrow> string \<Rightarrow> json list \<Rightarrow> string option option" where
  "find_item lib subscription_id [] = None"
| "find_item lib subscription_id (JDict d # items) =
     (if py_str lib (case dict_get d ''id'' of None \<Rightarrow> JNull | Some v \<Rightarrow> v) \<noteq> subscription_id
      then find_item lib subscription_id items
      else Some (nonempty_text (dict_get d ''topic_id'')))"
| "find_item lib subscription_id (_ # items) = find_item lib subscription_id items"

definition next_cursor_of :: "json_dict \<Rightarrow> string option" where
  "next_cursor_of payload = nonempty_text (case dict_get payload ''next_cursor'' of
     Some v \<Rightarrow> if falsy v then dict_get payload ''nextCursor'' else Some v
   | None \<Rightarrow> dict_get payload ''nextCursor'')"

definition page_params :: "string option \<Rightarrow> pairs" where
  "page_params cursor = (''limit'', ''500'') #
     (case truthy cursor of None \<Rightarrow> [] | Some c \<Rightarrow> [(''cursor'', c)])"

text \<open>The loop; the first argument counts the pages that may still be asked for.\<close>

fun find_topic_id ::
  "nat \<Rightarrow> gateway_library \<Rightarrow> 'u services \<Rightarrow> gateway_settings \<Rightarrow> http_request \<Rightarrow> identity \<Rightarrow> string \<Rightarrow>
   string option \<Rightarrow> ('u gateway_world, string option) eff" where
  "find_topic_id 0 lib up s rq user subscription_id cursor = ret None"
| "find_topic_id (Suc pages) lib up s rq user subscription_id cursor =
     and_then (send_subscriptions_request lib up s rq user ''/subscriptions/me'' ''GET'' (Bytes [])
       (page_params cursor)) (\<lambda>upstream.
     seq (record_upstream_error Subscriptions_Api (rs_status upstream))
      (if rs_status upstream \<noteq> 200 then ret None
       else and_then (lift (as_json_dict lib (rs_body upstream))) (\<lambda>payload. case payload of
         None \<Rightarrow> ret None
       | Some d \<Rightarrow> (case dict_get d ''items'' of
           Some (JList items) \<Rightarrow> (case find_item lib subscription_id items of
             Some r \<Rightarrow> ret r
           | None \<Rightarrow> (case next_cursor_of d of
               None \<Rightarrow> ret None
             | Some next_cursor \<Rightarrow>
                 find_topic_id pages lib up s rq user subscription_id (Some next_cursor)))
         | _ \<Rightarrow> ret None))))"

definition find_topic_id_by_subscription_id ::
  "gateway_library \<Rightarrow> 'u services \<Rightarrow> gateway_settings \<Rightarrow> http_request \<Rightarrow> identity \<Rightarrow> string \<Rightarrow>
   ('u gateway_world, string option) eff" where
  "find_topic_id_by_subscription_id lib up s rq user subscription_id =
     find_topic_id 20 lib up s rq user subscription_id None"

section \<open>api/subscriptions.py: endpoints\<close>

definition topics :: "gateway_library \<Rightarrow> 'u services \<Rightarrow> gateway_settings \<Rightarrow> 'u handler" where
  "topics lib up s = user_proxy lib up s Subscriptions_Api ''/topics''"

definition topic_by_id :: "gateway_library \<Rightarrow> 'u services \<Rightarrow> gateway_settings \<Rightarrow> string \<Rightarrow> 'u handler" where
  "topic_by_id lib up s topic_id = user_proxy lib up s Subscriptions_Api (''/topics/'' @ topic_id)"

definition create_topic :: "gateway_library \<Rightarrow> 'u services \<Rightarrow> gateway_settings \<Rightarrow> 'u handler" where
  "create_topic lib up s rq = and_then (rate_limit_user lib s rq) (\<lambda>identity.
     if ''admin'' \<notin> set (id_roles identity) then raise (App Kind_Forbidden ''Forbidden'')
     else proxy_request lib up s Subscriptions_Api ''/topics'' (Some (str_uuid (id_user_id identity)))
       (Some (id_roles identity)) rq)"

definition my_subscriptions :: "gateway_library \<Rightarrow> 'u services \<Rightarrow> gateway_settings \<Rightarrow> 'u handler" where
  "my_subscriptions lib up s = user_proxy lib up s Subscriptions_Api ''/subscriptions/me''"

definition subscribe :: "gateway_library \<Rightarrow> 'u services \<Rightarrow> gateway_settings \<Rightarrow> 'u handler" where
  "subscribe lib up s rq = and_then (rate_limit_user lib s rq) (\<lambda>identity.
     and_then (send_subscriptions_request lib up s rq identity ''/subscriptions'' (rq_method rq)
       (Bytes (cached_body rq)) (rq_query rq)) (\<lambda>upstream.
     seq (record_upstream_error Subscriptions_Api (rs_status upstream))
     (seq (if rs_status upstream \<in> set [200, 201]
           then and_then (lift (as_json_dict lib (rs_body upstream))) (\<lambda>payload. case payload of
             None \<Rightarrow> ret ()
           | Some d \<Rightarrow> (case nonempty_text (dict_get d ''topic_id'') of
               None \<Rightarrow> ret ()
             | Some topic_id \<Rightarrow> notify_subscription_event lib up s rq identity topic_id
                 ''subscription.subscribed'' ''You subscribed to topic updates.''
                 (case dict_get d ''id'' of Some (JStr t) \<Rightarrow> Some t | _ \<Rightarrow> None)))
           else ret ())
       (ret (forwarded_response blocked_headers upstream)))))"

definition unsubscribe :: "gateway_library \<Rightarrow> 'u services \<Rightarrow> gateway_settings \<Rightarrow> string \<Rightarrow> 'u handler" where
  "unsubscribe lib up s subscription_id rq = and_then (rate_limit_user lib s rq) (\<lambda>identity.
     and_then (find_topic_id_by_subscription_id lib up s rq identity subscription_id) (\<lambda>found.
     and_then (send_subscriptions_request lib up s rq identity (''/subscriptions/'' @ subscription_id)
       (rq_method rq) (Bytes (cached_body rq)) (rq_query rq)) (\<lambda>upstream.
     seq (record_upstream_error Subscriptions_Api (rs_status upstream))
     (seq (case truthy found of
             Some topic_id \<Rightarrow>
               if rs_status upstream = 204
               then notify_subscription_event lib up s rq identity topic_id
                 ''subscription.unsubscribed'' ''You unsubscribed from topic updates.'' (Some subscription_id)
               else ret ()
           | None \<Rightarrow> ret ())
       (ret (forwarded_response blocked_headers upstream))))))"

definition update_subscription ::
  "gateway_library \<Rightarrow> 'u services \<Rightarrow> gateway_settings \<Rightarrow> string \<Rightarrow> 'u handler" where
  "update_subscription lib up s subscription_id =
     user_proxy lib up s Subscriptions_Api (''/subscriptions/'' @ subscription_id)"

section \<open>api/notifications.py\<close>

definition create_notification :: "gateway_library \<Rightarrow> 'u services \<Rightarrow> gateway_settings \<Rightarrow> 'u handler" where
  "create_notification lib up s = user_proxy lib up s Notifications_Api ''/notifications''"

definition get_notification :: "gateway_library \<Rightarrow> 'u services \<Rightarrow> gateway_settings \<Rightarrow> string \<Rightarrow> 'u handler" where
  "get_notification lib up s notification_id =
     user_proxy lib up s Notifications_Api (''/notifications/'' @ notification_id)"

definition list_my_notifications :: "gateway_library \<Rightarrow> 'u services \<Rightarrow> gateway_settings \<Rightarrow> 'u handler" where
  "list_my_notifications lib up s = user_proxy lib up s Notifications_Api ''/notifications/me''"

section \<open>api/system.py\<close>

definition health :: "'u handler" where
  "health rq = lift (json_response 200 [] [(''status'', JStr ''ok'')])"

definition redis_ping :: "('u gateway_world, bool) eff" where
  "redis_ping = (\<lambda>w. (Inr (gw_answered w (gw_commands w)), w\<lparr>gw_commands := Suc (gw_commands w)\<rparr>))"

definition ready :: "'u handler" where
  "ready rq = and_then redis_ping (\<lambda>up. lift (json_response 200 []
     (if up then [(''status'', JStr ''ok''), (''redis'', JStr ''up'')]
      else [(''status'', JStr ''degraded''), (''redis'', JStr ''down'')])))"

end
