(* ===== verification/Gateway_Laws.thy ===== *)
theory Gateway_Laws
  imports Gateway_Service
begin

text \<open>
  Lemmas about the gateway: the runs of the retry loop, the calls that an endpoint makes, the
  headers that a service finds in them, and the limiter as an instance of the window interface.
\<close>

section \<open>Calls and retries\<close>

text \<open>What the services answer to the \<open>i\<close>-th of a number of equal calls.\<close>

fun after_calls :: "'u services \<Rightarrow> call \<Rightarrow> nat \<Rightarrow> 'u \<Rightarrow> 'u" where
  "after_calls up c 0 u = u"
| "after_calls up c (Suc n) u = after_calls up c n (snd (up c u))"

definition reply_at :: "'u services \<Rightarrow> call \<Rightarrow> 'u \<Rightarrow> nat \<Rightarrow> transport" where
  "reply_at up c u i = fst (up c (after_calls up c i u))"

definition retryable :: "transport \<Rightarrow> bool" where
  "retryable t \<longleftrightarrow> t \<in> {Connect_Error, Read_Timeout}"

definition outcome :: "transport \<Rightarrow> exn + http_response" where
  "outcome t = (case t of Response r \<Rightarrow> Inr r | Other_Transport e \<Rightarrow> Inl e | _ \<Rightarrow> Inl (Runtime_Error []))"

definition called :: "'u services \<Rightarrow> call \<Rightarrow> nat \<Rightarrow> 'u gateway_world \<Rightarrow> 'u gateway_world" where
  "called up c n w = w\<lparr>gw_services := after_calls up c n (gw_services w),
     gw_calls := gw_calls w @ replicate n c\<rparr>"

text \<open>The replies before the one that ends the loop.\<close>

definition lost_tries :: "'u services \<Rightarrow> call \<Rightarrow> 'u \<Rightarrow> nat \<Rightarrow> nat" where
  "lost_tries up c u n = length (takeWhile retryable (map (reply_at up c u) [0..<n]))"

lemma after_calls_step: "after_calls up c (Suc n) u = snd (up c (after_calls up c n u))"
  by (induction n arbitrary: u) auto

lemma reply_at_simps [simp]:
  "reply_at up c u 0 = fst (up c u)" "reply_at up c u (Suc i) = reply_at up c (snd (up c u)) i"
  by (simp_all add: reply_at_def)

lemma called_simps [simp]:
  "gw_services (called up c n w) = after_calls up c n (gw_services w)"
  "gw_calls (called up c n w) = gw_calls w @ replicate n c"
  "gw_clock (called up c n w) = gw_clock w" "gw_redis (called up c n w) = gw_redis w"
  "gw_metrics (called up c n w) = gw_metrics w"
  by (simp_all add: called_def)

lemma called_Suc: "called up c (Suc n) w = called up c n (called up c 1 w)"
  by (simp add: called_def replicate_append_same [symmetric])

lemma lost_tries_Suc: "lost_tries up c u (Suc n) =
    (if retryable (fst (up c u)) then Suc (lost_tries up c (snd (up c u)) n) else 0)"
proof -
  have "map (reply_at up c u) [0..<Suc n] = fst (up c u) # map (reply_at up c (snd (up c u))) [0..<n]"
    by (simp add: upt_conv_Cons map_Suc_upt [symmetric] del: upt_Suc)
  then show ?thesis by (simp add: lost_tries_def del: upt_Suc)
qed

lemma send_once_run: "send_once up c w = (Inr (fst (up c (gw_services w))), called up c 1 w)"
  by (simp add: send_once_def called_def split: prod.split)

lemma try_to_send_run:
  "try_to_send n up c w = (let k = lost_tries up c (gw_services w) n
     in if k < n then (outcome (reply_at up c (gw_services w) k), called up c (Suc k) w)
        else (Inl (Gateway Kind_Upstream (service_name (cl_service c) @ '' is unavailable'')),
              called up c n w))"
proof (induction n arbitrary: w)
  case 0
  show ?case by (simp add: lost_tries_def raise_run called_def)
next
  case (Suc n)
  let ?t = "fst (up c (gw_services w))"
  show ?case
  proof (cases "retryable ?t")
    case False
    then show ?thesis
      by (cases ?t) (simp_all add: lost_tries_Suc and_then_run send_once_run ret_run raise_run
          outcome_def retryable_def)
  next
    case True
    then have "try_to_send (Suc n) up c w = try_to_send n up c (called up c 1 w)"
      by (auto simp: and_then_run send_once_run retryable_def)
    then show ?thesis
      using True by (simp add: Suc.IH lost_tries_Suc Let_def called_Suc [of up c "Suc _"] called_Suc [of up c n])
  qed
qed

lemma answered_at_once:
  assumes "up (c\<lparr>cl_headers := gl_inject lib (cl_headers c)\<rparr>) (gw_services w) = (Response r, u)"
    and "0 < attempts_of s c"
  shows "send_with_retries lib up s c w = (Inr r, called up (c\<lparr>cl_headers := gl_inject lib (cl_headers c)\<rparr>) 1 w)"
proof -
  obtain n where "attempts_of s c = Suc n" using assms(2) by (cases "attempts_of s c") auto
  then show ?thesis
    using assms(1) by (simp add: send_with_retries_def and_then_run send_once_run ret_run)
qed

lemma attempts_not_get: "map py_upper_char (cl_method c) \<noteq> ''GET'' \<Longrightarrow> attempts_of s c = 1"
  by (simp add: attempts_of_def)

text \<open>Whatever happens, a program of the gateway only adds calls; these are its calls.\<close>

definition new_calls :: "('u gateway_world \<Rightarrow> (exn + 'a) \<times> 'u gateway_world) \<Rightarrow> 'u gateway_world \<Rightarrow> call list" where
  "new_calls m w = drop (length (gw_calls w)) (gw_calls (snd (m w)))"

lemma record_upstream_error_run: "\<exists>v. record_upstream_error svc n w = (Inr (), v) \<and>
    gw_calls v = gw_calls w \<and> gw_services v = gw_services w"
  by (simp add: record_upstream_error_def metric_def modify_run ret_run)

lemma new_calls_proxy:
  "set (new_calls (proxy_request lib up s svc path user roles rq) w) \<subseteq>
    {\<lparr>cl_service = svc, cl_method = rq_method rq, cl_path = path, cl_query = rq_query rq,
      cl_headers = gl_inject lib (proxy_headers rq user roles), cl_content = Bytes (cached_body rq)\<rparr>}"
proof -
  have "gw_calls (snd (record_upstream_error svc n v)) = gw_calls v" for n and v :: "'a gateway_world"
    by (simp add: record_upstream_error_def metric_def modify_run ret_run)
  moreover have "gw_calls (snd (seq m (ret x) v)) = gw_calls (snd (m v))"
    for m :: "('a gateway_world, unit) eff" and x :: http_response and v
    by (simp add: seq_run ret_run split: prod.split sum.split)
  ultimately show ?thesis
    by (auto simp: new_calls_def proxy_request_def and_then_run send_with_retries_def try_to_send_run Let_def
        split: sum.splits prod.splits if_splits)
qed

section \<open>Headers\<close>

definition same_name :: "string \<Rightarrow> string \<Rightarrow> bool" where
  "same_name a b \<longleftrightarrow> py_lower a = py_lower b"

lemma header_simps [simp]:
  "header n [] = None" "header n ((k, v) # hs) = (if same_name k n then Some v else header n hs)"
  by (simp_all add: header_def find_row_def same_name_def)

lemma header_append: "header n (as @ bs) = (case header n as of None \<Rightarrow> header n bs | Some v \<Rightarrow> Some v)"
  by (induction as) auto

lemma header_filter:
  assumes "\<And>k. same_name k n \<Longrightarrow> P k"
  shows "header n (filter (\<lambda>(k, v). P k) hs) = header n hs"
  using assms by (induction hs) auto

lemma header_headers_dict: "header n (headers_dict hs) = header n hs"
proof (induction hs rule: headers_dict.induct)
  case (2 k v hs)
  then show ?case
    using header_filter [of n "\<lambda>k'. k' \<noteq> k" hs] by (cases "same_name k n") auto
qed simp

lemma header_dict_set_other: "\<not> same_name k n \<Longrightarrow> header n (dict_set k v d) = header n d"
  by (induction d) auto

lemma keys_headers_dict: "fst ` set (headers_dict hs) \<subseteq> fst ` set hs"
  by (induction hs rule: headers_dict.induct) auto

definition lower_names :: "pairs \<Rightarrow> bool" where
  "lower_names hs \<longleftrightarrow> (\<forall>(k, v) \<in> set hs. py_lower k = k)"

lemma upper_names:
  "py_lower ''X-Client-Ip'' = ''x-client-ip''" "py_lower ''X-Request-Id'' = ''x-request-id''"
  "py_lower ''X-User-Id'' = ''x-user-id''" "py_lower ''X-User-Roles'' = ''x-user-roles''"
  "py_lower ''x-user-id'' = ''x-user-id''" "py_lower ''x-user-roles'' = ''x-user-roles''"
  by code_simp+

text \<open>
  The service reads the client's own header where there is one: the header of the gateway is
  put after it.
\<close>

lemma forwarded_user_id:
  assumes "lower_names (rq_headers rq)"
  shows "header ''x-user-id'' (identity_headers rq user roles) =
    Some (case header ''x-user-id'' (rq_headers rq) of Some v \<Rightarrow> v | None \<Rightarrow> user)"
proof -
  let ?hs = "filter_request_headers (headers_dict (rq_headers rq))"
  have "header ''x-user-id'' ?hs = header ''x-user-id'' (headers_dict (rq_headers rq))"
    unfolding filter_request_headers_def
    by (rule header_filter) (simp add: same_name_def upper_names hop_by_hop_headers_def)
  then have base: "header ''x-user-id'' (base_headers rq) = header ''x-user-id'' (rq_headers rq)"
    by (simp add: base_headers_def header_dict_set_other same_name_def upper_names header_headers_dict)
  have "py_lower k = k" if "k \<in> fst ` set ?hs" for k
    using that assms keys_headers_dict [of "rq_headers rq"]
    by (fastforce simp: filter_request_headers_def lower_names_def)
  then have "''X-User-Id'' \<notin> fst ` set ?hs" using upper_names(3) by fastforce
  then have "''X-User-Id'' \<notin> set (map fst (base_headers rq))"
    unfolding base_headers_def dict_keys_set by (auto simp: image_image)
  then have "dict_set ''X-User-Id'' user (base_headers rq) = base_headers rq @ [(''X-User-Id'', user)]"
    by (intro dict_set_new) simp
  then show ?thesis
    by (simp add: identity_headers_def header_dict_set_other same_name_def upper_names header_append base
        split: option.split)
qed

lemma proxy_headers_user [simp]:
  "proxy_headers rq (Some (str_uuid u)) (Some roles) = identity_headers rq (str_uuid u) roles"
  by (simp add: proxy_headers_def identity_headers_def truthy_def str_uuid_nonempty)

section \<open>The limiters\<close>

lemma identity_run: "\<exists>r. get_current_identity lib s rq w = (r, w)"
  by (auto simp: get_current_identity_def and_then_run gets_run lift_run raise_run split: option.split)

lemma rate_limit_user_run:
  assumes "rate_limit_user lib s rq w = (r, w')"
  shows "gw_calls w' = gw_calls w" and "gw_services w' = gw_services w"
    and "r = Inr user \<Longrightarrow> get_current_identity lib s rq w = (Inr user, w)"
proof -
  obtain r0 where run: "get_current_identity lib s rq w = (r0, w)" using identity_run by blast
  have allowed: "gw_calls (snd (is_allowed k n v)) = gw_calls v \<and> gw_services (snd (is_allowed k n v)) = gw_services v"
    for k n and v :: "'a gateway_world"
    by (simp add: is_allowed_def Let_def split: prod.split)
  show "gw_calls w' = gw_calls w" and "gw_services w' = gw_services w"
    and "r = Inr user \<Longrightarrow> get_current_identity lib s rq w = (Inr user, w)"
    using assms allowed [of "''bff:rate:user:'' @ str_uuid (id_user_id (projr r0))" "gs_limit_user s" w] run
    by (cases r0; auto simp: rate_limit_user_def and_then_run catch_run seq_run metric_def modify_run
        ret_run raise_run split: prod.splits sum.splits if_splits)+
qed

definition gateway_hit :: "int \<Rightarrow> instant \<Rightarrow> string \<Rightarrow> 'u gateway_world \<Rightarrow> bool \<times> 'u gateway_world" where
  "gateway_hit limit now key w = (let (r, w') = is_allowed key limit (w\<lparr>gw_clock := now\<rparr>) in (r = Inr True, w'))"

definition gateway_limits_ok :: "'u gateway_world \<Rightarrow> bool" where
  "gateway_limits_ok w \<longleftrightarrow> (\<forall>i. gw_answered w i) \<and> (\<forall>k. used_ok (gw_redis w k))"

lemma gateway_hit_run:
  assumes "gateway_limits_ok w"
  shows "fst (gateway_hit limit now key w) = (fst (window_hit now 60 (gw_redis w key)) \<le> limit)"
    and "gw_redis (snd (gateway_hit limit now key w)) =
      (gw_redis w)(key := snd (window_hit now 60 (gw_redis w key)))"
    and "gw_answered (snd (gateway_hit limit now key w)) = gw_answered w"
  using assms by (simp_all add: gateway_hit_def is_allowed_def gateway_limits_ok_def Let_def split: prod.split)

interpretation gateway_limiter: window_limiter gateway_limits_ok "\<lambda>k w. gw_redis w k"
  "gateway_hit limit" limit 60000000 for limit
proof (unfold_locales, goal_cases)
  case (1 w now k)
  then show ?case using gateway_hit_run [OF 1] window_hit_used by (simp add: gateway_limits_ok_def)
next
  case (2 w now k)
  then show ?case using gateway_hit_run [OF 2(1)] window_hit_opens by (simp add: gateway_limits_ok_def)
next
  case (3 w now k n e)
  then show ?case using gateway_hit_run [OF 3(1)] window_hit_counts by (simp add: gateway_limits_ok_def)
next
  case (4 w k' k now)
  then show ?case using gateway_hit_run [OF 4(1)] by simp
qed

section \<open>Refresh tokens\<close>

text \<open>The characters of \<open>secrets.token_urlsafe\<close>.\<close>

definition token_char :: "char \<Rightarrow> bool" where
  "token_char c \<longleftrightarrow> (let n = of_char c :: nat in
     65 \<le> n \<and> n \<le> 90 \<or> 97 \<le> n \<and> n \<le> 122 \<or> 48 \<le> n \<and> n \<le> 57 \<or> n = 45 \<or> n = 95)"

lemma strip_by_none: "(\<And>c. c \<in> set s \<Longrightarrow> \<not> p c) \<Longrightarrow> strip_by p s = s"
proof -
  assume none: "\<And>c. c \<in> set s \<Longrightarrow> \<not> p c"
  have keep: "dropWhile p t = t" if "set t \<subseteq> set s" for t
    using that none by (cases t) auto
  show ?thesis by (simp add: strip_by_def keep)
qed

lemma token_char_plain: "token_char c \<Longrightarrow> \<not> py_isspace c \<and> c \<noteq> CHR 0x22 \<and> c \<noteq> CHR ''%''"
  by (auto simp: token_char_def py_isspace_def Let_def)

lemma normalize_plain_token:
  assumes "\<forall>c \<in> set t. token_char c" and "t \<noteq> []"
  shows "normalize_refresh_token lib (Some t) = Some t"
proof -
  have "CHR ''%'' \<notin> set t" using assms(1) token_char_plain by blast
  then have "unquote lib t = t" by (simp add: unquote_def)
  moreover have "py_strip t = t" unfolding py_strip_def by (rule strip_by_none) (use assms token_char_plain in blast)
  moreover have "strip_by (\<lambda>c. c = CHR 0x22) t = t" by (rule strip_by_none) (use assms token_char_plain in blast)
  ultimately show ?thesis using assms(2) by (simp add: normalize_refresh_token_def truthy_def)
qed


section \<open>A subscription and its notification\<close>

definition traced :: "gateway_library \<Rightarrow> call \<Rightarrow> call" where
  "traced lib c = c\<lparr>cl_headers := gl_inject lib (cl_headers c)\<rparr>"

text \<open>A call that is no GET is made once, whatever comes of it.\<close>

lemma sent_once:
  assumes "map py_upper_char (cl_method c) \<noteq> ''GET''"
  shows "\<exists>r. send_with_retries lib up s c w = (r, called up (traced lib c) 1 w)"
proof -
  have "\<exists>r. try_to_send 1 up (traced lib c) w = (r, called up (traced lib c) 1 w)"
    by (auto simp: and_then_run send_once_run ret_run raise_run split: transport.split)
  then show ?thesis
    unfolding send_with_retries_def attempts_not_get [OF assms] traced_def [symmetric] .
qed

lemma notify_run: "\<exists>w'. notify_subscription_event lib up s rq user t kind message x w = (Inr (), w') \<and>
    gw_calls w' = gw_calls w @ [traced lib (event_call rq user t kind message x)]"
proof -
  let ?c = "event_call rq user t kind message x"
  have "map py_upper_char ''POST'' \<noteq> ''GET''" by code_simp
  then have "map py_upper_char (cl_method ?c) \<noteq> ''GET''" by (simp add: event_call_def)
  then obtain r where sent: "send_with_retries lib up s ?c w = (r, called up (traced lib ?c) 1 w)"
    using sent_once by blast
  show ?thesis
  proof (cases r)
    case (Inl e)
    with sent show ?thesis
      by (simp add: notify_subscription_event_def catch_run and_then_run ret_run)
  next
    case (Inr a)
    obtain w' where "record_upstream_error Notifications_Api (rs_status a) (called up (traced lib ?c) 1 w) = (Inr (), w')"
        "gw_calls w' = gw_calls (called up (traced lib ?c) 1 w)"
      using record_upstream_error_run by blast
    with sent Inr show ?thesis
      by (simp add: notify_subscription_event_def catch_run and_then_run)
  qed
qed

lemma subscribe_run:
  assumes "rate_limit_user lib s rq w = (Inr user, w1)"
    and "send_subscriptions_request lib up s rq user ''/subscriptions'' (rq_method rq) (Bytes (cached_body rq))
      (rq_query rq) w1 = (Inr upstream, w2)"
    and "rs_status upstream \<in> {200, 201}" and "as_json_dict lib (rs_body upstream) = Inr (Some d)"
    and "dict_get d ''topic_id'' = Some (JStr t)" and "t \<noteq> []" and "dict_get d ''id'' = Some (JStr x)"
  shows "\<exists>w'. subscribe lib up s rq w = (Inr (forwarded_response blocked_headers upstream), w') \<and>
    gw_calls w' = gw_calls w2 @ [traced lib (event_call rq user t ''subscription.subscribed''
      ''You subscribed to topic updates.'' (Some x))]"
proof -
  obtain w3 where w3: "record_upstream_error Subscriptions_Api (rs_status upstream) w2 = (Inr (), w3)"
      "gw_calls w3 = gw_calls w2"
    using record_upstream_error_run by blast
  obtain w4 where "notify_subscription_event lib up s rq user t ''subscription.subscribed''
        ''You subscribed to topic updates.'' (Some x) w3 = (Inr (), w4)"
      "gw_calls w4 = gw_calls w3 @ [traced lib (event_call rq user t ''subscription.subscribed''
        ''You subscribed to topic updates.'' (Some x))]"
    using notify_run by blast
  with assms w3 show ?thesis
    by (auto simp: subscribe_def and_then_run seq_run lift_run ret_run nonempty_text_def truthy_def)
qed

end
