(* ===== verification/Gateway_Properties.thy ===== *)
theory Gateway_Properties
  imports Gateway_Laws
begin

text \<open>
  What the gateway does: the outcome of a call with retries, whom a service takes the request to
  come from, and the way of a refresh token through the cookie.
\<close>

section \<open>A concrete gateway, for the witnesses\<close>

definition sample_gateway_library :: gateway_library where
  "sample_gateway_library = \<lparr>gl_decode = (\<lambda>now t key alg aud iss.
       if t = ''jwt'' then Claims [(''sub'', JStr (str_uuid 7))] else Invalid_Token),
     gl_loads = (\<lambda>_. Not_Json), gl_unquote = id, gl_repr = (\<lambda>_. []), gl_inject = id\<rparr>"

definition sample_request :: "string \<Rightarrow> pairs \<Rightarrow> http_request" where
  "sample_request verb hs = \<lparr>rq_method = verb, rq_path = ''/p'', rq_query = [], rq_headers = hs,
     rq_cookies = [], rq_client_host = Some ''1.2.3.4'', rq_body = ''b'', rq_cached_body = Some ''b'',
     rq_request_id = ''r''\<rparr>"

definition sample_gateway :: "nat gateway_world" where
  "sample_gateway = \<lparr>gw_clock = 0, gw_redis = (\<lambda>_. None), gw_answered = (\<lambda>_. True), gw_commands = 0,
     gw_metrics = \<lparr>gm_http_total = [], gm_duration_sum = [], gm_duration_count = [],
       gm_rate_limited = 0, gm_downstream_errors = []\<rparr>,
     gw_calls = [], gw_services = 0, gw_uuids = (\<lambda>n. 100 + n), gw_drawn = 0, gw_perf = int,
     gw_readings = 0, gw_request_id = []\<rparr>"

text \<open>Services that answer every call with the same response.\<close>

definition sample_services :: "nat \<Rightarrow> json_dict \<Rightarrow> nat services" where
  "sample_services status body c u = (Response \<lparr>rs_status = status, rs_headers = [],
     rs_body = Json (JDict body), rs_cookies = []\<rparr>, Suc u)"

lemma sample_attempts: "0 < attempts_of default_gateway_settings c"
  by (simp add: attempts_of_def default_gateway_settings_def)

lemma sample_sent: "send_with_retries lib (sample_services n d) default_gateway_settings c w =
    (Inr \<lparr>rs_status = n, rs_headers = [], rs_body = Json (JDict d), rs_cookies = []\<rparr>,
     called (sample_services n d) (c\<lparr>cl_headers := gl_inject lib (cl_headers c)\<rparr>) 1 w)"
  by (rule answered_at_once) (simp_all add: sample_services_def sample_attempts)

lemma sample_identity:
  assumes "header ''authorization'' (rq_headers rq) = Some ''Bearer jwt''"
  shows "get_current_identity sample_gateway_library default_gateway_settings rq w =
    (Inr \<lparr>id_user_id = 7, id_roles = []\<rparr>, w)"
proof -
  have strip: "py_strip ''jwt'' = ''jwt''" by code_simp
  have uuid: "parse_uuid (str_uuid n) = Some n" if "is_uuid n" for n using that by (rule parse_str_uuid)
  have key: "verifier_key default_gateway_settings = Inr (gs_jwt_secret default_gateway_settings)"
    by (simp add: verifier_key_def default_gateway_settings_def)
  show ?thesis
    by (simp add: get_current_identity_def and_then_run gets_run lift_run assms bearer_def
        verify_token_def key strip sample_gateway_library_def dict_get_def falsy_def str_uuid_nonempty
        py_str_def uuid is_uuid_def roles_of_def)
qed

lemma sample_limited: "\<exists>v. rate_limit_user sample_gateway_library default_gateway_settings
    (sample_request verb ((''authorization'', ''Bearer jwt'') # hs)) sample_gateway =
    (Inr \<lparr>id_user_id = 7, id_roles = []\<rparr>, v)"
proof -
  have "header ''authorization'' (rq_headers (sample_request verb ((''authorization'', ''Bearer jwt'') # hs))) =
      Some ''Bearer jwt''"
    by (simp add: sample_request_def same_name_def)
  note user = sample_identity [OF this]
  show ?thesis
    by (simp add: rate_limit_user_def and_then_run user)
      (simp add: catch_run is_allowed_def sample_gateway_def Let_def window_hit_def redis_incr_def alive_def
        default_gateway_settings_def ret_run)
qed

section \<open>Properties\<close>

text \<open>
  A call is tried \<open>HTTP_RETRIES_GET + 1\<close> times if it is a GET and once otherwise, always with
  the same method, path, headers and body. The replies that count are those before the first one
  that is not a refused connection or a read timeout: that one is the outcome, and no try follows
  it; if there is none the outcome is 502 after the last try.
\<close>

lemma send_with_retries_outcome:
  "send_with_retries lib up s c w =
    (let n = nat (if map py_upper_char (cl_method c) = ''GET'' then gs_retries_get s + 1 else 1);
         c' = c\<lparr>cl_headers := gl_inject lib (cl_headers c)\<rparr>;
         replies = map (reply_at up c' (gw_services w)) [0..<n];
         k = length (takeWhile retryable replies)
     in if k < n then (outcome (replies ! k), called up c' (Suc k) w)
        else (Inl (Gateway Kind_Upstream (service_name (cl_service c) @ '' is unavailable'')), called up c' n w))"
  by (simp add: send_with_retries_def try_to_send_run attempts_of_def lost_tries_def Let_def)

text \<open>
  The gateway passes a header \<open>x-user-id\<close> of the client on, before the \<open>X-User-Id\<close> that it takes
  from the token: on every path that it forwards a service that reads the first of them takes the
  user from the client whenever the client names one, and from the token only otherwise.
\<close>

lemma client_user_id_wins:
  assumes "lower_names (rq_headers rq)"
    and "\<forall>hs. header ''x-user-id'' (gl_inject lib hs) = header ''x-user-id'' hs"
    and "c \<in> set (new_calls (user_proxy lib up s service path rq) w)"
  shows "\<exists>user. get_current_identity lib s rq w = (Inr user, w) \<and>
    header ''x-user-id'' (cl_headers c) = Some (case header ''x-user-id'' (rq_headers rq) of
      Some v \<Rightarrow> v | None \<Rightarrow> str_uuid (id_user_id user))"
proof -
  obtain r v where limited: "rate_limit_user lib s rq w = (r, v)" by (cases "rate_limit_user lib s rq w")
  note run = rate_limit_user_run [OF limited]
  obtain user where user: "r = Inr user"
    using assms(3) run(1) limited
    by (cases r) (simp_all add: new_calls_def user_proxy_def and_then_run)
  let ?p = "proxy_request lib up s service path (Some (str_uuid (id_user_id user))) (Some (id_roles user)) rq"
  have "new_calls (user_proxy lib up s service path rq) w = new_calls ?p v"
    using limited run(1) by (simp add: new_calls_def user_proxy_def and_then_run user)
  then have "cl_headers c = gl_inject lib (identity_headers rq (str_uuid (id_user_id user)) (id_roles user))"
    using assms(3) new_calls_proxy by fastforce
  with assms(2) forwarded_user_id [OF assms(1)] run(3) [OF user] show ?thesis by auto
qed

text \<open>
  An answer with tokens: the client gets it without the refresh token, which is in one cookie that
  scripts cannot read.
\<close>

definition signed_in :: "gateway_settings \<Rightarrow> http_response \<Rightarrow> json_dict \<Rightarrow> string \<Rightarrow> http_response" where
  "signed_in s upstream d token = set_refresh_cookie s token
     \<lparr>rs_status = rs_status upstream, rs_headers = without_headers auth_blocked_headers (rs_headers upstream),
      rs_body = Json (JDict (dict_pop ''refresh_token'' d)), rs_cookies = []\<rparr>"

lemma token_moves_to_cookie:
  assumes "as_json_dict lib (rs_body upstream) = Inr (Some d)" and "finite_json (JDict d)"
    and "dict_get d ''refresh_token'' = Some (JStr token)" and "token \<noteq> []"
  shows "with_token_in_cookie lib s upstream = Inr (signed_in s upstream d token)"
proof -
  have "list_all (\<lambda>(k, v). finite_json v) (dict_pop ''refresh_token'' d)"
    using assms(2) by (auto simp: list_all_iff dict_pop_def)
  then show ?thesis using assms
    by (simp add: with_token_in_cookie_def nonempty_text_def truthy_def json_response_def signed_in_def)
qed

text \<open>A request with that cookie presents the token. Tokens are what \<open>secrets.token_urlsafe\<close> makes.\<close>

lemma cookie_presents_token:
  assumes "dict_get (rq_cookies rq) (gs_cookie_name s) = Some token"
    and "token \<noteq> []" and "\<forall>c \<in> set token. token_char c"
  shows "presented_token lib s rq = Inr (Some token)"
  using assms(1) normalize_plain_token [OF assms(3,2)] by (simp add: presented_token_def)

text \<open>
  The key of the limit on log-ins is the header \<open>x-forwarded-for\<close> as the client sends it: with a
  text that was not used before a request always passes, however many came before.
\<close>

lemma fresh_address_passes:
  assumes "header ''x-forwarded-for'' (rq_headers rq) = Some address" and "address \<noteq> []"
    and "gw_redis w (''bff:rate:auth:'' @ rq_path rq @ '':'' @ address) = None"
    and "gw_answered w (gw_commands w)" and "1 \<le> gs_limit_auth s"
  shows "fst (rate_limit_auth s rq w) = Inr ()"
  using assms by (simp add: rate_limit_auth_def Let_def and_then_run catch_run is_allowed_def
      window_hit_def redis_incr_def alive_def ret_run)

end
