(* ===== verification/Gateway_Composition.thy ===== *)
theory Gateway_Composition
  imports Pipeline Auth_Properties Gateway_Properties
begin

text \<open>
  The gateway with the services behind it: the access tokens of the auth service at the gateway,
  and the notification that the gateway sends when a user subscribes.
\<close>

section \<open>Tokens of the auth service\<close>

lemma no_roles: "roles_of lib (access_claims s now sub) = []"
  by (simp add: roles_of_def access_claims_def dict_get_def)

lemma issued_identity:
  assumes "header ''authorization'' (rq_headers rq) = Some (bearer @ token)"
    and "\<And>key alg aud iss payload. gl_decode lib (gw_clock w) (py_strip token) key alg aud iss = Claims payload \<Longrightarrow>
      payload = access_claims s now sub"
    and "get_current_identity lib gs rq w = (Inr user, w')"
  shows "id_roles user = []"
proof -
  have "verify_token lib gs (gw_clock w) (py_strip token) = Inr user"
    using assms(3) by (auto simp: get_current_identity_def and_then_run gets_run lift_run assms(1))
  note v = this
  obtain key where key: "verifier_key gs = Inr key" using v by (cases "verifier_key gs") (simp_all add: verify_token_def)
  obtain payload where decoded: "gl_decode lib (gw_clock w) (py_strip token) key (gs_jwt_algorithm gs)
      (gs_jwt_audience gs) (gs_jwt_issuer gs) = Claims payload"
    using v by (cases "gl_decode lib (gw_clock w) (py_strip token) key (gs_jwt_algorithm gs)
      (gs_jwt_audience gs) (gs_jwt_issuer gs)") (simp_all add: verify_token_def key)
  have "id_roles user = roles_of lib payload"
    using v by (auto simp: verify_token_def key decoded split: option.splits if_splits)
  then show ?thesis using assms(2) [OF decoded] by (simp add: no_roles)
qed

section \<open>A concrete log-in, for the witness\<close>

lemma sample_login_at:
  fixes n :: nat and R :: "string \<Rightarrow> counter"
  defines "w \<equiv> (sample_auth [])\<lparr>aw_commands := n, aw_redis := R\<rparr>"
  shows "\<exists>pair w'. Auth_Service.login sample_library default_auth_settings ''A@b.c'' ''secret'' ua ip w =
    (Inr pair, w') \<and> tk_access_token pair = ''jwt'' \<and> tk_refresh_token pair = ''t''"
proof -
  let ?s = default_auth_settings
  have mail: "citext_eq ''a@b.c'' ''A@b.c''" by code_simp
  have found: "find_row (\<lambda>u. citext_eq (us_email u) ''A@b.c'') (adb_users (cw_db w)) = Some sample_user"
    using mail by (simp add: w_def sample_auth_defs)
  have keys: "jwt_keys ?s = Inr (''change-me-super-secret'', ''change-me-super-secret'')"
    by (simp add: jwt_keys_def default_auth_settings_def)
  have tx: "cw_tx w \<noteq> Tx_Failed" by (simp add: w_def sample_auth_def)
  have "create_session_tokens sample_library ?s 7 ua ip w =
      (Inr (issued_pair sample_library ?s ''change-me-super-secret'' 7 w),
       (drew w)\<lparr>cw_db := (cw_db w)\<lparr>adb_sessions := [new_session ?s 7 ua ip w]\<rparr>\<rparr>)"
    by (cases ip)
      (simp_all add: create_session_tokens_run inet_arg_def keys sql_def drew_def insert_session_def sample_library_def
        w_def sample_auth_defs new_session_def)
  moreover have "us_id sample_user = 7" "us_is_active sample_user" "us_password_hash sample_user = ''h:secret''"
    by (simp_all add: sample_user_def)
  moreover have "al_verify sample_library ''h:secret'' ''secret'' = Verified" by (simp add: sample_library_def)
  moreover have "aw_tokens w (aw_tokens_drawn w) = ''t''" by (simp add: w_def sample_auth_def)
  ultimately show ?thesis
    by (simp add: login_run [OF tx] found issued_pair_def) (simp add: sample_library_def)
qed

lemma sample_login:
  "\<exists>pair w'. Auth_Service.login sample_library default_auth_settings ''A@b.c'' ''secret'' None None (sample_auth []) =
    (Inr pair, w') \<and> tk_access_token pair = ''jwt''"
  using sample_login_at [where ua = None and ip = None and n = 0 and R = "\<lambda>_. None"]
  by (auto simp: sample_auth_def)

definition claims_library :: gateway_library where
  "claims_library = sample_gateway_library\<lparr>gl_decode := \<lambda>now t key alg aud iss. if t = ''jwt'' then
     Claims (access_claims default_auth_settings 5000000 (str_uuid 7)) else Invalid_Token\<rparr>"

section \<open>The notification of a subscription\<close>

text \<open>The JSON object that the notifications service reads as a request without a time.\<close>

definition request_json :: "create_request \<Rightarrow> json" where
  "request_json r = JDict
     [(''topic_id'', JStr (str_uuid (cr_topic_id r))), (''payload'', JDict (cr_payload r)),
      (''idempotency_key'', JStr (the (cr_idempotency_key r)))]"

definition event_request :: "http_request \<Rightarrow> string \<Rightarrow> string \<Rightarrow> uuid \<Rightarrow> uuid \<Rightarrow> create_request" where
  "event_request rq kind message topic subscription = \<lparr>cr_topic_id = topic,
     cr_payload = [(''event_type'', JStr kind), (''message'', JStr message), (''topic_id'', JStr (str_uuid topic)),
       (''subscription_id'', JStr (str_uuid subscription))],
     cr_scheduled_at = None,
     cr_idempotency_key = Some (''bff:'' @ kind @ '':'' @ str_uuid subscription @ '':'' @ rq_request_id rq)\<rparr>"

abbreviation subscribed_request :: "http_request \<Rightarrow> uuid \<Rightarrow> uuid \<Rightarrow> create_request" where
  "subscribed_request rq \<equiv> event_request rq ''subscription.subscribed'' ''You subscribed to topic updates.''"

abbreviation unsubscribed_request :: "http_request \<Rightarrow> uuid \<Rightarrow> uuid \<Rightarrow> create_request" where
  "unsubscribed_request rq \<equiv>
     event_request rq ''subscription.unsubscribed'' ''You unsubscribed from topic updates.''"

lemma event_body_request:
  "event_body rq (str_uuid topic) kind message (Some (str_uuid subscription)) =
    Json (request_json (event_request rq kind message topic subscription))"
  by (simp add: event_body_def request_json_def event_request_def truthy_def str_uuid_nonempty)

section \<open>Properties\<close>

text \<open>
  C33: an access token that the auth service issued names no roles, so the gateway never forwards
  the creation of a topic: with such a token the request is refused and the subscriptions service
  is not called, and unless \<open>jwt.decode\<close> raises an exception of another kind than an invalid token
  the answer is 401, 403 or 429. The hypothesis on the JWT library is that it only returns the
  claims that were signed.
\<close>

theorem issued_tokens_cannot_create_topics:
  fixes lib :: auth_library and glib :: gateway_library
  assumes "Auth_Service.login lib s email password ua ip w = (Inr pair, w')"
    and signed: "\<forall>u key alg aud iss payload.
      find_row (\<lambda>u. citext_eq (us_email u) email) (adb_users (cw_db w)) = Some u \<longrightarrow>
      gl_decode glib (gw_clock g) (py_strip (tk_access_token pair)) key alg aud iss = Claims payload \<longrightarrow>
      payload = access_claims s (aw_clock w) (str_uuid (us_id u))"
    and "header ''authorization'' (rq_headers rq) = Some (bearer @ tk_access_token pair)"
    and "verifier_key gs = Inr key" and "cw_tx w \<noteq> Tx_Failed"
  shows "\<exists>e. fst (create_topic glib up gs rq g) = Inl e \<and>
    ((\<forall>key alg aud iss x.
        gl_decode glib (gw_clock g) (py_strip (tk_access_token pair)) key alg aud iss \<noteq> Jwt_Raises x) \<longrightarrow>
      gateway_status e \<in> {401, 403, 429}) \<and>
    new_calls (create_topic glib up gs rq) g = []"
proof -
  obtain u where u: "find_row (\<lambda>u. citext_eq (us_email u) email) (adb_users (cw_db w)) = Some u"
    using assms(1) by (auto simp: login_run [OF assms(5)] split: option.splits if_splits)
  obtain r v where limited: "rate_limit_user glib gs rq g = (r, v)" by (cases "rate_limit_user glib gs rq g")
  note run = rate_limit_user_run [OF limited]
  show ?thesis
  proof (cases r)
    case (Inl e)
    have "gateway_status e \<in> {401, 403, 429}"
      if "\<forall>key alg aud iss x.
        gl_decode glib (gw_clock g) (py_strip (tk_access_token pair)) key alg aud iss \<noteq> Jwt_Raises x"
      using limited Inl assms(3,4) that
      by (auto simp: rate_limit_user_def get_current_identity_def and_then_run gets_run lift_run raise_run
          catch_run seq_run metric_def modify_run ret_run verify_token_def invalid_access_token_def
          gateway_status_def error_status_def split: option.splits if_splits sum.splits prod.splits jwt_result.splits)
    with limited Inl run(1) show ?thesis by (simp add: create_topic_def and_then_run new_calls_def)
  next
    case (Inr user)
    have "id_roles user = []"
      by (rule issued_identity [OF assms(3) _ run(3) [OF Inr]]) (use signed u in blast)
    with limited Inr run(1) show ?thesis
      by (simp add: create_topic_def and_then_run raise_run new_calls_def gateway_status_def error_status_def)
  qed
qed

theorem issued_tokens_cannot_create_topics_witness:
  "\<exists>pair w' e. Auth_Service.login sample_library default_auth_settings ''A@b.c'' ''secret'' None None (sample_auth []) =
      (Inr pair, w') \<and>
    fst (create_topic claims_library (sample_services 201 []) default_gateway_settings
      (sample_request ''POST'' [(''authorization'', bearer @ tk_access_token pair)]) sample_gateway) = Inl e \<and>
    gateway_status e \<in> {401, 403, 429}"
proof -
  obtain pair w' where run: "Auth_Service.login sample_library default_auth_settings ''A@b.c'' ''secret'' None None
      (sample_auth []) = (Inr pair, w')"
    using sample_login by blast
  let ?rq = "sample_request ''POST'' [(''authorization'', bearer @ tk_access_token pair)]"
  have mail: "citext_eq ''a@b.c'' ''A@b.c''" by code_simp
  have found: "find_row (\<lambda>u. citext_eq (us_email u) ''A@b.c'') (adb_users (cw_db (sample_auth []))) = Some sample_user"
    using mail by (simp add: sample_auth_defs)
  have clock: "aw_clock (sample_auth []) = 5000000" "us_id sample_user = 7" and tx: "cw_tx (sample_auth []) \<noteq> Tx_Failed"
    by (simp_all add: sample_auth_def sample_user_def)
  have key: "verifier_key default_gateway_settings = Inr (gs_jwt_secret default_gateway_settings)"
    by (simp add: verifier_key_def default_gateway_settings_def)
  have auth: "header ''authorization'' (rq_headers ?rq) = Some (bearer @ tk_access_token pair)"
    by (simp add: sample_request_def same_name_def)
  have "\<forall>u key alg aud iss payload.
      find_row (\<lambda>u. citext_eq (us_email u) ''A@b.c'') (adb_users (cw_db (sample_auth []))) = Some u \<longrightarrow>
      gl_decode claims_library (gw_clock sample_gateway) (py_strip (tk_access_token pair)) key alg aud iss = Claims payload \<longrightarrow>
      payload = access_claims default_auth_settings (aw_clock (sample_auth [])) (str_uuid (us_id u))"
    by (simp add: found clock claims_library_def)
  moreover have "gl_decode claims_library now t k alg aud iss \<noteq> Jwt_Raises x" for now t k alg aud iss x
    by (simp add: claims_library_def)
  ultimately show ?thesis
    using issued_tokens_cannot_create_topics [where up = "sample_services 201 []" and glib = claims_library
        and g = sample_gateway, OF run _ auth key tx] run by blast
qed

lemma created_announces:
  assumes "cw_tx v = Tx_None" and "cr_scheduled_at r = None"
    and "api_create_notification ns x_user_id rid r v = (Reply 201 n, v')"
  shows "\<exists>e. ndb_outbox (cw_db v') = ndb_outbox (cw_db v) @ [e] \<and> obx_event_type e = created_event_type \<and>
    dict_get (obx_payload e) ''topic_id'' = Some (JStr (str_uuid (cr_topic_id r)))"
  using created_outbox [OF assms]
  by (auto simp: Let_def new_event_def new_notification_def created_event_def dict_get_def)

end
