(* ===== verification/Configuration.thy ===== *)
theory Configuration
  imports Gateway_Composition
begin

text \<open>
  \<open>core/settings.py\<close> of the five services: the fields with their types, defaults and names in the
  environment, how they are read, the URL of the database, and what the services of one
  deployment agree on.
\<close>

section \<open>Fields\<close>

text \<open>
  How pydantic reads a text as an integer, a Boolean or a float is a parameter; a float is its
  text. The environment holds the variables and the lines of \<open>.env\<close>, by their names in upper case.
\<close>

datatype setting_type = T_Text | T_Int | T_Flag | T_Float | T_Int_Or_None | T_Text_Or_None
  | T_One_Of "string list"

datatype setting_value = S_Text string | S_Int int | S_Flag bool | S_Float string | S_None

record text_readers =
  tr_int :: "string \<Rightarrow> int option"
  tr_flag :: "string \<Rightarrow> bool option"
  tr_float :: "string \<Rightarrow> string option"

type_synonym setting_field = "string \<times> setting_type \<times> setting_value \<times> string"

type_synonym environment = "string \<Rightarrow> string option"

definition read_text :: "text_readers \<Rightarrow> setting_type \<Rightarrow> string \<Rightarrow> setting_value option" where
  "read_text rd ty t = (case ty of
     T_Text \<Rightarrow> Some (S_Text t)
   | T_Int \<Rightarrow> map_option S_Int (tr_int rd t)
   | T_Flag \<Rightarrow> map_option S_Flag (tr_flag rd t)
   | T_Float \<Rightarrow> map_option S_Float (tr_float rd t)
   | T_Int_Or_None \<Rightarrow> map_option S_Int (tr_int rd t)
   | T_Text_Or_None \<Rightarrow> Some (S_Text t)
   | T_One_Of ts \<Rightarrow> if t \<in> set ts then Some (S_Text t) else None)"

text \<open>\<open>Settings()\<close>: one field that cannot be read makes the constructor raise.\<close>

fun read_settings :: "text_readers \<Rightarrow> environment \<Rightarrow> setting_field list \<Rightarrow> exn + (string \<times> setting_value) list" where
  "read_settings rd env [] = Inr []"
| "read_settings rd env ((name, ty, fallback, alias) # fs) =
     (case (case env alias of None \<Rightarrow> Some fallback | Some t \<Rightarrow> read_text rd ty t) of
        None \<Rightarrow> Inl Value_Error
      | Some v \<Rightarrow> bind_sum (read_settings rd env fs) (\<lambda>vs. Inr ((name, v) # vs)))"

definition has_type :: "setting_type \<Rightarrow> setting_value \<Rightarrow> bool" where
  "has_type ty v = (case (ty, v) of
     (T_Text, S_Text _) \<Rightarrow> True | (T_Int, S_Int _) \<Rightarrow> True | (T_Flag, S_Flag _) \<Rightarrow> True
   | (T_Float, S_Float _) \<Rightarrow> True | (T_Int_Or_None, S_Int _) \<Rightarrow> True | (T_Int_Or_None, S_None) \<Rightarrow> True
   | (T_Text_Or_None, S_Text _) \<Rightarrow> True | (T_Text_Or_None, S_None) \<Rightarrow> True
   | (T_One_Of ts, S_Text t) \<Rightarrow> t \<in> set ts | _ \<Rightarrow> False)"

section \<open>The tables\<close>

definition postgres_fields :: "string \<Rightarrow> int \<Rightarrow> setting_field list" where
  "postgres_fields name smallest =
    [(''db_host'', T_Text, S_Text ''postgres'', ''DB_HOST''),
     (''db_port'', T_Int, S_Int 5432, ''DB_PORT''),
     (''db_name'', T_Text, S_Text name, ''DB_NAME''),
     (''db_user'', T_Text, S_Text name, ''DB_USER''),
     (''db_password'', T_Text, S_Text name, ''DB_PASSWORD''),
     (''db_min_pool_size'', T_Int, S_Int smallest, ''DB_MIN_POOL_SIZE''),
     (''db_max_pool_size'', T_Int, S_Int 20, ''DB_MAX_POOL_SIZE'')]"

definition app_fields :: "string \<Rightarrow> int \<Rightarrow> setting_field list" where
  "app_fields name port =
    [(''app_name'', T_Text, S_Text name, ''APP_NAME''),
     (''app_env'', T_Text, S_Text ''dev'', ''APP_ENV''),
     (''app_host'', T_Text, S_Text ''0.0.0.0'', ''APP_HOST''),
     (''app_port'', T_Int, S_Int port, ''APP_PORT''),
     (''app_log_level'', T_Text, S_Text ''INFO'', ''APP_LOG_LEVEL''),
     (''app_json_logs'', T_Flag, S_Flag True, ''APP_JSON_LOGS'')]"

definition otel_fields :: "string \<Rightarrow> setting_field list" where
  "otel_fields name =
    [(''otel_enabled'', T_Flag, S_Flag False, ''OTEL_ENABLED''),
     (''otel_service_name'', T_Text, S_Text name, ''OTEL_SERVICE_NAME''),
     (''otel_exporter_otlp_endpoint'', T_Text, S_Text ''http://otel-collector:4317'',
       ''OTEL_EXPORTER_OTLP_ENDPOINT'')]"

definition auth_table :: "setting_field list" where
  "auth_table = app_fields ''auth-service'' 8080 @ postgres_fields ''auth'' 5 @
    [(''redis_url'', T_Text, S_Text ''redis://redis:6379/0'', ''REDIS_URL''),
     (''nats_url'', T_Text, S_Text ''nats://nats:4222'', ''NATS_URL''),
     (''nats_connect_timeout'', T_Int, S_Int 5, ''NATS_CONNECT_TIMEOUT''),
     (''jwt_algorithm'', T_Text, S_Text ''HS256'', ''JWT_ALGORITHM''),
     (''jwt_issuer'', T_Text, S_Text ''auth-service'', ''JWT_ISSUER''),
     (''jwt_audience'', T_Text, S_Text ''substy'', ''JWT_AUDIENCE''),
     (''jwt_access_token_ttl_minutes'', T_Int, S_Int 15, ''JWT_ACCESS_TOKEN_TTL_MINUTES''),
     (''jwt_refresh_token_ttl_seconds'', T_Int_Or_None, S_None, ''JWT_REFRESH_TOKEN_TTL_SECONDS''),
     (''jwt_refresh_token_ttl_days'', T_Int, S_Int 30, ''JWT_REFRESH_TOKEN_TTL_DAYS''),
     (''jwt_secret'', T_Text, S_Text ''change-me-super-secret'', ''JWT_SECRET''),
     (''jwt_private_key'', T_Text, S_Text [], ''JWT_PRIVATE_KEY''),
     (''jwt_public_key'', T_Text, S_Text [], ''JWT_PUBLIC_KEY''),
     (''refresh_token_pepper'', T_Text, S_Text ''change-me-token-pepper'', ''REFRESH_TOKEN_PEPPER''),
     (''rate_limit_login'', T_Int, S_Int 10, ''RATE_LIMIT_LOGIN''),
     (''rate_limit_register'', T_Int, S_Int 5, ''RATE_LIMIT_REGISTER''),
     (''rate_limit_window_seconds'', T_Int, S_Int 60, ''RATE_LIMIT_WINDOW_SECONDS'')] @
    otel_fields ''auth-service''"

definition subscriptions_table :: "setting_field list" where
  "subscriptions_table = app_fields ''subscriptions-service'' 8090 @ postgres_fields ''subscriptions'' 3 @
    [(''page_limit_default'', T_Int, S_Int 50, ''PAGE_LIMIT_DEFAULT''),
     (''page_limit_max'', T_Int, S_Int 500, ''PAGE_LIMIT_MAX''),
     (''internal_subscribers_limit_default'', T_Int, S_Int 100, ''INTERNAL_SUBSCRIBERS_LIMIT_DEFAULT''),
     (''internal_subscribers_limit_max'', T_Int, S_Int 500, ''INTERNAL_SUBSCRIBERS_LIMIT_MAX'')] @
    otel_fields ''subscriptions-service''"

definition notifications_table :: "setting_field list" where
  "notifications_table = app_fields ''notifications-service'' 8091 @ postgres_fields ''notifications'' 3 @
    [(''nats_url'', T_Text, S_Text ''nats://nats:4222'', ''NATS_URL''),
     (''nats_connect_timeout'', T_Int, S_Int 5, ''NATS_CONNECT_TIMEOUT''),
     (''nats_stream_name'', T_Text, S_Text ''NOTIFICATIONS'', ''NATS_STREAM_NAME''),
     (''nats_subject_notification_created'', T_Text, S_Text ''notification.created.v1'',
       ''NATS_SUBJECT_NOTIFICATION_CREATED''),
     (''outbox_batch_size'', T_Int, S_Int 100, ''OUTBOX_BATCH_SIZE''),
     (''outbox_publish_interval_seconds'', T_Float, S_Float ''2.0'', ''OUTBOX_PUBLISH_INTERVAL_SECONDS''),
     (''outbox_worker_enabled'', T_Flag, S_Flag False, ''OUTBOX_WORKER_ENABLED''),
     (''scheduler_batch_size'', T_Int, S_Int 200, ''SCHEDULER_BATCH_SIZE''),
     (''scheduler_tick_interval_seconds'', T_Float, S_Float ''2.0'', ''SCHEDULER_TICK_INTERVAL_SECONDS''),
     (''payload_max_bytes'', T_Int, S_Int 65536, ''PAYLOAD_MAX_BYTES''),
     (''payload_max_depth'', T_Int, S_Int 8, ''PAYLOAD_MAX_DEPTH''),
     (''page_limit_default'', T_Int, S_Int 50, ''PAGE_LIMIT_DEFAULT''),
     (''page_limit_max'', T_Int, S_Int 200, ''PAGE_LIMIT_MAX'')] @
    otel_fields ''notifications-service''"

definition delivery_table :: "setting_field list" where
  "delivery_table = app_fields ''delivery-service'' 8092 @ postgres_fields ''delivery'' 3 @
    [(''redis_url'', T_Text, S_Text ''redis://redis:6379/0'', ''REDIS_URL''),
     (''nats_url'', T_Text, S_Text ''nats://nats:4222'', ''NATS_URL''),
     (''nats_connect_timeout'', T_Int, S_Int 5, ''NATS_CONNECT_TIMEOUT''),
     (''nats_stream_name'', T_Text, S_Text ''NOTIFICATIONS'', ''NATS_STREAM_NAME''),
     (''nats_subject_notification_created'', T_Text, S_Text ''notification.created.v1'',
       ''NATS_SUBJECT_NOTIFICATION_CREATED''),
     (''nats_subject_delivery_succeeded'', T_Text, S_Text ''delivery.succeeded.v1'',
       ''NATS_SUBJECT_DELIVERY_SUCCEEDED''),
     (''nats_subject_delivery_failed'', T_Text, S_Text ''delivery.failed.v1'',
       ''NATS_SUBJECT_DELIVERY_FAILED''),
     (''nats_consumer_name'', T_Text, S_Text ''delivery-service'', ''NATS_CONSUMER_NAME''),
     (''nats_durable_name'', T_Text, S_Text ''delivery-service'', ''NATS_DURABLE_NAME''),
     (''subscriptions_internal_url'', T_Text, S_Text ''http://subscriptions-service:8090'',
       ''SUBSCRIPTIONS_INTERNAL_URL''),
     (''subscriptions_page_limit'', T_Int, S_Int 100, ''SUBSCRIPTIONS_PAGE_LIMIT''),
     (''subscriptions_fetch_concurrency'', T_Int, S_Int 3, ''SUBSCRIPTIONS_FETCH_CONCURRENCY''),
     (''delivery_max_attempts'', T_Int, S_Int 5, ''DELIVERY_MAX_ATTEMPTS''),
     (''delivery_base_delay_seconds'', T_Int, S_Int 5, ''DELIVERY_BASE_DELAY_SECONDS''),
     (''delivery_max_delay_seconds'', T_Int, S_Int 3600, ''DELIVERY_MAX_DELAY_SECONDS''),
     (''delivery_retry_jitter_seconds'', T_Int, S_Int 5, ''DELIVERY_RETRY_JITTER_SECONDS''),
     (''delivery_channels'', T_Text, S_Text ''push,email,web'', ''DELIVERY_CHANNELS''),
     (''provider_stub_fail_rate'', T_Float, S_Float ''0.0'', ''PROVIDER_STUB_FAIL_RATE'')] @
    otel_fields ''delivery-service''"

definition gateway_table :: "setting_field list" where
  "gateway_table = app_fields ''bff-gateway'' 8070 @
    [(''auth_service_url'', T_Text, S_Text ''http://auth-service:8080'', ''AUTH_SERVICE_URL''),
     (''subscriptions_service_url'', T_Text, S_Text ''http://subscriptions-service:8090'',
       ''SUBSCRIPTIONS_SERVICE_URL''),
     (''notifications_service_url'', T_Text, S_Text ''http://notifications-service:8091'',
       ''NOTIFICATIONS_SERVICE_URL''),
     (''http_connect_timeout_seconds'', T_Float, S_Float ''1.0'', ''HTTP_CONNECT_TIMEOUT_SECONDS''),
     (''http_read_timeout_seconds'', T_Float, S_Float ''5.0'', ''HTTP_READ_TIMEOUT_SECONDS''),
     (''http_retries_get'', T_Int, S_Int 2, ''HTTP_RETRIES_GET''),
     (''redis_url'', T_Text, S_Text ''redis://redis:6379/0'', ''REDIS_URL''),
     (''jwt_mode'', T_Text, S_Text ''local'', ''JWT_MODE''),
     (''jwt_algorithm'', T_Text, S_Text ''HS256'', ''JWT_ALGORITHM''),
     (''jwt_audience'', T_Text, S_Text ''substy'', ''JWT_AUDIENCE''),
     (''jwt_issuer'', T_Text, S_Text ''auth-service'', ''JWT_ISSUER''),
     (''jwt_secret'', T_Text, S_Text ''change-me-super-secret-at-least-32-bytes'', ''JWT_SECRET''),
     (''jwt_public_key'', T_Text, S_Text [], ''JWT_PUBLIC_KEY''),
     (''rate_limit_auth_per_minute'', T_Int, S_Int 5, ''RATE_LIMIT_AUTH_PER_MINUTE''),
     (''rate_limit_user_per_minute'', T_Int, S_Int 60, ''RATE_LIMIT_USER_PER_MINUTE''),
     (''cors_allow_origins'', T_Text, S_Text ''http://localhost:3000,http://localhost:5173'', ''CORS_ALLOW_ORIGINS''),
     (''refresh_cookie_name'', T_Text, S_Text ''refresh_token'', ''REFRESH_COOKIE_NAME''),
     (''refresh_cookie_domain'', T_Text_Or_None, S_None, ''REFRESH_COOKIE_DOMAIN''),
     (''refresh_cookie_path'', T_Text, S_Text ''/'', ''REFRESH_COOKIE_PATH''),
     (''refresh_cookie_secure'', T_Flag, S_Flag False, ''REFRESH_COOKIE_SECURE''),
     (''refresh_cookie_samesite'', T_One_Of [''lax'', ''strict'', ''none''], S_Text ''lax'',
       ''REFRESH_COOKIE_SAMESITE''),
     (''refresh_cookie_max_age_seconds'', T_Int, S_Int (30 * 24 * 60 * 60), ''REFRESH_COOKIE_MAX_AGE_SECONDS''),
     (''max_body_bytes'', T_Int, S_Int (1024 * 1024), ''MAX_BODY_BYTES'')] @
    otel_fields ''bff-gateway''"

section \<open>The settings that the model of each service uses\<close>

definition text_of :: "(string \<times> setting_value) list \<Rightarrow> string \<Rightarrow> string" where
  "text_of vs k = (case dict_get vs k of Some (S_Text t) \<Rightarrow> t | _ \<Rightarrow> [])"

definition int_of :: "(string \<times> setting_value) list \<Rightarrow> string \<Rightarrow> int" where
  "int_of vs k = (case dict_get vs k of Some (S_Int n) \<Rightarrow> n | _ \<Rightarrow> 0)"

definition flag_of :: "(string \<times> setting_value) list \<Rightarrow> string \<Rightarrow> bool" where
  "flag_of vs k = (case dict_get vs k of Some (S_Flag b) \<Rightarrow> b | _ \<Rightarrow> False)"

definition auth_settings_of :: "(string \<times> setting_value) list \<Rightarrow> auth_settings" where
  "auth_settings_of vs = \<lparr>as_jwt_algorithm = text_of vs ''jwt_algorithm'', as_jwt_issuer = text_of vs ''jwt_issuer'',
     as_jwt_audience = text_of vs ''jwt_audience'', as_access_ttl_minutes = int_of vs ''jwt_access_token_ttl_minutes'',
     as_refresh_ttl_seconds = (case dict_get vs ''jwt_refresh_token_ttl_seconds'' of Some (S_Int n) \<Rightarrow> Some n | _ \<Rightarrow> None),
     as_refresh_ttl_days = int_of vs ''jwt_refresh_token_ttl_days'', as_jwt_secret = text_of vs ''jwt_secret'',
     as_jwt_private_key = text_of vs ''jwt_private_key'', as_jwt_public_key = text_of vs ''jwt_public_key'',
     as_pepper = text_of vs ''refresh_token_pepper'', as_limit_login = int_of vs ''rate_limit_login'',
     as_limit_register = int_of vs ''rate_limit_register'', as_window_seconds = int_of vs ''rate_limit_window_seconds''\<rparr>"

definition gateway_settings_of :: "(string \<times> setting_value) list \<Rightarrow> gateway_settings" where
  "gateway_settings_of vs = \<lparr>gs_retries_get = int_of vs ''http_retries_get'',
     gs_jwt_algorithm = text_of vs ''jwt_algorithm'', gs_jwt_audience = text_of vs ''jwt_audience'',
     gs_jwt_issuer = text_of vs ''jwt_issuer'', gs_jwt_secret = text_of vs ''jwt_secret'',
     gs_jwt_public_key = text_of vs ''jwt_public_key'', gs_limit_auth = int_of vs ''rate_limit_auth_per_minute'',
     gs_limit_user = int_of vs ''rate_limit_user_per_minute'', gs_cookie_name = text_of vs ''refresh_cookie_name'',
     gs_cookie_domain = (case dict_get vs ''refresh_cookie_domain'' of Some (S_Text t) \<Rightarrow> Some t | _ \<Rightarrow> None),
     gs_cookie_path = text_of vs ''refresh_cookie_path'', gs_cookie_secure = flag_of vs ''refresh_cookie_secure'',
     gs_cookie_same_site = text_of vs ''refresh_cookie_samesite'',
     gs_cookie_max_age = int_of vs ''refresh_cookie_max_age_seconds'', gs_max_body_bytes = int_of vs ''max_body_bytes''\<rparr>"

definition delivery_settings_of :: "(string \<times> setting_value) list \<Rightarrow> delivery_settings" where
  "delivery_settings_of vs = \<lparr>ds_max_attempts = int_of vs ''delivery_max_attempts'',
     ds_base_delay_seconds = int_of vs ''delivery_base_delay_seconds'',
     ds_max_delay_seconds = int_of vs ''delivery_max_delay_seconds'',
     ds_retry_jitter_seconds = int_of vs ''delivery_retry_jitter_seconds'',
     ds_channels_text = text_of vs ''delivery_channels'',
     ds_subject_succeeded = text_of vs ''nats_subject_delivery_succeeded'',
     ds_subject_failed = text_of vs ''nats_subject_delivery_failed''\<rparr>"

definition parsed_cors_origins :: "(string \<times> setting_value) list \<Rightarrow> string list" where
  "parsed_cors_origins vs = map py_strip
     (filter (\<lambda>origin. py_strip origin \<noteq> []) (py_split (CHR '','') (text_of vs ''cors_allow_origins'')))"

lemmas tables = app_fields_def postgres_fields_def otel_fields_def auth_table_def subscriptions_table_def
  notifications_table_def delivery_table_def gateway_table_def

text \<open>Without an environment the services have the defaults.\<close>

lemma default_settings:
  "map_sum id auth_settings_of (read_settings rd Map.empty auth_table) = Inr default_auth_settings"
  "map_sum id gateway_settings_of (read_settings rd Map.empty gateway_table) = Inr default_gateway_settings"
  "map_sum id delivery_settings_of (read_settings rd Map.empty delivery_table) = Inr default_delivery_settings"
  by code_simp+

end
