(* ===== verification/Deployment.thy ===== *)
theory Deployment
  imports Configuration
begin

text \<open>
  What a deployment gets from the settings of its services: every field from its own variable,
  addresses at which the services find each other, the URL of the database with the credentials
  in it (\<open>database\_dsn\<close>, which the four services with a database share), and one key for the
  access tokens.
\<close>

section \<open>Reading the settings\<close>

lemma read_settings_Cons:
  "read_settings rd env ((name, ty, fallback, alias) # fs) = Inr vs \<longleftrightarrow>
     (\<exists>v vs'. vs = (name, v) # vs' \<and> read_settings rd env fs = Inr vs' \<and>
       (case env alias of None \<Rightarrow> v = fallback | Some t \<Rightarrow> read_text rd ty t = Some v))"
  by (auto split: option.splits sum.splits simp: bind_sum_def)

text \<open>
  An environment that is written from values for some of the fields: each under the name of the
  field in upper case. A value is read back when the readers take its text for it.
\<close>

definition written :: "setting_value \<Rightarrow> string" where
  "written v = (case v of S_Text t \<Rightarrow> t | S_Int n \<Rightarrow> int_text n | S_Flag b \<Rightarrow> if b then ''true'' else ''false''
     | S_Float t \<Rightarrow> t | S_None \<Rightarrow> [])"

definition environment_of :: "(string \<Rightarrow> setting_value option) \<Rightarrow> environment" where
  "environment_of given variable = map_option written (given (py_lower variable))"

definition reads_back :: "text_readers \<Rightarrow> setting_value \<Rightarrow> bool" where
  "reads_back rd v \<longleftrightarrow> (case v of S_Text t \<Rightarrow> True | S_Int n \<Rightarrow> tr_int rd (int_text n) = Some n
     | S_Flag b \<Rightarrow> tr_flag rd (if b then ''true'' else ''false'') = Some b
     | S_Float t \<Rightarrow> tr_float rd t = Some t | S_None \<Rightarrow> False)"

definition fits :: "text_readers \<Rightarrow> (string \<Rightarrow> setting_value option) \<Rightarrow> setting_field list \<Rightarrow> bool" where
  "fits rd given fs \<longleftrightarrow> (\<forall>(name, ty, fallback, alias) \<in> set fs. \<forall>v. given name = Some v \<longrightarrow>
     has_type ty v \<and> reads_back rd v)"

definition configured :: "(string \<Rightarrow> setting_value option) \<Rightarrow> setting_field list \<Rightarrow> (string \<times> setting_value) list" where
  "configured given = map (\<lambda>(name, ty, fallback, alias).
     (name, case given name of None \<Rightarrow> fallback | Some v \<Rightarrow> v))"

lemma read_text_written: "has_type ty v \<Longrightarrow> reads_back rd v \<Longrightarrow> read_text rd ty (written v) = Some v"
  by (cases ty; cases v) (auto simp: read_text_def has_type_def reads_back_def written_def)

lemma read_settings_configured:
  assumes "list_all (\<lambda>(name, ty, fallback, alias). py_lower alias = name) fs" and "fits rd given fs"
  shows "read_settings rd (environment_of given) fs = Inr (configured given fs)"
  using assms
proof (induction fs)
  case (Cons f fs)
  obtain name ty fallback var where f: "f = (name, ty, fallback, var)" by (cases f)
  from Cons f have "read_settings rd (environment_of given) fs = Inr (configured given fs)"
    and "py_lower var = name" and "\<And>v. given name = Some v \<Longrightarrow> read_text rd ty (written v) = Some v"
    by (auto simp: fits_def intro: read_text_written)
  then show ?case
    using environment_of_def [of given var] by (cases "given name") (simp_all add: f configured_def)
qed (simp add: configured_def)

lemma text_setting:
  assumes "read_settings rd env fs = Inr vs" and "(name, T_Text, S_Text t, alias) \<in> set fs" and "distinct (map fst fs)"
  shows "text_of vs name = (case env alias of None \<Rightarrow> t | Some t' \<Rightarrow> t')"
  using assms
proof (induction fs arbitrary: vs)
  case (Cons f fs)
  obtain n ty fb al where f: "f = (n, ty, fb, al)" by (cases f)
  with Cons.prems(1) obtain v vs' where vs: "vs = (n, v) # vs'" "read_settings rd env fs = Inr vs'"
      "case env al of None \<Rightarrow> v = fb | Some t \<Rightarrow> read_text rd ty t = Some v"
    by (auto simp: read_settings_Cons simp del: read_settings.simps)
  show ?case
  proof (cases "n = name")
    case True
    then have "f = (name, T_Text, S_Text t, alias)" using Cons.prems(2,3) f by (force simp: rev_image_eqI)
    then show ?thesis using f vs by (auto simp: text_of_def dict_get_def read_text_def split: option.splits)
  next
    case False
    then show ?thesis using Cons f vs(1,2) by (auto simp: text_of_def dict_get_def)
  qed
qed simp

definition platform_tables :: "setting_field list list" where
  "platform_tables = [auth_table, subscriptions_table, notifications_table, delivery_table, gateway_table]"

lemma platform_tables_distinct: "list_all (\<lambda>fs. distinct (map fst fs)) platform_tables"
  by (simp add: platform_tables_def tables)

lemmas tables_distinct = platform_tables_distinct [unfolded platform_tables_def list.pred_inject, simplified]

lemma jwt_fields:
  "read_settings rd env auth_table = Inr avs \<Longrightarrow> text_of avs ''jwt_algorithm'' = (case env ''JWT_ALGORITHM'' of None \<Rightarrow> ''HS256'' | Some t \<Rightarrow> t)"
  "read_settings rd env auth_table = Inr avs \<Longrightarrow> text_of avs ''jwt_audience'' = (case env ''JWT_AUDIENCE'' of None \<Rightarrow> ''substy'' | Some t \<Rightarrow> t)"
  "read_settings rd env auth_table = Inr avs \<Longrightarrow> text_of avs ''jwt_issuer'' = (case env ''JWT_ISSUER'' of None \<Rightarrow> ''auth-service'' | Some t \<Rightarrow> t)"
  "read_settings rd env auth_table = Inr avs \<Longrightarrow> text_of avs ''jwt_secret'' = (case env ''JWT_SECRET'' of None \<Rightarrow> ''change-me-super-secret'' | Some t \<Rightarrow> t)"
  "read_settings rd env gateway_table = Inr gvs \<Longrightarrow> text_of gvs ''jwt_algorithm'' = (case env ''JWT_ALGORITHM'' of None \<Rightarrow> ''HS256'' | Some t \<Rightarrow> t)"
  "read_settings rd env gateway_table = Inr gvs \<Longrightarrow> text_of gvs ''jwt_audience'' = (case env ''JWT_AUDIENCE'' of None \<Rightarrow> ''substy'' | Some t \<Rightarrow> t)"
  "read_settings rd env gateway_table = Inr gvs \<Longrightarrow> text_of gvs ''jwt_issuer'' = (case env ''JWT_ISSUER'' of None \<Rightarrow> ''auth-service'' | Some t \<Rightarrow> t)"
  "read_settings rd env gateway_table = Inr gvs \<Longrightarrow> text_of gvs ''jwt_secret'' =
     (case env ''JWT_SECRET'' of None \<Rightarrow> ''change-me-super-secret-at-least-32-bytes'' | Some t \<Rightarrow> t)"
  by (erule text_setting, simp add: tables, simp add: tables_distinct)+

section \<open>The URL of the database\<close>

text \<open>\<open>urllib.parse.quote(text, safe="")\<close>.\<close>

definition always_safe :: string where
  "always_safe = ''ABCDEFGHIJKLMNOPQRSTUVWXYZabcdefghijklmnopqrstuvwxyz0123456789_.-~''"

definition upper_hex :: "nat \<Rightarrow> char" where
  "upper_hex n = ''0123456789ABCDEF'' ! n"

definition quote_byte :: "char \<Rightarrow> string" where
  "quote_byte b = (if b \<in> set always_safe then [b]
     else [CHR ''%'', upper_hex (of_char b div 16), upper_hex (of_char b mod 16)])"

definition quote :: "string \<Rightarrow> string" where
  "quote s = concat (map quote_byte (encode_utf8 s))"

definition database_dsn :: "(string \<times> setting_value) list \<Rightarrow> string" where
  "database_dsn vs = ''postgresql://'' @ quote (text_of vs ''db_user'') @ '':'' @ quote (text_of vs ''db_password'') @
     ''@'' @ text_of vs ''db_host'' @ '':'' @ int_text (int_of vs ''db_port'') @ ''/'' @ quote (text_of vs ''db_name'')"

text \<open>
  How \<open>urllib.parse\<close> takes such a URL apart after its \<open>//\<close>, for a text without tabs and line
  ends: the net location ends at the first of \<open>/?#\<close>, the path at the first of \<open>?#\<close>; the user
  information ends at the last \<open>@\<close> of the net location and is split at its first colon.
\<close>

definition after_scheme :: "string \<Rightarrow> string" where
  "after_scheme url = drop 3 (dropWhile (\<lambda>c. c \<noteq> CHR '':'') url)"

definition url_netloc :: "string \<Rightarrow> string" where
  "url_netloc rest = takeWhile (\<lambda>c. c \<notin> set ''/?#'') rest"

definition url_path :: "string \<Rightarrow> string" where
  "url_path rest = takeWhile (\<lambda>c. c \<notin> set ''?#'') (dropWhile (\<lambda>c. c \<notin> set ''/?#'') rest)"

definition url_userinfo :: "string \<Rightarrow> string" where
  "url_userinfo netloc = rev (drop 1 (dropWhile (\<lambda>c. c \<noteq> CHR ''@'') (rev netloc)))"

definition url_username :: "string \<Rightarrow> string" where
  "url_username userinfo = takeWhile (\<lambda>c. c \<noteq> CHR '':'') userinfo"

definition url_password :: "string \<Rightarrow> string" where
  "url_password userinfo = drop 1 (dropWhile (\<lambda>c. c \<noteq> CHR '':'') userinfo)"

fun percent_decode :: "string \<Rightarrow> string" where
  "percent_decode (c # a # b # s) =
     (case (digit_val a, digit_val b) of
        (Some x, Some y) \<Rightarrow> if c = CHR ''%'' then char_of (16 * x + y) # percent_decode s
                       else c # percent_decode (a # b # s)
      | _ \<Rightarrow> c # percent_decode (a # b # s))"
| "percent_decode s = s"

text \<open>\<open>urllib.parse.unquote\_to\_bytes\<close>.\<close>

definition unquote_to_bytes :: "string \<Rightarrow> string" where
  "unquote_to_bytes s = percent_decode (encode_utf8 s)"

definition delimiters :: string where
  "delimiters = ''/?#@:''"

lemma upper_hex_facts:
  "list_all (\<lambda>n. digit_val (upper_hex n) = Some n \<and> upper_hex n \<in> set always_safe) [0..<16]"
  by code_simp

lemma upper_hex_val: "n < 16 \<Longrightarrow> digit_val (upper_hex n) = Some n"
  using upper_hex_facts by (simp add: list_all_iff)

lemma upper_hex_safe: "n < 16 \<Longrightarrow> upper_hex n \<in> set always_safe"
  using upper_hex_facts by (simp add: list_all_iff)

lemma safe_facts: "list_all (\<lambda>c. c \<notin> set delimiters \<and> (of_char c :: nat) < 128 \<and> c \<noteq> CHR ''%'') always_safe"
  by code_simp

lemma byte_nibbles: "(of_char c :: nat) div 16 < 16" "(of_char c :: nat) mod 16 < 16"
proof -
  have "(of_char c :: nat) < 16 * 16" using nat_of_char_less_256 [of c] by simp
  then show "(of_char c :: nat) div 16 < 16" by (rule less_mult_imp_div_less)
qed simp

lemma quote_chars:
  assumes "c \<in> set (quote s)"
  shows "c \<notin> set delimiters \<and> (of_char c :: nat) < 128"
proof -
  obtain b where "c \<in> set (quote_byte b)" using assms by (auto simp: quote_def)
  then consider "c \<in> set always_safe" | "c = CHR ''%''"
    using upper_hex_safe [OF byte_nibbles(1)] upper_hex_safe [OF byte_nibbles(2)]
    by (auto simp: quote_byte_def split: if_splits)
  then show ?thesis
  proof cases
    case 1
    then show ?thesis using safe_facts by (simp add: list_all_iff)
  next
    case 2
    then show ?thesis by (simp add: delimiters_def)
  qed
qed

lemma percent_decode_plain: "c \<noteq> CHR ''%'' \<Longrightarrow> percent_decode (c # s) = c # percent_decode s"
  by (cases s rule: percent_decode.cases) (auto split: option.splits)

lemma percent_decode_quote: "percent_decode (concat (map quote_byte bs)) = bs"
proof (induction bs)
  case (Cons b bs)
  show ?case
  proof (cases "b \<in> set always_safe")
    case True
    then have "b \<noteq> CHR ''%''" using safe_facts by (auto simp: list_all_iff)
    then show ?thesis using True Cons by (simp add: quote_byte_def percent_decode_plain)
  next
    case False
    then show ?thesis
      using Cons by (simp add: quote_byte_def upper_hex_val [OF byte_nibbles(1)] upper_hex_val [OF byte_nibbles(2)])
  qed
qed simp

lemma encode_ascii: "\<forall>c \<in> set s. (of_char c :: nat) < 128 \<Longrightarrow> encode_utf8 s = s"
  by (induction s) (simp_all add: encode_utf8_def utf8_def)

lemma unquote_quote: "unquote_to_bytes (quote s) = encode_utf8 s"
  using quote_chars by (simp add: unquote_to_bytes_def encode_ascii quote_def percent_decode_quote)

lemma takeWhile_stop: "\<forall>c \<in> set xs. P c \<Longrightarrow> \<not> P y \<Longrightarrow> takeWhile P (xs @ y # ys) = xs"
  by (simp add: takeWhile_append2)

lemma dropWhile_stop: "\<forall>c \<in> set xs. P c \<Longrightarrow> \<not> P y \<Longrightarrow> dropWhile P (xs @ y # ys) = y # ys"
  by (simp add: dropWhile_append2)

lemma userinfo_split:
  assumes "CHR ''@'' \<notin> set host"
  shows "url_userinfo (user @ CHR ''@'' # host) = user"
proof -
  have "\<forall>c \<in> set (rev host). c \<noteq> CHR ''@''" using assms by auto
  then have "dropWhile (\<lambda>c. c \<noteq> CHR ''@'') (rev host @ CHR ''@'' # rev user) = CHR ''@'' # rev user"
    by (rule dropWhile_stop) simp
  then show ?thesis by (simp add: url_userinfo_def)
qed

lemma digits_plain: "list_all (\<lambda>d. digit_char d \<notin> set delimiters) [0..<10]" "CHR ''-'' \<notin> set delimiters"
  by code_simp+

lemma decimal_plain: "c \<in> set (decimal n) \<Longrightarrow> c \<notin> set delimiters"
proof (induction n rule: decimal.induct)
  case (1 n)
  then show ?case
    using digits_plain(1) by (auto simp: decimal.simps [of n] list_all_iff split: if_splits)
qed

lemma int_text_digits: "c \<in> set (int_text n) \<Longrightarrow> c \<notin> set delimiters"
  using decimal_plain digits_plain(2) by (auto simp: int_text_def split: if_splits)

lemma after_scheme_dsn: "after_scheme (''postgresql://'' @ rest) = rest"
  by (simp add: after_scheme_def)

section \<open>Properties\<close>

text \<open>
  C37: whatever characters the user, the password and the name of the database have, the URL
  that the services build from their settings gives exactly them back: \<open>urllib.parse\<close> splits it
  into parts that are decoded to their bytes. Of the host only the four delimiters are excluded.
\<close>

theorem dsn_names_credentials:
  assumes "\<forall>c \<in> set (text_of vs ''db_host''). c \<notin> set ''/?#@''"
  shows "let rest = after_scheme (database_dsn vs); user = url_userinfo (url_netloc rest)
    in unquote_to_bytes (url_username user) = encode_utf8 (text_of vs ''db_user'') \<and>
       unquote_to_bytes (url_password user) = encode_utf8 (text_of vs ''db_password'') \<and>
       unquote_to_bytes (drop 1 (url_path rest)) = encode_utf8 (text_of vs ''db_name'')"
proof -
  define u p h n where "u = quote (text_of vs ''db_user'')" and "p = quote (text_of vs ''db_password'')"
    and "h = text_of vs ''db_host'' @ '':'' @ int_text (int_of vs ''db_port'')" and "n = quote (text_of vs ''db_name'')"
  note q = u_def p_def n_def
  have plain: "\<forall>c \<in> set u. c \<notin> set delimiters" "\<forall>c \<in> set p. c \<notin> set delimiters" "\<forall>c \<in> set n. c \<notin> set delimiters"
    using quote_chars by (auto simp: q)
  have port: "\<forall>c \<in> set (int_text (int_of vs ''db_port'')). c \<notin> set delimiters" using int_text_digits by blast
  have host: "\<forall>c \<in> set h. c \<notin> set ''/?#@''"
    using assms port by (simp add: h_def delimiters_def ball_Un)
  let ?net = "u @ CHR '':'' # p @ CHR ''@'' # h"
  have rest: "after_scheme (database_dsn vs) = ?net @ CHR ''/'' # n"
    unfolding database_dsn_def after_scheme_dsn by (simp add: q h_def)
  have net: "\<forall>c \<in> set ?net. c \<notin> set ''/?#''" using plain(1,2) host by (simp add: delimiters_def ball_Un)
  have netloc: "url_netloc (?net @ CHR ''/'' # n) = ?net"
    unfolding url_netloc_def by (rule takeWhile_stop [OF net]) simp
  have "dropWhile (\<lambda>c. c \<notin> set ''/?#'') (?net @ CHR ''/'' # n) = CHR ''/'' # n"
    by (rule dropWhile_stop [OF net]) simp
  moreover have "takeWhile (\<lambda>c. c \<notin> set ''?#'') n = n" using plain(3) by (simp add: delimiters_def takeWhile_eq_all_conv)
  ultimately have path: "url_path (?net @ CHR ''/'' # n) = CHR ''/'' # n" by (simp add: url_path_def)
  have user: "url_userinfo ?net = u @ CHR '':'' # p"
    using userinfo_split [of h "u @ CHR '':'' # p"] host by auto
  have colon: "\<forall>c \<in> set u. c \<noteq> CHR '':''" using plain(1) by (simp add: delimiters_def)
  have "url_username (u @ CHR '':'' # p) = u"
    unfolding url_username_def by (rule takeWhile_stop [OF colon]) simp
  moreover have "dropWhile (\<lambda>c. c \<noteq> CHR '':'') (u @ CHR '':'' # p) = CHR '':'' # p"
    by (rule dropWhile_stop [OF colon]) simp
  then have "url_password (u @ CHR '':'' # p) = p" by (simp add: url_password_def)
  ultimately show ?thesis
    unfolding Let_def rest netloc user path by (simp add: unquote_quote q)
qed

definition sample_settings :: "(string \<times> setting_value) list" where
  "sample_settings = [(''db_host'', S_Text ''::1''), (''db_port'', S_Int 5432), (''db_name'', S_Text ''a?b''),
     (''db_user'', S_Text ''me@work''), (''db_password'', S_Text ''p/w:100%'')]"

theorem dsn_names_credentials_witness:
  "database_dsn sample_settings = ''postgresql://me%40work:p%2Fw%3A100%25@::1:5432/a%3Fb'' \<and>
   unquote_to_bytes (url_password (url_userinfo (url_netloc (after_scheme (database_dsn sample_settings))))) =
     encode_utf8 ''p/w:100%''"
proof -
  have host: "\<forall>c \<in> set (text_of sample_settings ''db_host''). c \<notin> set ''/?#@''" by code_simp
  have pw: "unquote_to_bytes (url_password (url_userinfo (url_netloc (after_scheme (database_dsn sample_settings))))) =
      encode_utf8 (text_of sample_settings ''db_password'')"
    using dsn_names_credentials [OF host] unfolding Let_def by (elim conjE)
  have password: "text_of sample_settings ''db_password'' = ''p/w:100%''" by code_simp
  have "quote ''me@work'' = ''me%40work''" "quote ''p/w:100%'' = ''p%2Fw%3A100%25''" "quote ''a?b'' = ''a%3Fb''"
    by code_simp+
  moreover have "digit_char 5 = CHR ''5''" "digit_char 4 = CHR ''4''" "digit_char 3 = CHR ''3''" "digit_char 2 = CHR ''2''"
    by code_simp+
  ultimately have "database_dsn sample_settings = ''postgresql://me%40work:p%2Fw%3A100%25@::1:5432/a%3Fb''"
    by (simp add: database_dsn_def sample_settings_def text_of_def int_of_def dict_get_def int_text_def decimal.simps)
  then show ?thesis using pw password by (simp only: simp_thms)
qed

text \<open>The variable of every field is the name of the field in upper case.\<close>

lemma table_variables:
  "list_all (list_all (\<lambda>(name, ty, fallback, alias). py_lower alias = name)) platform_tables"
proof -
  have "map py_lower_char ''ABCDEFGHIJKLMNOPQRSTUVWXYZ_'' = ''abcdefghijklmnopqrstuvwxyz_''" by code_simp
  then show ?thesis by (simp add: platform_tables_def tables py_lower_def)
qed

definition service_url :: "(string \<times> setting_value) list \<Rightarrow> string" where
  "service_url vs = ''http://'' @ text_of vs ''app_name'' @ '':'' @ int_text (int_of vs ''app_port'')"

text \<open>The value of a field that a table has.\<close>

definition has_default :: "setting_field list \<Rightarrow> string \<Rightarrow> setting_value \<Rightarrow> bool" where
  "has_default fs k v \<longleftrightarrow> list_ex (\<lambda>(name, ty, fallback, alias). name = k \<and> fallback = v) fs"

lemma configured_get:
  assumes "distinct (map fst fs)" and "has_default fs k v"
  shows "dict_get (configured given fs) k = Some (case given k of None \<Rightarrow> v | Some v' \<Rightarrow> v')"
  using assms by (induction fs) (auto simp: has_default_def configured_def dict_get_def list_ex_iff rev_image_eqI)

lemma table_defaults:
  "has_default auth_table ''app_name'' (S_Text ''auth-service'')" "has_default auth_table ''app_port'' (S_Int 8080)"
  "has_default subscriptions_table ''app_name'' (S_Text ''subscriptions-service'')"
  "has_default subscriptions_table ''app_port'' (S_Int 8090)"
  "has_default notifications_table ''app_name'' (S_Text ''notifications-service'')"
  "has_default notifications_table ''app_port'' (S_Int 8091)"
  "has_default gateway_table ''auth_service_url'' (S_Text ''http://auth-service:8080'')"
  "has_default gateway_table ''subscriptions_service_url'' (S_Text ''http://subscriptions-service:8090'')"
  "has_default gateway_table ''notifications_service_url'' (S_Text ''http://notifications-service:8091'')"
  "has_default delivery_table ''subscriptions_internal_url'' (S_Text ''http://subscriptions-service:8090'')"
  by (simp_all add: has_default_def tables)

lemmas table_gets = table_defaults [THEN configured_get [rotated]]

lemma default_addresses:
  assumes "\<forall>k \<in> set [''app_name'', ''app_port'', ''auth_service_url'', ''subscriptions_service_url'',
      ''notifications_service_url'', ''subscriptions_internal_url'']. given k = None"
  shows "text_of (configured given gateway_table) ''auth_service_url'' = service_url (configured given auth_table) \<and>
    text_of (configured given gateway_table) ''subscriptions_service_url'' = service_url (configured given subscriptions_table) \<and>
    text_of (configured given gateway_table) ''notifications_service_url'' = service_url (configured given notifications_table) \<and>
    text_of (configured given delivery_table) ''subscriptions_internal_url'' = service_url (configured given subscriptions_table)"
proof -
  have ports: "int_text 8080 = ''8080''" "int_text 8090 = ''8090''" "int_text 8091 = ''8091''"
  proof -
    have "map digit_char [0, 1, 8, 9] = ''0189''" by code_simp
    then show "int_text 8080 = ''8080''" "int_text 8090 = ''8090''" "int_text 8091 = ''8091''"
      by (simp_all add: int_text_def decimal.simps)
  qed
  show ?thesis using assms
    by (simp add: service_url_def text_of_def int_of_def ports table_gets tables_distinct)
qed

lemma shared_defaults:
  "list_all (\<lambda>(k, v). has_default notifications_table k (S_Text v) \<and> has_default delivery_table k (S_Text v))
    [(''nats_url'', ''nats://nats:4222''), (''nats_stream_name'', ''NOTIFICATIONS''),
     (''nats_subject_notification_created'', ''notification.created.v1'')]"
  "list_all (\<lambda>(k, v). has_default auth_table k (S_Text v) \<and> has_default gateway_table k (S_Text v))
    [(''jwt_algorithm'', ''HS256''), (''jwt_issuer'', ''auth-service''), (''jwt_audience'', ''substy'')]"
  by (simp_all add: has_default_def tables)

lemma shared_names:
  "\<forall>k \<in> set [''nats_url'', ''nats_stream_name'', ''nats_subject_notification_created''].
    dict_get (configured given notifications_table) k = dict_get (configured given delivery_table) k"
  "\<forall>k \<in> set [''jwt_algorithm'', ''jwt_issuer'', ''jwt_audience''].
    dict_get (configured given auth_table) k = dict_get (configured given gateway_table) k"
proof -
  have same: "\<forall>k \<in> set (map fst ks). dict_get (configured given a) k = dict_get (configured given b) k"
    if "list_all (\<lambda>(k, v). has_default a k (S_Text v) \<and> has_default b k (S_Text v)) ks"
      and "distinct (map fst a)" and "distinct (map fst b)" for a b ks
    using that by (induction ks) (auto simp: configured_get)
  show "\<forall>k \<in> set [''nats_url'', ''nats_stream_name'', ''nats_subject_notification_created''].
      dict_get (configured given notifications_table) k = dict_get (configured given delivery_table) k"
    "\<forall>k \<in> set [''jwt_algorithm'', ''jwt_issuer'', ''jwt_audience''].
      dict_get (configured given auth_table) k = dict_get (configured given gateway_table) k"
    using same [OF shared_defaults(1)] same [OF shared_defaults(2)] tables_distinct by simp_all
qed

text \<open>
  C38: an environment that names some fields, each by its name in upper case, gives every service
  exactly these values, and its defaults for its other fields. In a deployment with one
  environment the notifications and the delivery service then have the same NATS server, stream
  and subject, and the auth service and the gateway the same algorithm, issuer and audience;
  with the default names, ports and URLs each service is called where it listens.
\<close>

theorem settings_from_environment:
  assumes "\<forall>table \<in> set platform_tables. fits rd given table"
  shows "(\<forall>table \<in> set platform_tables. read_settings rd (environment_of given) table = Inr (configured given table)) \<and>
    (\<forall>k \<in> set [''nats_url'', ''nats_stream_name'', ''nats_subject_notification_created''].
      dict_get (configured given notifications_table) k = dict_get (configured given delivery_table) k) \<and>
    (\<forall>k \<in> set [''jwt_algorithm'', ''jwt_issuer'', ''jwt_audience''].
      dict_get (configured given auth_table) k = dict_get (configured given gateway_table) k) \<and>
    ((\<forall>k \<in> set [''app_name'', ''app_port'', ''auth_service_url'', ''subscriptions_service_url'',
        ''notifications_service_url'', ''subscriptions_internal_url'']. given k = None) \<longrightarrow>
      text_of (configured given gateway_table) ''auth_service_url'' = service_url (configured given auth_table) \<and>
      text_of (configured given gateway_table) ''subscriptions_service_url'' = service_url (configured given subscriptions_table) \<and>
      text_of (configured given gateway_table) ''notifications_service_url'' = service_url (configured given notifications_table) \<and>
      text_of (configured given delivery_table) ''subscriptions_internal_url'' = service_url (configured given subscriptions_table))"
proof -
  have "read_settings rd (environment_of given) table = Inr (configured given table)"
    if "table \<in> set platform_tables" for table
  proof (rule read_settings_configured)
    show "list_all (\<lambda>(name, ty, fallback, alias). py_lower alias = name) table"
      using table_variables that by (simp only: list_all_iff [of _ platform_tables])
    show "fits rd given table" using assms that by blast
  qed
  then show ?thesis using shared_names [of given] default_addresses [of given] by blast
qed

text \<open>
  C36: an access token that the auth service creates is accepted by the gateway of the same
  deployment exactly when the environment names the secret: the two services have different
  defaults for it. The hypotheses on the JWT library are that it checks the signature, the issuer,
  the audience and the life time of the token.
\<close>

theorem gateway_accepts_with_shared_secret:
  assumes auth: "read_settings rd env auth_table = Inr avs" and gateway: "read_settings rd env gateway_table = Inr gvs"
    and hmac: "case env ''JWT_ALGORITHM'' of None \<Rightarrow> True | Some alg \<Rightarrow> take 2 alg \<noteq> ''RS''"
    and token: "create_access_token lib (auth_settings_of avs) (str_uuid u) w = (Inr (token, ttl), w')" "is_uuid u"
    and library: "\<forall>at key. gl_decode glib at
        (al_encode lib (access_claims (auth_settings_of avs) (aw_clock w) (str_uuid u))
          (as_jwt_secret (auth_settings_of avs)) (as_jwt_algorithm (auth_settings_of avs)))
        key (as_jwt_algorithm (auth_settings_of avs)) (as_jwt_audience (auth_settings_of avs))
        (as_jwt_issuer (auth_settings_of avs)) =
      (if key = as_jwt_secret (auth_settings_of avs) \<and> timestamp (aw_clock w) * 1000000 \<le> at \<and>
          at < timestamp (aw_clock w + as_access_ttl_minutes (auth_settings_of avs) * 60000000) * 1000000
       then Claims (access_claims (auth_settings_of avs) (aw_clock w) (str_uuid u)) else Invalid_Token)"
    and time: "timestamp (aw_clock w) * 1000000 \<le> now"
      "now < timestamp (aw_clock w + as_access_ttl_minutes (auth_settings_of avs) * 60000000) * 1000000"
  shows "verify_token glib (gateway_settings_of gvs) now token =
    (if env ''JWT_SECRET'' = None then Inl invalid_access_token else Inr \<lparr>id_user_id = u, id_roles = []\<rparr>)"
proof -
  let ?a = "auth_settings_of avs" and ?g = "gateway_settings_of gvs"
  have same: "gs_jwt_algorithm ?g = as_jwt_algorithm ?a" "gs_jwt_audience ?g = as_jwt_audience ?a"
      "gs_jwt_issuer ?g = as_jwt_issuer ?a"
    and secrets: "as_jwt_secret ?a = (case env ''JWT_SECRET'' of None \<Rightarrow> ''change-me-super-secret'' | Some t \<Rightarrow> t)"
      "gs_jwt_secret ?g = (case env ''JWT_SECRET'' of None \<Rightarrow> ''change-me-super-secret-at-least-32-bytes'' | Some t \<Rightarrow> t)"
    and alg: "as_jwt_algorithm ?a = (case env ''JWT_ALGORITHM'' of None \<Rightarrow> ''HS256'' | Some t \<Rightarrow> t)"
    by (simp_all add: auth_settings_of_def gateway_settings_of_def jwt_fields(1-4) [OF auth] jwt_fields(5-8) [OF gateway])
  have plain: "take 2 (as_jwt_algorithm ?a) \<noteq> ''RS''" using hmac by (auto simp: alg split: option.splits)
  then have "token = al_encode lib (access_claims ?a (aw_clock w) (str_uuid u)) (as_jwt_secret ?a) (as_jwt_algorithm ?a)"
    using token(1) by (auto simp: create_access_token_def jwt_keys_def and_then_run lift_run gets_run ret_run)
  with library time have decoded: "gl_decode glib now token key (as_jwt_algorithm ?a) (as_jwt_audience ?a) (as_jwt_issuer ?a) =
      (if key = as_jwt_secret ?a then Claims (access_claims ?a (aw_clock w) (str_uuid u)) else Invalid_Token)" for key
    by simp
  have key: "verifier_key ?g = Inr (gs_jwt_secret ?g)" using plain by (simp add: verifier_key_def same)
  have "gs_jwt_secret ?g = as_jwt_secret ?a \<longleftrightarrow> env ''JWT_SECRET'' \<noteq> None" by (simp add: secrets split: option.split)
  moreover have "dict_get (access_claims ?a (aw_clock w) (str_uuid u)) ''sub'' = Some (JStr (str_uuid u))"
    by (simp add: access_claims_def dict_get_def)
  ultimately show ?thesis
    by (simp add: verify_token_def key same decoded falsy_def str_uuid_nonempty py_str_def parse_str_uuid token(2) no_roles)
qed

text \<open>An environment with one variable, integers that are never read, and a token as PyJWT reads it.\<close>

definition secret_env :: "string option \<Rightarrow> environment" where
  "secret_env t = (\<lambda>name. if name = ''JWT_SECRET'' then t else None)"

definition sample_text_readers :: text_readers where
  "sample_text_readers = \<lparr>tr_int = (\<lambda>_. None), tr_flag = (\<lambda>_. None), tr_float = (\<lambda>_. None)\<rparr>"

definition checking_library :: "string \<Rightarrow> gateway_library" where
  "checking_library secret = sample_gateway_library\<lparr>gl_decode := \<lambda>at t key alg aud iss.
     if t = ''jwt'' \<and> key = secret \<and> 5000000 \<le> at \<and> at < 905000000
     then Claims (access_claims default_auth_settings 5000000 (str_uuid 7)) else Invalid_Token\<rparr>"

text \<open>An environment with a user and a port of the database, and a reader of decimal integers.\<close>

definition sample_given :: "string \<Rightarrow> setting_value option" where
  "sample_given = map_of [(''db_user'', S_Text ''me''), (''db_port'', S_Int 7)]"

definition decimal_readers :: text_readers where
  "decimal_readers = sample_text_readers\<lparr>tr_int := \<lambda>t. case py_int t of Inl _ \<Rightarrow> None | Inr n \<Rightarrow> Some n\<rparr>"

theorem settings_from_environment_witness:
  "let vs = configured sample_given auth_table
   in read_settings decimal_readers (environment_of sample_given) auth_table = Inr vs \<and>
     environment_of sample_given ''DB_USER'' = Some ''me'' \<and> environment_of sample_given ''DB_PORT'' = Some ''7'' \<and>
     text_of vs ''db_user'' = ''me'' \<and> int_of vs ''db_port'' = 7 \<and> text_of vs ''db_name'' = ''auth'' \<and>
     text_of (configured sample_given gateway_table) ''auth_service_url'' = ''http://auth-service:8080''"
proof -
  have "tr_int decimal_readers (int_text 7) = Some 7" by code_simp
  then have "reads_back decimal_readers (S_Text ''me'')" "reads_back decimal_readers (S_Int 7)"
    by (simp_all add: reads_back_def)
  moreover have "list_all (list_all (\<lambda>(name, ty, fallback, alias).
      (name = ''db_user'' \<longrightarrow> ty = T_Text) \<and> (name = ''db_port'' \<longrightarrow> ty = T_Int))) platform_tables"
    by (simp add: platform_tables_def tables)
  then have "\<forall>table \<in> set platform_tables. \<forall>(name, ty, fallback, alias) \<in> set table.
      (name = ''db_user'' \<longrightarrow> ty = T_Text) \<and> (name = ''db_port'' \<longrightarrow> ty = T_Int)"
    by (auto simp: list_all_iff)
  ultimately have "\<forall>table \<in> set platform_tables. fits decimal_readers sample_given table"
    by (fastforce simp: fits_def sample_given_def has_type_def split: if_splits)
  from settings_from_environment [OF this]
  have "read_settings decimal_readers (environment_of sample_given) auth_table = Inr (configured sample_given auth_table)"
    by (simp add: platform_tables_def)
  moreover have "py_lower ''DB_USER'' = ''db_user''" "py_lower ''DB_PORT'' = ''db_port''" "int_text 7 = ''7''"
    by code_simp+
  then have "environment_of sample_given ''DB_USER'' = Some ''me''" "environment_of sample_given ''DB_PORT'' = Some ''7''"
    by (simp_all add: environment_of_def sample_given_def written_def)
  moreover have "has_default auth_table ''db_user'' (S_Text ''auth'')" "has_default auth_table ''db_port'' (S_Int 5432)"
    "has_default auth_table ''db_name'' (S_Text ''auth'')"
    by (simp_all add: has_default_def tables)
  note this [THEN configured_get [rotated]] table_gets(7)
  then have "text_of (configured sample_given auth_table) ''db_user'' = ''me''"
    "int_of (configured sample_given auth_table) ''db_port'' = 7"
    "text_of (configured sample_given auth_table) ''db_name'' = ''auth''"
    "text_of (configured sample_given gateway_table) ''auth_service_url'' = ''http://auth-service:8080''"
    by (simp_all add: text_of_def int_of_def tables_distinct sample_given_def)
  ultimately show ?thesis unfolding Let_def by (intro conjI)
qed

lemma sample_auth_read:
  "map_sum id auth_settings_of (read_settings sample_text_readers (secret_env None) auth_table) = Inr default_auth_settings"
  "map_sum id auth_settings_of (read_settings sample_text_readers (secret_env (Some key)) auth_table) =
     Inr (default_auth_settings\<lparr>as_jwt_secret := key\<rparr>)"
  by code_simp+

lemma sample_gateway_read:
  "map_sum id length (read_settings sample_text_readers (secret_env None) gateway_table) = Inr 32"
  "map_sum id length (read_settings sample_text_readers (secret_env (Some key)) gateway_table) = Inr 32"
  by code_simp+

lemma sample_started:
  "\<exists>avs gvs. read_settings sample_text_readers (secret_env t) auth_table = Inr avs \<and>
    read_settings sample_text_readers (secret_env t) gateway_table = Inr gvs \<and>
    auth_settings_of avs = (case t of None \<Rightarrow> default_auth_settings
      | Some key \<Rightarrow> default_auth_settings\<lparr>as_jwt_secret := key\<rparr>)"
proof -
  have "map_sum id auth_settings_of (read_settings sample_text_readers (secret_env t) auth_table) =
      Inr (case t of None \<Rightarrow> default_auth_settings | Some key \<Rightarrow> default_auth_settings\<lparr>as_jwt_secret := key\<rparr>)"
    using sample_auth_read by (cases t) simp_all
  moreover have "map_sum id length (read_settings sample_text_readers (secret_env t) gateway_table) = Inr 32"
    using sample_gateway_read by (cases t) simp_all
  ultimately show ?thesis
    by (cases "read_settings sample_text_readers (secret_env t) auth_table";
        cases "read_settings sample_text_readers (secret_env t) gateway_table") auto
qed

theorem gateway_accepts_with_shared_secret_witness:
  "(\<exists>avs gvs. read_settings sample_text_readers (secret_env (Some ''s'')) auth_table = Inr avs \<and>
     read_settings sample_text_readers (secret_env (Some ''s'')) gateway_table = Inr gvs \<and>
     verify_token (checking_library ''s'') (gateway_settings_of gvs) 6000000 ''jwt'' =
       Inr \<lparr>id_user_id = 7, id_roles = []\<rparr>) \<and>
   (\<exists>avs gvs. read_settings sample_text_readers (secret_env None) auth_table = Inr avs \<and>
     read_settings sample_text_readers (secret_env None) gateway_table = Inr gvs \<and>
     verify_token (checking_library ''change-me-super-secret'') (gateway_settings_of gvs) 6000000 ''jwt'' =
       Inl invalid_access_token)"
proof -
  have result: "\<exists>avs gvs. read_settings sample_text_readers (secret_env t) auth_table = Inr avs \<and>
      read_settings sample_text_readers (secret_env t) gateway_table = Inr gvs \<and>
      verify_token (checking_library key) (gateway_settings_of gvs) 6000000 ''jwt'' =
        (if t = None then Inl invalid_access_token else Inr \<lparr>id_user_id = 7, id_roles = []\<rparr>)"
    if key: "key = (case t of None \<Rightarrow> ''change-me-super-secret'' | Some k \<Rightarrow> k)" for t key
  proof -
    obtain avs gvs where read: "read_settings sample_text_readers (secret_env t) auth_table = Inr avs"
        "read_settings sample_text_readers (secret_env t) gateway_table = Inr gvs"
      and s: "auth_settings_of avs = (case t of None \<Rightarrow> default_auth_settings
        | Some key \<Rightarrow> default_auth_settings\<lparr>as_jwt_secret := key\<rparr>)"
      using sample_started by blast
    let ?s = "auth_settings_of avs" and ?w = "sample_auth []"
    have fields: "as_jwt_algorithm ?s = ''HS256''" "as_jwt_secret ?s = key" "as_access_ttl_minutes ?s = 15"
        "access_claims ?s now sub = access_claims default_auth_settings now sub" for now sub
      by (simp_all add: s key default_auth_settings_def access_claims_def split: option.split)
    have clock: "aw_clock ?w = 5000000" by (simp add: sample_auth_def)
    have hmac: "case secret_env t ''JWT_ALGORITHM'' of None \<Rightarrow> True | Some alg \<Rightarrow> take 2 alg \<noteq> ''RS''"
      by (simp add: secret_env_def)
    have token: "create_access_token sample_library ?s (str_uuid 7) ?w = (Inr (''jwt'', 900), ?w)"
      by (simp add: create_access_token_def jwt_keys_def and_then_run lift_run gets_run ret_run fields sample_library_def)
    have "\<forall>at k. gl_decode (checking_library key) at
        (al_encode sample_library (access_claims ?s (aw_clock ?w) (str_uuid 7)) (as_jwt_secret ?s) (as_jwt_algorithm ?s))
        k (as_jwt_algorithm ?s) (as_jwt_audience ?s) (as_jwt_issuer ?s) =
      (if k = as_jwt_secret ?s \<and> timestamp (aw_clock ?w) * 1000000 \<le> at \<and>
          at < timestamp (aw_clock ?w + as_access_ttl_minutes ?s * 60000000) * 1000000
       then Claims (access_claims ?s (aw_clock ?w) (str_uuid 7)) else Invalid_Token)"
      by (simp add: checking_library_def sample_library_def fields clock timestamp_def)
    from gateway_accepts_with_shared_secret [OF read hmac token _ this, of 6000000] read
    show ?thesis by (auto simp: is_uuid_def fields clock timestamp_def secret_env_def)
  qed
  show ?thesis using result [of "''s''" "Some ''s''"] result [of "''change-me-super-secret''" None] by simp
qed

end
