(* ===== verification/Applications.thy ===== *)
theory Applications
  imports Delivery_Fanout
begin

text \<open>
  The processes as their \<open>main.py\<close>, \<open>core/container.py\<close>, \<open>infrastructure/containers.py\<close>,
  \<open>workers/arq\_worker.py\<close> and \<open>consumers/run\_consumer.py\<close> put them together: what they open when
  they start, what they close when they end, and the loop of the consumer between the two.
\<close>

section \<open>Parts that are opened and closed\<close>

text \<open>Whether a part starts and whether it closes is a parameter; a part that is not open is left alone.\<close>

datatype part = Pool | Redis_Client | Nats_Connection | Http_Client | Arq_Client | Outbox_Worker

record wiring =
  wi_starts :: "part \<Rightarrow> bool"
  wi_closes :: "part \<Rightarrow> bool"

record 'w app =
  ap_open :: "part list"
  ap_world :: 'w


definition open_part :: "wiring \<Rightarrow> part \<Rightarrow> ('w app, unit) eff" where
  "open_part wr r = (\<lambda>a. if wi_starts wr r then (Inr (), a\<lparr>ap_open := ap_open a @ [r]\<rparr>)
     else (Inl (Runtime_Error ''startup''), a))"

definition close_part :: "wiring \<Rightarrow> part \<Rightarrow> ('w app, unit) eff" where
  "close_part wr r = (\<lambda>a. if r \<notin> set (ap_open a) then (Inr (), a)
     else if wi_closes wr r then (Inr (), a\<lparr>ap_open := removeAll r (ap_open a)\<rparr>)
     else (Inl (Runtime_Error ''shutdown''), a))"

text \<open>\<open>try: m finally: c\<close>: an exception of \<open>c\<close> replaces the outcome of \<open>m\<close>.\<close>

definition try_finally :: "('w, 'a) eff \<Rightarrow> ('w, unit) eff \<Rightarrow> ('w, 'a) eff" where
  "try_finally m c = (\<lambda>w. let (r, w') = m w in case c w' of
     (Inl e, w'') \<Rightarrow> (Inl e, w'') | (Inr _, w'') \<Rightarrow> (r, w''))"

text \<open>A start-up that raises is outside the \<open>try\<close>: nothing is closed then.\<close>

definition with_parts :: "wiring \<Rightarrow> part list \<Rightarrow> part list \<Rightarrow> ('w app, 'a) eff \<Rightarrow> ('w app, 'a) eff" where
  "with_parts wr up down body =
     seq (for_each (open_part wr) up) (try_finally body (for_each (close_part wr) down))"

section \<open>The processes\<close>

definition auth_startup :: "part list" where
  "auth_startup = [Pool, Redis_Client, Nats_Connection]"

definition auth_shutdown :: "part list" where
  "auth_shutdown = [Nats_Connection, Redis_Client, Pool]"

definition auth_lifespan :: "wiring \<Rightarrow> ('w app, 'a) eff \<Rightarrow> ('w app, 'a) eff" where
  "auth_lifespan wr = with_parts wr auth_startup auth_shutdown"

definition subscriptions_lifespan :: "wiring \<Rightarrow> ('w app, 'a) eff \<Rightarrow> ('w app, 'a) eff" where
  "subscriptions_lifespan wr = with_parts wr [Pool] [Pool]"

definition notifications_lifespan :: "bool \<Rightarrow> wiring \<Rightarrow> ('w app, 'a) eff \<Rightarrow> ('w app, 'a) eff" where
  "notifications_lifespan outbox_worker_enabled wr =
     with_parts wr ([Pool, Nats_Connection] @ (if outbox_worker_enabled then [Outbox_Worker] else []))
       ((if outbox_worker_enabled then [Outbox_Worker] else []) @ [Nats_Connection, Pool])"

definition build_container :: "part list" where
  "build_container = [Pool, Redis_Client, Nats_Connection, Http_Client]"

definition shutdown_container :: "part list" where
  "shutdown_container = [Http_Client, Nats_Connection, Redis_Client, Pool]"

definition delivery_lifespan :: "wiring \<Rightarrow> ('w app, 'a) eff \<Rightarrow> ('w app, 'a) eff" where
  "delivery_lifespan wr = with_parts wr build_container shutdown_container"

definition worker_process :: "wiring \<Rightarrow> ('w app, 'a) eff \<Rightarrow> ('w app, 'a) eff" where
  "worker_process wr = with_parts wr (build_container @ [Arq_Client]) (Arq_Client # shutdown_container)"

definition gateway_lifespan :: "wiring \<Rightarrow> ('w app, 'a) eff \<Rightarrow> ('w app, 'a) eff" where
  "gateway_lifespan wr = with_parts wr [Http_Client, Redis_Client] [Http_Client, Redis_Client]"

section \<open>The consumer\<close>





section \<open>Opening and closing\<close>

lemma try_finally_run:
  "try_finally m c w = (case c (snd (m w)) of (Inl e, w'') \<Rightarrow> (Inl e, w'') | (Inr _, w'') \<Rightarrow> (fst (m w), w''))"
  by (simp add: try_finally_def Let_def split_beta)


lemma open_all:
  assumes "\<forall>r \<in> set up. wi_starts wr r"
  shows "for_each (open_part wr) up a = (Inr (), a\<lparr>ap_open := ap_open a @ up\<rparr>)"
  using assms by (induction up arbitrary: a) (simp_all add: ret_run seq_run open_part_def)

lemma open_stops:
  assumes "\<forall>r \<in> set up. wi_starts wr r" and "\<not> wi_starts wr r"
  shows "for_each (open_part wr) (up @ r # rest) a =
    (Inl (Runtime_Error ''startup''), a\<lparr>ap_open := ap_open a @ up\<rparr>)"
  using assms by (induction up arbitrary: a) (simp_all add: seq_run open_part_def)

lemma close_all:
  assumes "\<forall>r \<in> set down. wi_closes wr r"
  shows "for_each (close_part wr) down a = (Inr (), a\<lparr>ap_open := filter (\<lambda>r. r \<notin> set down) (ap_open a)\<rparr>)"
  using assms
proof (induction down arbitrary: a)
  case (Cons r down)
  have "removeAll r xs = filter (\<lambda>r'. r' \<noteq> r) xs" for xs by (induction xs) auto
  moreover have "filter (\<lambda>r'. r' \<noteq> r) (ap_open a) = ap_open a" if "r \<notin> set (ap_open a)"
    using that by (auto simp: filter_id_conv)
  ultimately have "close_part wr r a = (Inr (), a\<lparr>ap_open := filter (\<lambda>r'. r' \<noteq> r) (ap_open a)\<rparr>)"
    using Cons.prems by (simp add: close_part_def)
  then show ?case using Cons by (simp add: seq_run conj_commute)
qed (simp add: ret_run)

text \<open>
  A process whose parts start closes them all, whatever its body does; one whose start-up fails
  leaves what it had opened open, and its body does not run.
\<close>

lemma with_parts_closes:
  assumes "\<forall>r \<in> set up. wi_starts wr r" and "\<forall>r \<in> set down. wi_closes wr r" and "set down = set up"
    and "\<And>a. ap_open (snd (body a)) = ap_open a"
  shows "with_parts wr up down body a = (let (r, a') = body (a\<lparr>ap_open := ap_open a @ up\<rparr>)
    in (r, a'\<lparr>ap_open := filter (\<lambda>r. r \<notin> set up) (ap_open a)\<rparr>))"
  using assms(4) [of "a\<lparr>ap_open := ap_open a @ up\<rparr>"]
  by (simp add: with_parts_def seq_run open_all [OF assms(1)] try_finally_run close_all [OF assms(2)] assms(3)
      Let_def split_beta)

lemma with_parts_leaks:
  assumes "\<forall>r \<in> set up. wi_starts wr r" and "\<not> wi_starts wr r"
  shows "with_parts wr (up @ r # rest) down body a =
    (Inl (Runtime_Error ''startup''), a\<lparr>ap_open := ap_open a @ up\<rparr>)"
  by (simp add: with_parts_def seq_run open_stops [OF assms])

text \<open>The auth service without its NATS server, which no request needs, does not start.\<close>

lemma auth_needs_nats:
  assumes "wi_starts wr Pool" and "wi_starts wr Redis_Client" and "\<not> wi_starts wr Nats_Connection"
  shows "auth_lifespan wr body a =
    (Inl (Runtime_Error ''startup''), a\<lparr>ap_open := ap_open a @ [Pool, Redis_Client]\<rparr>)"
  using with_parts_leaks [of "[Pool, Redis_Client]" wr Nats_Connection "[]"] assms
  by (simp add: auth_lifespan_def auth_startup_def)

section \<open>The run of the consumer\<close>











section \<open>Properties\<close>






end
