(* ===== verification/Service_Http.thy ===== *)
theory Service_Http
  imports Gateway_Http Quiet_Hours
begin

text \<open>
  What the HTTP applications of the services behind the gateway share: how FastAPI and pydantic
  read a request, the responses of their endpoints and exception handlers, and the middleware
  that gives a request its identifier. A request is a call that the gateway or the delivery
  service made; the names of its headers are compared as the server does, whatever their case.
\<close>

section \<open>Reading a request\<close>

text \<open>
  \<open>ab_path\<close> is the path that reaches the routes when a client of httpx is given one,
  \<open>ab_body\<close> what FastAPI makes of the content with these headers: no body, bytes that are no
  JSON, or a value. The next fields read a JSON value as a UUID, a Boolean, a time of day and a
  date, and a query parameter as an integer. \<open>ab_credentials\<close> is \<open>HTTPBearer(auto_error=False)\<close>,
  \<open>ab_unrouted\<close> what Starlette answers when no route has the path and the method, and
  \<open>ab_write_datetime\<close> the text that pydantic writes for a date.
\<close>

datatype body_read = No_Body | Bad_Body | Body json

record app_library =
  ab_path :: "string \<Rightarrow> string"
  ab_body :: "pairs \<Rightarrow> content \<Rightarrow> body_read"
  ab_uuid :: "json \<Rightarrow> uuid option"
  ab_flag :: "json \<Rightarrow> bool option"
  ab_time :: "json \<Rightarrow> int option"
  ab_datetime :: "json \<Rightarrow> py_datetime option"
  ab_int :: "string \<Rightarrow> int option"
  ab_credentials :: "string option \<Rightarrow> (string \<times> string) option"
  ab_unrouted :: "call \<Rightarrow> http_response"
  ab_write_datetime :: "instant \<Rightarrow> string"
  ab_readers :: readers

text \<open>The readers take what the services of the platform write.\<close>

definition time_text :: "int \<Rightarrow> string" where
  "time_text t = (let s = t div 1000000; frac = t mod 1000000
     in dec 2 (s div 3600) @ '':'' @ dec 2 (s div 60 mod 60) @ '':'' @ dec 2 (s mod 60) @
        (if frac = 0 then [] else ''.'' @ dec 6 frac))"

definition time_of_day_ok :: "int \<Rightarrow> bool" where
  "time_of_day_ok t \<longleftrightarrow> 0 \<le> t \<and> t < micros_per_day"

definition path_char :: "char \<Rightarrow> bool" where
  "path_char c \<longleftrightarrow> (let n = of_char c :: nat in
     97 \<le> n \<and> n \<le> 122 \<or> 48 \<le> n \<and> n \<le> 57 \<or> n = 45 \<or> n = 47)"

definition reads_platform :: "app_library \<Rightarrow> bool" where
  "reads_platform lib \<longleftrightarrow>
     (\<forall>p. list_all path_char p \<longrightarrow> ab_path lib p = p) \<and>
     (\<forall>hs v. header ''content-type'' hs = Some ''application/json'' \<longrightarrow> ab_body lib hs (Json v) = Body v) \<and>
     (\<forall>u. is_uuid u \<longrightarrow> ab_uuid lib (JStr (str_uuid u)) = Some u) \<and>
     (\<forall>t. time_of_day_ok t \<longrightarrow> ab_time lib (JStr (time_text t)) = Some t) \<and>
     (\<forall>n \<ge> 0. ab_int lib (int_text n) = Some n)"

text \<open>The fields of a model: required, with a default, or nullable.\<close>

definition required :: "json_dict \<Rightarrow> string \<Rightarrow> (json \<Rightarrow> 'a option) \<Rightarrow> 'a option" where
  "required d k f = Option.bind (dict_get d k) f"

definition defaulted :: "'a \<Rightarrow> json_dict \<Rightarrow> string \<Rightarrow> (json \<Rightarrow> 'a option) \<Rightarrow> 'a option" where
  "defaulted x d k f = (case dict_get d k of None \<Rightarrow> Some x | Some v \<Rightarrow> f v)"

definition or_null :: "(json \<Rightarrow> 'a option) \<Rightarrow> json \<Rightarrow> 'a option option" where
  "or_null f v = (if v = JNull then Some None else map_option Some (f v))"

definition text_value :: "json \<Rightarrow> string option" where
  "text_value v = (case v of JStr t \<Rightarrow> Some t | _ \<Rightarrow> None)"

definition dict_of :: "json \<Rightarrow> json_dict option" where
  "dict_of v = (case v of JDict d \<Rightarrow> Some d | _ \<Rightarrow> None)"

fun all_some :: "('a \<Rightarrow> 'b option) \<Rightarrow> 'a list \<Rightarrow> 'b list option" where
  "all_some f [] = Some []"
| "all_some f (x # xs) = Option.bind (f x) (\<lambda>y. map_option ((#) y) (all_some f xs))"

definition list_value :: "(json \<Rightarrow> 'a option) \<Rightarrow> json \<Rightarrow> 'a list option" where
  "list_value f v = (case v of JList vs \<Rightarrow> all_some f vs | _ \<Rightarrow> None)"

text \<open>
  A query parameter: the last of its name. A \<open>limit\<close> that is no integer is refused with the same
  answer, at the same point, as one out of range; here it is read as 0, which is out of range.
\<close>

definition query_param :: "string \<Rightarrow> pairs \<Rightarrow> string option" where
  "query_param name qs = map_of (rev qs) name"

definition query_limit :: "app_library \<Rightarrow> int \<Rightarrow> call \<Rightarrow> int" where
  "query_limit lib fallback c = (case query_param ''limit'' (cl_query c) of
     None \<Rightarrow> fallback
   | Some t \<Rightarrow> (case ab_int lib t of None \<Rightarrow> 0 | Some n \<Rightarrow> n))"

section \<open>Responses\<close>

definition json_opt :: "('a \<Rightarrow> json) \<Rightarrow> 'a option \<Rightarrow> json" where
  "json_opt f x = (case x of None \<Rightarrow> JNull | Some y \<Rightarrow> f y)"

text \<open>An endpoint's reply, with \<open>f\<close> for the response model, and the payload of the handlers.\<close>

definition plain_response :: "nat \<Rightarrow> content \<Rightarrow> http_response" where
  "plain_response status body = \<lparr>rs_status = status, rs_headers = [], rs_body = body, rs_cookies = []\<rparr>"

definition error_payload :: "string \<Rightarrow> string \<Rightarrow> string \<Rightarrow> json" where
  "error_payload request_id code message =
     JDict [(''code'', JStr code), (''message'', JStr message), (''request_id'', JStr request_id)]"

definition respond :: "string \<Rightarrow> ('a \<Rightarrow> content) \<Rightarrow> 'a reply \<Rightarrow> http_response" where
  "respond request_id f r = (case r of
     Reply status x \<Rightarrow> plain_response status (f x)
   | Refusal status code message \<Rightarrow> plain_response status (Json (error_payload request_id code message)))"

definition answer :: "string \<Rightarrow> ('a \<Rightarrow> content) \<Rightarrow> 'a reply \<times> 'w \<Rightarrow> http_response \<times> 'w" where
  "answer request_id f rw = (respond request_id f (fst rw), snd rw)"

definition health_response :: http_response where
  "health_response = plain_response 200 (Json (JDict [(''status'', JStr ''ok'')]))"

text \<open>The answer to a page of items.\<close>

definition page_json :: "('a \<Rightarrow> json) \<Rightarrow> 'a list \<times> string option \<Rightarrow> json" where
  "page_json f p = JDict [(''items'', JList (map f (fst p))), (''next_cursor'', json_opt JStr (snd p))]"

text \<open>
  A body that is no JSON is refused before the dependencies run, one that is missing or that the
  model does not take after them.
\<close>

definition invalid_body :: "string \<Rightarrow> http_response" where
  "invalid_body request_id =
     plain_response 422 (Json (error_payload request_id ''validation_error'' ''Invalid request''))"

definition read_body :: "app_library \<Rightarrow> (json \<Rightarrow> 'a option) \<Rightarrow> call \<Rightarrow> 'a option option" where
  "read_body lib f c = (case ab_body lib (cl_headers c) (cl_content c) of
     Bad_Body \<Rightarrow> None | No_Body \<Rightarrow> Some None | Body v \<Rightarrow> Some (f v))"

text \<open>An invalid request is refused after the dependency \<open>get_current_user_id\<close> has run.\<close>

definition refuse_user :: "string option \<Rightarrow> 'w \<Rightarrow> 'a reply \<times> 'w" where
  "refuse_user x_user_id =
     endpoint (and_then (lift (current_user_id x_user_id)) (\<lambda>_. raise invalid_request))"

section \<open>core/request_context.py\<close>

text \<open>
  The identifier of the request, and the header with it. An exception that no handler inside
  the middleware takes passes it, so the answer 500 has no such header.
\<close>

definition request_id_of :: "call \<Rightarrow> (('db, 'r) conn_world_scheme, string) eff" where
  "request_id_of c = (case truthy (header ''x-request-id'' (cl_headers c)) of
     Some request_id \<Rightarrow> ret request_id
   | None \<Rightarrow> and_then uuid4 (\<lambda>u. ret (str_uuid u)))"

definition with_request_id :: "string \<Rightarrow> http_response \<Rightarrow> http_response" where
  "with_request_id request_id r = (if rs_status r = 500 then r
     else r\<lparr>rs_headers := dict_set ''x-request-id'' request_id (rs_headers r)\<rparr>)"

text \<open>The application: \<open>run\<close> is what the route of the call does.\<close>

definition service_app ::
  "(string \<Rightarrow> call \<Rightarrow> ('db, 'r) conn_world_scheme \<Rightarrow> http_response \<times> ('db, 'r) conn_world_scheme) \<Rightarrow>
   call \<Rightarrow> ('db, 'r) conn_world_scheme \<Rightarrow> http_response \<times> ('db, 'r) conn_world_scheme" where
  "service_app run c w = (case request_id_of c w of
     (Inr request_id, w1) \<Rightarrow> (let (r, w2) = run request_id c w1 in (with_request_id request_id r, w2))
   | (Inl e, w1) \<Rightarrow> (plain_response 500 (Json (error_payload [] (error_code e) (error_message e))), w1))"

lemma request_id_run: "\<exists>x n. request_id_of c w = (Inr x, w\<lparr>cw_drawn := n\<rparr>)"
proof (cases "truthy (header ''x-request-id'' (cl_headers c))")
  case (Some x)
  then show ?thesis by (intro exI [of _ x] exI [of _ "cw_drawn w"]) (simp add: request_id_of_def eff_simps)
qed (auto simp: request_id_of_def eff_simps)

lemma all_some_map: "(\<And>x. x \<in> set xs \<Longrightarrow> g (f x) = Some (h x)) \<Longrightarrow> all_some g (map f xs) = Some (map h xs)"
  by (induction xs) auto

section \<open>A library that reads what the platform writes\<close>

text \<open>It reads these texts and no others, for the witnesses.\<close>

definition read_time :: "string \<Rightarrow> int option" where
  "read_time text =
     Option.bind (read_number 2 text) (\<lambda>(h, r1).
     Option.bind (expect '':'' r1) (\<lambda>r2.
     Option.bind (read_number 2 r2) (\<lambda>(m, r3).
     Option.bind (expect '':'' r3) (\<lambda>r4.
     Option.bind (read_number 2 r4) (\<lambda>(s, r5).
     Option.bind (read_fraction r5) (\<lambda>(frac, r6).
       if r6 = [] then Some (((h * 60 + m) * 60 + s) * 1000000 + frac) else None))))))"

lemma read_fraction_end:
  assumes "0 \<le> us" and "us < 1000000"
  shows "read_fraction (if us = 0 then [] else ''.'' @ dec 6 us) = Some (us, [])"
  using assms read_number_dec [of us 6 "[]"] by (simp add: read_fraction_def expect_def)

lemma read_time_parts:
  assumes "0 \<le> h" "h < 100" "0 \<le> m" "m < 100" "0 \<le> s" "s < 100" "0 \<le> frac" "frac < 1000000"
  shows "read_time (dec 2 h @ '':'' @ dec 2 m @ '':'' @ dec 2 s @ (if frac = 0 then [] else ''.'' @ dec 6 frac)) =
    Some (((h * 60 + m) * 60 + s) * 1000000 + frac)"
proof -
  have two: "read_number 2 (dec 2 n @ rest) = Some (n, rest)" if "0 \<le> n" "n < 100" for n rest
    using that by (intro read_number_dec) simp_all
  have colon: "expect '':'' ('':'' @ rest) = Some rest" for rest by (rule expect_append)
  show ?thesis
    unfolding read_time_def two [OF assms(1,2)] two [OF assms(3,4)] two [OF assms(5,6)] colon
      read_fraction_end [OF assms(7,8)] Option.bind.simps prod.case
    by simp
qed

lemma read_time_text:
  assumes "time_of_day_ok t"
  shows "read_time (time_text t) = Some t"
proof -
  define s where "s = t div 1000000"
  have t: "0 \<le> t" "t < 86400000000" using assms by (simp_all add: time_of_day_ok_def micros_per_day_def)
  then have s: "0 \<le> s" "s < 86400" by (simp_all add: s_def pos_imp_zdiv_nonneg_iff)
  have "(s div 3600 * 60 + s div 60 mod 60) * 60 + s mod 60 = s"
    using zdiv_zmult2_eq [of 60 s 60] by simp
  then have whole: "((s div 3600 * 60 + s div 60 mod 60) * 60 + s mod 60) * 1000000 + t mod 1000000 = t"
    by (simp add: s_def)
  have "read_time (time_text t) = Some (((s div 3600 * 60 + s div 60 mod 60) * 60 + s mod 60) * 1000000 + t mod 1000000)"
    unfolding time_text_def Let_def s_def [symmetric]
    by (rule read_time_parts)
      (use s pos_mod_bound [of 60 "s div 60"] pos_mod_bound [of 60 s] in \<open>simp_all add: pos_imp_zdiv_nonneg_iff\<close>)
  then show ?thesis by (simp only: whole)
qed

definition read_decimal :: "string \<Rightarrow> int option" where
  "read_decimal text = (if text = [] then None else map_option int (value_of 10 0 text))"

lemma value_of_decimal: "value_of 10 0 (decimal n) = Some n \<and> decimal n \<noteq> []"
proof (induction n rule: decimal.induct)
  case (1 n)
  then show ?case by (cases "n < 10") (simp_all add: decimal.simps [of n] value_of_append digit_val_char)
qed

definition sample_body :: "content \<Rightarrow> body_read" where
  "sample_body c = (case c of Json v \<Rightarrow> Body v
     | Bytes t \<Rightarrow> if t = ''b'' then Body (JDict [(''topic_id'', JStr (str_uuid 60))])
       else if t = ''l'' then Body (JDict [(''email'', JStr ''A@b.c''), (''password'', JStr ''secret'')])
       else if t = ''n'' then Body (JDict [(''topic_id'', JStr (str_uuid 60)), (''payload'', JDict [])])
       else Bad_Body)"

definition sample_app :: app_library where
  "sample_app = \<lparr>ab_path = id, ab_body = (\<lambda>hs. sample_body),
     ab_uuid = (\<lambda>v. Option.bind (text_value v) parse_uuid),
     ab_flag = (\<lambda>v. case v of JBool b \<Rightarrow> Some b | _ \<Rightarrow> None),
     ab_time = (\<lambda>v. Option.bind (text_value v) read_time),
     ab_datetime = (\<lambda>_. None), ab_int = read_decimal, ab_credentials = (\<lambda>_. None),
     ab_unrouted = (\<lambda>_. plain_response 404 (Json (JDict [(''detail'', JStr ''Not Found'')]))),
     ab_write_datetime = isoformat, ab_readers = (\<lambda>_. Load_Error, \<lambda>_. Inl Value_Error)\<rparr>"

lemma sample_app_reads: "reads_platform sample_app"
proof -
  have "read_decimal (int_text n) = Some n" if "0 \<le> n" for n
    using that value_of_decimal [of "nat n"] by (simp add: read_decimal_def int_text_def)
  then show ?thesis
    by (simp add: reads_platform_def sample_app_def sample_body_def text_value_def parse_str_uuid read_time_text)
qed

end
