(* ===== verification/Monitoring.thy ===== *)
theory Monitoring
  imports Delivery_Store Notifications_Store Gateway_Service
begin

text \<open>
  What the services tell their operators: the texts of the metrics registries in the format of
  Prometheus (\<open>render\_prometheus\<close>) and the readiness endpoints. How a float is written is a
  parameter, given the duration in microseconds.
\<close>

section \<open>Texts of metrics\<close>

type_synonym seconds_text = "int \<Rightarrow> string"

definition metric_header :: "string \<Rightarrow> string \<Rightarrow> string \<Rightarrow> string list" where
  "metric_header name help kind =
     [''# HELP '' @ name @ '' '' @ help, ''# TYPE '' @ name @ '' '' @ kind]"

definition sample_line :: "string \<Rightarrow> (string \<times> string) list \<Rightarrow> string \<Rightarrow> string" where
  "sample_line name labels v = name @
     (if labels = [] then [] else ''{'' @
        py_join '','' (map (\<lambda>(l, t). l @ ''='' @ [CHR 0x22] @ t @ [CHR 0x22]) labels) @ ''}'') @ '' '' @ v"

definition plain_metric :: "string \<Rightarrow> string \<Rightarrow> string \<Rightarrow> string \<Rightarrow> string list" where
  "plain_metric name help kind v = metric_header name help kind @ [sample_line name [] v]"

definition rendered :: "string list \<Rightarrow> string" where
  "rendered lines = py_join [CHR 0x0A] lines @ [CHR 0x0A]"

section \<open>The gateway\<close>

definition render_gateway :: "seconds_text \<Rightarrow> gateway_metrics \<Rightarrow> string" where
  "render_gateway secs m = rendered
     (metric_header ''http_requests_total'' ''Total HTTP requests'' ''counter'' @
      map (\<lambda>((route, status), count). sample_line ''http_requests_total''
        [(''route'', route), (''status'', int_text (int status))] (int_text count)) (sort (gm_http_total m)) @
      metric_header ''http_request_duration_seconds_sum'' ''HTTP duration sum'' ''counter'' @
      map (\<lambda>(route, v). sample_line ''http_request_duration_seconds_sum'' [(''route'', route)] (secs v))
        (sort (gm_duration_sum m)) @
      metric_header ''http_request_duration_seconds_count'' ''HTTP duration count'' ''counter'' @
      map (\<lambda>(route, v). sample_line ''http_request_duration_seconds_count'' [(''route'', route)] (int_text v))
        (sort (gm_duration_count m)) @
      plain_metric ''rate_limited_requests_total'' ''Total rate limited requests'' ''counter''
        (int_text (gm_rate_limited m)) @
      metric_header ''downstream_errors_total'' ''Total downstream errors'' ''counter'' @
      map (\<lambda>(service, v). sample_line ''downstream_errors_total'' [(''service'', service)] (int_text v))
        (sort (gm_downstream_errors m)))"

section \<open>The delivery service\<close>

definition by_channel :: "string \<Rightarrow> (string \<times> int) list \<Rightarrow> string list" where
  "by_channel name counts =
     (if counts = [] then [sample_line name [(''channel'', ''unknown'')] ''0'']
      else map (\<lambda>(channel, v). sample_line name [(''channel'', channel)] (int_text v)) (sort counts))"

definition render_delivery :: "seconds_text \<Rightarrow> delivery_metrics \<Rightarrow> string" where
  "render_delivery secs m = rendered
     (metric_header ''delivery_attempts_created_total'' ''Total created delivery attempts'' ''counter'' @
      by_channel ''delivery_attempts_created_total'' (dm_attempts_created m) @
      plain_metric ''delivery_sent_total'' ''Total successful deliveries'' ''counter'' (int_text (dm_sent m)) @
      plain_metric ''delivery_failed_total'' ''Total failed delivery retries'' ''counter'' (int_text (dm_failed m)) @
      plain_metric ''delivery_dead_total'' ''Total dead delivery attempts'' ''counter'' (int_text (dm_dead m)) @
      metric_header ''delivery_delayed_quiet_hours_total'' ''Total attempts delayed due to quiet hours'' ''counter'' @
      by_channel ''delivery_delayed_quiet_hours_total'' (dm_delayed_quiet_hours m) @
      plain_metric ''delivery_delay_seconds_sum'' ''Sum of delay seconds before next delivery attempt'' ''counter''
        (secs (dm_delay_sum m)) @
      plain_metric ''delivery_delay_seconds_count'' ''Count of observed delivery delays'' ''counter''
        (int_text (dm_delay_count m)) @
      plain_metric ''subscriptions_fetch_latency_seconds_sum'' ''Subscriptions fetch latency sum'' ''counter''
        (secs (dm_fetch_latency_sum m)) @
      plain_metric ''subscriptions_fetch_latency_seconds_count'' ''Subscriptions fetch latency count'' ''counter''
        (int_text (dm_fetch_latency_count m)) @
      plain_metric ''jetstream_messages_processed_total'' ''Total processed JetStream messages'' ''counter''
        (int_text (dm_jetstream_processed m)))"

section \<open>The notifications service\<close>

definition render_notifications :: "seconds_text \<Rightarrow> notifications_metrics \<Rightarrow> string" where
  "render_notifications secs m = rendered
     (plain_metric ''notifications_created_total'' ''Total created notifications'' ''counter''
        (int_text (nm_created m)) @
      plain_metric ''outbox_unpublished_count'' ''Current number of unpublished outbox events'' ''gauge''
        (int_text (nm_unpublished m)) @
      plain_metric ''outbox_publish_attempts_total'' ''Total outbox publish attempts'' ''counter''
        (int_text (nm_publish_attempts m)) @
      plain_metric ''outbox_publish_failures_total'' ''Total outbox publish failures'' ''counter''
        (int_text (nm_publish_failures m)) @
      plain_metric ''outbox_publish_latency_seconds_sum'' ''Sum of outbox publish latency seconds'' ''counter''
        (secs (nm_publish_latency_sum m)) @
      plain_metric ''outbox_publish_latency_seconds_count'' ''Count of outbox publish latency observations'' ''counter''
        (int_text (nm_publish_latency_count m)) @
      plain_metric ''scheduler_picked_total'' ''Total scheduled notifications moved to queued'' ''counter''
        (int_text (nm_picked m)) @
      plain_metric ''scheduler_tick_duration_seconds_sum'' ''Sum of scheduler tick durations'' ''counter''
        (secs (nm_tick_duration_sum m)) @
      plain_metric ''scheduler_tick_duration_seconds_count'' ''Count of scheduler tick durations'' ''counter''
        (int_text (nm_tick_duration_count m)) @
      plain_metric ''scheduled_backlog_count'' ''Number of scheduled notifications'' ''gauge''
        (int_text (nm_backlog m)) @
      plain_metric ''scheduled_due_count'' ''Number of due scheduled notifications'' ''gauge''
        (int_text (nm_due m)))"

section \<open>Readiness\<close>

text \<open>A ping is a program; whatever it raises counts as \<open>down\<close>.\<close>

definition probe :: "('w, unit) eff \<Rightarrow> ('w, string) eff" where
  "probe ping = catch (seq ping (ret ''up'')) (\<lambda>_. ret ''down'')"

definition overall :: "string list \<Rightarrow> string" where
  "overall statuses = (if list_all (\<lambda>s. s = ''up'') statuses then ''ok'' else ''degraded'')"

definition delivery_ready :: "('w, unit) eff \<Rightarrow> ('w, unit) eff \<Rightarrow> ('w, unit) eff \<Rightarrow> ('w, (string \<times> string) list) eff" where
  "delivery_ready db_ping cache_ping bus_ping =
     and_then (probe db_ping) (\<lambda>db. and_then (probe cache_ping) (\<lambda>redis. and_then (probe bus_ping) (\<lambda>nats.
       ret [(''status'', overall [db, redis, nats]), (''database'', db), (''redis'', redis), (''nats'', nats)])))"

definition notifications_ready :: "('w, unit) eff \<Rightarrow> ('w, unit) eff \<Rightarrow> ('w, (string \<times> string) list) eff" where
  "notifications_ready db_ping bus_ping = and_then (probe db_ping) (\<lambda>db. and_then (probe bus_ping) (\<lambda>nats.
     ret [(''status'', overall [db, nats]), (''database'', db), (''nats'', nats)]))"

definition subscriptions_ready :: "('w, unit) eff \<Rightarrow> ('w, (string \<times> string) list) eff" where
  "subscriptions_ready db_ping = catch
     (seq db_ping (ret [(''status'', ''ok''), (''database'', ''up'')]))
     (\<lambda>_. ret [(''status'', ''degraded''), (''database'', ''down'')])"

text \<open>
  In the auth service a pool or client that start-up has not set is \<open>None\<close>; of the NATS client
  only its flag is read, outside of any handler.
\<close>

definition auth_ready ::
  "('w, unit) eff option \<Rightarrow> ('w, unit) eff option \<Rightarrow> ('w \<Rightarrow> bool) option \<Rightarrow> ('w, (string \<times> string) list) eff" where
  "auth_ready db_query cache_ping bus_connected =
     and_then (case db_query of None \<Rightarrow> ret ''down'' | Some m \<Rightarrow> probe m) (\<lambda>db.
     and_then (case cache_ping of None \<Rightarrow> ret ''down'' | Some m \<Rightarrow> probe m) (\<lambda>redis.
     and_then (gets (\<lambda>w. case bus_connected of None \<Rightarrow> ''down'' | Some f \<Rightarrow> if f w then ''up'' else ''down'')) (\<lambda>nats.
       ret [(''status'', overall [db, redis, nats]), (''database'', db), (''redis'', redis), (''nats'', nats)])))"

lemma probe_run: "probe m w = (Inr (case fst (m w) of Inl _ \<Rightarrow> ''down'' | Inr _ \<Rightarrow> ''up''), snd (m w))"
  by (simp add: probe_def catch_run seq_run ret_run split: prod.split sum.split)

text \<open>The readiness endpoints answer whatever happens, and say that all is well only if every ping returned.\<close>

lemma delivery_ready_answers:
  "\<exists>d w'. delivery_ready m1 m2 m3 w = (Inr d, w') \<and>
    (dict_get d ''status'' = Some ''ok'' \<longleftrightarrow> dict_get d ''database'' = Some ''up'' \<and>
       dict_get d ''redis'' = Some ''up'' \<and> dict_get d ''nats'' = Some ''up'')"
  by (simp add: delivery_ready_def and_then_run probe_run ret_run dict_get_def overall_def)

end
