(* ===== verification/Delivery_Http.thy ===== *)
theory Delivery_Http
  imports Service_Http Monitoring
begin

text \<open>
  The HTTP application of the delivery service: the routes of \<open>main.py\<close> with \<open>api/health.py\<close> and
  \<open>api/metrics.py\<close>. Its work is done by the consumer and the workers; over HTTP it only says how
  it is. Whatever the pings do, the answer to a readiness request is 200.
\<close>

record delivery_system =
  dy_db_ping :: "(delivery_world, unit) eff"
  dy_cache_ping :: "(delivery_world, unit) eff"
  dy_bus_ping :: "(delivery_world, unit) eff"
  dy_seconds :: seconds_text

datatype delivery_route = Health_Route | Ready_Route | Metrics_Route

definition delivery_route_of :: "string \<Rightarrow> string \<Rightarrow> delivery_route option" where
  "delivery_route_of verb path = (if verb \<noteq> ''GET'' then None
     else if path = ''/health'' then Some Health_Route
     else if path = ''/ready'' then Some Ready_Route
     else if path = ''/metrics'' then Some Metrics_Route
     else None)"

definition ready_page :: "delivery_system \<Rightarrow> string \<Rightarrow> delivery_world \<Rightarrow> http_response \<times> delivery_world" where
  "ready_page sys rid w = answer rid (\<lambda>d. Json (JDict (map (\<lambda>(k, v). (k, JStr v)) d)))
     (endpoint (and_then (delivery_ready (dy_db_ping sys) (dy_cache_ping sys) (dy_bus_ping sys))
       (\<lambda>d. ret (200, d))) w)"

definition metrics_text :: "delivery_system \<Rightarrow> delivery_world \<Rightarrow> http_response" where
  "metrics_text sys w = plain_response 200 (Bytes (render_delivery (dy_seconds sys) (dw_metrics w)))"

definition delivery_run ::
  "app_library \<Rightarrow> delivery_system \<Rightarrow> string \<Rightarrow> call \<Rightarrow> delivery_world \<Rightarrow> http_response \<times> delivery_world" where
  "delivery_run lib sys rid c w = (case delivery_route_of (cl_method c) (ab_path lib (cl_path c)) of
     None \<Rightarrow> (ab_unrouted lib c, w)
   | Some route \<Rightarrow> (case route of
       Health_Route \<Rightarrow> (health_response, w)
     | Ready_Route \<Rightarrow> ready_page sys rid w
     | Metrics_Route \<Rightarrow> (metrics_text sys w, w)))"

definition delivery_app ::
  "app_library \<Rightarrow> delivery_system \<Rightarrow> call \<Rightarrow> delivery_world \<Rightarrow> http_response \<times> delivery_world" where
  "delivery_app lib sys = service_app (delivery_run lib sys)"

lemma ready_page_status: "rs_status (fst (ready_page sys rid w)) = 200"
proof -
  obtain d w' where "delivery_ready (dy_db_ping sys) (dy_cache_ping sys) (dy_bus_ping sys) w = (Inr d, w')"
    using delivery_ready_answers [of "dy_db_ping sys" "dy_cache_ping sys" "dy_bus_ping sys" w] by blast
  then show ?thesis
    by (simp add: ready_page_def endpoint_def and_then_run ret_run answer_def respond_def plain_response_def)
qed

lemma delivery_app_is_ready:
  assumes "cl_method c = ''GET''" and "ab_path lib (cl_path c) = ''/ready''"
  shows "rs_status (fst (delivery_app lib sys c w)) = 200"
proof -
  obtain x n where "request_id_of c w = (Inr x, w\<lparr>cw_drawn := n\<rparr>)" using request_id_run by blast
  then show ?thesis
    using ready_page_status [of sys x "w\<lparr>cw_drawn := n\<rparr>"]
    by (auto simp: delivery_app_def service_app_def delivery_run_def delivery_route_of_def assms
        with_request_id_def split: prod.splits)
qed

end
