(* ===== verification/Gateway_Routes.thy ===== *)
theory Gateway_Routes
  imports Gateway_Service Monitoring
begin

text \<open>
  The routes of the gateway (\<open>main.py\<close>): the topics, subscriptions and notifications are there
  twice, once under \<open>/api\<close>; the log-in endpoints name both paths themselves. No route leads to
  the cancellation of a notification.
\<close>

datatype gateway_route =
    Health
  | Ready
  | Metrics
  | Auth_Register
  | Auth_Login
  | Auth_Refresh
  | Auth_Logout
  | Auth_Me
  | Topics
  | Topic string
  | New_Topic
  | Subscriptions_Me
  | New_Subscription
  | Remove_Subscription string
  | Change_Subscription string
  | New_Notification
  | Notification string
  | Notifications_Me

text \<open>The routers of \<open>api/subscriptions.py\<close> and \<open>api/notifications.py\<close>, by the parts of a path.\<close>

definition resource_route :: "string \<Rightarrow> string list \<Rightarrow> gateway_route option" where
  "resource_route verb parts = (let last = last parts in
     if verb = ''GET'' then
       if parts = [''topics''] then Some Topics
       else if parts = [''topics'', last] \<and> last \<noteq> [] then Some (Topic last)
       else if parts = [''subscriptions'', ''me''] then Some Subscriptions_Me
       else if parts = [''notifications'', last] \<and> last \<noteq> [] then Some (Notification last)
       else if parts = [''notifications'', ''me''] then Some Notifications_Me
       else None
     else if verb = ''POST'' then
       if parts = [''topics''] then Some New_Topic
       else if parts = [''subscriptions''] then Some New_Subscription
       else if parts = [''notifications''] then Some New_Notification
       else None
     else if parts = [''subscriptions'', last] \<and> last \<noteq> [] then
       if verb = ''DELETE'' then Some (Remove_Subscription last)
       else if verb = ''PATCH'' then Some (Change_Subscription last)
       else None
     else None)"

text \<open>The routers of \<open>api/system.py\<close> and \<open>api/auth.py\<close>.\<close>

definition fixed_route :: "string \<Rightarrow> string \<Rightarrow> gateway_route option" where
  "fixed_route verb path =
     (if verb = ''GET'' then
        if path = ''/health'' then Some Health
        else if path = ''/ready'' then Some Ready
        else if path = ''/metrics'' then Some Metrics
        else if path \<in> set [''/auth/me'', ''/api/auth/me'', ''/api/me''] then Some Auth_Me
        else None
      else if verb = ''POST'' then
        if path \<in> set [''/auth/register'', ''/api/auth/register''] then Some Auth_Register
        else if path \<in> set [''/auth/login'', ''/api/auth/login''] then Some Auth_Login
        else if path \<in> set [''/auth/refresh'', ''/api/auth/refresh''] then Some Auth_Refresh
        else if path \<in> set [''/auth/logout'', ''/api/auth/logout''] then Some Auth_Logout
        else None
      else None)"

definition gateway_route_of :: "string \<Rightarrow> string \<Rightarrow> gateway_route option" where
  "gateway_route_of verb path = (case fixed_route verb path of
     Some r \<Rightarrow> Some r
   | None \<Rightarrow> (let parts = py_split (CHR ''/'') path in
       if hd parts \<noteq> [] then None
       else if take 1 (tl parts) = [''api''] then resource_route verb (tl (tl parts))
       else resource_route verb (tl parts)))"

text \<open>\<open>GET /metrics\<close>; \<open>secs\<close> writes durations. \<open>unrouted\<close> is the answer when no route fits.\<close>

definition metrics_page :: "seconds_text \<Rightarrow> 'u handler" where
  "metrics_page secs rq = and_then (gets gw_metrics) (\<lambda>m.
     ret \<lparr>rs_status = 200, rs_headers = [], rs_body = Bytes (render_gateway secs m), rs_cookies = []\<rparr>)"

definition gateway_run ::
  "gateway_library \<Rightarrow> 'u services \<Rightarrow> gateway_settings \<Rightarrow> seconds_text \<Rightarrow>
   (http_request \<Rightarrow> http_response) \<Rightarrow> 'u handler" where
  "gateway_run lib up s secs unrouted rq = (case gateway_route_of (rq_method rq) (rq_path rq) of
     None \<Rightarrow> ret (unrouted rq)
   | Some route \<Rightarrow> (case route of
       Health \<Rightarrow> health rq
     | Ready \<Rightarrow> ready rq
     | Metrics \<Rightarrow> metrics_page secs rq
     | Auth_Register \<Rightarrow> register lib up s rq
     | Auth_Login \<Rightarrow> login lib up s rq
     | Auth_Refresh \<Rightarrow> refresh lib up s rq
     | Auth_Logout \<Rightarrow> logout lib up s rq
     | Auth_Me \<Rightarrow> me lib up s rq
     | Topics \<Rightarrow> topics lib up s rq
     | Topic i \<Rightarrow> topic_by_id lib up s i rq
     | New_Topic \<Rightarrow> create_topic lib up s rq
     | Subscriptions_Me \<Rightarrow> my_subscriptions lib up s rq
     | New_Subscription \<Rightarrow> subscribe lib up s rq
     | Remove_Subscription i \<Rightarrow> unsubscribe lib up s i rq
     | Change_Subscription i \<Rightarrow> update_subscription lib up s i rq
     | New_Notification \<Rightarrow> create_notification lib up s rq
     | Notification i \<Rightarrow> get_notification lib up s i rq
     | Notifications_Me \<Rightarrow> list_my_notifications lib up s rq))"

text \<open>The path of a list of notifications is taken by the route before; the call is the same.\<close>

lemma notifications_me_is_shadowed: "gateway_route_of verb path \<noteq> Some Notifications_Me"
  by (auto simp: gateway_route_of_def fixed_route_def resource_route_def Let_def split: option.split if_splits)

end
