(* ===== verification/Gateway_Stack.thy ===== *)
theory Gateway_Stack
  imports Gateway_Routes Gateway_Laws
begin

text \<open>
  A request on its way through the gateway: what the middlewares make of it, the limit of a user,
  a call that is answered at once, and the headers that a service finds.
\<close>

section \<open>The middlewares\<close>

text \<open>The identifier that a request gets, the request that the endpoints see, and their world.\<close>

definition entry_id :: "http_request \<Rightarrow> 'u gateway_world \<Rightarrow> string" where
  "entry_id rq w = (case truthy (header ''x-request-id'' (rq_headers rq)) of
     Some request_id \<Rightarrow> request_id | None \<Rightarrow> str_uuid (gw_uuids w (gw_drawn w)))"

definition entry_request :: "http_request \<Rightarrow> string \<Rightarrow> http_request" where
  "entry_request rq request_id =
     rq\<lparr>rq_request_id := request_id, rq_cached_body := Some (rq_body rq)\<rparr>"

definition entry_world :: "http_request \<Rightarrow> 'u gateway_world \<Rightarrow> 'u gateway_world" where
  "entry_world rq w = w\<lparr>gw_readings := Suc (gw_readings w), gw_request_id := entry_id rq w,
     gw_drawn := (case truthy (header ''x-request-id'' (rq_headers rq)) of
       Some _ \<Rightarrow> gw_drawn w | None \<Rightarrow> Suc (gw_drawn w))\<rparr>"

text \<open>
  A body within the limit is let in: its length is, and so is the length that the
  \<open>Content-Length\<close> header announces when there is one.
\<close>

definition body_ok :: "gateway_settings \<Rightarrow> http_request \<Rightarrow> bool" where
  "body_ok s rq \<longleftrightarrow> (case truthy (header ''content-length'' (rq_headers rq)) of
       None \<Rightarrow> True
     | Some content_length \<Rightarrow> (case py_int content_length of Inl e \<Rightarrow> False | Inr n \<Rightarrow> n \<le> gs_max_body_bytes s)) \<and>
     int (length (rq_body rq)) \<le> gs_max_body_bytes s"

lemma entry_world_simps [simp]:
  "gw_clock (entry_world rq w) = gw_clock w" "gw_services (entry_world rq w) = gw_services w"
  "gw_redis (entry_world rq w) = gw_redis w" "gw_calls (entry_world rq w) = gw_calls w"
  "gw_answered (entry_world rq w) = gw_answered w" "gw_commands (entry_world rq w) = gw_commands w"
  by (simp_all add: entry_world_def)

lemma entry_request_simps [simp]:
  "rq_method (entry_request rq x) = rq_method rq" "rq_path (entry_request rq x) = rq_path rq"
  "rq_query (entry_request rq x) = rq_query rq" "rq_headers (entry_request rq x) = rq_headers rq"
  "rq_body (entry_request rq x) = rq_body rq" "rq_client_host (entry_request rq x) = rq_client_host rq"
  "rq_cookies (entry_request rq x) = rq_cookies rq" "rq_request_id (entry_request rq x) = x"
  "cached_body (entry_request rq x) = rq_body rq"
  by (simp_all add: entry_request_def cached_body_def)

lemma context_run:
  fixes w :: "'u gateway_world"
  defines "w1 \<equiv> w\<lparr>gw_request_id := [], gw_readings := Suc (gw_readings w)\<rparr>"
  assumes "run (entry_request rq (entry_id rq w)) (entry_world rq w) = (Inr r, v)"
  shows "request_context (\<lambda>rq. app_error_handler (rq_request_id rq) (run rq))
      (rq\<lparr>rq_request_id := [], rq_cached_body := Some (rq_body rq)\<rparr>) w1 =
    (Inr (r\<lparr>rs_headers := dict_set ''x-request-id'' (entry_id rq w) (rs_headers r)\<rparr>), v)"
proof -
  let ?new = "case truthy (header ''x-request-id'' (rq_headers rq)) of
      Some request_id \<Rightarrow> ret request_id | None \<Rightarrow> new_request_id"
  obtain w2 where id: "?new w1 = (Inr (entry_id rq w), w2)"
      and w2: "w2\<lparr>gw_request_id := entry_id rq w\<rparr> = entry_world rq w"
    by (cases "truthy (header ''x-request-id'' (rq_headers rq))")
      (simp_all add: ret_run new_request_id_def entry_id_def entry_world_def w1_def)
  have rq: "rq\<lparr>rq_request_id := x, rq_cached_body := Some (rq_body rq)\<rparr> = entry_request rq x"
    and again: "(entry_request rq y)\<lparr>rq_request_id := x\<rparr> = entry_request rq x" for x y
    by (simp_all add: entry_request_def)
  have "app_error_handler i (run (entry_request rq (entry_id rq w))) (entry_world rq w) = (Inr r, v)" for i
    by (simp add: app_error_handler_def catch_run assms(2))
  with id w2 show ?thesis
    by (simp add: request_context_def and_then_run seq_run modify_run ret_run rq again)
qed

lemma gateway_app_run:
  assumes "body_ok s rq"
    and "run (entry_request rq (entry_id rq w)) (entry_world rq w) = (Inr r, v)"
  shows "\<exists>w'. gateway_app s run rq w =
      (Inr (r\<lparr>rs_headers := dict_set ''x-request-id'' (entry_id rq w) (rs_headers r)\<rparr>), w') \<and>
    gw_services w' = gw_services v \<and> gw_calls w' = gw_calls v"
proof -
  let ?inner = "request_context (\<lambda>rq. app_error_handler (rq_request_id rq) (run rq))"
  have "body_limit s ?inner (rq\<lparr>rq_request_id := [], rq_cached_body := None\<rparr>) =
      ?inner (rq\<lparr>rq_request_id := [], rq_cached_body := Some (rq_body rq)\<rparr>)"
    using assms(1) by (auto simp: body_limit_def body_ok_def and_then_run ret_run lift_run fun_eq_iff
        split: option.split sum.splits)
  with context_run [of run rq w r v, OF assms(2)] show ?thesis
    by (simp add: gateway_app_def seq_run modify_run server_error_handler_def catch_run access_log_def
        and_then_run perf_counter_def ret_run metric_def)
qed

section \<open>The limit of a user\<close>

definition has_room :: "gateway_settings \<Rightarrow> uuid \<Rightarrow> 'u gateway_world \<Rightarrow> bool" where
  "has_room s u w \<longleftrightarrow> \<not> gw_answered w (gw_commands w) \<or>
     fst (window_hit (gw_clock w) 60 (gw_redis w (''bff:rate:user:'' @ str_uuid u))) \<le> gs_limit_user s"

lemma identity_entry:
  assumes "get_current_identity lib s rq w = (Inr user, w)"
  shows "get_current_identity lib s (entry_request rq x) (entry_world rq w) = (Inr user, entry_world rq w)"
  using assms
  by (auto simp: get_current_identity_def and_then_run gets_run lift_run raise_run split: option.splits if_splits)

lemma rate_limit_user_passes:
  assumes "get_current_identity lib s rq w = (Inr user, w)" and "has_room s (id_user_id user) w"
  shows "\<exists>v. rate_limit_user lib s rq w = (Inr user, v) \<and> gw_services v = gw_services w \<and> gw_calls v = gw_calls w"
proof -
  obtain current c where hit: "window_hit (gw_clock w) 60 (gw_redis w (''bff:rate:user:'' @ str_uuid (id_user_id user))) = (current, c)"
    by fastforce
  then show ?thesis using assms
    by (cases "gw_answered w (gw_commands w)")
      (simp_all add: rate_limit_user_def and_then_run catch_run is_allowed_def has_room_def ret_run Let_def)
qed

lemma entry_has_room: "has_room s u w \<Longrightarrow> has_room s u (entry_world rq w)"
  by (simp add: has_room_def)

section \<open>Calls that are answered at once\<close>

lemma sent_and_answered:
  assumes "up (traced lib c) (gw_services w) = (Response r, u)" and "0 < attempts_of s c"
  shows "send_with_retries lib up s c w = (Inr r, called up (traced lib c) 1 w)"
    and "gw_services (called up (traced lib c) 1 w) = u"
  using answered_at_once [of up lib c w r u s] assms by (simp_all add: traced_def)

lemma attempts_positive: "0 \<le> gs_retries_get s \<Longrightarrow> 0 < attempts_of s c"
  by (simp add: attempts_of_def)

definition proxied :: "http_request \<Rightarrow> identity \<Rightarrow> service \<Rightarrow> string \<Rightarrow> call" where
  "proxied rq user service path = \<lparr>cl_service = service, cl_method = rq_method rq, cl_path = path,
     cl_query = rq_query rq,
     cl_headers = identity_headers rq (str_uuid (id_user_id user)) (id_roles user),
     cl_content = Bytes (cached_body rq)\<rparr>"

lemma user_proxy_run:
  assumes "get_current_identity lib s rq w = (Inr user, w)" and "has_room s (id_user_id user) w"
    and "up (traced lib (proxied rq user service path)) (gw_services w) = (Response r, u)"
    and "0 \<le> gs_retries_get s"
  shows "\<exists>v. user_proxy lib up s service path rq w =
      (Inr (forwarded_response [''transfer-encoding'', ''connection'', ''content-length''] r), v) \<and>
    gw_services v = u"
proof -
  obtain v where limited: "rate_limit_user lib s rq w = (Inr user, v)" "gw_services v = gw_services w"
    using rate_limit_user_passes [OF assms(1,2)] by blast
  let ?v = "called up (traced lib (proxied rq user service path)) 1 v"
  have "send_with_retries lib up s (proxied rq user service path) v = (Inr r, ?v)" and "gw_services ?v = u"
    using sent_and_answered [of up lib _ v r u s] assms(3) attempts_positive [OF assms(4)] limited(2) by simp_all
  moreover obtain w' where "record_upstream_error service (rs_status r) ?v = (Inr (), w')"
      "gw_services w' = gw_services ?v"
    using record_upstream_error_run by blast
  ultimately show ?thesis
    using limited by (simp add: user_proxy_def proxy_request_def and_then_run seq_run ret_run
        proxied_def [symmetric])
qed

section \<open>A subscription\<close>

lemma notified:
  assumes "up (traced lib (event_call rq user t kind message x)) (gw_services w) = (Response r, u)"
  shows "\<exists>w'. notify_subscription_event lib up s rq user t kind message x w = (Inr (), w') \<and> gw_services w' = u"
proof -
  let ?c = "event_call rq user t kind message x"
  have "map py_upper_char ''POST'' \<noteq> ''GET''" by code_simp
  then have "0 < attempts_of s ?c" by (simp add: attempts_of_def event_call_def)
  note sent = sent_and_answered [of up lib ?c, OF assms this]
  obtain w' where "record_upstream_error Notifications_Api (rs_status r) (called up (traced lib ?c) 1 w) = (Inr (), w')"
      "gw_services w' = gw_services (called up (traced lib ?c) 1 w)"
    using record_upstream_error_run by blast
  with sent show ?thesis by (simp add: notify_subscription_event_def catch_run and_then_run)
qed

lemma subscribe_stack:
  assumes "get_current_identity lib s rq w = (Inr user, w)" and "has_room s (id_user_id user) w"
    and "rq_method rq = ''POST''"
    and "up (traced lib (proxied rq user Subscriptions_Api ''/subscriptions'')) (gw_services w) = (Response upstream, u)"
    and "rs_status upstream \<in> {200, 201}" and "as_json_dict lib (rs_body upstream) = Inr (Some d)"
    and "dict_get d ''topic_id'' = Some (JStr t)" and "t \<noteq> []" and "dict_get d ''id'' = Some (JStr x)"
    and "up (traced lib (event_call rq user t ''subscription.subscribed''
        ''You subscribed to topic updates.'' (Some x))) u = (Response r, u')"
  shows "\<exists>v. subscribe lib up s rq w = (Inr (forwarded_response blocked_headers upstream), v) \<and>
    gw_services v = u'"
proof -
  let ?c = "proxied rq user Subscriptions_Api ''/subscriptions''"
  obtain v where limited: "rate_limit_user lib s rq w = (Inr user, v)" "gw_services v = gw_services w"
    using rate_limit_user_passes [OF assms(1,2)] by blast
  have "map py_upper_char ''POST'' \<noteq> ''GET''" by code_simp
  then have "0 < attempts_of s ?c" by (simp add: attempts_of_def proxied_def assms(3))
  note sent = sent_and_answered [of up lib ?c, OF assms(4) [folded limited(2)] this]
  obtain v3 where v3: "record_upstream_error Subscriptions_Api (rs_status upstream) (called up (traced lib ?c) 1 v) =
      (Inr (), v3)" "gw_services v3 = gw_services (called up (traced lib ?c) 1 v)"
    using record_upstream_error_run by blast
  then have "gw_services v3 = u" using sent(2) by simp
  then obtain v4 where v4: "notify_subscription_event lib up s rq user t ''subscription.subscribed''
        ''You subscribed to topic updates.'' (Some x) v3 = (Inr (), v4)" "gw_services v4 = u'"
    using notified [of up lib rq user t _ _ _ v3 r u' s] assms(10) by blast
  have "send_subscriptions_request lib up s rq user ''/subscriptions'' (rq_method rq) (Bytes (cached_body rq))
      (rq_query rq) v = (Inr upstream, called up (traced lib ?c) 1 v)"
    using sent(1) by (simp add: send_subscriptions_request_def proxied_def)
  with v3(1) v4 limited(1) assms(5-9) show ?thesis
    by (auto simp: subscribe_def and_then_run seq_run lift_run ret_run nonempty_text_def truthy_def)
qed

section \<open>Signing in\<close>

definition auth_address :: "http_request \<Rightarrow> string" where
  "auth_address rq = (case truthy (header ''x-forwarded-for'' (rq_headers rq)) of
     Some f \<Rightarrow> f | None \<Rightarrow> (case rq_client_host rq of Some host \<Rightarrow> host | None \<Rightarrow> ''unknown''))"

definition auth_has_room :: "gateway_settings \<Rightarrow> http_request \<Rightarrow> 'u gateway_world \<Rightarrow> bool" where
  "auth_has_room s rq w \<longleftrightarrow> gw_answered w (gw_commands w) \<and>
     fst (window_hit (gw_clock w) 60 (gw_redis w (''bff:rate:auth:'' @ rq_path rq @ '':'' @ auth_address rq)))
       \<le> gs_limit_auth s"

lemma rate_limit_auth_passes:
  assumes "auth_has_room s rq w"
  shows "\<exists>v. rate_limit_auth s rq w = (Inr (), v) \<and> gw_services v = gw_services w"
proof -
  let ?key = "''bff:rate:auth:'' @ rq_path rq @ '':'' @ auth_address rq"
  have address: "(if (case header ''x-forwarded-for'' (rq_headers rq) of None \<Rightarrow> [] | Some f \<Rightarrow> f) \<noteq> []
      then case header ''x-forwarded-for'' (rq_headers rq) of None \<Rightarrow> [] | Some f \<Rightarrow> f
      else case rq_client_host rq of Some host \<Rightarrow> host | None \<Rightarrow> ''unknown'') = auth_address rq"
    by (auto simp: auth_address_def truthy_def split: option.split)
  obtain current c where hit: "window_hit (gw_clock w) 60 (gw_redis w ?key) = (current, c)" by fastforce
  then have "is_allowed ?key (gs_limit_auth s) w =
      (Inr True, w\<lparr>gw_commands := Suc (gw_commands w), gw_redis := (gw_redis w)(?key := c)\<rparr>)"
    using assms by (simp add: auth_has_room_def is_allowed_def)
  then show ?thesis
    unfolding rate_limit_auth_def Let_def address by (simp add: and_then_run catch_run ret_run)
qed

lemma auth_entry_room: "auth_has_room s rq w \<Longrightarrow> auth_has_room s (entry_request rq x) (entry_world rq w)"
proof -
  have "auth_address (entry_request rq x) = auth_address rq" by (simp add: auth_address_def split: option.split)
  then show "auth_has_room s rq w \<Longrightarrow> auth_has_room s (entry_request rq x) (entry_world rq w)"
    by (simp add: auth_has_room_def)
qed

definition auth_call :: "http_request \<Rightarrow> string \<Rightarrow> content \<Rightarrow> call" where
  "auth_call rq path body = \<lparr>cl_service = Auth_Api, cl_method = rq_method rq, cl_path = path,
     cl_query = rq_query rq, cl_headers = auth_headers rq body, cl_content = body\<rparr>"

text \<open>The two endpoints when the auth service answers.\<close>

lemma login_stack:
  assumes "auth_has_room s rq w" and "0 \<le> gs_retries_get s"
    and "up (traced lib (auth_call rq ''/auth/login'' (Bytes (cached_body rq)))) (gw_services w) = (Response r, u)"
    and "with_token_in_cookie lib s r = Inr r'"
  shows "\<exists>v. login lib up s rq w = (Inr r', v) \<and> gw_services v = u"
proof -
  let ?c = "auth_call rq ''/auth/login'' (Bytes (cached_body rq))"
  obtain v where limited: "rate_limit_auth s rq w = (Inr (), v)" "gw_services v = gw_services w"
    using rate_limit_auth_passes [OF assms(1)] by blast
  note sent = sent_and_answered [of up lib ?c, OF assms(3) [folded limited(2)] attempts_positive [OF assms(2)]]
  obtain w' where "record_upstream_error Auth_Api (rs_status r) (called up (traced lib ?c) 1 v) = (Inr (), w')"
      "gw_services w' = gw_services (called up (traced lib ?c) 1 v)"
    using record_upstream_error_run by blast
  with sent limited assms(4) show ?thesis
    by (simp add: login_def seq_run and_then_run lift_run send_auth_request_def auth_call_def [symmetric])
qed

lemma refresh_stack:
  assumes "presented_token lib s rq = Inr (Some token)" and "0 \<le> gs_retries_get s"
    and "up (traced lib (auth_call rq ''/auth/refresh'' (token_body token))) (gw_services w) = (Response r, u)"
  shows "\<exists>v. refresh lib up s rq w = (if is_invalid_refresh_token_status (rs_status r)
      then Inr (unauthorized_response s rq ''Invalid refresh token'' False)
      else with_token_in_cookie lib s r, v) \<and> gw_services v = u"
proof -
  let ?c = "auth_call rq ''/auth/refresh'' (token_body token)"
  note sent = sent_and_answered [of up lib ?c, OF assms(3) attempts_positive [OF assms(2)]]
  obtain w' where "record_upstream_error Auth_Api (rs_status r) (called up (traced lib ?c) 1 w) = (Inr (), w')"
      "gw_services w' = gw_services (called up (traced lib ?c) 1 w)"
    using record_upstream_error_run by blast
  with sent assms(1) show ?thesis
    by (auto simp: refresh_def seq_run and_then_run lift_run ret_run send_auth_request_def auth_call_def [symmetric])
qed

section \<open>Headers\<close>

text \<open>The libraries of the trace touch no other header than their own.\<close>

definition traces_only :: "gateway_library \<Rightarrow> bool" where
  "traces_only lib \<longleftrightarrow> (\<forall>n hs. n \<in> set [''x-user-id'', ''x-user-roles'', ''x-request-id'', ''content-type'',
       ''x-forwarded-for'', ''user-agent''] \<longrightarrow>
     header n (gl_inject lib hs) = header n hs)"

lemma lower_plain: "py_lower ''x-request-id'' = ''x-request-id''" "py_lower ''content-type'' = ''content-type''"
  by code_simp+

definition passed_on :: "http_request \<Rightarrow> pairs" where
  "passed_on rq = filter_request_headers (headers_dict (rq_headers rq))"

lemma header_passed_on:
  assumes "py_lower n \<notin> set hop_by_hop_headers"
  shows "header n (passed_on rq) = header n (rq_headers rq)"
proof -
  have "header n (passed_on rq) = header n (headers_dict (rq_headers rq))"
    unfolding passed_on_def filter_request_headers_def
    by (rule header_filter) (use assms in \<open>simp add: same_name_def\<close>)
  then show ?thesis by (simp add: header_headers_dict)
qed

lemma keys_passed_on:
  assumes "lower_names (rq_headers rq)" and "k \<in> fst ` set (passed_on rq)"
  shows "py_lower k = k"
  using assms keys_headers_dict [of "rq_headers rq"]
  by (fastforce simp: passed_on_def filter_request_headers_def lower_names_def)

lemma header_added:
  assumes "same_name k n" and "k \<notin> fst ` set d"
  shows "header n (dict_set k v d) = (case header n d of None \<Rightarrow> Some v | Some x \<Rightarrow> Some x)"
proof -
  have "dict_set k v d = d @ [(k, v)]" using assms(2) by (intro dict_set_new) simp
  then show ?thesis using assms(1) by (simp add: header_append split: option.split)
qed

lemma forwarded_request_id:
  assumes "lower_names (rq_headers rq)"
  shows "header ''x-request-id'' (identity_headers rq user roles) =
    (case header ''x-request-id'' (rq_headers rq) of None \<Rightarrow> Some (rq_request_id rq) | Some x \<Rightarrow> Some x)"
proof -
  have "''X-Request-Id'' \<notin> fst ` set (passed_on rq)" using keys_passed_on [OF assms] upper_names(2) by fastforce
  then have "header ''x-request-id'' (dict_set ''X-Request-Id'' (rq_request_id rq) (passed_on rq)) =
      (case header ''x-request-id'' (rq_headers rq) of None \<Rightarrow> Some (rq_request_id rq) | Some x \<Rightarrow> Some x)"
    by (simp add: header_added same_name_def upper_names lower_plain header_passed_on hop_by_hop_headers_def)
  then show ?thesis
    by (simp add: identity_headers_def base_headers_def header_dict_set_other same_name_def upper_names lower_plain
        passed_on_def [symmetric])
qed

lemma forwarded_content_type:
  "header ''content-type'' (identity_headers rq user roles) = header ''content-type'' (rq_headers rq)"
  by (simp add: identity_headers_def base_headers_def header_dict_set_other same_name_def upper_names lower_plain
      passed_on_def [symmetric] header_passed_on hop_by_hop_headers_def)

text \<open>The call that announces a subscription has the same headers, and its own \<open>Content-Type\<close> last.\<close>

lemma event_headers_typed:
  fixes user :: identity and topic kind message :: string and x :: "string option"
  assumes "lower_names (rq_headers rq)"
  defines "hs \<equiv> cl_headers (event_call rq user topic kind message x)"
    and "base \<equiv> identity_headers rq (str_uuid (id_user_id user)) (id_roles user)"
  shows "header ''content-type'' hs = Some (case header ''content-type'' (rq_headers rq) of
      None \<Rightarrow> ''application/json'' | Some t \<Rightarrow> t)"
    and "header ''x-user-id'' hs = header ''x-user-id'' base"
    and "header ''x-request-id'' hs = header ''x-request-id'' base"
proof -
  have names: "py_lower ''Content-Type'' = ''content-type''" by code_simp
  have "''Content-Type'' \<notin> fst ` set (passed_on rq)" using keys_passed_on [OF assms(1)] names by fastforce
  then have "''Content-Type'' \<notin> fst ` set base"
    unfolding base_def identity_headers_def base_headers_def set_map [symmetric] dict_keys_set passed_on_def [symmetric]
    by (auto simp: image_iff)
  then have "header ''content-type'' (dict_set ''Content-Type'' v base) = Some (case header ''content-type'' (rq_headers rq) of
      None \<Rightarrow> v | Some t \<Rightarrow> t)" for v
    by (simp add: header_added same_name_def names lower_plain base_def forwarded_content_type split: option.split)
  then show "header ''content-type'' hs = Some (case header ''content-type'' (rq_headers rq) of
      None \<Rightarrow> ''application/json'' | Some t \<Rightarrow> t)"
    and "header ''x-user-id'' hs = header ''x-user-id'' base"
    and "header ''x-request-id'' hs = header ''x-request-id'' base"
    by (simp_all add: hs_def event_call_def base_def [symmetric] header_dict_set_other same_name_def names upper_names
        lower_plain)
qed

lemma event_headers:
  fixes user :: identity and topic kind message :: string and x :: "string option"
  assumes "lower_names (rq_headers rq)" and "header ''content-type'' (rq_headers rq) = Some t"
  defines "hs \<equiv> cl_headers (event_call rq user topic kind message x)"
    and "base \<equiv> identity_headers rq (str_uuid (id_user_id user)) (id_roles user)"
  shows "header ''content-type'' hs = Some t" and "header ''x-user-id'' hs = header ''x-user-id'' base"
    and "header ''x-request-id'' hs = header ''x-request-id'' base"
  using event_headers_typed [OF assms(1)] assms(2) by (simp_all add: hs_def base_def)

text \<open>A call to the auth service has the headers of the client, and a type for its body.\<close>

lemma auth_forwarded:
  assumes "py_lower n = n" and "n \<notin> set [''x-request-id'', ''x-client-ip'', ''content-type'']"
    and "n \<notin> set hop_by_hop_headers"
  shows "header n (auth_headers rq body) = header n (rq_headers rq)"
proof -
  have "py_lower ''Content-Type'' = ''content-type''" by code_simp
  then have other: "\<not> same_name ''X-Request-Id'' n" "\<not> same_name ''X-Client-Ip'' n" "\<not> same_name ''Content-Type'' n"
    using assms(1,2) by (auto simp: same_name_def upper_names)
  then show ?thesis
    using assms by (simp add: auth_headers_def base_headers_def header_dict_set_other passed_on_def [symmetric]
        header_passed_on Let_def)
qed

lemma auth_content_type:
  assumes "body \<noteq> Bytes []"
    and "header ''content-type'' (rq_headers rq) \<in> {None, Some ''application/json''}"
  shows "header ''content-type'' (auth_headers rq body) = Some ''application/json''"
proof -
  have names: "py_lower ''Content-Type'' = ''content-type''" by code_simp
  let ?hs = "base_headers rq"
  have base: "header ''content-type'' ?hs = header ''content-type'' (rq_headers rq)"
    by (simp add: base_headers_def header_dict_set_other same_name_def upper_names lower_plain
        passed_on_def [symmetric] header_passed_on hop_by_hop_headers_def)
  have ex: "list_ex (\<lambda>(k, v). py_lower k = ''content-type'') hs \<longleftrightarrow> header ''content-type'' hs \<noteq> None" for hs
    by (induction hs) (auto simp: same_name_def lower_plain)
  show ?thesis
  proof (cases "header ''content-type'' (rq_headers rq)")
    case None
    then have "''Content-Type'' \<notin> fst ` set ?hs"
      using ex [of ?hs] base names by (auto simp: list_ex_iff)
    then show ?thesis using None ex [of ?hs] base assms(1)
      by (simp add: auth_headers_def header_added same_name_def names lower_plain)
  next
    case (Some t)
    then show ?thesis using ex [of ?hs] base assms by (simp add: auth_headers_def)
  qed
qed

end
