(* ===== verification/Subscriptions_Http.thy ===== *)
theory Subscriptions_Http
  imports Service_Http Subscriptions_Service Monitoring
begin

text \<open>
  The HTTP application of the subscriptions service (\<open>main.py\<close>): its routes, how the requests
  of \<open>schemas\<close> are read from JSON and its responses written as JSON, around the endpoints of
  \<open>Subscriptions_Service\<close>.
\<close>

section \<open>schemas: responses\<close>

definition quiet_hours_json :: "int \<times> int \<Rightarrow> json" where
  "quiet_hours_json q =
     JDict [(''start'', JStr (time_text (fst q))), (''end'', JStr (time_text (snd q)))]"

definition preferences_json :: "subscription_response \<Rightarrow> json" where
  "preferences_json r = JDict
     [(''channels'', JList (map JStr (rs_channels r))),
      (''quiet_hours'', json_opt quiet_hours_json (rs_quiet_hours r)),
      (''timezone'', JStr (rs_timezone r))]"

definition subscription_json :: "subscription_response \<Rightarrow> json" where
  "subscription_json r = JDict
     [(''id'', JStr (rs_id r)), (''topic_id'', JStr (rs_topic_id r)),
      (''is_active'', JBool (rs_is_active r)), (''preferences'', preferences_json r)]"

definition topic_json :: "topic_response \<Rightarrow> json" where
  "topic_json t = JDict
     [(''id'', JStr (rt_id t)), (''key'', JStr (rt_key t)), (''name'', JStr (rt_name t)),
      (''description'', json_opt JStr (rt_description t))]"

definition subscriber_json :: "internal_subscriber \<Rightarrow> json" where
  "subscriber_json i = JDict
     [(''user_id'', JStr (is_user_id i)), (''subscription_id'', JStr (is_subscription_id i)),
      (''channels'', JList (map JStr (is_channels i))),
      (''quiet_hours_start'', json_opt (\<lambda>t. JStr (time_text t)) (is_quiet_hours_start i)),
      (''quiet_hours_end'', json_opt (\<lambda>t. JStr (time_text t)) (is_quiet_hours_end i)),
      (''timezone'', JStr (is_timezone i))]"

section \<open>schemas: requests\<close>

text \<open>The validators of the patches are those of the endpoint; the readers only take the types.\<close>

definition subscribe_request :: "app_library \<Rightarrow> json \<Rightarrow> uuid option" where
  "subscribe_request lib v = Option.bind (dict_of v) (\<lambda>d. required d ''topic_id'' (ab_uuid lib))"

definition quiet_hours_patch :: "app_library \<Rightarrow> json \<Rightarrow> (int \<times> int) option" where
  "quiet_hours_patch lib v = Option.bind (dict_of v) (\<lambda>d.
     Option.bind (required d ''start'' (ab_time lib)) (\<lambda>start.
     Option.bind (required d ''end'' (ab_time lib)) (\<lambda>end'. Some (start, end'))))"

definition preferences_patch :: "app_library \<Rightarrow> json \<Rightarrow> preferences_patch option" where
  "preferences_patch lib v = Option.bind (dict_of v) (\<lambda>d.
     Option.bind (defaulted None d ''channels'' (or_null (list_value text_value))) (\<lambda>channels.
     Option.bind (defaulted None d ''quiet_hours'' (or_null (quiet_hours_patch lib))) (\<lambda>quiet_hours.
     Option.bind (defaulted None d ''timezone'' (or_null text_value)) (\<lambda>timezone.
       Some \<lparr>pp_channels = channels, pp_quiet_hours = quiet_hours, pp_timezone = timezone\<rparr>))))"

definition update_request ::
  "app_library \<Rightarrow> json \<Rightarrow> (bool option \<times> preferences_patch option) option" where
  "update_request lib v = Option.bind (dict_of v) (\<lambda>d.
     Option.bind (defaulted None d ''is_active'' (or_null (ab_flag lib))) (\<lambda>is_active.
     Option.bind (defaulted None d ''preferences'' (or_null (preferences_patch lib))) (\<lambda>preferences.
       Some (is_active, preferences))))"

definition topic_create_request :: "json \<Rightarrow> (string \<times> string \<times> string option) option" where
  "topic_create_request v = Option.bind (dict_of v) (\<lambda>d.
     Option.bind (required d ''key'' text_value) (\<lambda>key.
     Option.bind (required d ''name'' text_value) (\<lambda>name.
     Option.bind (defaulted None d ''description'' (or_null text_value)) (\<lambda>description.
       Some (key, name, description)))))"

section \<open>main.py: the routes\<close>

datatype subs_route =
    Health_Route
  | Ready_Route
  | List_Topics
  | Get_Topic string
  | Create_Topic
  | My_Subscriptions
  | Subscribe
  | Unsubscribe string
  | Update_Subscription string
  | Topic_Subscribers string

text \<open>
  The route of a method and a path, by the parts of the path between its slashes. A parameter in
  a path is not empty. A path that fits another method only is left to \<open>ab_unrouted\<close>.
\<close>

definition subs_route_of :: "string \<Rightarrow> string \<Rightarrow> subs_route option" where
  "subs_route_of verb path = (let parts = py_split (CHR ''/'') path; last = last parts in
     if verb = ''GET'' then
       if parts = [[], ''health''] then Some Health_Route
       else if parts = [[], ''ready''] then Some Ready_Route
       else if parts = [[], ''topics''] then Some List_Topics
       else if parts = [[], ''topics'', last] \<and> last \<noteq> [] then Some (Get_Topic last)
       else if parts = [[], ''subscriptions'', ''me''] then Some My_Subscriptions
       else if length parts = 5 \<and> parts = [[], ''internal'', ''topics'', parts ! 3, ''subscribers''] \<and>
           parts ! 3 \<noteq> [] then Some (Topic_Subscribers (parts ! 3))
       else None
     else if verb = ''POST'' then
       if parts = [[], ''topics''] then Some Create_Topic
       else if parts = [[], ''subscriptions''] then Some Subscribe
       else None
     else if parts = [[], ''subscriptions'', last] \<and> last \<noteq> [] then
       if verb = ''DELETE'' then Some (Unsubscribe last)
       else if verb = ''PATCH'' then Some (Update_Subscription last)
       else None
     else None)"

section \<open>The endpoints behind the routes\<close>

abbreviation user_header :: "call \<Rightarrow> string option" where
  "user_header c \<equiv> header ''x-user-id'' (cl_headers c)"

definition subs_subscribe :: "app_library \<Rightarrow> string \<Rightarrow> call \<Rightarrow> subs_world \<Rightarrow> http_response \<times> subs_world" where
  "subs_subscribe lib rid c w = (case read_body lib (subscribe_request lib) c of
     None \<Rightarrow> (invalid_body rid, w)
   | Some payload \<Rightarrow> answer rid (\<lambda>s. Json (subscription_json s)) ((case payload of
         None \<Rightarrow> refuse_user (user_header c)
       | Some topic_id \<Rightarrow> api_subscribe (user_header c) topic_id) w))"

definition subs_unsubscribe ::
  "app_library \<Rightarrow> string \<Rightarrow> string \<Rightarrow> call \<Rightarrow> subs_world \<Rightarrow> http_response \<times> subs_world" where
  "subs_unsubscribe lib subscription_id rid c w =
     answer rid (\<lambda>_. Bytes []) ((case ab_uuid lib (JStr subscription_id) of
         None \<Rightarrow> refuse_user (user_header c)
       | Some i \<Rightarrow> api_unsubscribe (user_header c) i) w)"

definition subs_update ::
  "app_library \<Rightarrow> zone_db \<Rightarrow> string \<Rightarrow> string \<Rightarrow> call \<Rightarrow> subs_world \<Rightarrow> http_response \<times> subs_world" where
  "subs_update lib zi subscription_id rid c w = (case read_body lib (update_request lib) c of
     None \<Rightarrow> (invalid_body rid, w)
   | Some payload \<Rightarrow> answer rid (\<lambda>s. Json (subscription_json s))
       ((case (ab_uuid lib (JStr subscription_id), payload) of
           (Some i, Some (is_active, patch)) \<Rightarrow>
             api_update_subscription zi (user_header c) i is_active patch
         | _ \<Rightarrow> refuse_user (user_header c)) w))"

definition subs_my ::
  "app_library \<Rightarrow> string \<Rightarrow> call \<Rightarrow> subs_world \<Rightarrow> http_response \<times> subs_world" where
  "subs_my lib rid c w = answer rid (\<lambda>p. Json (page_json subscription_json p))
     (api_my_subscriptions (ab_readers lib) (user_header c) (query_limit lib 50 c)
       (query_param ''cursor'' (cl_query c)) w)"

definition subs_list_topics ::
  "app_library \<Rightarrow> string \<Rightarrow> call \<Rightarrow> subs_world \<Rightarrow> http_response \<times> subs_world" where
  "subs_list_topics lib rid c w = answer rid (\<lambda>p. Json (page_json topic_json p))
     (api_list_topics (ab_readers lib) (query_param ''q'' (cl_query c)) (query_limit lib 50 c)
       (query_param ''cursor'' (cl_query c)) w)"

definition subs_get_topic ::
  "app_library \<Rightarrow> string \<Rightarrow> string \<Rightarrow> call \<Rightarrow> subs_world \<Rightarrow> http_response \<times> subs_world" where
  "subs_get_topic lib topic_id rid c w =
     answer rid (\<lambda>t. Json (topic_json t)) ((case ab_uuid lib (JStr topic_id) of
         None \<Rightarrow> endpoint (raise invalid_request)
       | Some t \<Rightarrow> api_get_topic (str_uuid t)) w)"

definition subs_create_topic ::
  "app_library \<Rightarrow> string \<Rightarrow> call \<Rightarrow> subs_world \<Rightarrow> http_response \<times> subs_world" where
  "subs_create_topic lib rid c w = (case read_body lib topic_create_request c of
     None \<Rightarrow> (invalid_body rid, w)
   | Some payload \<Rightarrow> answer rid (\<lambda>t. Json (topic_json t)) ((case payload of
         None \<Rightarrow> endpoint (raise invalid_request)
       | Some (key, name, description) \<Rightarrow>
           api_create_topic (case header ''x-user-roles'' (cl_headers c) of None \<Rightarrow> [] | Some t \<Rightarrow> t)
             key name description) w))"

definition subs_topic_subscribers ::
  "app_library \<Rightarrow> string \<Rightarrow> string \<Rightarrow> call \<Rightarrow> subs_world \<Rightarrow> http_response \<times> subs_world" where
  "subs_topic_subscribers lib topic_id rid c w =
     answer rid (\<lambda>p. Json (page_json subscriber_json p)) ((case ab_uuid lib (JStr topic_id) of
         None \<Rightarrow> endpoint (raise invalid_request)
       | Some t \<Rightarrow> api_list_topic_subscribers (fst (ab_readers lib)) t (query_limit lib 100 c)
           (query_param ''cursor'' (cl_query c))) w)"

section \<open>The application\<close>

definition subs_ready ::
  "(subs_world, unit) eff \<Rightarrow> string \<Rightarrow> subs_world \<Rightarrow> http_response \<times> subs_world" where
  "subs_ready db_ping rid w =
     answer rid (\<lambda>d. Json (JDict (map (\<lambda>(k, v). (k, JStr v)) d)))
       (endpoint (and_then (subscriptions_ready db_ping) (\<lambda>d. ret (200, d))) w)"

definition subs_run ::
  "app_library \<Rightarrow> zone_db \<Rightarrow> (subs_world, unit) eff \<Rightarrow> string \<Rightarrow> call \<Rightarrow> subs_world \<Rightarrow>
   http_response \<times> subs_world" where
  "subs_run lib zi db_ping rid c w = (case subs_route_of (cl_method c) (ab_path lib (cl_path c)) of
     None \<Rightarrow> (ab_unrouted lib c, w)
   | Some route \<Rightarrow> (case route of
       Health_Route \<Rightarrow> (health_response, w)
     | Ready_Route \<Rightarrow> subs_ready db_ping rid w
     | List_Topics \<Rightarrow> subs_list_topics lib rid c w
     | Get_Topic i \<Rightarrow> subs_get_topic lib i rid c w
     | Create_Topic \<Rightarrow> subs_create_topic lib rid c w
     | My_Subscriptions \<Rightarrow> subs_my lib rid c w
     | Subscribe \<Rightarrow> subs_subscribe lib rid c w
     | Unsubscribe i \<Rightarrow> subs_unsubscribe lib i rid c w
     | Update_Subscription i \<Rightarrow> subs_update lib zi i rid c w
     | Topic_Subscribers i \<Rightarrow> subs_topic_subscribers lib i rid c w))"

definition subscriptions_app ::
  "app_library \<Rightarrow> zone_db \<Rightarrow> (subs_world, unit) eff \<Rightarrow> call \<Rightarrow> subs_world \<Rightarrow> http_response \<times> subs_world" where
  "subscriptions_app lib zi db_ping = service_app (subs_run lib zi db_ping)"

end
