(* ===== verification/Notifications_Http.thy ===== *)
theory Notifications_Http
  imports Service_Http Notifications_Service Monitoring
begin

text \<open>
  The HTTP application of the notifications service (\<open>main.py\<close>): its routes, the reader of
  \<open>CreateNotificationRequest\<close> and the JSON of \<open>NotificationResponse\<close>, around the endpoints of
  \<open>Notifications_Service\<close>. Floats in payloads are JSON numbers: the \<open>NaN\<close> that \<open>json.loads\<close>
  also takes is left out.
\<close>

section \<open>schemas/notifications.py\<close>

definition notification_json :: "app_library \<Rightarrow> notification_response \<Rightarrow> json" where
  "notification_json lib r = JDict
     [(''id'', JStr (str_uuid (rn_id r))), (''topic_id'', JStr (str_uuid (rn_topic_id r))),
      (''payload'', JDict (rn_payload r)), (''status'', JStr (status_text (rn_status r))),
      (''scheduled_at'', json_opt (\<lambda>t. JStr (ab_write_datetime lib t)) (rn_scheduled_at r)),
      (''created_at'', JStr (ab_write_datetime lib (rn_created_at r)))]"

definition notification_request :: "app_library \<Rightarrow> json \<Rightarrow> create_request option" where
  "notification_request lib v = Option.bind (dict_of v) (\<lambda>d.
     Option.bind (required d ''topic_id'' (ab_uuid lib)) (\<lambda>topic_id.
     Option.bind (required d ''payload'' dict_of) (\<lambda>payload.
     Option.bind (defaulted None d ''scheduled_at'' (or_null (ab_datetime lib))) (\<lambda>scheduled_at.
     Option.bind (defaulted None d ''idempotency_key'' (or_null text_value)) (\<lambda>idempotency_key.
       Some \<lparr>cr_topic_id = topic_id, cr_payload = payload, cr_scheduled_at = scheduled_at,
         cr_idempotency_key = idempotency_key\<rparr>)))))"

section \<open>main.py: the routes\<close>

datatype notifications_route =
    Health_Route
  | Ready_Route
  | Metrics_Route
  | Create_Notification
  | My_Notifications
  | Get_Notification string
  | Cancel_Notification string

text \<open>\<open>/notifications/me\<close> stands before \<open>/notifications/{notification_id}\<close>.\<close>

definition notifications_route_of :: "string \<Rightarrow> string \<Rightarrow> notifications_route option" where
  "notifications_route_of verb path = (let parts = py_split (CHR ''/'') path; last = last parts in
     if verb = ''GET'' then
       if parts = [[], ''health''] then Some Health_Route
       else if parts = [[], ''ready''] then Some Ready_Route
       else if parts = [[], ''metrics''] then Some Metrics_Route
       else if parts = [[], ''notifications'', ''me''] then Some My_Notifications
       else if parts = [[], ''notifications'', last] \<and> last \<noteq> [] then Some (Get_Notification last)
       else None
     else if verb = ''POST'' then
       if parts = [[], ''notifications''] then Some Create_Notification
       else if length parts = 4 \<and> parts = [[], ''notifications'', parts ! 2, ''cancel''] \<and>
           parts ! 2 \<noteq> [] then Some (Cancel_Notification (parts ! 2))
       else None
     else None)"

section \<open>The endpoints behind the routes\<close>

abbreviation notify_user :: "call \<Rightarrow> string option" where
  "notify_user c \<equiv> header ''x-user-id'' (cl_headers c)"

abbreviation notify_roles :: "call \<Rightarrow> string" where
  "notify_roles c \<equiv> case header ''x-user-roles'' (cl_headers c) of None \<Rightarrow> [] | Some t \<Rightarrow> t"

definition notify_create ::
  "app_library \<Rightarrow> notifications_settings \<Rightarrow> string \<Rightarrow> call \<Rightarrow> notifications_world \<Rightarrow>
   http_response \<times> notifications_world" where
  "notify_create lib settings rid c w = (case read_body lib (notification_request lib) c of
     None \<Rightarrow> (invalid_body rid, w)
   | Some payload \<Rightarrow> answer rid (\<lambda>n. Json (notification_json lib n)) ((case payload of
         None \<Rightarrow> refuse_user (notify_user c)
       | Some r \<Rightarrow> api_create_notification settings (notify_user c) rid r) w))"

text \<open>The query parameter \<open>topic_id\<close>: \<open>None\<close> for one that is no UUID.\<close>

definition topic_filter :: "app_library \<Rightarrow> call \<Rightarrow> uuid option option" where
  "topic_filter lib c = (case query_param ''topic_id'' (cl_query c) of
     None \<Rightarrow> Some None | Some t \<Rightarrow> map_option Some (ab_uuid lib (JStr t)))"

definition notify_my ::
  "app_library \<Rightarrow> string \<Rightarrow> call \<Rightarrow> notifications_world \<Rightarrow> http_response \<times> notifications_world" where
  "notify_my lib rid c w = answer rid (\<lambda>p. Json (page_json (notification_json lib) p))
     ((case topic_filter lib c of
         None \<Rightarrow> refuse_user (notify_user c)
       | Some topic_id \<Rightarrow> api_list_my_notifications (ab_readers lib) (notify_user c) (query_limit lib 50 c)
           (query_param ''cursor'' (cl_query c)) (query_param ''status'' (cl_query c)) topic_id) w)"

definition notify_get ::
  "app_library \<Rightarrow> string \<Rightarrow> string \<Rightarrow> call \<Rightarrow> notifications_world \<Rightarrow> http_response \<times> notifications_world" where
  "notify_get lib notification_id rid c w = answer rid (\<lambda>n. Json (notification_json lib n))
     ((case ab_uuid lib (JStr notification_id) of
         None \<Rightarrow> refuse_user (notify_user c)
       | Some i \<Rightarrow> api_get_notification (notify_user c) (notify_roles c) (str_uuid i)) w)"

definition notify_cancel ::
  "app_library \<Rightarrow> string \<Rightarrow> string \<Rightarrow> call \<Rightarrow> notifications_world \<Rightarrow> http_response \<times> notifications_world" where
  "notify_cancel lib notification_id rid c w = answer rid (\<lambda>n. Json (notification_json lib n))
     ((case ab_uuid lib (JStr notification_id) of
         None \<Rightarrow> refuse_user (notify_user c)
       | Some i \<Rightarrow> api_cancel_notification (notify_user c) (notify_roles c) (str_uuid i)) w)"

section \<open>The application\<close>

text \<open>What the two system endpoints use beside the tables: the pings and the texts of durations.\<close>

record notifications_system =
  ny_db_ping :: "(notifications_world, unit) eff"
  ny_bus_ping :: "(notifications_world, unit) eff"
  ny_seconds :: seconds_text

definition notify_ready ::
  "notifications_system \<Rightarrow> string \<Rightarrow> notifications_world \<Rightarrow> http_response \<times> notifications_world" where
  "notify_ready sys rid w = answer rid (\<lambda>d. Json (JDict (map (\<lambda>(k, v). (k, JStr v)) d)))
     (endpoint (and_then (notifications_ready (ny_db_ping sys) (ny_bus_ping sys)) (\<lambda>d. ret (200, d))) w)"

definition notify_metrics :: "notifications_system \<Rightarrow> notifications_world \<Rightarrow> http_response" where
  "notify_metrics sys w = plain_response 200 (Bytes (render_notifications (ny_seconds sys) (nw_metrics w)))"

definition notify_run ::
  "app_library \<Rightarrow> notifications_settings \<Rightarrow> notifications_system \<Rightarrow> string \<Rightarrow> call \<Rightarrow>
   notifications_world \<Rightarrow> http_response \<times> notifications_world" where
  "notify_run lib settings sys rid c w =
     (case notifications_route_of (cl_method c) (ab_path lib (cl_path c)) of
        None \<Rightarrow> (ab_unrouted lib c, w)
      | Some route \<Rightarrow> (case route of
          Health_Route \<Rightarrow> (health_response, w)
        | Ready_Route \<Rightarrow> notify_ready sys rid w
        | Metrics_Route \<Rightarrow> (notify_metrics sys w, w)
        | Create_Notification \<Rightarrow> notify_create lib settings rid c w
        | My_Notifications \<Rightarrow> notify_my lib rid c w
        | Get_Notification i \<Rightarrow> notify_get lib i rid c w
        | Cancel_Notification i \<Rightarrow> notify_cancel lib i rid c w))"

definition notifications_app ::
  "app_library \<Rightarrow> notifications_settings \<Rightarrow> notifications_system \<Rightarrow> call \<Rightarrow> notifications_world \<Rightarrow>
   http_response \<times> notifications_world" where
  "notifications_app lib settings sys = service_app (notify_run lib settings sys)"

end
