(* ===== verification/Auth_Http.thy ===== *)
theory Auth_Http
  imports Service_Http Auth_Service Monitoring
begin

text \<open>
  The HTTP application of the auth service (\<open>main.py\<close>): its routes, the readers of its requests
  and the JSON of its responses, around the endpoints of \<open>Auth_Service\<close>. It has no middleware of
  its own; its errors are objects with one field \<open>detail\<close>.
\<close>

section \<open>schemas/auth.py\<close>

definition credentials_request :: "json \<Rightarrow> (string \<times> string) option" where
  "credentials_request v = Option.bind (dict_of v) (\<lambda>d.
     Option.bind (required d ''email'' text_value) (\<lambda>email.
     Option.bind (required d ''password'' text_value) (\<lambda>password. Some (email, password))))"

definition token_request :: "json \<Rightarrow> string option" where
  "token_request v = Option.bind (dict_of v) (\<lambda>d. required d ''refresh_token'' text_value)"

definition token_pair_json :: "token_pair \<Rightarrow> json" where
  "token_pair_json p = JDict
     [(''access_token'', JStr (tk_access_token p)), (''refresh_token'', JStr (tk_refresh_token p)),
      (''token_type'', JStr ''bearer''), (''expires_in'', JInt (tk_expires_in p))]"

definition register_json :: "string \<times> string \<Rightarrow> json" where
  "register_json r = JDict [(''status'', JStr (fst r)), (''message'', JStr (snd r))]"

definition detail_json :: "string \<Rightarrow> json" where
  "detail_json message = JDict [(''detail'', JStr message)]"

definition auth_answer :: "('a \<Rightarrow> content) \<Rightarrow> 'a answer \<times> 'w \<Rightarrow> http_response \<times> 'w" where
  "auth_answer f rw = (case fst rw of
     Answer status x \<Rightarrow> plain_response status (f x)
   | Detail status message \<Rightarrow> plain_response status (Json (detail_json message)), snd rw)"

text \<open>\<open>UserResponse\<close> checks the address once more.\<close>

definition user_response :: "auth_library \<Rightarrow> (string \<times> string \<times> bool) answer \<Rightarrow> json answer" where
  "user_response lib a = (case a of
     Detail status message \<Rightarrow> Detail status message
   | Answer status (user_id, email, is_active) \<Rightarrow> (case al_email lib email of
       None \<Rightarrow> Detail 500 ''Internal server error''
     | Some email' \<Rightarrow> Answer status (JDict
         [(''id'', JStr user_id), (''email'', JStr email'), (''is_active'', JBool is_active)])))"

section \<open>main.py: the routes\<close>

datatype auth_route =
    Health_Route
  | Ready_Route
  | Register
  | Login
  | Refresh
  | Logout
  | Me

definition auth_route_of :: "string \<Rightarrow> string \<Rightarrow> auth_route option" where
  "auth_route_of verb path =
     (if verb = ''GET'' then
        if path = ''/health'' then Some Health_Route
        else if path = ''/ready'' then Some Ready_Route
        else if path = ''/auth/me'' then Some Me
        else None
      else if verb = ''POST'' then
        if path = ''/auth/register'' then Some Register
        else if path = ''/auth/login'' then Some Login
        else if path = ''/auth/refresh'' then Some Refresh
        else if path = ''/auth/logout'' then Some Logout
        else None
      else None)"

section \<open>The endpoints behind the routes\<close>

text \<open>
  What the endpoints use beside the tables: the address of the peer that connected, which is the
  one of the gateway when it calls, and the pings of the readiness endpoint.
\<close>

record auth_system =
  ay_peer :: "string option"
  ay_db_ping :: "(auth_world, unit) eff option"
  ay_cache_ping :: "(auth_world, unit) eff option"
  ay_bus_connected :: "(auth_world \<Rightarrow> bool) option"

definition auth_invalid_body :: http_response where
  "auth_invalid_body = plain_response 422 (Json (detail_json ''Invalid request''))"

text \<open>An endpoint with a body: it is read first, checked after the service was constructed.\<close>

definition with_body ::
  "app_library \<Rightarrow> auth_settings \<Rightarrow> (json \<Rightarrow> 'p option) \<Rightarrow> ('a \<Rightarrow> content) \<Rightarrow>
   ('p \<Rightarrow> auth_world \<Rightarrow> 'a answer \<times> auth_world) \<Rightarrow> call \<Rightarrow> auth_world \<Rightarrow> http_response \<times> auth_world" where
  "with_body lib s reader f run c w = (case read_body lib reader c of
     None \<Rightarrow> (auth_invalid_body, w)
   | Some payload \<Rightarrow> auth_answer f ((case payload of
         None \<Rightarrow> auth_endpoint (with_service s (raise invalid_request))
       | Some p \<Rightarrow> run p) w))"

abbreviation forwarded_for :: "call \<Rightarrow> string option" where
  "forwarded_for c \<equiv> header ''x-forwarded-for'' (cl_headers c)"

abbreviation agent_of :: "call \<Rightarrow> string option" where
  "agent_of c \<equiv> header ''user-agent'' (cl_headers c)"

definition auth_register ::
  "app_library \<Rightarrow> auth_library \<Rightarrow> auth_settings \<Rightarrow> auth_system \<Rightarrow> call \<Rightarrow> auth_world \<Rightarrow> http_response \<times> auth_world" where
  "auth_register lib al s sys c = with_body lib s credentials_request (\<lambda>r. Json (register_json r))
     (\<lambda>(email, password). api_register al s (forwarded_for c) (ay_peer sys) email password) c"

definition auth_login ::
  "app_library \<Rightarrow> auth_library \<Rightarrow> auth_settings \<Rightarrow> auth_system \<Rightarrow> call \<Rightarrow> auth_world \<Rightarrow> http_response \<times> auth_world" where
  "auth_login lib al s sys c = with_body lib s credentials_request (\<lambda>p. Json (token_pair_json p))
     (\<lambda>(email, password). api_login al s (forwarded_for c) (ay_peer sys) (agent_of c) email password) c"

definition auth_refresh ::
  "app_library \<Rightarrow> auth_library \<Rightarrow> auth_settings \<Rightarrow> auth_system \<Rightarrow> call \<Rightarrow> auth_world \<Rightarrow> http_response \<times> auth_world" where
  "auth_refresh lib al s sys c = with_body lib s token_request (\<lambda>p. Json (token_pair_json p))
     (api_refresh al s (forwarded_for c) (ay_peer sys) (agent_of c)) c"

definition auth_logout ::
  "app_library \<Rightarrow> auth_settings \<Rightarrow> call \<Rightarrow> auth_world \<Rightarrow> http_response \<times> auth_world" where
  "auth_logout lib s c = with_body lib s token_request (\<lambda>_. Bytes []) (api_logout s) c"

definition auth_me ::
  "app_library \<Rightarrow> auth_library \<Rightarrow> auth_settings \<Rightarrow> call \<Rightarrow> auth_world \<Rightarrow> http_response \<times> auth_world" where
  "auth_me lib al s c w =
     (let (a, w') = api_me al s (ab_credentials lib (header ''authorization'' (cl_headers c))) w
      in auth_answer Json (user_response al a, w'))"

definition auth_readiness :: "auth_system \<Rightarrow> auth_world \<Rightarrow> http_response \<times> auth_world" where
  "auth_readiness sys w = auth_answer (\<lambda>d. Json (JDict (map (\<lambda>(k, v). (k, JStr v)) d)))
     (auth_endpoint (and_then (auth_ready (ay_db_ping sys) (ay_cache_ping sys) (ay_bus_connected sys))
       (\<lambda>d. ret (200, d))) w)"

section \<open>The application\<close>

definition auth_app ::
  "app_library \<Rightarrow> auth_library \<Rightarrow> auth_settings \<Rightarrow> auth_system \<Rightarrow> call \<Rightarrow> auth_world \<Rightarrow> http_response \<times> auth_world" where
  "auth_app lib al s sys c w = (case auth_route_of (cl_method c) (ab_path lib (cl_path c)) of
     None \<Rightarrow> (ab_unrouted lib c, w)
   | Some route \<Rightarrow> (case route of
       Health_Route \<Rightarrow> (health_response, w)
     | Ready_Route \<Rightarrow> auth_readiness sys w
     | Register \<Rightarrow> auth_register lib al s sys c w
     | Login \<Rightarrow> auth_login lib al s sys c w
     | Refresh \<Rightarrow> auth_refresh lib al s sys c w
     | Logout \<Rightarrow> auth_logout lib s c w
     | Me \<Rightarrow> auth_me lib al s c w))"

end
