(* ===== verification/Platform.thy ===== *)
theory Platform
  imports Gateway_Stack Gateway_Composition Subscriptions_Http Notifications_Http Auth_Http
begin

text \<open>
  The gateway with the HTTP applications of the three services behind it: a request of a client
  runs through the middlewares and routes of the gateway, its calls through the routes of a
  service, and the answers come back as JSON.
\<close>

section \<open>The services behind the gateway\<close>

record platform_config =
  pc_app :: app_library
  pc_auth_library :: auth_library
  pc_auth :: auth_settings
  pc_auth_system :: auth_system
  pc_zones :: zone_db
  pc_subs_ping :: "(subs_world, unit) eff"
  pc_notes :: notifications_settings
  pc_notes_system :: notifications_system

record platform =
  pl_auth :: auth_world
  pl_subs :: subs_world
  pl_notes :: notifications_world

definition platform_answer :: "platform_config \<Rightarrow> call \<Rightarrow> platform \<Rightarrow> http_response \<times> platform" where
  "platform_answer cfg c u = (case cl_service c of
     Auth_Api \<Rightarrow> (let (r, w) = auth_app (pc_app cfg) (pc_auth_library cfg) (pc_auth cfg)
           (pc_auth_system cfg) c (pl_auth u) in (r, u\<lparr>pl_auth := w\<rparr>))
   | Subscriptions_Api \<Rightarrow> (let (r, w) = subscriptions_app (pc_app cfg) (pc_zones cfg)
           (pc_subs_ping cfg) c (pl_subs u) in (r, u\<lparr>pl_subs := w\<rparr>))
   | Notifications_Api \<Rightarrow> (let (r, w) = notifications_app (pc_app cfg) (pc_notes cfg)
           (pc_notes_system cfg) c (pl_notes u) in (r, u\<lparr>pl_notes := w\<rparr>)))"

text \<open>
  Every call reaches its service here; what the gateway does when one does not is the subject of
  \<open>send_with_retries_outcome\<close> in \<open>Gateway_Properties\<close>.
\<close>

definition platform_services :: "platform_config \<Rightarrow> platform services" where
  "platform_services cfg c u = (let (r, u') = platform_answer cfg c u in (Response r, u'))"

definition platform_gateway ::
  "gateway_library \<Rightarrow> platform_config \<Rightarrow> gateway_settings \<Rightarrow> seconds_text \<Rightarrow>
   (http_request \<Rightarrow> http_response) \<Rightarrow> platform handler" where
  "platform_gateway lib cfg s secs unrouted =
     gateway_app s (gateway_run lib (platform_services cfg) s secs unrouted)"

lemma platform_gateway_run:
  assumes "body_ok s rq"
    and "gateway_run lib (platform_services cfg) s secs unrouted (entry_request rq (entry_id rq w)) (entry_world rq w) =
      (Inr r, v)"
  shows "\<exists>r' w'. platform_gateway lib cfg s secs unrouted rq w = (Inr r', w') \<and> rs_status r' = rs_status r \<and>
    rs_body r' = rs_body r \<and> rs_cookies r' = rs_cookies r \<and> gw_services w' = gw_services v"
  using gateway_app_run [where run = "gateway_run lib (platform_services cfg) s secs unrouted", OF assms]
  by (auto simp: platform_gateway_def)

section \<open>The user that a request acts for\<close>

definition acting_user :: "http_request \<Rightarrow> identity \<Rightarrow> string" where
  "acting_user rq user = (case header ''x-user-id'' (rq_headers rq) of
     Some v \<Rightarrow> v | None \<Rightarrow> str_uuid (id_user_id user))"

lemma acting_user_entry [simp]: "acting_user (entry_request rq x) user = acting_user rq user"
  by (simp add: acting_user_def)

text \<open>What a service finds in a call that the gateway makes for a user.\<close>

definition names_user :: "http_request \<Rightarrow> identity \<Rightarrow> pairs \<Rightarrow> bool" where
  "names_user rq user hs \<longleftrightarrow> header ''x-user-id'' hs = Some (acting_user rq user) \<and>
     header ''content-type'' hs = header ''content-type'' (rq_headers rq) \<and>
     (header ''x-request-id'' (rq_headers rq) \<noteq> Some [] \<and> rq_request_id rq \<noteq> [] \<longrightarrow>
        truthy (header ''x-request-id'' hs) =
          (case header ''x-request-id'' (rq_headers rq) of None \<Rightarrow> Some (rq_request_id rq) | Some i \<Rightarrow> Some i))"

lemma identity_headers_name_user:
  assumes "lower_names (rq_headers rq)" and "traces_only lib"
  shows "names_user rq user (gl_inject lib (identity_headers rq (str_uuid (id_user_id user)) roles))"
  using assms(2) forwarded_user_id [OF assms(1)] forwarded_request_id [OF assms(1)]
  by (auto simp: names_user_def traces_only_def acting_user_def forwarded_content_type truthy_def
      split: option.split)

lemma entry_id_nonempty: "entry_id rq w \<noteq> []"
  by (auto simp: entry_id_def truthy_def str_uuid_nonempty split: option.split if_splits)

lemma entry_names_user:
  assumes "names_user (entry_request rq (entry_id rq w)) user hs"
    and "header ''x-request-id'' (rq_headers rq) \<noteq> Some []"
  shows "header ''x-user-id'' hs = Some (acting_user rq user)"
    and "truthy (header ''x-request-id'' hs) = Some (entry_id rq w)"
    and "header ''content-type'' hs = header ''content-type'' (rq_headers rq)"
proof -
  have "entry_id rq w = (case header ''x-request-id'' (rq_headers rq) of
      None \<Rightarrow> entry_id rq w | Some i \<Rightarrow> i)"
    using assms(2) by (auto simp: entry_id_def truthy_def split: option.split)
  with assms show "header ''x-user-id'' hs = Some (acting_user rq user)"
    and "truthy (header ''x-request-id'' hs) = Some (entry_id rq w)"
    and "header ''content-type'' hs = header ''content-type'' (rq_headers rq)"
    by (auto simp: names_user_def entry_id_nonempty split: option.splits)
qed

section \<open>The service of subscriptions behind the gateway\<close>

text \<open>A request with an identifier runs under it.\<close>

lemma service_app_run:
  assumes "truthy (header ''x-request-id'' (cl_headers c)) = Some rid"
  shows "service_app run c w = (with_request_id rid (fst (run rid c w)), snd (run rid c w))"
  using assms by (simp add: service_app_def request_id_of_def ret_run split: prod.split)

lemma with_request_id_simps [simp]:
  "rs_status (with_request_id rid r) = rs_status r" "rs_body (with_request_id rid r) = rs_body r"
  by (simp_all add: with_request_id_def)

lemma subs_routes:
  "subs_route_of ''GET'' ''/subscriptions/me'' = Some My_Subscriptions"
  "subs_route_of ''POST'' ''/subscriptions'' = Some Subscriptions_Http.Subscribe"
  "notifications_route_of ''POST'' ''/notifications'' = Some Create_Notification"
  by code_simp+

lemma plain_paths: "list_all path_char ''/subscriptions/me''" "list_all path_char ''/subscriptions''"
  "list_all path_char ''/notifications''"
  by code_simp+

lemma gateway_routes:
  "path \<in> set [''/subscriptions/me'', ''/api/subscriptions/me''] \<Longrightarrow>
    gateway_route_of ''GET'' path = Some Subscriptions_Me"
  "path \<in> set [''/subscriptions'', ''/api/subscriptions''] \<Longrightarrow>
    gateway_route_of ''POST'' path = Some New_Subscription"
  by (auto, code_simp+)

lemma traced_simps [simp]:
  "cl_service (traced lib c) = cl_service c" "cl_method (traced lib c) = cl_method c"
  "cl_path (traced lib c) = cl_path c" "cl_query (traced lib c) = cl_query c"
  "cl_content (traced lib c) = cl_content c" "cl_headers (traced lib c) = gl_inject lib (cl_headers c)"
  by (simp_all add: traced_def)

lemma proxied_simps [simp]:
  "cl_service (proxied rq user svc path) = svc" "cl_method (proxied rq user svc path) = rq_method rq"
  "cl_path (proxied rq user svc path) = path" "cl_query (proxied rq user svc path) = rq_query rq"
  "cl_content (proxied rq user svc path) = Bytes (cached_body rq)"
  "cl_headers (proxied rq user svc path) =
     identity_headers rq (str_uuid (id_user_id user)) (id_roles user)"
  by (simp_all add: proxied_def)

section \<open>A concrete platform, for the witnesses\<close>

definition sample_config :: platform_config where
  "sample_config = \<lparr>pc_app = sample_app, pc_auth_library = sample_library, pc_auth = default_auth_settings,
     pc_auth_system = \<lparr>ay_peer = None, ay_db_ping = None, ay_cache_ping = None, ay_bus_connected = None\<rparr>,
     pc_zones = (\<lambda>_. Zone_Not_Found), pc_subs_ping = ret (), pc_notes = default_notifications_settings,
     pc_notes_system = \<lparr>ny_db_ping = ret (), ny_bus_ping = ret (), ny_seconds = int_text\<rparr>\<rparr>"

definition sample_platform :: "(uuid \<times> uuid \<times> bool) list \<Rightarrow> platform gateway_world" where
  "sample_platform rows = \<lparr>gw_clock = 0, gw_redis = (\<lambda>_. None), gw_answered = (\<lambda>_. True), gw_commands = 0,
     gw_metrics = \<lparr>gm_http_total = [], gm_duration_sum = [], gm_duration_count = [],
       gm_rate_limited = 0, gm_downstream_errors = []\<rparr>,
     gw_calls = [],
     gw_services = \<lparr>pl_auth = sample_auth [], pl_subs = sample_subs rows, pl_notes = sample_service\<rparr>,
     gw_uuids = (\<lambda>n. 100 + n), gw_drawn = 0, gw_perf = int, gw_readings = 0, gw_request_id = []\<rparr>"

definition sample_client :: "string \<Rightarrow> string \<Rightarrow> pairs \<Rightarrow> http_request" where
  "sample_client verb path hs =
     (sample_request verb ((''authorization'', ''Bearer jwt'') # hs))\<lparr>rq_path := path\<rparr>"

lemma header_names:
  "py_lower ''authorization'' = ''authorization''" "py_lower ''content-length'' = ''content-length''"
  by code_simp+

text \<open>The announced length of a body of one byte.\<close>

lemma one_byte: "py_int ''1'' = Inr 1"
  by code_simp

lemmas header_name_simps = same_name_def header_names upper_names lower_plain

lemma sample_client_ok:
  "get_current_identity sample_gateway_library default_gateway_settings (sample_client verb path hs) w =
    (Inr \<lparr>id_user_id = 7, id_roles = []\<rparr>, w)"
  "has_room default_gateway_settings 7 (sample_platform rows)"
  "0 \<le> gs_retries_get default_gateway_settings" "traces_only sample_gateway_library"
proof -
  have "header ''authorization'' (rq_headers (sample_client verb path hs)) = Some ''Bearer jwt''"
    by (simp add: sample_client_def sample_request_def same_name_def)
  from sample_identity [OF this]
  show "get_current_identity sample_gateway_library default_gateway_settings (sample_client verb path hs) w =
    (Inr \<lparr>id_user_id = 7, id_roles = []\<rparr>, w)" .
qed (simp_all add: has_room_def sample_platform_def window_hit_def redis_incr_def alive_def
    default_gateway_settings_def traces_only_def sample_gateway_library_def)

section \<open>Reading one's subscriptions\<close>

definition subscriptions_page :: "subscription_record list \<times> string option \<Rightarrow> content" where
  "subscriptions_page p = Json (page_json subscription_json (map to_subscription_response (fst p), snd p))"

lemma listed_users:
  assumes "list_my rd u n c p = (Inr page, v)" and "r \<in> set (fst page)"
  shows "sub_user_id r = u"
proof -
  have "set (fst page) \<subseteq> set rows" if "cut_page g n rows = Inr page" for g and rows :: "subscription_record list"
    using that by (auto simp: cut_page_def dest: in_set_takeD split: if_splits)
  with assms show ?thesis
    by (fastforce simp: list_my_def list_for_user_def and_then_run lift_run sql_def query_def select_page_def
        split: prod.splits sum.splits if_splits dest: in_set_takeD)
qed

lemma my_subscriptions_answer:
  fixes c :: call
  assumes "cl_service c = Subscriptions_Api" "cl_method c = ''GET''" "cl_path c = ''/subscriptions/me''"
    and "reads_platform (pc_app cfg)"
    and "truthy (header ''x-request-id'' (cl_headers c)) = Some rid"
    and "header ''x-user-id'' (cl_headers c) = Some name" and "current_user_id (Some name) = Inr u"
    and "page_limit 500 (query_limit (pc_app cfg) 50 c) = Inr n"
    and "list_my (ab_readers (pc_app cfg)) u n (query_param ''cursor'' (cl_query c)) (pl_subs p) = (Inr page, v)"
  shows "\<exists>r. platform_services cfg c p = (Response r, p\<lparr>pl_subs := v\<rparr>) \<and> rs_status r = 200 \<and>
    rs_body r = subscriptions_page page"
proof -
  have path: "ab_path (pc_app cfg) ''/subscriptions/me'' = ''/subscriptions/me''"
    using assms(4) plain_paths(1) by (simp add: reads_platform_def)
  have "subs_run (pc_app cfg) (pc_zones cfg) (pc_subs_ping cfg) rid c (pl_subs p) =
      (plain_response 200 (subscriptions_page page), v)"
    using assms(6-9)
    by (simp add: subs_run_def assms(2,3) path subs_routes subs_my_def api_my_subscriptions_def endpoint_def
        and_then_run lift_run ret_run answer_def respond_def subscriptions_page_def split: prod.split)
  with assms(1) show ?thesis
    by (simp add: platform_services_def platform_answer_def subscriptions_app_def service_app_run [OF assms(5)]
        plain_response_def)
qed

text \<open>
  C31: behind the gateway a user is who the header \<open>x-user-id\<close> of the request names, and the one
  of the access token only without that header. A request for one's own subscriptions, on either
  of its paths and with a token that the gateway accepts, is answered with the page of the
  subscriptions of the named user, as JSON, and nothing but the session of that service changes.
\<close>

theorem header_names_the_user:
  fixes cfg :: platform_config
  assumes "rq_method rq = ''GET''" and "rq_path rq \<in> set [''/subscriptions/me'', ''/api/subscriptions/me'']"
    and "body_ok s rq" and "lower_names (rq_headers rq)"
    and "header ''x-request-id'' (rq_headers rq) \<noteq> Some []"
    and "get_current_identity lib s rq w = (Inr user, w)" and "has_room s (id_user_id user) w"
    and "0 \<le> gs_retries_get s" and "traces_only lib" and "reads_platform (pc_app cfg)"
    and "current_user_id (Some (acting_user rq user)) = Inr u"
    and "rq_query rq = []"
    and "list_my (ab_readers (pc_app cfg)) u 50 None (pl_subs (gw_services w)) = (Inr page, v)"
  shows "\<exists>r w'. platform_gateway lib cfg s secs unrouted rq w = (Inr r, w') \<and>
    rs_status r = 200 \<and> rs_body r = subscriptions_page page \<and>
    (\<forall>x \<in> set (fst page). sub_user_id x = u) \<and>
    gw_services w' = (gw_services w)\<lparr>pl_subs := v\<rparr>"
proof -
  let ?rq = "entry_request rq (entry_id rq w)" and ?w = "entry_world rq w"
  let ?c = "traced lib (proxied ?rq user Subscriptions_Api ''/subscriptions/me'')"
  have hs: "names_user ?rq user (cl_headers ?c)"
    using identity_headers_name_user [of ?rq lib user] assms(4,9) by simp
  have call: "cl_service ?c = Subscriptions_Api" "cl_method ?c = ''GET''" "cl_path ?c = ''/subscriptions/me''"
    by (simp_all add: assms(1))
  have limit: "page_limit 500 (query_limit (pc_app cfg) 50 ?c) = Inr 50"
    by (simp add: query_limit_def query_param_def assms(12) page_limit_def)
  obtain r where r: "platform_services cfg ?c (gw_services ?w) = (Response r, (gw_services w)\<lparr>pl_subs := v\<rparr>)"
      "rs_status r = 200" "rs_body r = subscriptions_page page"
    using my_subscriptions_answer [OF call(1-3) assms(10) entry_names_user(2,1) [OF hs assms(5)] assms(11) limit, of "gw_services w" page v]
      assms(12,13) by (auto simp: query_param_def)
  obtain x where "user_proxy lib (platform_services cfg) s Subscriptions_Api ''/subscriptions/me'' ?rq ?w =
      (Inr (forwarded_response [''transfer-encoding'', ''connection'', ''content-length''] r), x)"
      "gw_services x = (gw_services w)\<lparr>pl_subs := v\<rparr>"
    using user_proxy_run [where up = "platform_services cfg", OF identity_entry [OF assms(6)]
      entry_has_room [OF assms(7)] _ assms(8)] r(1) by blast
  then have "gateway_run lib (platform_services cfg) s secs unrouted ?rq ?w =
      (Inr (forwarded_response [''transfer-encoding'', ''connection'', ''content-length''] r), x)"
    by (simp add: gateway_run_def assms(1) gateway_routes(1) [OF assms(2)] my_subscriptions_def)
  from platform_gateway_run [OF assms(3) this] show ?thesis
    using r(2,3) listed_users [OF assms(13)] \<open>gw_services x = _\<close> by (auto simp: forwarded_response_def)
qed

theorem header_names_the_user_witness:
  "\<exists>r w' page. platform_gateway sample_gateway_library sample_config default_gateway_settings int_text
      (\<lambda>_. no_content) (sample_client ''GET'' ''/api/subscriptions/me'' [(''x-user-id'', str_uuid 9)])
      (sample_platform [(1, 9, True), (2, 7, True)]) = (Inr r, w') \<and>
    rs_status r = 200 \<and> rs_body r = subscriptions_page page \<and> map sub_id (fst page) = [1]"
proof -
  let ?rq = "sample_client ''GET'' ''/api/subscriptions/me'' [(''x-user-id'', str_uuid 9)]"
  let ?w = "sample_platform [(1, 9, True), (2, 7, True)]"
  have hs: "rq_headers ?rq = [(''authorization'', ''Bearer jwt''), (''x-user-id'', str_uuid 9)]"
    by (simp add: sample_client_def sample_request_def)
  have rq: "rq_method ?rq = ''GET''" "rq_path ?rq \<in> set [''/subscriptions/me'', ''/api/subscriptions/me'']"
    "body_ok default_gateway_settings ?rq" "lower_names (rq_headers ?rq)"
    "header ''x-request-id'' (rq_headers ?rq) \<noteq> Some []" "rq_query ?rq = []"
    by (simp_all add: body_ok_def truthy_def one_byte hs header_name_simps lower_names_def)
      (simp_all add: sample_client_def sample_request_def default_gateway_settings_def)
  have "acting_user ?rq \<lparr>id_user_id = 7, id_roles = []\<rparr> = str_uuid 9"
    by (simp add: acting_user_def hs header_name_simps)
  then have user: "current_user_id (Some (acting_user ?rq \<lparr>id_user_id = 7, id_roles = []\<rparr>)) = Inr 9"
    by (simp add: current_user_id_def str_uuid_nonempty parse_str_uuid is_uuid_def)
  let ?s = "sample_subs [(1, 9, True), (2, 7, True)]"
  obtain page where page: "list_my (ab_readers (pc_app sample_config)) 9 50 None (pl_subs (gw_services ?w)) = (Inr page, ?s)"
      "map sub_id (fst page) = [1]"
    by (simp add: sample_platform_def list_my_def and_then_run lift_run list_for_user_def sql_def query_def
        sample_subs_def sample_subscription_def select_page_def after_cursor_def cut_page_def)
  have room: "has_room default_gateway_settings (id_user_id \<lparr>id_user_id = 7, id_roles = []\<rparr>) ?w"
    using sample_client_ok(2) by simp
  have "reads_platform (pc_app sample_config)" by (simp add: sample_config_def sample_app_reads)
  from header_names_the_user [OF rq(1-5) sample_client_ok(1) room sample_client_ok(3,4) this user rq(6) page(1), of int_text "\<lambda>_. no_content"]
  obtain r w' where "platform_gateway sample_gateway_library sample_config default_gateway_settings int_text
      (\<lambda>_. no_content) ?rq ?w = (Inr r, w')" "rs_status r = 200" "rs_body r = subscriptions_page page"
    by blast
  with page(2) show ?thesis by (intro exI conjI)
qed

section \<open>A subscription from end to end\<close>

lemma subscribe_answer:
  fixes c :: call
  assumes "cl_service c = Subscriptions_Api" "cl_method c = ''POST''" "cl_path c = ''/subscriptions''"
    and "reads_platform (pc_app cfg)" and "truthy (header ''x-request-id'' (cl_headers c)) = Some rid"
    and "header ''x-user-id'' (cl_headers c) = Some name"
    and "ab_body (pc_app cfg) (cl_headers c) (cl_content c) = Body (JDict [(''topic_id'', JStr (str_uuid t))])"
    and "is_uuid t" and "api_subscribe (Some name) t (pl_subs p) = (Reply status sub, v)"
  shows "\<exists>r. platform_services cfg c p = (Response r, p\<lparr>pl_subs := v\<rparr>) \<and> rs_status r = status \<and>
    rs_body r = Json (subscription_json sub)"
proof -
  have path: "ab_path (pc_app cfg) ''/subscriptions'' = ''/subscriptions''"
    and uuid: "ab_uuid (pc_app cfg) (JStr (str_uuid t)) = Some t"
    using assms(4,8) plain_paths(2) by (simp_all add: reads_platform_def)
  have "subs_run (pc_app cfg) (pc_zones cfg) (pc_subs_ping cfg) rid c (pl_subs p) =
      (plain_response status (Json (subscription_json sub)), v)"
    using assms(6,9)
    by (simp add: subs_run_def assms(2,3,7) path subs_routes subs_subscribe_def read_body_def subscribe_request_def
        dict_of_def required_def dict_get_def uuid answer_def respond_def)
  with assms(1) show ?thesis
    by (simp add: platform_services_def platform_answer_def subscriptions_app_def service_app_run [OF assms(5)]
        plain_response_def)
qed

text \<open>The request in the call that announces a subscription is read as it was meant.\<close>

lemma reads_announcement:
  assumes "reads_platform lib" and "is_uuid t"
  shows "notification_request lib (request_json (event_request rq kind message t x)) = Some (event_request rq kind message t x)"
  using assms
  by (simp add: notification_request_def request_json_def event_request_def dict_of_def required_def
      defaulted_def or_null_def text_value_def dict_get_def reads_platform_def)

lemma announcement_answer:
  fixes c :: call
  assumes "cl_service c = Notifications_Api" "cl_method c = ''POST''" "cl_path c = ''/notifications''"
    and "reads_platform (pc_app cfg)" and "truthy (header ''x-request-id'' (cl_headers c)) = Some rid"
    and "header ''x-user-id'' (cl_headers c) = Some name"
    and "header ''content-type'' (cl_headers c) = Some ''application/json''"
    and "cl_content c = Json (request_json (event_request rq kind message t x))" and "is_uuid t"
  shows "\<exists>r. platform_services cfg c p = (Response r, p\<lparr>pl_notes := snd (api_create_notification (pc_notes cfg)
      (Some name) rid (event_request rq kind message t x) (pl_notes p))\<rparr>)"
proof -
  have path: "ab_path (pc_app cfg) ''/notifications'' = ''/notifications''"
    and body: "ab_body (pc_app cfg) (cl_headers c) (cl_content c) = Body (request_json (event_request rq kind message t x))"
    using assms(4,7,8) plain_paths(3) by (simp_all add: reads_platform_def)
  have "snd (notify_run (pc_app cfg) (pc_notes cfg) (pc_notes_system cfg) rid c (pl_notes p)) =
      snd (api_create_notification (pc_notes cfg) (Some name) rid (event_request rq kind message t x) (pl_notes p))"
    by (simp add: notify_run_def assms(2,3,6) path body subs_routes notify_create_def read_body_def
        reads_announcement [OF assms(4,9)] answer_def)
  with assms(1) show ?thesis
    by (simp add: platform_services_def platform_answer_def notifications_app_def service_app_run [OF assms(5)]
        split: prod.split)
qed

text \<open>The new row, its record as JSON, and the refusal of a key that is too long.\<close>

lemma api_subscribe_new:
  assumes "current_user_id (Some name) = Inr u" and "subs_ok v" and "topic_exists t (cw_db v)"
    and "subscription_of u t (cw_db v) = None" and "cw_uuids v (cw_drawn v) = x"
    and "x \<notin> set (map sr_id (sdb_subscriptions (cw_db v)))"
  defines "v' \<equiv> v\<lparr>cw_drawn := Suc (cw_drawn v), cw_db := with_subscription x u t (cw_now v) (cw_db v)\<rparr>"
  shows "\<exists>sub. api_subscribe (Some name) t v = (Reply 201 sub, v') \<and> rs_id sub = str_uuid x \<and>
    rs_topic_id sub = str_uuid t \<and> rs_is_active sub"
proof -
  have "Subscriptions_Service.subscribe u t v =
      (Inr (to_subscription (cw_db v') (last (sdb_subscriptions (cw_db v'))), True), v')"
    using subscribe_known_topic [of v t u] subscribe_new_run [of v t u] assms(2-6)
    by (simp add: subs_ok_def v'_def Let_def)
  then show ?thesis
    by (simp add: api_subscribe_def endpoint_def and_then_run lift_run ret_run assms(1)
        to_subscription_response_def Let_def)
      (simp add: v'_def with_subscription_def)
qed

lemma long_key_refused:
  assumes "86 < length kind + length (rq_request_id rq)"
  shows "snd (api_create_notification ns x_user_id rid (event_request rq kind message t x) v) = v"
proof -
  have "length (str_uuid x) = 36" by (simp add: str_uuid_def Let_def)
  then have "\<not> create_request_ok (event_request rq kind message t x)"
    using assms by (simp add: create_request_ok_def event_request_def)
  then show ?thesis
    by (auto simp: api_create_notification_def endpoint_def and_then_run lift_run raise_run split: sum.split)
qed

text \<open>What the gateway makes of a subscription, from its two calls.\<close>

lemma subscription_content:
  assumes "rs_id sub = str_uuid x" and "rs_topic_id sub = str_uuid t"
  obtains d where "as_json_dict lib (Json (subscription_json sub)) = Inr (Some d)"
    and "dict_get d ''topic_id'' = Some (JStr (str_uuid t))" and "dict_get d ''id'' = Some (JStr (str_uuid x))"
  using assms by (auto simp: as_json_dict_def load_json_def subscription_json_def dict_get_def)

definition json_client :: "app_library \<Rightarrow> http_request \<Rightarrow> json \<Rightarrow> bool" where
  "json_client lib rq v \<longleftrightarrow> header ''content-type'' (rq_headers rq) = Some ''application/json'' \<and>
     (\<forall>hs. header ''content-type'' hs = Some ''application/json'' \<longrightarrow>
        ab_body lib hs (Bytes (rq_body rq)) = Body v)"

text \<open>The two calls of a subscription, and what the services make of them.\<close>

lemma subscription_calls:
  fixes cfg :: platform_config and w :: "platform gateway_world" and rq :: http_request
    and lib :: gateway_library and user :: identity and t x :: uuid
  defines "rid \<equiv> entry_id rq w"
  defines "c \<equiv> traced lib (proxied (entry_request rq rid) user Subscriptions_Api ''/subscriptions'')"
    and "e \<equiv> traced lib (event_call (entry_request rq rid) user (str_uuid t) ''subscription.subscribed''
      ''You subscribed to topic updates.'' (Some (str_uuid x)))"
  assumes "rq_method rq = ''POST''" and "lower_names (rq_headers rq)"
    and "header ''x-request-id'' (rq_headers rq) \<noteq> Some []"
    and "json_client (pc_app cfg) rq (JDict [(''topic_id'', JStr (str_uuid t))])" and "is_uuid t"
    and "traces_only lib" and "reads_platform (pc_app cfg)"
    and "api_subscribe (Some (acting_user rq user)) t (pl_subs p) = (Reply 201 sub, v)"
  shows "\<exists>r. platform_services cfg c p = (Response r, p\<lparr>pl_subs := v\<rparr>) \<and> rs_status r = 201 \<and>
      rs_body r = Json (subscription_json sub)"
    and "\<exists>r. platform_services cfg e p' = (Response r, p'\<lparr>pl_notes := snd (api_create_notification (pc_notes cfg)
      (Some (acting_user rq user)) rid (subscribed_request (entry_request rq rid) t x) (pl_notes p'))\<rparr>)"
proof -
  have "names_user (entry_request rq rid) user (cl_headers c)"
    using identity_headers_name_user [of "entry_request rq rid" lib user] assms(5,9) by (simp add: c_def)
  note found = entry_names_user [OF this [unfolded rid_def] assms(6), folded rid_def]
  have type: "header ''content-type'' (rq_headers (entry_request rq rid)) = Some ''application/json''"
    and body: "header ''content-type'' hs = Some ''application/json'' \<Longrightarrow>
      ab_body (pc_app cfg) hs (cl_content c) = Body (JDict [(''topic_id'', JStr (str_uuid t))])" for hs
    using assms(7) by (simp_all add: json_client_def c_def)
  show "\<exists>r. platform_services cfg c p = (Response r, p\<lparr>pl_subs := v\<rparr>) \<and> rs_status r = 201 \<and>
      rs_body r = Json (subscription_json sub)"
    by (rule subscribe_answer [OF _ _ _ assms(10) found(2,1) body assms(8,11)])
      (use found(3) type assms(4) in \<open>simp_all add: c_def\<close>)
  have "header n (cl_headers e) = header n (cl_headers c)" if "n \<in> set [''x-user-id'', ''x-request-id'']" for n
    using that event_headers [OF _ type] assms(5,9) by (auto simp: traces_only_def c_def e_def)
  then have named: "header ''x-user-id'' (cl_headers e) = Some (acting_user rq user)"
      "truthy (header ''x-request-id'' (cl_headers e)) = Some rid"
    using found(1,2) by simp_all
  show "\<exists>r. platform_services cfg e p' = (Response r, p'\<lparr>pl_notes := snd (api_create_notification (pc_notes cfg)
      (Some (acting_user rq user)) rid (subscribed_request (entry_request rq rid) t x) (pl_notes p'))\<rparr>)"
    by (rule announcement_answer [OF _ _ _ assms(10) named(2,1) _ _ assms(8)])
      (use event_headers(1) [OF _ type] assms(5,9) in
        \<open>simp_all add: traces_only_def e_def event_call_def event_body_request\<close>)
qed

text \<open>
  C34: a subscription from end to end. A request within the size limit of the gateway that names a known topic to which the acting user
  has no subscription is answered 201 with the new subscription as JSON; afterwards the table has
  one new active row of that user, and its preferences, and nothing else. The notifications
  service has then got exactly one request, which names the topic: once it accepts it as new, an
  event for the topic stands in its outbox. When the identifier of the request is longer than 63
  characters the key of the notification is longer than the 128 that the service takes: the
  client is answered 201 all the same, and nothing is announced.
\<close>

theorem subscription_end_to_end:
  fixes cfg :: platform_config and w :: "platform gateway_world" and rq :: http_request
  defines "p \<equiv> gw_services w" and "rid \<equiv> entry_id rq w"
  assumes "rq_method rq = ''POST''" and "rq_path rq \<in> set [''/subscriptions'', ''/api/subscriptions'']"
    and "body_ok s rq" and "lower_names (rq_headers rq)"
    and "header ''x-request-id'' (rq_headers rq) \<noteq> Some []"
    and "json_client (pc_app cfg) rq (JDict [(''topic_id'', JStr (str_uuid t))])" and "is_uuid t"
    and "get_current_identity lib s rq w = (Inr user, w)" and "has_room s (id_user_id user) w"
    and "traces_only lib" and "reads_platform (pc_app cfg)"
    and "current_user_id (Some (acting_user rq user)) = Inr u"
    and "subs_ok (pl_subs p)" and "topic_exists t (cw_db (pl_subs p))"
    and "subscription_of u t (cw_db (pl_subs p)) = None" and "cw_uuids (pl_subs p) (cw_drawn (pl_subs p)) = x"
    and "x \<notin> set (map sr_id (sdb_subscriptions (cw_db (pl_subs p))))"
    and "cw_tx (pl_notes p) = Tx_None"
  shows "\<exists>r w' sub. platform_gateway lib cfg s secs unrouted rq w = (Inr r, w') \<and> rs_status r = 201 \<and>
    rs_body r = Json (subscription_json sub) \<and> rs_id sub = str_uuid x \<and> rs_is_active sub \<and>
    cw_db (pl_subs (gw_services w')) =
      with_subscription x u t (cw_now (pl_subs p)) (cw_db (pl_subs p)) \<and>
    (let q = subscribed_request (entry_request rq rid) t x;
         (answer, notes) = api_create_notification (pc_notes cfg) (Some (acting_user rq user)) rid q (pl_notes p)
     in pl_notes (gw_services w') = notes \<and>
        (63 < length rid \<longrightarrow> notes = pl_notes p) \<and>
        (\<forall>n. answer = Reply 201 n \<longrightarrow> (\<exists>e. ndb_outbox (cw_db notes) = ndb_outbox (cw_db (pl_notes p)) @ [e] \<and>
           obx_event_type e = created_event_type \<and>
           dict_get (obx_payload e) ''topic_id'' = Some (JStr (str_uuid t)))))"
proof -
  let ?rq = "entry_request rq rid" and ?w = "entry_world rq w" and ?up = "platform_services cfg"
  let ?v = "(pl_subs p)\<lparr>cw_drawn := Suc (cw_drawn (pl_subs p)),
      cw_db := with_subscription x u t (cw_now (pl_subs p)) (cw_db (pl_subs p))\<rparr>"
  let ?q = "subscribed_request ?rq t x"
  let ?a = "\<lambda>v. api_create_notification (pc_notes cfg) (Some (acting_user rq user)) rid ?q v"
  obtain sub where sub: "api_subscribe (Some (acting_user rq user)) t (pl_subs p) = (Reply 201 sub, ?v)"
      "rs_id sub = str_uuid x" "rs_topic_id sub = str_uuid t" "rs_is_active sub"
    using api_subscribe_new [OF assms(14-19)] by blast
  note calls = subscription_calls [OF assms(3,6-9,12,13) sub(1), where w = w, folded rid_def]
  obtain r where r: "?up (traced lib (proxied ?rq user Subscriptions_Api ''/subscriptions'')) p =
      (Response r, p\<lparr>pl_subs := ?v\<rparr>)" "rs_status r = 201" "rs_body r = Json (subscription_json sub)"
    using calls(1) by blast
  obtain r' where r': "?up (traced lib (event_call ?rq user (str_uuid t) ''subscription.subscribed''
        ''You subscribed to topic updates.'' (Some (str_uuid x)))) (p\<lparr>pl_subs := ?v\<rparr>) =
      (Response r', p\<lparr>pl_subs := ?v, pl_notes := snd (?a (pl_notes p))\<rparr>)"
    using calls(2) [of x "p\<lparr>pl_subs := ?v\<rparr>"] by auto
  obtain d where d: "as_json_dict lib (rs_body r) = Inr (Some d)"
      "dict_get d ''topic_id'' = Some (JStr (str_uuid t))" "dict_get d ''id'' = Some (JStr (str_uuid x))"
    using subscription_content [OF sub(2,3)] r(3) by metis
  have "\<exists>v. Gateway_Service.subscribe lib ?up s ?rq ?w = (Inr (forwarded_response blocked_headers r), v) \<and>
      gw_services v = p\<lparr>pl_subs := ?v, pl_notes := snd (?a (pl_notes p))\<rparr>"
  proof (rule subscribe_stack [where up = ?up, OF _ _ _ _ _ d(1,2) _ d(3) r'])
    show "get_current_identity lib s ?rq ?w = (Inr user, ?w)" by (rule identity_entry [OF assms(10)])
    show "has_room s (id_user_id user) ?w" by (rule entry_has_room [OF assms(11)])
  qed (use r assms(3) in \<open>simp_all add: p_def str_uuid_nonempty\<close>)
  then obtain v where run: "gateway_run lib ?up s secs unrouted ?rq ?w = (Inr (forwarded_response blocked_headers r), v)"
      and v: "gw_services v = p\<lparr>pl_subs := ?v, pl_notes := snd (?a (pl_notes p))\<rparr>"
    by (auto simp: gateway_run_def assms(3) gateway_routes(2) [OF assms(4)])
  have long: "snd (?a (pl_notes p)) = pl_notes p" if "63 < length rid"
    using long_key_refused [of "''subscription.subscribed''" ?rq] that by simp
  have new: "\<exists>e. ndb_outbox (cw_db v') = ndb_outbox (cw_db (pl_notes p)) @ [e] \<and> obx_event_type e = created_event_type \<and>
      dict_get (obx_payload e) ''topic_id'' = Some (JStr (str_uuid t))"
    if "?a (pl_notes p) = (Reply 201 n, v')" for n v'
    using created_announces [OF assms(20) _ that] by (simp add: event_request_def)
  obtain r'' w' where "platform_gateway lib cfg s secs unrouted rq w = (Inr r'', w')" "rs_status r'' = rs_status r"
      "rs_body r'' = rs_body r" "gw_services w' = gw_services v"
    using platform_gateway_run [OF assms(5) run [unfolded rid_def]] by (auto simp: forwarded_response_def)
  with v r(2,3) sub(2,4) long new show ?thesis
    by (auto split: prod.split)
qed

theorem subscription_end_to_end_witness:
  "\<exists>r w'. platform_gateway sample_gateway_library sample_config default_gateway_settings int_text (\<lambda>_. no_content)
      (sample_client ''POST'' ''/api/subscriptions'' [(''content-type'', ''application/json''), (''content-length'', ''1'')]) (sample_platform []) =
      (Inr r, w') \<and> rs_status r = 201 \<and>
    cw_db (pl_subs (gw_services w')) = with_subscription 100 7 60 5 (cw_db (sample_subs []))"
proof -
  let ?rq = "sample_client ''POST'' ''/api/subscriptions'' [(''content-type'', ''application/json''), (''content-length'', ''1'')]"
  let ?w = "sample_platform []"
  have hs: "rq_headers ?rq = [(''authorization'', ''Bearer jwt''), (''content-type'', ''application/json''), (''content-length'', ''1'')]"
    by (simp add: sample_client_def sample_request_def)
  have rq: "rq_method ?rq = ''POST''" "rq_path ?rq \<in> set [''/subscriptions'', ''/api/subscriptions'']"
    "body_ok default_gateway_settings ?rq" "lower_names (rq_headers ?rq)"
    "header ''x-request-id'' (rq_headers ?rq) \<noteq> Some []"
    by (simp_all add: body_ok_def truthy_def one_byte hs header_name_simps lower_names_def)
      (simp_all add: sample_client_def sample_request_def default_gateway_settings_def)
  have body: "json_client (pc_app sample_config) ?rq (JDict [(''topic_id'', JStr (str_uuid 60))])"
    by (simp add: json_client_def hs header_name_simps)
      (simp add: sample_config_def sample_app_def sample_body_def sample_client_def sample_request_def)
  have "acting_user ?rq \<lparr>id_user_id = 7, id_roles = []\<rparr> = str_uuid 7"
    by (simp add: acting_user_def hs header_name_simps)
  then have user: "current_user_id (Some (acting_user ?rq \<lparr>id_user_id = 7, id_roles = []\<rparr>)) = Inr 7"
    by (simp add: current_user_id_def str_uuid_nonempty parse_str_uuid is_uuid_def)
  have room: "has_room default_gateway_settings (id_user_id \<lparr>id_user_id = 7, id_roles = []\<rparr>) ?w"
    using sample_client_ok(2) by simp
  have reads: "reads_platform (pc_app sample_config)" by (simp add: sample_config_def sample_app_reads)
  have uuid: "is_uuid 60" by (simp add: is_uuid_def)
  have services: "pl_subs (gw_services ?w) = sample_subs []" "pl_notes (gw_services ?w) = sample_service"
    by (simp_all add: sample_platform_def)
  have ok: "subs_ok (pl_subs (gw_services ?w))" unfolding services by (rule sample_subs_ok(1))
  have tables: "topic_exists 60 (cw_db (pl_subs (gw_services ?w)))"
    "subscription_of 7 60 (cw_db (pl_subs (gw_services ?w))) = None"
    "cw_uuids (pl_subs (gw_services ?w)) (cw_drawn (pl_subs (gw_services ?w))) = 100"
    "100 \<notin> set (map sr_id (sdb_subscriptions (cw_db (pl_subs (gw_services ?w)))))"
    "cw_tx (pl_notes (gw_services ?w)) = Tx_None"
    unfolding services
    by (simp_all add: topic_exists_def subscription_of_def sample_subs_def sample_topic_def sample_service_def)
  obtain r w' where "platform_gateway sample_gateway_library sample_config default_gateway_settings int_text
      (\<lambda>_. no_content) ?rq ?w = (Inr r, w')" "rs_status r = 201"
      "cw_db (pl_subs (gw_services w')) = with_subscription 100 7 60 (cw_now (pl_subs (gw_services ?w)))
        (cw_db (pl_subs (gw_services ?w)))"
    using subscription_end_to_end [OF rq body uuid sample_client_ok(1) room sample_client_ok(4) reads user ok tables,
      of int_text "\<lambda>_. no_content"] by blast
  then show ?thesis unfolding services by (intro exI conjI) (simp_all add: sample_subs_def)
qed

end
