(* ===== verification/Platform_Auth.thy ===== *)
theory Platform_Auth
  imports Platform
begin

text \<open>
  Signing in from end to end: the log-in and the refresh of a client of the gateway, with the
  HTTP application of the auth service behind it.
\<close>

section \<open>The auth service behind the gateway\<close>








section \<open>What a client gets\<close>













end
