(* ===== verification/Fanout_Http.thy ===== *)
theory Fanout_Http
  imports Fanout_Composition Subscriptions_Http
begin

text \<open>
  The pages of the fan-out over HTTP: the request that \<open>infrastructure/http_client.py\<close> makes, the
  route of the subscriptions service that answers it, and the JSON that \<open>schemas/subscriptions.py\<close>
  of the delivery service reads. The fan-out over it is the one over \<open>subscribers_service\<close>.
\<close>

section \<open>The request and the reader\<close>

definition page_call :: "int \<Rightarrow> uuid \<Rightarrow> string option \<Rightarrow> call" where
  "page_call limit topic_id cursor = \<lparr>cl_service = Subscriptions_Api, cl_method = ''GET'',
     cl_path = ''/internal/topics/'' @ str_uuid topic_id @ ''/subscribers'',
     cl_query = (''limit'', int_text limit) #
       (case truthy cursor of None \<Rightarrow> [] | Some c \<Rightarrow> [(''cursor'', c)]),
     cl_headers = [], cl_content = Bytes []\<rparr>"

definition read_item :: "app_library \<Rightarrow> json \<Rightarrow> subscriber_item option" where
  "read_item lib v = Option.bind (dict_of v) (\<lambda>d.
     Option.bind (required d ''user_id'' text_value) (\<lambda>user_id.
     Option.bind (required d ''subscription_id'' text_value) (\<lambda>subscription_id.
     Option.bind (required d ''channels'' (list_value text_value)) (\<lambda>channels.
     Option.bind (required d ''quiet_hours_start'' (or_null (ab_time lib))) (\<lambda>quiet_start.
     Option.bind (required d ''quiet_hours_end'' (or_null (ab_time lib))) (\<lambda>quiet_end.
     Option.bind (required d ''timezone'' text_value) (\<lambda>timezone.
       Some \<lparr>si_user_id = user_id, si_subscription_id = subscription_id, si_channels = channels,
         si_quiet_hours_start = quiet_start, si_quiet_hours_end = quiet_end,
         si_timezone = timezone\<rparr>)))))))"

definition read_page :: "app_library \<Rightarrow> json \<Rightarrow> subscribers_page option" where
  "read_page lib v = Option.bind (dict_of v) (\<lambda>d.
     Option.bind (required d ''items'' (list_value (read_item lib))) (\<lambda>items.
     Option.bind (defaulted None d ''next_cursor'' (or_null text_value)) (\<lambda>cursor.
       Some \<lparr>sp_items = items, sp_next_cursor = cursor\<rparr>)))"

text \<open>\<open>raise_for_status\<close>, \<open>json\<close> and \<open>model_validate\<close>; \<open>loads\<close> is \<open>json.loads\<close>.\<close>

definition page_of_response ::
  "app_library \<Rightarrow> (string \<Rightarrow> json_load) \<Rightarrow> http_response \<Rightarrow> exn + subscribers_page" where
  "page_of_response lib loads r =
     (if rs_status r < 200 \<or> 300 \<le> rs_status r then Inl Http_Error
      else case (case rs_body r of Bytes text \<Rightarrow> loads text | Json v \<Rightarrow> Json_Value v) of
        Not_Json \<Rightarrow> Inl Value_Error
      | Load_Raises e \<Rightarrow> Inl e
      | Json_Value v \<Rightarrow> (case read_page lib v of None \<Rightarrow> Inl Value_Error | Some p \<Rightarrow> Inr p))"

text \<open>The subscriptions service answers from one state of its tables.\<close>

definition http_pages ::
  "app_library \<Rightarrow> (string \<Rightarrow> json_load) \<Rightarrow> zone_db \<Rightarrow> (subs_world, unit) eff \<Rightarrow> subs_world \<Rightarrow> int \<Rightarrow>
   (nat \<Rightarrow> int) \<Rightarrow> upstream" where
  "http_pages lib loads zi db_ping v limit latency n topic_id cursor = Inr (latency n,
     page_of_response lib loads
       (fst (subscriptions_app lib zi db_ping (page_call limit topic_id cursor) v)))"

section \<open>The path of the request\<close>

lemma py_split_step: "sep \<notin> set a \<Longrightarrow> py_split sep (a @ sep # b) = a # py_split sep b"
  by (induction a) auto

lemma digit_char_plain: "d < 16 \<Longrightarrow> path_char (digit_char d) \<and> digit_char d \<noteq> CHR ''/''"
proof -
  assume "d < 16"
  then have "of_char (digit_char d) = (if d < 10 then 48 + d else 87 + d)" by (simp add: digit_char_def)
  moreover have "of_char (CHR ''/'') = (47 :: nat)" by simp
  ultimately show ?thesis using \<open>d < 16\<close> by (auto simp: path_char_def Let_def split: if_splits)
qed

lemma str_uuid_chars: "c \<in> set (str_uuid u) \<Longrightarrow> path_char c \<and> c \<noteq> CHR ''/''"
proof -
  assume "c \<in> set (str_uuid u)"
  then have "c = CHR ''-'' \<or> c \<in> set (digits_of 16 32 u)"
    by (auto simp: str_uuid_def Let_def dest: in_set_takeD in_set_dropD)
  then show ?thesis
  proof
    assume "c = CHR ''-''"
    then show ?thesis by (simp add: path_char_def)
  next
    assume "c \<in> set (digits_of 16 32 u)"
    then obtain d where "d < 16" and "c = digit_char d" using set_digits_of [of 16 32 u] by auto
    then show ?thesis using digit_char_plain by simp
  qed
qed

lemma page_path:
  defines "path \<equiv> \<lambda>t. ''/internal/topics/'' @ str_uuid t @ ''/subscribers''"
  shows "list_all path_char (path t)" and "subs_route_of ''GET'' (path t) = Some (Topic_Subscribers (str_uuid t))"
proof -
  have "list_all path_char ''/internal/topics/''" and "list_all path_char ''/subscribers''" by code_simp+
  then show "list_all path_char (path t)" using str_uuid_chars by (simp add: path_def list_all_iff)
  have "CHR ''/'' \<notin> set (str_uuid t)" using str_uuid_chars by blast
  then have "py_split (CHR ''/'') (path t) = [[], ''internal'', ''topics'', str_uuid t, ''subscribers'']"
    by (simp add: path_def py_split_step)
  then show "subs_route_of ''GET'' (path t) = Some (Topic_Subscribers (str_uuid t))"
    by (simp add: subs_route_of_def str_uuid_nonempty)
qed

section \<open>A subscriber is read as it was written\<close>

definition item_times_ok :: "internal_subscriber \<Rightarrow> bool" where
  "item_times_ok i \<longleftrightarrow> pred_option time_of_day_ok (is_quiet_hours_start i) \<and>
     pred_option time_of_day_ok (is_quiet_hours_end i)"

lemma read_subscriber:
  assumes "reads_platform lib" and "item_times_ok i"
  shows "read_item lib (subscriber_json i) = Some (to_item i)"
proof -
  have time: "or_null (ab_time lib) (json_opt (\<lambda>t. JStr (time_text t)) t) = Some t"
    if "pred_option time_of_day_ok t" for t
    using that assms(1) by (cases t) (simp_all add: or_null_def json_opt_def reads_platform_def)
  have "list_value text_value (JList (map JStr cs)) = Some cs" for cs
    using all_some_map [of cs text_value JStr id] by (simp add: list_value_def text_value_def)
  with time assms(2) show ?thesis
    by (simp add: read_item_def subscriber_json_def dict_of_def required_def dict_get_def text_value_def
        item_times_ok_def to_item_def)
qed

lemma read_written_page:
  assumes "reads_platform lib" and "\<forall>i \<in> set (fst p). item_times_ok i"
  shows "read_page lib (page_json subscriber_json p) =
    Some \<lparr>sp_items = map to_item (fst p), sp_next_cursor = snd p\<rparr>"
proof -
  have "all_some (read_item lib) (map subscriber_json (fst p)) = Some (map to_item (fst p))"
    by (rule all_some_map) (use assms read_subscriber in blast)
  then show ?thesis
    by (cases "snd p") (simp_all add: read_page_def page_json_def dict_of_def required_def defaulted_def dict_get_def
        list_value_def or_null_def json_opt_def text_value_def)
qed

section \<open>The answer of the service\<close>

definition times_ok :: "subs_db \<Rightarrow> bool" where
  "times_ok d \<longleftrightarrow> (\<forall>p \<in> set (sdb_preferences d).
     pred_option time_of_day_ok (pr_quiet_hours_start p) \<and> pred_option time_of_day_ok (pr_quiet_hours_end p))"

lemma subscriber_times_ok:
  assumes "times_ok d"
  shows "item_times_ok (to_internal_subscriber (to_subscriber d s))"
proof (cases "preferences_of d (sr_id s)")
  case (Some p)
  then have "p \<in> set (sdb_preferences d)" by (auto simp: preferences_of_def dest: find_row_Some)
  with assms Some show ?thesis
    by (simp add: times_ok_def item_times_ok_def to_internal_subscriber_def to_subscriber_def)
qed (simp add: item_times_ok_def to_internal_subscriber_def to_subscriber_def)

lemma listed_times_ok:
  assumes "times_ok (cw_db v)" and "list_internal_subscribers json t n c v = (Inr (rows, nxt), v')" and "r \<in> set rows"
  shows "item_times_ok (to_internal_subscriber r)"
proof -
  have "set out \<subseteq> set rows" if "cut_page g n rows = Inr (out, k)" for g k and rows out :: "subscriber_record list"
    using that by (auto simp: cut_page_def dest: in_set_takeD split: if_splits)
  with assms(2,3) have "\<exists>s. r = to_subscriber (cw_db v) s"
    by (fastforce simp: list_internal_subscribers_def get_topic_by_id_def list_active_subscribers_def sql_def query_def
        and_then_run lift_run raise_run split: prod.splits sum.splits option.splits if_splits)
  then show ?thesis using subscriber_times_ok [OF assms(1)] by auto
qed

text \<open>A listing does not depend on the identifiers that were drawn.\<close>

lemma listing_ignores_draws:
  "fst (api_list_topic_subscribers json t limit c (v\<lparr>cw_drawn := k\<rparr>)) =
   fst (api_list_topic_subscribers json t limit c v)"
  by (auto simp: api_list_topic_subscribers_def endpoint_def list_internal_subscribers_def get_topic_by_id_def
      list_active_subscribers_def sql_def query_def and_then_run lift_run raise_run ret_run
      split: prod.splits sum.splits option.splits if_splits)

lemma error_status_refused: "400 \<le> error_status e" "error_status e \<le> 500"
  by (auto simp: error_status_def split: exn.split app_kind.split)

text \<open>What the endpoint replies: a page whose times can be read, or a refusal.\<close>

lemma listing_reply:
  assumes "times_ok (cw_db v)"
  obtains (page) p where "fst (api_list_topic_subscribers json t limit c v) = Reply 200 p"
      and "\<forall>i \<in> set (fst p). item_times_ok i"
    | (refused) status code message where "fst (api_list_topic_subscribers json t limit c v) = Refusal status code message"
      and "400 \<le> status"
proof (cases "page_limit 500 limit")
  case (Inl e)
  then show thesis
    using refused error_status_refused(1) [of e]
    by (simp add: api_list_topic_subscribers_def endpoint_def and_then_run lift_run)
next
  case (Inr n)
  obtain r v' where run: "list_internal_subscribers json t n c v = (r, v')" by fastforce
  show thesis
  proof (cases r)
    case (Inl e)
    with \<open>page_limit 500 limit = Inr n\<close> run show thesis
      using refused error_status_refused(1) [of e]
      by (simp add: api_list_topic_subscribers_def endpoint_def and_then_run lift_run)
  next
    case (Inr p)
    obtain rows nxt where p: "p = (rows, nxt)" by fastforce
    have "\<forall>i \<in> set (map to_internal_subscriber rows). item_times_ok i"
      using listed_times_ok [OF assms run [unfolded Inr p]] by auto
    with \<open>page_limit 500 limit = Inr n\<close> run Inr p show thesis
      using page [of "(map to_internal_subscriber rows, nxt)"]
      by (simp add: api_list_topic_subscribers_def endpoint_def and_then_run lift_run ret_run)
  qed
qed

lemma page_response:
  assumes "reads_platform lib" and "is_uuid t" and "c \<noteq> Some []" and "0 \<le> limit"
  shows "\<exists>rid. fst (subscriptions_app lib zi db_ping (page_call limit t c) v) =
    with_request_id rid (respond rid (\<lambda>p. Json (page_json subscriber_json p))
      (fst (api_list_topic_subscribers (fst (ab_readers lib)) t limit c v)))"
proof -
  let ?c = "page_call limit t c"
  have path: "ab_path lib (cl_path ?c) = cl_path ?c" and uuid: "ab_uuid lib (JStr (str_uuid t)) = Some t"
    and int: "ab_int lib (int_text limit) = Some limit"
    using assms page_path(1) [of t] by (simp_all add: page_call_def reads_platform_def)
  have params: "query_limit lib 100 ?c = limit" "query_param ''cursor'' (cl_query ?c) = c"
    using assms(3) int
    by (cases c; simp add: query_limit_def query_param_def page_call_def truthy_def)+
  have "subs_route_of (cl_method ?c) (cl_path ?c) = Some (Topic_Subscribers (str_uuid t))"
    using page_path(2) [of t] by (simp add: page_call_def)
  then have run: "subs_run lib zi db_ping rid ?c w = answer rid (\<lambda>p. Json (page_json subscriber_json p))
      (api_list_topic_subscribers (fst (ab_readers lib)) t limit c w)" for rid w
    by (simp add: subs_run_def path subs_topic_subscribers_def uuid params)
  obtain rid n where "request_id_of ?c v = (Inr rid, v\<lparr>cw_drawn := n\<rparr>)" using request_id_run by metis
  then have "fst (subscriptions_app lib zi db_ping ?c v) = with_request_id rid (respond rid
      (\<lambda>p. Json (page_json subscriber_json p))
      (fst (api_list_topic_subscribers (fst (ab_readers lib)) t limit c (v\<lparr>cw_drawn := n\<rparr>))))"
    by (simp add: subscriptions_app_def service_app_def run answer_def split: prod.split)
  then show ?thesis unfolding listing_ignores_draws by blast
qed

lemma http_pages_equal:
  assumes "reads_platform lib" and "times_ok (cw_db v)" and "is_uuid t" and "c \<noteq> Some []" and "0 \<le> limit"
  shows "http_pages lib loads zi db_ping v limit lat n t c =
    subscribers_service (fst (ab_readers lib)) v limit lat n t c"
proof -
  let ?r = "fst (api_list_topic_subscribers (fst (ab_readers lib)) t limit c v)"
  obtain rid where response: "fst (subscriptions_app lib zi db_ping (page_call limit t c) v) =
      with_request_id rid (respond rid (\<lambda>p. Json (page_json subscriber_json p)) ?r)"
    using page_response [OF assms(1,3-5)] by blast
  show ?thesis
  proof (rule listing_reply [OF assms(2), of "fst (ab_readers lib)" t limit c])
    fix p assume "?r = Reply 200 p" and "\<forall>i \<in> set (fst p). item_times_ok i"
    then show ?thesis
      using response read_written_page [OF assms(1)]
      by (simp add: http_pages_def subscribers_service_def page_of_response_def with_request_id_def respond_def
          plain_response_def page_of_reply_def split: prod.split)
  next
    fix status code message assume "?r = Refusal status code message" and "400 \<le> status"
    then show ?thesis
      using response
      by (simp add: http_pages_def subscribers_service_def page_of_response_def with_request_id_def respond_def
          plain_response_def page_of_reply_def)
  qed
qed

section \<open>The fan-out over HTTP\<close>

lemma iter_subscribers_same:
  assumes "\<And>n c. c \<noteq> Some [] \<Longrightarrow> up n t c = up' n t c" and "c \<noteq> Some []"
  shows "iter_subscribers fuel up n t c body acc = iter_subscribers fuel up' n t c body acc"
  using assms(2)
proof (induction fuel arbitrary: n c acc)
  case 0
  show ?case by simp
next
  case (Suc fuel)
  have fetch: "fetch_subscribers_page up n t c = fetch_subscribers_page up' n t c"
    by (simp add: fetch_subscribers_page_def assms(1) [OF Suc.prems])
  have rest: "iter_subscribers fuel up (Suc n) t (Some k) body a = iter_subscribers fuel up' (Suc n) t (Some k) body a"
    if "next_cursor page = Some k" for page k a
    using that Suc.IH [of "Some k"] by (auto simp: next_cursor_def split: option.splits if_splits)
  have "(case next_cursor page of None \<Rightarrow> ret a | Some k \<Rightarrow> iter_subscribers fuel up (Suc n) t (Some k) body a) =
      (case next_cursor page of None \<Rightarrow> ret a | Some k \<Rightarrow> iter_subscribers fuel up' (Suc n) t (Some k) body a)" for page a
    using rest [of page] by (cases "next_cursor page") simp_all
  then show ?case by (simp add: fetch)
qed

lemma http_fanout_equal:
  assumes "reads_platform lib" and "times_ok (cw_db v)" and "is_uuid (ev_topic_id ev)" and "0 \<le> limit"
  shows "process_notification_created fuel s (http_pages lib loads zi db_ping v limit lat) ev subject w =
    process_notification_created fuel s (subscribers_service (fst (ab_readers lib)) v limit lat) ev subject w"
proof -
  have "iter_subscribers fuel (http_pages lib loads zi db_ping v limit lat) 0 (ev_topic_id ev) None body acc =
      iter_subscribers fuel (subscribers_service (fst (ab_readers lib)) v limit lat) 0 (ev_topic_id ev) None body acc"
    for body :: "channel_counts \<Rightarrow> subscriber_item \<Rightarrow> (delivery_world, channel_counts) eff" and acc
    by (rule iter_subscribers_same) (simp_all add: http_pages_equal assms)
  then show ?thesis by (simp add: process_notification_created_def cong: if_cong)
qed

text \<open>
  C40: the fan-out does over HTTP exactly what it does over the pages of \<open>subscribers_service\<close>: the
  path and the parameters that the client of the delivery service sends lead to the internal
  endpoint, and the JSON of its answer is read back as the page that was written, quiet hours
  included; refusals become the same exception. So what holds of the fan-out over
  \<open>subscribers_service\<close>, that it reaches every subscriber, holds over HTTP.
\<close>

theorem fanout_over_http:
  assumes "reads_platform lib" and "times_ok (cw_db v)" and "is_uuid (ev_topic_id ev)" and "0 \<le> limit"
  shows "process_notification_created fuel s (http_pages lib loads zi db_ping v limit lat) ev subject w =
    process_notification_created fuel s (subscribers_service (fst (ab_readers lib)) v limit lat) ev subject w"
  using assms by (rule http_fanout_equal)

theorem fanout_over_http_witness:
  "process_notification_created 4 default_delivery_settings
      (http_pages sample_app (\<lambda>_. Not_Json) (\<lambda>_. Zone_Not_Found) (ret ()) (sample_subs [(1, 9, True), (2, 10, True)]) 1 int)
      sample_event ''s'' (sample_world [] True) =
    process_notification_created 4 default_delivery_settings
      (subscribers_service (\<lambda>_. Load_Error) (sample_subs [(1, 9, True), (2, 10, True)]) 1 int)
      sample_event ''s'' (sample_world [] True)"
proof -
  have "times_ok (cw_db (sample_subs [(1, 9, True), (2, 10, True)]))"
    by (simp add: times_ok_def sample_subs_def sample_preferences_def time_of_day_ok_def micros_per_day_def)
  moreover have "is_uuid (ev_topic_id sample_event)" by (simp add: sample_event_def is_uuid_def)
  ultimately have "process_notification_created 4 default_delivery_settings
      (http_pages sample_app (\<lambda>_. Not_Json) (\<lambda>_. Zone_Not_Found) (ret ()) (sample_subs [(1, 9, True), (2, 10, True)]) 1 int)
      sample_event ''s'' (sample_world [] True) =
    process_notification_created 4 default_delivery_settings
      (subscribers_service (fst (ab_readers sample_app)) (sample_subs [(1, 9, True), (2, 10, True)]) 1 int)
      sample_event ''s'' (sample_world [] True)"
    by (intro fanout_over_http [OF sample_app_reads]) simp_all
  then show ?thesis by (simp add: sample_app_def)
qed

end
