(* ===== verification/Platform_Delivery.thy ===== *)
theory Platform_Delivery
  imports Platform Fanout_Http Pipeline
begin

text \<open>
  A notification from the client to the attempts of its delivery: the gateway, the notifications
  service behind it, the event in the outbox, and the fan-out of the delivery service over the
  HTTP application of the subscriptions service.
\<close>

section \<open>The notifications service behind the gateway\<close>






section \<open>A notification from end to end\<close>



end
