(* ===== verification/Platform_Unsubscribe.thy ===== *)
theory Platform_Unsubscribe
  imports Platform_Delivery
begin

text \<open>
  Cancelling a subscription from end to end: the gateway looks for its topic in the pages of the
  subscriptions of the user, has it cancelled, and asks for a notification.
\<close>

section \<open>A page of subscriptions as the gateway reads it\<close>

lemma str_uuid_eq: "is_uuid x \<Longrightarrow> is_uuid y \<Longrightarrow> str_uuid x = str_uuid y \<longleftrightarrow> x = y"
  using parse_str_uuid by (metis option.inject)

lemma to_subscription_response_ids [simp]:
  "rs_id (to_subscription_response r) = str_uuid (sub_id r)"
  "rs_topic_id (to_subscription_response r) = str_uuid (sub_topic_id r)"
  by (simp_all add: to_subscription_response_def Let_def)

lemma find_item_rows:
  assumes "is_uuid x" and "\<forall>r \<in> set rows. is_uuid (sub_id r)"
  shows "find_item lib (str_uuid x) (map (subscription_json \<circ> to_subscription_response) rows) =
    map_option (\<lambda>r. Some (str_uuid (sub_topic_id r))) (find (\<lambda>r. sub_id r = x) rows)"
  using assms(2)
proof (induction rows)
  case (Cons r rows)
  then show ?case
    using assms(1) str_uuid_nonempty [of "sub_topic_id r"]
    by (auto simp: subscription_json_def dict_get_def py_str_def str_uuid_eq
        nonempty_text_def truthy_def)
qed simp

lemma subscriptions_page_dict:
  "as_json_dict lib (subscriptions_page p) = Inr (Some
     [(''items'', JList (map (subscription_json \<circ> to_subscription_response) (fst p))),
      (''next_cursor'', json_opt JStr (snd p))])"
  by (simp add: subscriptions_page_def page_json_def as_json_dict_def load_json_def)

lemma next_cursor_of_page:
  "c \<noteq> Some [] \<Longrightarrow> next_cursor_of [(''items'', v), (''next_cursor'', json_opt JStr c)] = c"
  by (cases c) (simp_all add: next_cursor_of_def dict_get_def json_opt_def falsy_def nonempty_text_def truthy_def)

lemma list_my_world: "snd (list_my rd u n c w) = w"
  by (simp add: list_my_def list_for_user_def and_then_run lift_run sql_def query_def split: prod.split sum.split)

lemma my_subscriptions_of_user:
  assumes "rows_ok w"
  shows "\<forall>r \<in> set (subscriptions_of_user u (cw_db w)). is_uuid (sub_id r)"
  using subscription_rows(2) [OF assms] by blast

lemma find_append: "find p (xs @ ys) = (case find p xs of None \<Rightarrow> find p ys | Some x \<Rightarrow> Some x)"
  by (induction xs) auto

lemma find_SomeD: "find p xs = Some x \<Longrightarrow> p x \<and> x \<in> set xs"
  by (induction xs) (auto split: if_splits)

section \<open>The search for the topic\<close>

definition search_call :: "http_request \<Rightarrow> identity \<Rightarrow> string option \<Rightarrow> call" where
  "search_call rq user c = \<lparr>cl_service = Subscriptions_Api, cl_method = ''GET'', cl_path = ''/subscriptions/me'',
     cl_query = page_params c, cl_headers = identity_headers rq (str_uuid (id_user_id user)) (id_roles user),
     cl_content = Bytes []\<rparr>"

lemma search_call_simps [simp]:
  "cl_service (search_call rq user c) = Subscriptions_Api" "cl_method (search_call rq user c) = ''GET''"
  "cl_path (search_call rq user c) = ''/subscriptions/me''" "cl_query (search_call rq user c) = page_params c"
  "cl_headers (search_call rq user c) = identity_headers rq (str_uuid (id_user_id user)) (id_roles user)"
  by (simp_all add: search_call_def)

lemma search_params:
  assumes "reads_platform lib" and "c \<noteq> Some []"
  shows "page_limit 500 (query_limit lib 50 (traced gl (search_call rq user c))) = Inr 500"
    and "query_param ''cursor'' (page_params c) = c"
proof -
  have "int_text 500 = ''500''" by code_simp
  with assms(1) have "ab_int lib ''500'' = Some 500"
    unfolding reads_platform_def by (metis zero_le_numeral)
  then show "page_limit 500 (query_limit lib 50 (traced gl (search_call rq user c))) = Inr 500"
    by (cases "truthy c") (simp_all add: query_limit_def query_param_def page_params_def page_limit_def)
  show "query_param ''cursor'' (page_params c) = c"
    using assms(2) by (cases c) (simp_all add: query_param_def page_params_def truthy_def)
qed

text \<open>The identifier of the request and the user that a service finds in a call for a user.\<close>

definition acts_as :: "gateway_library \<Rightarrow> http_request \<Rightarrow> identity \<Rightarrow> string \<Rightarrow> string \<Rightarrow> bool" where
  "acts_as lib rq user rid name \<longleftrightarrow>
     (let hs = gl_inject lib (identity_headers rq (str_uuid (id_user_id user)) (id_roles user))
      in truthy (header ''x-request-id'' hs) = Some rid \<and> header ''x-user-id'' hs = Some name)"

lemma search_page:
  fixes cfg :: platform_config and rq :: http_request and user :: identity
  assumes "reads_platform (pc_app cfg)" and "acts_as lib rq user rid name" and "current_user_id (Some name) = Inr u"
    and "0 \<le> gs_retries_get s" and "c \<noteq> Some []"
    and "fst (list_my (ab_readers (pc_app cfg)) u 500 c (pl_subs (gw_services w))) = Inr page"
  shows "\<exists>r w1 w2. send_subscriptions_request lib (platform_services cfg) s rq user ''/subscriptions/me'' ''GET''
      (Bytes []) (page_params c) w = (Inr r, w1) \<and> rs_status r = 200 \<and> rs_body r = subscriptions_page page \<and>
    record_upstream_error Subscriptions_Api 200 w1 = (Inr (), w2) \<and> gw_services w2 = gw_services w"
proof -
  let ?c = "search_call rq user c" and ?up = "platform_services cfg"
  have "list_my (ab_readers (pc_app cfg)) u 500 (query_param ''cursor'' (cl_query (traced lib ?c)))
      (pl_subs (gw_services w)) = (Inr page, pl_subs (gw_services w))"
    using assms(6) list_my_world [of "ab_readers (pc_app cfg)" u 500 c "pl_subs (gw_services w)"]
    by (simp add: search_params [OF assms(1,5)] prod_eq_iff)
  then obtain r where r: "?up (traced lib ?c) (gw_services w) = (Response r, gw_services w)"
      "rs_status r = 200" "rs_body r = subscriptions_page page"
    using my_subscriptions_answer [of "traced lib ?c" cfg rid name u 500 "gw_services w" page "pl_subs (gw_services w)"]
      assms(1-3) search_params(1) [OF assms(1,5)] by (auto simp: acts_as_def Let_def)
  note sent = sent_and_answered [of ?up lib ?c, OF r(1) attempts_positive [OF assms(4)]]
  obtain w2 where "record_upstream_error Subscriptions_Api 200 (called ?up (traced lib ?c) 1 w) = (Inr (), w2)"
      "gw_services w2 = gw_services (called ?up (traced lib ?c) 1 w)"
    using record_upstream_error_run by blast
  with sent r show ?thesis by (auto simp: send_subscriptions_request_def search_call_def [symmetric])
qed

lemma search_step:
  assumes "send_subscriptions_request lib up s rq user ''/subscriptions/me'' ''GET'' (Bytes []) (page_params c) w = (Inr r, w1)"
    and "rs_status r = 200" and "rs_body r = subscriptions_page (rows, nxt)"
    and "record_upstream_error Subscriptions_Api 200 w1 = (Inr (), w2)" and "nxt \<noteq> Some []"
    and "is_uuid x" and "\<forall>r \<in> set rows. is_uuid (sub_id r)"
  shows "find_topic_id (Suc pages) lib up s rq user (str_uuid x) c w =
    (case find (\<lambda>r. sub_id r = x) rows of
       Some row \<Rightarrow> (Inr (Some (str_uuid (sub_topic_id row))), w2)
     | None \<Rightarrow> (case nxt of None \<Rightarrow> (Inr None, w2)
         | Some k \<Rightarrow> find_topic_id pages lib up s rq user (str_uuid x) (Some k) w2))"
  using assms(1-4) find_item_rows [OF assms(6,7), of lib] next_cursor_of_page [OF assms(5)]
  by (cases "find (\<lambda>r. sub_id r = x) rows"; cases nxt)
    (simp_all add: and_then_run seq_run lift_run ret_run subscriptions_page_dict dict_get_def)

text \<open>
  The search looks at the next \<open>500 * pages\<close> subscriptions of the user, in the order of the
  listing, and changes nothing.
\<close>

lemma search_pages:
  fixes cfg :: platform_config and rq :: http_request and user :: identity and u x :: uuid and p :: platform
  defines "rows \<equiv> subscriptions_of_user u (cw_db (pl_subs p))"
  assumes "reads_platform (pc_app cfg)" and "acts_as lib rq user rid name" and "current_user_id (Some name) = Inr u"
    and "0 \<le> gs_retries_get s" and "rows_ok (pl_subs p)" and "is_uuid x"
    and "c \<noteq> Some []" and "gw_services w = p"
    and "fst (list_my (ab_readers (pc_app cfg)) u 500 c (pl_subs p)) = cut_page subscription_link 500 (drop m rows)"
  shows "\<exists>w'. find_topic_id pages lib (platform_services cfg) s rq user (str_uuid x) c w =
      (Inr (map_option (\<lambda>r. str_uuid (sub_topic_id r)) (find (\<lambda>r. sub_id r = x) (take (500 * pages) (drop m rows)))), w') \<and>
    gw_services w' = p"
  using assms(8-10)
proof (induction pages arbitrary: c w m)
  case 0
  then show ?case by (simp add: ret_run)
next
  case (Suc pages)
  let ?rest = "drop m rows" and ?hit = "\<lambda>r. sub_id r = x"
  let ?next = "if 500 < length ?rest then Some (subscription_link (last (take 500 ?rest))) else None"
  have page: "fst (list_my (ab_readers (pc_app cfg)) u 500 c (pl_subs (gw_services w))) = Inr (take 500 ?rest, ?next)"
    using Suc.prems(2,3) by (auto simp: cut_page_def)
  obtain r w1 w2 where sent: "send_subscriptions_request lib (platform_services cfg) s rq user ''/subscriptions/me'' ''GET''
      (Bytes []) (page_params c) w = (Inr r, w1)" "rs_status r = 200"
      "rs_body r = subscriptions_page (take 500 ?rest, ?next)"
      "record_upstream_error Subscriptions_Api 200 w1 = (Inr (), w2)" "gw_services w2 = p"
    using search_page [OF assms(2-5) Suc.prems(1) page] Suc.prems(2) by blast
  have uuids: "\<forall>r \<in> set (take 500 ?rest). is_uuid (sub_id r)"
    using my_subscriptions_of_user [OF assms(6), of u] unfolding rows_def by (meson in_set_dropD in_set_takeD)
  have link: "?next \<noteq> Some []" by (auto simp: subscription_link_def row_cursor_def encode_cursor_nonempty)
  note step = search_step [OF sent(1-4) link assms(7) uuids, of pages]
  have found: "find ?hit (take (500 * Suc pages) ?rest) = (case find ?hit (take 500 ?rest) of
      None \<Rightarrow> find ?hit (take (500 * pages) (drop (m + 500) rows)) | Some r \<Rightarrow> Some r)"
    using find_append [of ?hit "take 500 ?rest" "take (500 * pages) (drop (m + 500) rows)"]
    by (simp add: take_add add.commute)
  show ?case
  proof (cases "500 < length ?rest")
    case False
    then have none: "?next = None" and rest: "drop (m + 500) rows = []" by auto
    show ?thesis using sent(5) unfolding step found none rest by (simp split: option.split)
  next
    case True
    then have more: "?next = Some (subscription_link (last (take 500 ?rest)))" by simp
    have "fst (list_my (ab_readers (pc_app cfg)) u 500 ?next (pl_subs p)) =
        cut_page subscription_link 500 (drop (m + 500) rows)"
      using my_listing.next_fetch [of "(ab_readers (pc_app cfg), pl_subs p, u)" 500 m] assms(6) True more
      by (simp add: rows_def)
    then obtain w' where "find_topic_id pages lib (platform_services cfg) s rq user (str_uuid x) ?next w2 =
        (Inr (map_option (\<lambda>r. str_uuid (sub_topic_id r)) (find ?hit (take (500 * pages) (drop (m + 500) rows)))), w')"
        "gw_services w' = p"
      using Suc.IH [OF link sent(5)] by blast
    with sent(5) show ?thesis unfolding step found more by (simp split: option.split)
  qed
qed

section \<open>The cancellation\<close>

lemma py_split_plain: "sep \<notin> set a \<Longrightarrow> py_split sep a = [a]"
  by (induction a) auto

lemma cancel_paths:
  defines "path \<equiv> \<lambda>x. ''/subscriptions/'' @ str_uuid x"
  shows "list_all path_char (path x)" and "subs_route_of ''DELETE'' (path x) = Some (Subscriptions_Http.Unsubscribe (str_uuid x))"
    and "q \<in> set [path x, ''/api'' @ path x] \<Longrightarrow> gateway_route_of ''DELETE'' q = Some (Remove_Subscription (str_uuid x))"
proof -
  have "list_all path_char ''/subscriptions/''" by code_simp
  then show "list_all path_char (path x)" using str_uuid_chars by (simp add: path_def list_all_iff)
  have last: "py_split (CHR ''/'') (str_uuid x) = [str_uuid x]"
    using str_uuid_chars py_split_plain by blast
  have parts: "py_split (CHR ''/'') (path x) = [[], ''subscriptions'', str_uuid x]"
    and api_parts: "py_split (CHR ''/'') (''/api'' @ path x) = [[], ''api'', ''subscriptions'', str_uuid x]"
    by (simp_all add: path_def last)
  show "subs_route_of ''DELETE'' (path x) = Some (Subscriptions_Http.Unsubscribe (str_uuid x))"
    by (simp add: subs_route_of_def parts str_uuid_nonempty)
  show "q \<in> set [path x, ''/api'' @ path x] \<Longrightarrow> gateway_route_of ''DELETE'' q = Some (Remove_Subscription (str_uuid x))"
    by (auto simp: gateway_route_of_def fixed_route_def resource_route_def parts api_parts str_uuid_nonempty)
qed

lemma cancel_answer:
  fixes c :: call
  assumes "cl_service c = Subscriptions_Api" "cl_method c = ''DELETE''" "cl_path c = ''/subscriptions/'' @ str_uuid x"
    and "reads_platform (pc_app cfg)" and "truthy (header ''x-request-id'' (cl_headers c)) = Some rid"
    and "header ''x-user-id'' (cl_headers c) = Some name" and "current_user_id (Some name) = Inr u" and "is_uuid x"
    and "cw_tx (pl_subs p) \<noteq> Tx_Failed"
    and "find_row (\<lambda>s. sr_id s = x \<and> sr_user_id s = u) (sdb_subscriptions (cw_db (pl_subs p))) = Some row"
    and "sr_is_active row"
  shows "\<exists>r. platform_services cfg c p = (Response r, p\<lparr>pl_subs := (pl_subs p)\<lparr>cw_db :=
      activated x u False (cw_now (pl_subs p)) (cw_db (pl_subs p))\<rparr>\<rparr>) \<and> rs_status r = 204 \<and> rs_body r = Bytes []"
proof -
  define q where "q = ''/subscriptions/'' @ str_uuid x"
  have path: "cl_path c = q" "ab_path (pc_app cfg) q = q" "subs_route_of ''DELETE'' q = Some (Subscriptions_Http.Unsubscribe (str_uuid x))"
    and uuid: "ab_uuid (pc_app cfg) (JStr (str_uuid x)) = Some x"
    using assms(3,4,8) cancel_paths(1,2) unfolding q_def by (simp_all add: reads_platform_def del: append.simps)
  have "subs_run (pc_app cfg) (pc_zones cfg) (pc_subs_ping cfg) rid c (pl_subs p) =
      (plain_response 204 (Bytes []), (pl_subs p)\<lparr>cw_db := activated x u False (cw_now (pl_subs p)) (cw_db (pl_subs p))\<rparr>)"
    using assms(6,7,11)
    by (simp add: subs_run_def assms(2) path subs_unsubscribe_def uuid api_unsubscribe_def endpoint_def
        and_then_run lift_run seq_run ret_run unsubscribe_run [OF assms(9,10)] answer_def respond_def)
  with assms(1) show ?thesis
    by (simp add: platform_services_def platform_answer_def subscriptions_app_def service_app_run [OF assms(5)]
        plain_response_def)
qed

section \<open>A cancellation from end to end\<close>

lemma unsubscribe_stack:
  assumes "get_current_identity lib s rq w = (Inr user, w)" and "has_room s (id_user_id user) w"
    and "rq_method rq = ''DELETE''"
    and "\<And>v. gw_services v = gw_services w \<Longrightarrow> \<exists>v'. find_topic_id_by_subscription_id lib up s rq user sid v =
      (Inr found, v') \<and> gw_services v' = gw_services w"
    and "up (traced lib (proxied rq user Subscriptions_Api (''/subscriptions/'' @ sid))) (gw_services w) = (Response upstream, u)"
    and "rs_status upstream = 204"
    and "\<And>t. truthy found = Some t \<Longrightarrow> \<exists>r. up (traced lib (event_call rq user t ''subscription.unsubscribed''
        ''You unsubscribed from topic updates.'' (Some sid))) u = (Response r, u' t)"
  shows "\<exists>v. Gateway_Service.unsubscribe lib up s sid rq w = (Inr (forwarded_response blocked_headers upstream), v) \<and>
    gw_services v = (case truthy found of None \<Rightarrow> u | Some t \<Rightarrow> u' t)"
proof -
  let ?c = "proxied rq user Subscriptions_Api (''/subscriptions/'' @ sid)"
  obtain v where limited: "rate_limit_user lib s rq w = (Inr user, v)" "gw_services v = gw_services w"
    using rate_limit_user_passes [OF assms(1,2)] by blast
  obtain v1 where v1: "find_topic_id_by_subscription_id lib up s rq user sid v = (Inr found, v1)"
      "gw_services v1 = gw_services w"
    using assms(4) [OF limited(2)] by blast
  have "map py_upper_char ''DELETE'' \<noteq> ''GET''" by code_simp
  then have "0 < attempts_of s ?c" by (simp add: attempts_of_def proxied_def assms(3))
  note sent = sent_and_answered [of up lib ?c, OF assms(5) [folded v1(2)] this]
  obtain v3 where v3: "record_upstream_error Subscriptions_Api 204 (called up (traced lib ?c) 1 v1) = (Inr (), v3)"
      "gw_services v3 = u"
    using record_upstream_error_run sent(2) by metis
  have request: "send_subscriptions_request lib up s rq user (''/subscriptions/'' @ sid) (rq_method rq)
      (Bytes (cached_body rq)) (rq_query rq) v1 = (Inr upstream, called up (traced lib ?c) 1 v1)"
    using sent(1) by (simp add: send_subscriptions_request_def proxied_def)
  show ?thesis
  proof (cases "truthy found")
    case None
    with limited(1) v1(1) request v3 assms(6) show ?thesis
      by (simp add: Gateway_Service.unsubscribe_def and_then_run seq_run ret_run)
  next
    case (Some t)
    then obtain r where "up (traced lib (event_call rq user t ''subscription.unsubscribed''
        ''You unsubscribed from topic updates.'' (Some sid))) (gw_services v3) = (Response r, u' t)"
      using assms(7) v3(2) by blast
    then obtain v4 where "notify_subscription_event lib up s rq user t ''subscription.unsubscribed''
        ''You unsubscribed from topic updates.'' (Some sid) v3 = (Inr (), v4)" "gw_services v4 = u' t"
      using notified [of up lib rq user t _ _ _ v3 r "u' t" s] by blast
    with Some limited(1) v1(1) request v3(1) assms(6) show ?thesis
      by (simp add: Gateway_Service.unsubscribe_def and_then_run seq_run ret_run)
  qed
qed

text \<open>The subscription that the search finds.\<close>

lemma found_subscription:
  assumes "subs_tables_ok d" and "row \<in> set (sdb_subscriptions d)" and "sr_user_id row = u"
  shows "map_option (\<lambda>r. str_uuid (sub_topic_id r)) (find (\<lambda>r. sub_id r = sr_id row) (take n (subscriptions_of_user u d))) =
    (if sr_id row \<in> sub_id ` set (take n (subscriptions_of_user u d)) then Some (str_uuid (sr_topic_id row)) else None)"
proof (cases "find (\<lambda>r. sub_id r = sr_id row) (take n (subscriptions_of_user u d))")
  case None
  then show ?thesis by (auto simp: find_None_iff)
next
  case (Some r)
  then have r: "r \<in> set (take n (subscriptions_of_user u d))" "sub_id r = sr_id row" by (auto dest: find_SomeD)
  then obtain s where s: "s \<in> set (sdb_subscriptions d)" "r = to_subscription d s"
    by (auto simp: subscriptions_of_user_def dest!: in_set_takeD)
  then have "sr_id s = sr_id row" using r(2) by simp
  then have "s = row" using assms(1,2) s(1) by (auto simp: subs_tables_ok_def distinct_map inj_on_def)
  with Some r s(2) show ?thesis by force
qed

lemma only_row:
  assumes "subs_tables_ok d" and "row \<in> set (sdb_subscriptions d)"
  shows "find_row (\<lambda>s. sr_id s = sr_id row \<and> sr_user_id s = sr_user_id row) (sdb_subscriptions d) = Some row"
proof (cases "find_row (\<lambda>s. sr_id s = sr_id row \<and> sr_user_id s = sr_user_id row) (sdb_subscriptions d)")
  case None
  then show ?thesis using assms(2) by (auto simp: find_row_None)
next
  case (Some s)
  then have "s \<in> set (sdb_subscriptions d)" "sr_id s = sr_id row" by (auto dest: find_row_Some)
  then have "s = row" using assms by (auto simp: subs_tables_ok_def distinct_map inj_on_def)
  with Some show ?thesis by simp
qed

lemma unsubscribed_answer:
  fixes cfg :: platform_config and rq :: http_request and user :: identity and t x :: uuid and p :: platform
  assumes "acts_as lib rq user rid name" and "lower_names (rq_headers rq)" and "traces_only lib"
    and "reads_platform (pc_app cfg)" and "header ''content-type'' (rq_headers rq) \<in> {None, Some ''application/json''}"
    and "is_uuid t"
  shows "\<exists>r. platform_services cfg (traced lib (event_call rq user (str_uuid t) ''subscription.unsubscribed''
      ''You unsubscribed from topic updates.'' (Some (str_uuid x)))) p =
    (Response r, p\<lparr>pl_notes := snd (api_create_notification (pc_notes cfg) (Some name) rid
      (unsubscribed_request rq t x) (pl_notes p))\<rparr>)"
proof -
  let ?e = "event_call rq user (str_uuid t) ''subscription.unsubscribed'' ''You unsubscribed from topic updates.''
      (Some (str_uuid x))"
  note typed = event_headers_typed [OF assms(2), of user "str_uuid t" "''subscription.unsubscribed''"
      "''You unsubscribed from topic updates.''" "Some (str_uuid x)"]
  have traced: "header ''x-user-id'' (gl_inject lib hs) = header ''x-user-id'' hs"
    "header ''x-request-id'' (gl_inject lib hs) = header ''x-request-id'' hs"
    "header ''content-type'' (gl_inject lib hs) = header ''content-type'' hs" for hs
    using assms(3) by (simp_all add: traces_only_def)
  have "truthy (header ''x-request-id'' (cl_headers (traced lib ?e))) = Some rid"
    using assms(1) typed(3) by (simp add: acts_as_def Let_def traced)
  moreover have "header ''x-user-id'' (cl_headers (traced lib ?e)) = Some name"
    using assms(1) typed(2) by (simp add: acts_as_def Let_def traced)
  moreover have "header ''content-type'' (cl_headers (traced lib ?e)) = Some ''application/json''"
    using assms(5) typed(1) by (cases "header ''content-type'' (rq_headers rq)") (simp_all add: traced)
  ultimately show ?thesis
    by (intro announcement_answer [OF _ _ _ assms(4) _ _ _ _ assms(6)]) (simp_all add: event_call_def event_body_request)
qed

text \<open>
  C35: the cancellation of a subscription from end to end. A request that names an active
  subscription of the acting user is answered 204, the subscription is inactive afterwards, and
  no other row changes. For the announcement the gateway first looks for the topic in the pages of
  the user's subscriptions, which it asks the service for: when the subscription is among the first
  10000 the notifications service gets exactly one request, which names the topic and so goes to
  everybody who is still subscribed; otherwise nothing is announced.
\<close>

theorem cancellation_end_to_end:
  fixes cfg :: platform_config and w :: "platform gateway_world" and rq :: http_request and user :: identity
    and row :: subscription_row
  defines "p \<equiv> gw_services w" and "rid \<equiv> entry_id rq w" and "name \<equiv> acting_user rq user"
    and "x \<equiv> sr_id row"
  assumes "rq_method rq = ''DELETE''"
    and "rq_path rq \<in> set [''/subscriptions/'' @ str_uuid x, ''/api/subscriptions/'' @ str_uuid x]"
    and "body_ok s rq" and "lower_names (rq_headers rq)"
    and "header ''x-request-id'' (rq_headers rq) \<noteq> Some []"
    and "header ''content-type'' (rq_headers rq) \<in> {None, Some ''application/json''}"
    and "get_current_identity lib s rq w = (Inr user, w)" and "has_room s (id_user_id user) w"
    and "0 \<le> gs_retries_get s" and "traces_only lib" and "reads_platform (pc_app cfg)"
    and "current_user_id (Some name) = Inr u" and "rows_ok (pl_subs p)"
    and "row \<in> set (sdb_subscriptions (cw_db (pl_subs p)))" and "sr_user_id row = u" and "sr_is_active row"
  shows "\<exists>r w'. platform_gateway lib cfg s secs unrouted rq w = (Inr r, w') \<and> rs_status r = 204 \<and>
    pl_subs (gw_services w') = (pl_subs p)\<lparr>cw_db := activated x u False (cw_now (pl_subs p)) (cw_db (pl_subs p))\<rparr> \<and>
    pl_notes (gw_services w') =
      (if x \<in> sub_id ` set (take 10000 (subscriptions_of_user u (cw_db (pl_subs p))))
       then snd (api_create_notification (pc_notes cfg) (Some name) rid
         (unsubscribed_request (entry_request rq rid) (sr_topic_id row) x) (pl_notes p))
       else pl_notes p)"
proof -
  let ?rq = "entry_request rq rid" and ?w = "entry_world rq w" and ?up = "platform_services cfg"
  let ?d = "cw_db (pl_subs p)" and ?t = "sr_topic_id row"
  let ?near = "x \<in> sub_id ` set (take 10000 (subscriptions_of_user u ?d))"
  let ?found = "if ?near then Some (str_uuid ?t) else None"
  let ?u = "p\<lparr>pl_subs := (pl_subs p)\<lparr>cw_db := activated x u False (cw_now (pl_subs p)) ?d\<rparr>\<rparr>"
  let ?v = "?u\<lparr>pl_notes := snd (api_create_notification (pc_notes cfg) (Some name) rid
      (unsubscribed_request ?rq ?t x) (pl_notes p))\<rparr>"
  have "names_user ?rq user (gl_inject lib (identity_headers ?rq (str_uuid (id_user_id user)) (id_roles user)))"
    using identity_headers_name_user [of ?rq lib user] assms(8,14) by simp
  then have acts: "acts_as lib ?rq user rid name"
    unfolding acts_as_def Let_def rid_def name_def using entry_names_user(1,2) [OF _ assms(9)] by blast
  have tables: "subs_tables_ok ?d" "cw_tx (pl_subs p) \<noteq> Tx_Failed" "is_uuid x" "is_uuid ?t"
    using assms(17,18) unfolding rows_ok_def x_def by (auto simp: subs_tables_ok_def)
  have "fst (list_my (ab_readers (pc_app cfg)) u 500 None (pl_subs p)) =
      cut_page subscription_link 500 (drop 0 (subscriptions_of_user u ?d))"
    using my_listing.fetch_first [of "(ab_readers (pc_app cfg), pl_subs p, u)" 500] assms(17) by simp
  then have search: "\<exists>v'. find_topic_id_by_subscription_id lib ?up s ?rq user (str_uuid x) v = (Inr ?found, v') \<and>
      gw_services v' = gw_services ?w" if "gw_services v = gw_services ?w" for v
    using search_pages [OF assms(15) acts assms(16,13,17) tables(3), of None v 0 20] that
      found_subscription [OF tables(1) assms(18,19), of 10000]
    by (simp add: find_topic_id_by_subscription_id_def p_def x_def)
  have "find_row (\<lambda>s. sr_id s = x \<and> sr_user_id s = u) (sdb_subscriptions ?d) = Some row"
    using only_row [OF tables(1) assms(18)] assms(19) by (simp add: x_def)
  note cancel = cancel_answer [where c = "traced lib (proxied ?rq user Subscriptions_Api (''/subscriptions/'' @ str_uuid x))"
      and cfg = cfg and p = p, OF _ _ _ assms(15) _ _ assms(16) tables(3,2) this assms(20)]
  obtain r where r: "?up (traced lib (proxied ?rq user Subscriptions_Api (''/subscriptions/'' @ str_uuid x)))
      (gw_services ?w) = (Response r, ?u)" "rs_status r = 204"
    using cancel [of rid] acts assms(5) by (auto simp: acts_as_def Let_def p_def)
  have type: "header ''content-type'' (rq_headers ?rq) \<in> {None, Some ''application/json''}"
    and names: "lower_names (rq_headers ?rq)"
    using assms(8,10) by simp_all
  have event: "\<exists>r. ?up (traced lib (event_call ?rq user t ''subscription.unsubscribed''
      ''You unsubscribed from topic updates.'' (Some (str_uuid x)))) ?u = (Response r, ?v)" if "truthy ?found = Some t" for t
    using that unsubscribed_answer [OF acts names assms(14,15) type tables(4), of x ?u]
    by (auto simp: truthy_def str_uuid_nonempty split: if_splits)
  obtain v where "Gateway_Service.unsubscribe lib ?up s (str_uuid x) ?rq ?w = (Inr (forwarded_response blocked_headers r), v)"
      "gw_services v = (case truthy ?found of None \<Rightarrow> ?u | Some t \<Rightarrow> ?v)"
    using unsubscribe_stack [where up = ?up and found = ?found and u = ?u and u' = "\<lambda>_. ?v", OF identity_entry [OF assms(11)]
      entry_has_room [OF assms(12)] _ search r event] assms(5) by auto
  moreover have "gateway_route_of ''DELETE'' (rq_path rq) = Some (Remove_Subscription (str_uuid x))"
    using cancel_paths(3) [of "rq_path rq" x] assms(6) by simp
  ultimately have "gateway_run lib ?up s secs unrouted ?rq ?w = (Inr (forwarded_response blocked_headers r), v)"
    by (simp add: gateway_run_def assms(5))
  from platform_gateway_run [OF assms(7) this [unfolded rid_def]] show ?thesis
    using r(2) \<open>gw_services v = _\<close> by (auto simp: forwarded_response_def truthy_def str_uuid_nonempty)
qed

theorem cancellation_end_to_end_witness:
  "\<exists>r w'. platform_gateway sample_gateway_library sample_config default_gateway_settings int_text (\<lambda>_. no_content)
      (sample_client ''DELETE'' (''/subscriptions/'' @ str_uuid 1) []) (sample_platform [(1, 7, True), (2, 9, True)]) =
      (Inr r, w') \<and> rs_status r = 204 \<and>
    map sr_is_active (sdb_subscriptions (cw_db (pl_subs (gw_services w')))) = [False, True]"
proof -
  let ?rq = "sample_client ''DELETE'' (''/subscriptions/'' @ str_uuid 1) []"
  let ?w = "sample_platform [(1, 7, True), (2, 9, True)]" and ?row = "sample_subscription 1 7 True"
  let ?user = "\<lparr>id_user_id = 7, id_roles = []\<rparr>" and ?s = default_gateway_settings
  have path: "rq_path ?rq = ''/subscriptions/'' @ str_uuid 1"
    by (simp add: sample_client_def sample_request_def)
  have row: "sr_id ?row = 1" "sr_user_id ?row = 7" "sr_is_active ?row" by (simp_all add: sample_subscription_def)
  have rq: "rq_method ?rq = ''DELETE''" "body_ok ?s ?rq" "lower_names (rq_headers ?rq)"
    "header ''x-request-id'' (rq_headers ?rq) \<noteq> Some []" "header ''content-type'' (rq_headers ?rq) \<in> {None, Some ''application/json''}"
    by (simp_all add: body_ok_def truthy_def lower_names_def sample_client_def sample_request_def default_gateway_settings_def
        header_name_simps)
  have paths: "rq_path ?rq \<in> set [''/subscriptions/'' @ str_uuid (sr_id ?row), ''/api/subscriptions/'' @ str_uuid (sr_id ?row)]"
    unfolding path row(1) by simp
  have room: "has_room ?s (id_user_id ?user) ?w" using sample_client_ok(2) by simp
  have reads: "reads_platform (pc_app sample_config)" by (simp add: sample_config_def sample_app_reads)
  have "acting_user ?rq ?user = str_uuid 7" by (simp add: acting_user_def sample_client_def sample_request_def header_name_simps)
  then have user: "current_user_id (Some (acting_user ?rq ?user)) = Inr 7"
    by (simp add: current_user_id_def str_uuid_nonempty parse_str_uuid is_uuid_def)
  have subs: "pl_subs (gw_services ?w) = sample_subs [(1, 7, True), (2, 9, True)]" by (simp add: sample_platform_def)
  have "py_strip ''UTC'' = ''UTC''" and "instant_ok 0" by code_simp+
  then have ok: "rows_ok (pl_subs (gw_services ?w))"
    unfolding subs by (simp add: rows_ok_def subs_tables_ok_def sample_subs_def sample_topic_def sample_subscription_def
        sample_preferences_def preferences_ok_def subs_channels_def is_uuid_def)
  have mem: "?row \<in> set (sdb_subscriptions (cw_db (pl_subs (gw_services ?w))))"
    unfolding subs by (simp add: sample_subs_def)
  from cancellation_end_to_end [OF rq(1) paths rq(2-5) sample_client_ok(1) room sample_client_ok(3,4) reads user ok mem row(2,3),
    of int_text "\<lambda>_. no_content"]
  show ?thesis
    unfolding subs row by (auto simp: activated_def update_where_def sample_subs_def sample_subscription_def)
qed

end
