(* ===== verification/Spec2Isabelle.thy ===== *)
theory Spec2Isabelle
  imports Delivery_History Auth_Properties Event_Bus Processes Deployment Applications
    Delivery_Http Platform_Auth Platform_Unsubscribe
begin

text \<open>
  Substy is a notification platform of five Python services under \<open>src/services\<close>. Clients talk to
  the gateway (\<open>bff\<close>), which forwards to \<open>auth\<close> (accounts, sessions, tokens), \<open>subscriptions\<close>
  (topics, who subscribes to them and how) and \<open>notifications\<close> (a notification for a topic, now or
  later). The notifications service writes an event into an outbox in the transaction of the
  notification; a publisher sends the outbox to a JetStream stream; the consumer of \<open>delivery\<close>
  fans each event out into one attempt for every subscriber and channel, asking the subscriptions
  service for pages of subscribers; workers of \<open>delivery\<close> then hand the attempts to providers,
  outside the quiet hours of the subscriber and with retries, and publish the outcome.

  \<^bold>\<open>How the code is modelled.\<close> A coroutine is a program \<open>'w \<Rightarrow> (exn + 'a) \<times> 'w\<close>: the left of the sum
  is the Python exception that leaves it, and the world keeps what was done before. The world of
  a service (\<open>conn_world\<close> in Prelude, extended by each service) holds its tables as lists of records,
  the state of the database session (autocommit, open transaction, aborted transaction), the
  clock, the UUIDs that will be drawn, and what left the process (jobs, messages, calls). Every SQL
  statement is a definition with the constraints of the migrations; \<open>transaction\<close> rolls the
  tables back on an exception. Two sessions interleave between statements, where a property is
  about that; otherwise one request, message, job or pass is one step, which row locks and the
  transaction around it justify. Strings are lists of characters below 256.

  \<^bold>\<open>Shared parts.\<close>
  \<^item> Prelude: exceptions (with the classes of \<open>core/exceptions.py\<close>), programs, transactions, relational
    helpers, and the locales \<open>operations\<close> and \<open>monotone_operations\<close> (what every operation keeps
    holds over every history).
  \<^item> Py_Values, Json, Hashing: \<open>str(UUID)\<close> and back, \<open>isoformat\<close> and back, JSON values and texts,
    SHA-256 on 32-bit words.
  \<^item> Cursor, Paging: \<open>core/pagination.py\<close> with URL-safe base 64; the locale \<open>paged_listing\<close>, in which
    following the cursors is shown to end and to visit every row once.
  \<^item> Requests: the replies, \<open>api/errors.py\<close>, the identity headers and query limits of the services.
  \<^item> Channels: the normalisation of channel names. Limits: expiring counters of Redis and the
    locale \<open>window_limiter\<close>. Batches: the locale \<open>batch_queue\<close> of a queue that is worked off in passes.

  \<^bold>\<open>Delivery.\<close>
  \<^item> Quiet_Hours: \<open>core/quiet_hours.py\<close>, \<open>core/backoff.py\<close>. The locale \<open>wall_clock\<close> says when a zone's
    offset does not change in the range that matters; there the result is the first allowed
    instant. A zone is any function from instants to offsets.
  \<^item> Delivery_Store: \<open>repositories\<close>, \<open>core/metrics.py\<close>. Delivery_Executor: \<open>services/delivery_executor.py\<close>,
    \<open>providers\<close>, \<open>workers/arq_worker.py\<close>; \<open>phase_step\<close> is the abstract life cycle of an attempt that
    every run of \<open>execute_send\<close> refines.
  \<^item> Delivery_Fanout: \<open>services/fanout.py\<close>, \<open>services/subscriptions_fetcher.py\<close>,
    \<open>infrastructure/http_client.py\<close>, the consumer. Delivery_History: all interleavings of messages
    and jobs with outages; the tables keep their keys, and a provider is asked a bounded number of times.
  \<^item> Event_Bus: the NATS clients of two services on one stream.

  \<^bold>\<open>Subscriptions.\<close> Subscriptions_Store and Subscriptions_Service: \<open>repositories\<close>, \<open>services\<close>, \<open>schemas\<close> and
  \<open>api\<close>. Subscriptions_Laws: the invariant of the tables, idempotent subscription, exact effect of
  a patch. Subscriptions_Listing: the three listings as interpretations of \<open>paged_listing\<close>.

  \<^bold>\<open>Notifications.\<close> Notifications_Store and Notifications_Service: \<open>repositories\<close>, \<open>core/payload.py\<close>,
  \<open>services\<close>, the bodies of the loops and \<open>api\<close>. Notifications_Laws interprets \<open>batch_queue\<close> for the
  publisher and the scheduler; Notifications_History and Notifications_Properties: one notification
  for a key, one event for every announced notification, cancellation, both queues drained in
  order, the listing. Processes: \<open>core/entrypoints.py\<close>, \<open>scheduler/loop.py\<close>, \<open>workers/outbox_worker.py\<close>
  as the step relation \<open>process_step\<close> of a main coroutine and a task, in which a start-up or a
  shutdown may raise and a pass may never return, with a measure that bounds every run after the
  stop signal.

  \<^bold>\<open>Auth.\<close> Auth_Store and Auth_Service: \<open>repositories\<close>, \<open>core/security.py\<close>, \<open>core/jwt.py\<close>,
  \<open>core/rate_limiter.py\<close>, \<open>services/auth.py\<close>, \<open>api/auth.py\<close>. Auth_Laws and Auth_Properties: the invariant
  over every history, a used refresh token is dead, access tokens name their user, the limiter.

  \<^bold>\<open>Gateway.\<close> Gateway_Http: \<open>proxy/headers.py\<close>, \<open>clients/downstream.py\<close>, \<open>security\<close>, \<open>rate_limit/limiter.py\<close>,
  the middlewares and handlers. Gateway_Service: \<open>proxy/service.py\<close> and all endpoints under \<open>api\<close>.
  Gateway_Laws and Gateway_Properties: the runs of the retry loop, the headers a service finds,
  the way of the refresh token through the cookie.

  \<^bold>\<open>Over HTTP.\<close> Each service is also modelled as the application that \<open>main.py\<close> builds: a function
  from a call (method, path, query, headers, body) and the world to a response and the world.
  Service_Http has what they share: the identifier of a request (\<open>core/request_context.py\<close>), reading a
  JSON body into a request model, the payloads of \<open>api/errors.py\<close>. Subscriptions_Http, Notifications_Http,
  Auth_Http and Delivery_Http have the routes of a service, the JSON of its request and response
  models (\<open>schemas\<close>) and the endpoint behind each route. Gateway_Routes has the routes of the gateway
  in the order of their registration, Gateway_Stack what its middlewares, limits and calls do to a
  request that passes them.

  \<^bold>\<open>Services together.\<close> Fanout_Composition: the delivery service over the pages that the subscriptions
  service answers; Fanout_Http: the same over HTTP and JSON. Pipeline: a request for a notification,
  its event in the outbox, the event read by the consumer and its fan-out. Gateway_Composition:
  tokens of the auth service at the gateway. Platform: the gateway with the applications of the
  three services behind it, whom a request acts for, and a subscription from the client to the
  tables and the outbox; Platform_Auth: a log-in and the refresh that follows; Platform_Delivery: a
  notification from the client to the attempts of its delivery; Platform_Unsubscribe: a cancellation,
  with the search for its topic through the pages of the user's subscriptions.
  Monitoring: the metrics texts and readiness endpoints of all services. Configuration: the fields of
  the five \<open>core/settings.py\<close> and how they are read; Deployment: every field from the variable
  of its name, what services agree on under one environment, the URL of the database, and the key
  of the tokens that two services read from one environment. Applications: what the processes
  (\<open>main.py\<close>, \<open>core/container.py\<close>, \<open>workers/arq_worker.py\<close>, \<open>consumers/run_consumer.py\<close>) open and close,
  and the loop of the consumer over a list of fetches, the part of its run that has happened.

  \<^bold>\<open>Fuel.\<close> Only the page loop of the fan-out can run for ever (a service may always answer another
  cursor). Its fuel bounds the number of pages. A loop out of fuel is the value \<open>Diverges\<close>, which
  stands for a run that never returns: it is no exception, so the consumer does not catch it
  (\<open>handle_message\<close>), and what is said of its answers has the hypothesis that the pages end
  (\<open>pages_end\<close>, \<open>answerable\<close>). With the subscriptions service behind it the loop
  ends: every page but the last is not empty, so one more than the number of subscribers is enough,
  as the hypotheses \<open>length pages \<le> fuel\<close> and \<open>length (subscribers_of ...) < fuel\<close> state. The
  search of the gateway for a topic asks for at most 20 pages (\<open>range(20)\<close>). All other loops
  are bounded by their data or by a setting (\<open>range(retries + 1)\<close>) and recursive on it.

  \<^bold>\<open>Parameters.\<close> Code that is not in the repository is an argument of the definitions that use it:
  the zone database, PyJWT, Argon2, the e-mail validator and the \<open>inet\<close> encoder, the JSON texts other
  than those that the services write, other spellings of dates and UUIDs, providers, the
  JetStream server, the answers of the other services, how a float is written or read from a
  setting, and which part of a process starts. What a property
  needs of them is a hypothesis of it and its witness has an instance: \<open>reads_written\<close> in Pipeline (pydantic
  reads the texts of \<open>str(uuid)\<close> and \<open>isoformat\<close>), \<open>reads_platform\<close> in Service_Http (Starlette leaves a path
  of plain characters alone, a JSON body is read as its value, pydantic reads the texts that the
  platform writes), \<open>traces_only\<close> in Gateway_Stack (OpenTelemetry adds no header that a service reads).

  \<^bold>\<open>Not modelled.\<close> The insides of connection pools, log lines, telemetry, traces and the trace headers,
  since they only call libraries; the CORS middleware, and the \<open>content-length\<close> and \<open>content-type\<close>
  that Starlette adds; what Starlette answers when no route fits (a parameter: 404, 405, the
  redirect of a trailing slash, the pages of the API documentation); the payloads that JSONB
  refuses (NaN, U+0000) and its order of keys; the waiting times between
  retries and passes (their lengths do not change what is done); a crash inside a request.
  Equal \<open>created_at\<close> in an \<open>ORDER BY\<close> without a tie-break are taken in the order of insertion. Tests and
  deployment files are not modelled; the migrations are, as constraints of the statements.
\<close>

end
